(* ===== verification/JS_Prelude.thy ===== *)
theory JS_Prelude
  imports Main "HOL-Library.Word" "HOL-Library.Sublist"
begin

text \<open>
  Shared vocabulary of the development: JavaScript strings as lists of UTF-16 code
  units (\<open>16 word\<close>), the character classes the source's regular expressions use
  (\<open>\s\<close>, \<open>.\<close>, \<open>\d\<close>, the CJK range), \<open>String.prototype.trim\<close> and
  \<open>includes\<close>, ASCII case folding as the \<open>i\<close> flag applies it, JavaScript values
  with their truthiness, and a sequential \<open>map\<close> in the option monad that recursive
  definitions by \<^theory_text>\<open>partial_function (option)\<close> may call.
\<close>

named_theorems js_eval "character-class definitions unfolded when a model runs on a literal"

type_synonym code_unit = "16 word"
type_synonym jstr = "code_unit list"

definition js :: "string \<Rightarrow> jstr" where
  "js s = map (\<lambda>c. of_nat (of_char c)) s"

subsection \<open>Character classes\<close>

text \<open>ECMAScript LineTerminator: LF, CR, LS, PS; the regular-expression \<open>.\<close> matches
  every code unit but these.\<close>

definition is_line_terminator :: "code_unit \<Rightarrow> bool" where
  "is_line_terminator c \<longleftrightarrow> c = 0x0A \<or> c = 0x0D \<or> c = 0x2028 \<or> c = 0x2029"

text \<open>WhiteSpace and LineTerminator together: the class \<open>\s\<close> and what \<open>trim\<close>
  removes (TAB, VT, FF, the Zs space separators, ZWNBSP).\<close>

definition is_js_space :: "code_unit \<Rightarrow> bool" where
  "is_js_space c \<longleftrightarrow>
     c = 0x09 \<or> c = 0x0B \<or> c = 0x0C \<or> c = 0x20 \<or> c = 0xA0 \<or> c = 0x1680 \<or>
     (0x2000 \<le> c \<and> c \<le> 0x200A) \<or> c = 0x202F \<or> c = 0x205F \<or> c = 0x3000 \<or>
     c = 0xFEFF \<or> is_line_terminator c"

definition is_digit :: "code_unit \<Rightarrow> bool" where
  "is_digit c \<longleftrightarrow> 0x30 \<le> c \<and> c \<le> 0x39"

definition is_cjk :: "code_unit \<Rightarrow> bool" where
  "is_cjk c \<longleftrightarrow> 0x4E00 \<le> c \<and> c \<le> 0x9FFF"

text \<open>Canonicalize of a non-unicode case-insensitive pattern: ASCII letters fold,
  no other code unit folds onto ASCII.\<close>

definition ascii_upper :: "code_unit \<Rightarrow> code_unit" where
  "ascii_upper c = (if 0x61 \<le> c \<and> c \<le> 0x7A then c - 0x20 else c)"

definition ci_eq :: "code_unit \<Rightarrow> code_unit \<Rightarrow> bool" where
  "ci_eq c d \<longleftrightarrow> ascii_upper c = ascii_upper d"

declare is_line_terminator_def [js_eval] is_js_space_def [js_eval] is_digit_def [js_eval]
  is_cjk_def [js_eval] ascii_upper_def [js_eval] ci_eq_def [js_eval]

subsection \<open>String operations\<close>

text \<open>\<open>s.trim()\<close>.\<close>

definition js_trim :: "jstr \<Rightarrow> jstr" where
  "js_trim s = rev (dropWhile is_js_space (rev (dropWhile is_js_space s)))"

text \<open>Case-insensitive match of a pattern at the start of a string.\<close>

fun prefix_ci :: "jstr \<Rightarrow> jstr \<Rightarrow> bool" where
  "prefix_ci [] s = True"
| "prefix_ci (p # ps) [] = False"
| "prefix_ci (p # ps) (c # cs) = (ci_eq c p \<and> prefix_ci ps cs)"

text \<open>\<open>s.startsWith(k)\<close> and \<open>s.includes(k)\<close>, scanning positions left to right.\<close>

fun starts_with :: "jstr \<Rightarrow> jstr \<Rightarrow> bool" where
  "starts_with s [] = True"
| "starts_with [] (k # ks) = False"
| "starts_with (c # cs) (k # ks) = (c = k \<and> starts_with cs ks)"

fun js_includes :: "jstr \<Rightarrow> jstr \<Rightarrow> bool" where
  "js_includes [] k = (k = [])"
| "js_includes (c # cs) k = (starts_with (c # cs) k \<or> js_includes cs k)"

text \<open>Some position where a case-insensitive pattern matches: where a global \<open>/p/gi\<close>
  replacement has something to replace.\<close>

fun includes_ci :: "jstr \<Rightarrow> jstr \<Rightarrow> bool" where
  "includes_ci p [] = prefix_ci p []"
| "includes_ci p (c # cs) = (prefix_ci p (c # cs) \<or> includes_ci p cs)"

subsection \<open>JavaScript values\<close>

text \<open>The values a parameter typed \<open>string\<close> may still receive at run time; numbers
  are kept as integers, which is all the code distinguishes of them.\<close>

datatype jsval = JUndefined | JNull | JBool bool | JNumber int | JString jstr | JObject

fun truthy :: "jsval \<Rightarrow> bool" where
  "truthy JUndefined = False"
| "truthy JNull = False"
| "truthy (JBool b) = b"
| "truthy (JNumber n) = (n \<noteq> 0)"
| "truthy (JString s) = (s \<noteq> [])"
| "truthy JObject = True"

fun is_string :: "jsval \<Rightarrow> bool" where
  "is_string (JString s) = True"
| "is_string _ = False"

subsection \<open>Sequential map in the option monad\<close>

text \<open>\<open>xs.map(f)\<close> where \<open>f\<close> may not return: the calls run left to right and the
  first that does not return stops the whole map.\<close>

primrec map_opt :: "('a \<Rightarrow> 'b option) \<Rightarrow> 'a list \<Rightarrow> 'b list option" where
  "map_opt f [] = Some []"
| "map_opt f (x # xs) = Option.bind (f x) (\<lambda>y. Option.bind (map_opt f xs) (\<lambda>ys. Some (y # ys)))"

lemma map_opt_mono [partial_function_mono]:
  assumes "\<And>x. mono_option (\<lambda>g. C x g)"
  shows "mono_option (\<lambda>g. map_opt (\<lambda>x. C x g) xs)"
proof (induction xs)
  case Nil
  show ?case by (simp add: option.const_mono)
next
  case (Cons x xs)
  show ?case
    by (simp only: map_opt.simps) (intro bind_mono assms Cons option.const_mono)
qed

subsection \<open>Shared lemmas\<close>

lemma map_opt_SomeD: "map_opt f xs = Some ys \<Longrightarrow> list_all2 (\<lambda>x y. f x = Some y) xs ys"
  by (induction xs arbitrary: ys) (auto split: Option.bind_splits)

lemma map_opt_SomeI: "list_all2 (\<lambda>x y. f x = Some y) xs ys \<Longrightarrow> map_opt f xs = Some ys"
  by (induction rule: list_all2_induct) auto

lemma map_opt_Some_iff:
  "map_opt f xs = Some ys \<longleftrightarrow> list_all2 (\<lambda>x y. f x = Some y) xs ys"
  using map_opt_SomeD map_opt_SomeI by blast

lemma map_opt_None_iff: "map_opt f xs = None \<longleftrightarrow> (\<exists>x \<in> set xs. f x = None)"
  by (induction xs) (auto split: Option.bind_splits)

lemma map_opt_length: "map_opt f xs = Some ys \<Longrightarrow> length ys = length xs"
  by (simp add: map_opt_Some_iff list_all2_lengthD)

lemma map_opt_set: "map_opt f xs = Some ys \<Longrightarrow> y \<in> set ys \<Longrightarrow> \<exists>x \<in> set xs. f x = Some y"
  by (induction xs arbitrary: ys) (auto split: Option.bind_splits)

lemma length_js_trim_le [simp]: "length (js_trim s) \<le> length s"
proof -
  have "length (js_trim s) \<le> length (rev (dropWhile is_js_space s))"
    unfolding js_trim_def by (metis length_dropWhile_le length_rev)
  also have "\<dots> \<le> length s" by (simp add: length_dropWhile_le)
  finally show ?thesis .
qed

lemma set_js_trim: "set (js_trim s) \<subseteq> set s"
  by (auto simp: js_trim_def dest!: set_dropWhileD)

lemma dropWhile_all_iff: "(\<forall>x \<in> set (dropWhile P xs). P x) \<longleftrightarrow> dropWhile P xs = []"
  by (induction xs) auto

lemma js_trim_Nil_iff: "js_trim s = [] \<longleftrightarrow> (\<forall>c \<in> set s. is_js_space c)"
proof -
  have "js_trim s = [] \<longleftrightarrow> dropWhile is_js_space (rev (dropWhile is_js_space s)) = []"
    by (simp add: js_trim_def del: dropWhile_eq_Nil_conv)
  also have "\<dots> \<longleftrightarrow> (\<forall>x \<in> set (dropWhile is_js_space s). is_js_space x)"
    by (simp only: dropWhile_eq_Nil_conv set_rev)
  also have "\<dots> \<longleftrightarrow> dropWhile is_js_space s = []"
    by (rule dropWhile_all_iff)
  also have "\<dots> \<longleftrightarrow> (\<forall>c \<in> set s. is_js_space c)"
    by (rule dropWhile_eq_Nil_conv)
  finally show ?thesis .
qed

lemma starts_with_prefix: "starts_with s k \<longleftrightarrow> prefix k s"
  by (induction s k rule: starts_with.induct) auto

lemma js_includes_sublist: "js_includes s k \<longleftrightarrow> sublist k s"
  by (induction s) (auto simp: starts_with_prefix sublist_Cons_right)

lemma prefix_ci_length: "prefix_ci p s \<Longrightarrow> length p \<le> length s"
  by (induction p s rule: prefix_ci.induct) auto

lemma js_trim_infix: "\<exists>a b. s = a @ js_trim s @ b"
proof -
  let ?d = "dropWhile is_js_space s"
  have s: "s = takeWhile is_js_space s @ ?d" by simp
  have "rev ?d = takeWhile is_js_space (rev ?d) @ dropWhile is_js_space (rev ?d)" by simp
  then have "?d = js_trim s @ rev (takeWhile is_js_space (rev ?d))"
    by (metis js_trim_def rev_append rev_rev_ident)
  with s show ?thesis by (metis append.assoc)
qed

lemma list_all_take_drop: "list_all P xs \<Longrightarrow> list_all P (take i xs @ drop (Suc i) xs)"
  by (auto simp: list_all_iff dest: in_set_takeD in_set_dropD)

lemma concat_concat_map: "concat (concat xss) = concat (map concat xss)"
  by (induction xss) auto

text \<open>A pattern code unit that is no ASCII letter matches only itself.\<close>

lemma ci_eq_nonletter:
  assumes "\<not> (0x61 \<le> d \<and> d \<le> 0x7A)" "\<not> (0x41 \<le> d \<and> d \<le> (0x5A::code_unit))"
  shows "ci_eq c d \<longleftrightarrow> c = d"
proof -
  have "c - 0x20 \<noteq> d" if "0x61 \<le> c" "c \<le> (0x7A::code_unit)"
  proof -
    from that have "0x41 \<le> c - 0x20" "c - 0x20 \<le> (0x5A::code_unit)" by unat_arith+
    with assms(2) show ?thesis by auto
  qed
  with assms(1) show ?thesis by (auto simp: ci_eq_def ascii_upper_def)
qed

lemma ci_eq_lt [simp]: "ci_eq c 0x3C \<longleftrightarrow> c = 0x3C"
  by (rule ci_eq_nonletter) auto

end
