(* ===== verification/Sanitizer.thy ===== *)
theory Sanitizer
  imports JS_Prelude
begin

text \<open>
  The Sanitizer, \<open>sanitizeInput\<close> of \<open>src/src/utils/helpers.ts\<close>: a type guard, three
  global case-insensitive replacements that delete \<open>script\<close> blocks, \<open>iframe\<close> blocks
  and \<open>javascript:\<close> fragments, a replacement that deletes every \<open><...>\<close> tag, the
  collapse of whitespace runs, truncation to 200 code units and \<open>trim\<close>. Each regular
  expression is a matcher written out with the semantics of a JavaScript global
  \<open>replace\<close>: try to match at the current position (lazy quantifiers take the shortest
  extension that lets the rest match); on a match drop it and resume after it, otherwise
  keep one code unit and try the next position.
\<close>

subsection \<open>Matchers\<close>

text \<open>\<open>.*?>\<close>: the first \<open>>\<close> that no line terminator precedes; the rest after it.\<close>

fun find_gt :: "jstr \<Rightarrow> jstr option" where
  "find_gt [] = None"
| "find_gt (c # cs) =
     (if c = 0x3E then Some cs else if is_line_terminator c then None else find_gt cs)"

text \<open>\<open>.*?p\<close> for a literal \<open>p\<close> matched case-insensitively: its first occurrence that
  no line terminator precedes; the rest after it.\<close>

fun find_close :: "jstr \<Rightarrow> jstr \<Rightarrow> jstr option" where
  "find_close p [] = None"
| "find_close p (c # cs) =
     (if prefix_ci p (c # cs) then Some (drop (length p) (c # cs))
      else if is_line_terminator c then None else find_close p cs)"

text \<open>\<open>/<tag.*?>.*?<\/tag>/i\<close> at the start of the string. When the first \<open>>\<close> is not
  followed by a closing tag on the same line no later \<open>>\<close> is either, so the lazy
  search never needs to back up past it.\<close>

definition match_block :: "jstr \<Rightarrow> jstr \<Rightarrow> jstr option" where
  "match_block tag s =
     (if prefix_ci (js ''<'' @ tag) s then
        (case find_gt (drop (Suc (length tag)) s) of
           None \<Rightarrow> None
         | Some r \<Rightarrow> find_close (js ''</'' @ tag @ js ''>'') r)
      else None)"

lemma find_gt_shorter: "find_gt s = Some r \<Longrightarrow> length r < length s"
  by (induction s rule: find_gt.induct) (auto split: if_splits)

lemma find_close_shorter: "find_close p s = Some r \<Longrightarrow> length r \<le> length s"
  by (induction p s rule: find_close.induct) (auto split: if_splits)

lemma match_block_shorter: "match_block tag s = Some r \<Longrightarrow> length r < length s"
  by (fastforce simp: match_block_def split: if_splits option.splits
      dest!: find_gt_shorter find_close_shorter)

text \<open>\<open>s.replace(/<tag.*?>.*?<\/tag>/gi, '')\<close> (helpers.ts lines 27 and 28).\<close>

function strip_block :: "jstr \<Rightarrow> jstr \<Rightarrow> jstr" where
  "strip_block tag [] = []"
| "strip_block tag (c # cs) =
     (case match_block tag (c # cs) of
        Some r \<Rightarrow> strip_block tag r
      | None \<Rightarrow> c # strip_block tag cs)"
  by pat_completeness auto
termination
  by (relation "measure (\<lambda>(tag, s). length s)") (auto dest: match_block_shorter)

text \<open>The rest of a string after the first occurrence of a code unit.\<close>

definition after_first :: "code_unit \<Rightarrow> jstr \<Rightarrow> jstr option" where
  "after_first d cs = (case dropWhile (\<lambda>x. x \<noteq> d) cs of [] \<Rightarrow> None | _ # r \<Rightarrow> Some r)"

lemma after_first_shorter: "after_first d cs = Some r \<Longrightarrow> length r < length cs"
proof -
  assume "after_first d cs = Some r"
  then obtain x where "dropWhile (\<lambda>x. x \<noteq> d) cs = x # r"
    by (auto simp: after_first_def split: list.splits)
  then have "length (x # r) \<le> length cs" by (metis length_dropWhile_le)
  then show ?thesis by simp
qed

text \<open>\<open>s.replace(/javascript:[^;]*;?/gi, '')\<close> (line 29): the greedy \<open>[^;]*\<close> runs to
  the first \<open>;\<close>, which \<open>;?\<close> takes, or to the end of the string.\<close>

function strip_js_uri :: "jstr \<Rightarrow> jstr" where
  "strip_js_uri [] = []"
| "strip_js_uri (c # cs) =
     (if prefix_ci (js ''javascript:'') (c # cs)
      then strip_js_uri (case after_first 0x3B (drop 11 (c # cs)) of None \<Rightarrow> [] | Some r \<Rightarrow> r)
      else c # strip_js_uri cs)"
  by pat_completeness auto
termination
proof (relation "measure length")
  fix c :: code_unit and cs :: jstr
  show "((case after_first 0x3B (drop 11 (c # cs)) of None \<Rightarrow> [] | Some r \<Rightarrow> r), c # cs)
          \<in> measure length"
    by (auto split: option.splits dest!: after_first_shorter)
qed auto

text \<open>\<open>s.replace(/<[^>]*>/g, '')\<close> (line 32): a \<open><\<close> with a \<open>>\<close> after it starts a
  match that ends at the first such \<open>>\<close>; a \<open><\<close> with none after it stays.\<close>

function strip_tags :: "jstr \<Rightarrow> jstr" where
  "strip_tags [] = []"
| "strip_tags (c # cs) =
     (case (if c = 0x3C then after_first 0x3E cs else None) of
        Some r \<Rightarrow> strip_tags r
      | None \<Rightarrow> c # strip_tags cs)"
  by pat_completeness auto
termination
  by (relation "measure length") (auto split: if_splits dest!: after_first_shorter)

text \<open>\<open>s.replace(/\s+/g, ' ')\<close> (line 35).\<close>

function collapse_ws :: "jstr \<Rightarrow> jstr" where
  "collapse_ws [] = []"
| "collapse_ws (c # cs) =
     (if is_js_space c then 0x20 # collapse_ws (dropWhile is_js_space cs)
      else c # collapse_ws cs)"
  by pat_completeness auto
termination
  by (relation "measure length") (auto simp: le_imp_less_Suc length_dropWhile_le)

text \<open>Lines 38 to 40: more than 200 code units keep 197 and get \<open>...\<close>.\<close>

definition truncate_display :: "jstr \<Rightarrow> jstr" where
  "truncate_display s = (if 200 < length s then take 197 s @ js ''...'' else s)"

text \<open>Lines 24 to 35: the markup and whitespace stages, in the code's order.\<close>

definition normalize_markup :: "jstr \<Rightarrow> jstr" where
  "normalize_markup s =
     collapse_ws (strip_tags (strip_js_uri
       (strip_block (js ''iframe'') (strip_block (js ''script'') s))))"

text \<open>Lines 24 to 42: the pipeline on a non-empty string.\<close>

definition sanitize_string :: "jstr \<Rightarrow> jstr" where
  "sanitize_string s = js_trim (truncate_display (normalize_markup s))"

text \<open>\<open>sanitizeInput(input)\<close>: the guard \<open>!input || typeof input !== 'string'\<close>
  of line 20 sends anything falsy or not a string to \<open>''\<close>.\<close>

definition sanitizeInput :: "jsval \<Rightarrow> jstr" where
  "sanitizeInput v =
     (if truthy v \<and> is_string v
      then (case v of JString s \<Rightarrow> sanitize_string s | _ \<Rightarrow> [])
      else [])"

subsection \<open>What the output promises\<close>

text \<open>No \<open><\<close> has a \<open>>\<close> after it: the string holds no tag-shaped fragment.\<close>

fun tag_free :: "jstr \<Rightarrow> bool" where
  "tag_free [] = True"
| "tag_free (c # cs) = ((c = 0x3C \<longrightarrow> 0x3E \<notin> set cs) \<and> tag_free cs)"

text \<open>Every whitespace code unit is a single space \<open>0x20\<close> followed by a non-space.\<close>

fun ws_normal :: "jstr \<Rightarrow> bool" where
  "ws_normal [] = True"
| "ws_normal (c # cs) =
     ((is_js_space c \<longrightarrow> c = 0x20 \<and> (cs = [] \<or> \<not> is_js_space (hd cs))) \<and> ws_normal cs)"

lemma find_gt_suffix: "find_gt s = Some r \<Longrightarrow> suffix r s"
  by (induction s rule: find_gt.induct) (auto simp: suffix_ConsI split: if_splits)

lemma find_close_suffix: "find_close p s = Some r \<Longrightarrow> suffix r s"
  by (induction p s rule: find_close.induct)
    (auto simp: suffix_ConsI suffix_drop simp del: drop_Suc_Cons split: if_splits)

lemma match_block_suffix: "match_block tag s = Some r \<Longrightarrow> suffix r s"
  by (auto simp: match_block_def split: if_splits option.splits
      dest!: find_gt_suffix find_close_suffix
      intro: suffix_order.trans[OF _ suffix_order.trans[OF _ suffix_drop]])

lemma after_first_suffix: "after_first d cs = Some r \<Longrightarrow> suffix r cs"
  by (auto simp: after_first_def split: list.splits
      intro: suffix_order.trans[OF suffix_ConsI[OF suffix_order.refl]] suffix_dropWhile
      dest!: arg_cong[where f = "\<lambda>xs. suffix xs cs"])

lemma after_first_None_iff: "after_first d cs = None \<longleftrightarrow> d \<notin> set cs"
proof (cases "dropWhile (\<lambda>x. x \<noteq> d) cs")
  case Nil
  moreover have "d \<notin> set cs" using Nil by (auto simp: dropWhile_eq_Nil_conv)
  ultimately show ?thesis by (simp add: after_first_def del: dropWhile_eq_Nil_conv)
next
  case (Cons x r)
  then have "x = d" using hd_dropWhile[of "\<lambda>x. x \<noteq> d" cs] by auto
  with Cons have "d \<in> set cs" by (metis list.set_intros(1) set_dropWhileD)
  with Cons show ?thesis by (simp add: after_first_def)
qed

lemma set_strip_block: "set (strip_block tag s) \<subseteq> set s"
proof (induction tag s rule: strip_block.induct)
  case (2 tag c cs)
  show ?case
  proof (cases "match_block tag (c # cs)")
    case None
    with "2.IH"(1) show ?thesis by auto
  next
    case (Some r)
    then have "set r \<subseteq> set (c # cs)" by (blast dest: match_block_suffix set_mono_suffix)
    with Some "2.IH"(2) show ?thesis by auto
  qed
qed simp

lemma set_strip_js_uri: "set (strip_js_uri s) \<subseteq> set s"
proof (induction s rule: strip_js_uri.induct)
  case (2 c cs)
  let ?r = "case after_first 0x3B (drop 11 (c # cs)) of None \<Rightarrow> [] | Some r \<Rightarrow> r"
  have "set ?r \<subseteq> set (drop 11 (c # cs))"
    by (cases "after_first 0x3B (drop 11 (c # cs))")
      (auto dest!: after_first_suffix set_mono_suffix simp del: drop_Suc_Cons)
  also have "\<dots> \<subseteq> set (c # cs)" by (rule set_drop_subset)
  finally have "set ?r \<subseteq> set (c # cs)" .
  with 2 show ?case by auto
qed simp

lemma set_strip_tags: "set (strip_tags s) \<subseteq> set s"
proof (induction s rule: strip_tags.induct)
  case (2 c cs)
  show ?case
  proof (cases "if c = 0x3C then after_first 0x3E cs else None")
    case None
    with "2.IH"(1) show ?thesis by auto
  next
    case (Some r)
    then have "set r \<subseteq> set cs"
      by (auto split: if_splits dest!: after_first_suffix set_mono_suffix)
    with Some "2.IH"(2) show ?thesis by auto
  qed
qed simp

lemma set_collapse_ws: "set (collapse_ws s) \<subseteq> insert 0x20 (set s)"
proof (induction s rule: collapse_ws.induct)
  case (2 c cs)
  then show ?case by (auto dest: set_dropWhileD)
qed simp

lemma tag_free_append:
  "tag_free (xs @ ys) \<longleftrightarrow> tag_free xs \<and> tag_free ys \<and> \<not> (0x3C \<in> set xs \<and> 0x3E \<in> set ys)"
  by (induction xs) auto

lemma tag_free_iff: "tag_free s \<longleftrightarrow> (\<forall>u m w. s \<noteq> u @ [0x3C] @ m @ [0x3E] @ w)"
proof
  assume "tag_free s"
  then show "\<forall>u m w. s \<noteq> u @ [0x3C] @ m @ [0x3E] @ w" by (auto simp: tag_free_append)
next
  assume "\<forall>u m w. s \<noteq> u @ [0x3C] @ m @ [0x3E] @ w"
  then show "tag_free s"
  proof (induction s)
    case (Cons c cs)
    have "\<forall>u m w. cs \<noteq> u @ [0x3C] @ m @ [0x3E] @ w"
      using Cons.prems by (metis append_Cons)
    moreover have "c = 0x3C \<longrightarrow> 0x3E \<notin> set cs"
      using Cons.prems by (metis append_Nil append_Cons split_list)
    ultimately show ?case using Cons.IH by simp
  qed simp
qed

lemma tag_free_suffix: "suffix r s \<Longrightarrow> tag_free s \<Longrightarrow> tag_free r"
  by (auto simp: suffix_def tag_free_append)

lemma tag_free_strip_tags: "tag_free (strip_tags s)"
proof (induction s rule: strip_tags.induct)
  case (2 c cs)
  show ?case
  proof (cases "c = 0x3C \<and> 0x3E \<in> set cs")
    case True
    then obtain r where "after_first 0x3E cs = Some r" by (metis after_first_None_iff not_Some_eq)
    with True 2 show ?thesis by simp
  next
    case False
    then have "(if c = 0x3C then after_first 0x3E cs else None) = None"
      by (simp add: after_first_None_iff)
    with False 2 set_strip_tags[of cs] show ?thesis by auto
  qed
qed simp

lemma tag_free_collapse_ws: "tag_free s \<Longrightarrow> tag_free (collapse_ws s)"
proof (induction s rule: collapse_ws.induct)
  case (2 c cs)
  show ?case
  proof (cases "is_js_space c")
    case True
    have "tag_free (dropWhile is_js_space cs)"
      using "2.prems" by (auto intro: tag_free_suffix suffix_dropWhile)
    with True "2.IH"(1) show ?thesis by simp
  next
    case False
    with 2 set_collapse_ws[of cs] show ?thesis by auto
  qed
qed simp

lemma tag_free_truncate: "tag_free s \<Longrightarrow> tag_free (truncate_display s)"
proof -
  assume s: "tag_free s"
  then have "tag_free (take 197 s)" by (metis append_take_drop_id tag_free_append)
  then show ?thesis using s by (simp add: truncate_display_def tag_free_append js_def)
qed

lemma tag_free_js_trim: "tag_free s \<Longrightarrow> tag_free (js_trim s)"
  by (metis js_trim_infix tag_free_append)

lemma tag_free_sanitize_string: "tag_free (sanitize_string s)"
  unfolding sanitize_string_def normalize_markup_def
  by (intro tag_free_js_trim tag_free_truncate tag_free_collapse_ws tag_free_strip_tags)

text \<open>C4: The sanitizer never returns a tag-shaped fragment: no \<open><\<close> in its output has a \<open>>\<close> after it, whatever the input.\<close>

theorem sanitizeInput_no_tag: "sanitizeInput v \<noteq> u @ [0x3C] @ m @ [0x3E] @ w"
proof -
  have "tag_free (sanitizeInput v)"
    by (cases v) (simp_all add: sanitizeInput_def tag_free_sanitize_string)
  then show ?thesis by (simp add: tag_free_iff)
qed

lemma length_truncate_display: "length (truncate_display s) \<le> 200"
  by (simp add: truncate_display_def js_def)

lemma length_sanitize_string: "length (sanitize_string s) \<le> 200"
  unfolding sanitize_string_def
  using length_js_trim_le length_truncate_display order_trans by blast

text \<open>C5: The sanitizer never returns more than 200 code units.\<close>

theorem sanitizeInput_length: "length (sanitizeInput v) \<le> 200"
  by (cases v) (simp_all add: sanitizeInput_def length_sanitize_string)

text \<open>Plain text: nothing the markup stages would remove or rewrite.\<close>

definition plain_text :: "jstr \<Rightarrow> bool" where
  "plain_text s \<longleftrightarrow> 0x3C \<notin> set s \<and> \<not> includes_ci (js ''javascript:'') s \<and> ws_normal s"

lemma strip_block_id: "0x3C \<notin> set s \<Longrightarrow> strip_block tag s = s"
proof (induction tag s rule: strip_block.induct)
  case (2 tag c cs)
  then have "match_block tag (c # cs) = None"
    by (auto simp: match_block_def js_def)
  with 2 show ?case by simp
qed simp

lemma strip_js_uri_id: "\<not> includes_ci (js ''javascript:'') s \<Longrightarrow> strip_js_uri s = s"
  by (induction s rule: strip_js_uri.induct) simp_all

lemma strip_tags_id: "0x3C \<notin> set s \<Longrightarrow> strip_tags s = s"
  by (induction s rule: strip_tags.induct) auto

lemma collapse_ws_id: "ws_normal s \<Longrightarrow> collapse_ws s = s"
proof (induction s rule: collapse_ws.induct)
  case (2 c cs)
  show ?case
  proof (cases "is_js_space c")
    case True
    with "2.prems" have "c = 0x20" "dropWhile is_js_space cs = cs"
      by (cases cs; simp)+
    with True 2 show ?thesis by simp
  next
    case False
    with 2 show ?thesis by simp
  qed
qed simp

lemma normalize_markup_plain: "plain_text s \<Longrightarrow> normalize_markup s = s"
  by (simp add: plain_text_def normalize_markup_def strip_block_id strip_js_uri_id
      strip_tags_id collapse_ws_id)

lemma js_trim_append_dots:
  "js_trim (a @ js ''...'') = dropWhile is_js_space a @ js ''...''"
proof -
  have d: "\<not> is_js_space 0x2E" by (simp add: is_js_space_def is_line_terminator_def)
  have "dropWhile is_js_space (a @ js ''...'') = dropWhile is_js_space a @ js ''...''"
    using d by (simp add: dropWhile_append js_def)
  then show ?thesis
    using d by (simp add: js_trim_def dropWhile_append js_def)
qed

lemma sanitizeInput_JString: "sanitizeInput (JString s) = (if s = [] then [] else sanitize_string s)"
  by (simp add: sanitizeInput_def)


text \<open>C9: A plain text (no \<open><\<close>, no \<open>javascript:\<close>, whitespace already single spaces) longer than 200 code units is cut to its first 197 code units, leading spaces trimmed, followed by \<open>...\<close>.\<close>

theorem sanitizeInput_truncates:
  assumes "plain_text s" and "200 < length s"
  shows "sanitizeInput (JString s) = dropWhile is_js_space (take 197 s) @ js ''...''"
proof -
  from assms(2) have "s \<noteq> []" by auto
  then have "sanitizeInput (JString s) = js_trim (truncate_display s)"
    using assms(1) by (simp add: sanitizeInput_JString sanitize_string_def
        normalize_markup_plain)
  also have "\<dots> = js_trim (take 197 s @ js ''...'')"
    using assms(2) by (simp add: truncate_display_def)
  also have "\<dots> = dropWhile is_js_space (take 197 s) @ js ''...''"
    by (rule js_trim_append_dots)
  finally show ?thesis .
qed

lemma includes_ci_no_head: "\<forall>c \<in> set s. \<not> ci_eq c p \<Longrightarrow> \<not> includes_ci (p # ps) s"
  by (induction s) auto

lemma ws_normal_no_space: "\<forall>c \<in> set s. \<not> is_js_space c \<Longrightarrow> ws_normal s"
  by (induction s) auto

theorem sanitizeInput_truncates_witness:
  "plain_text (replicate 300 0x61) \<and> 200 < length (replicate 300 (0x61::code_unit)) \<and>
   sanitizeInput (JString (replicate 300 0x61)) = replicate 197 0x61 @ js ''...'' \<and>
   length (sanitizeInput (JString (replicate 300 0x61))) = 200"
proof -
  have p: "plain_text (replicate 300 0x61)"
    unfolding plain_text_def
    by (auto simp: js_def js_eval intro!: includes_ci_no_head ws_normal_no_space)
  have l: "200 < length (replicate 300 (0x61::code_unit))" by simp
  have "sanitizeInput (JString (replicate 300 0x61)) = dropWhile is_js_space (take 197 (replicate 300 0x61)) @ js ''...''"
    by (rule sanitizeInput_truncates[OF p l])
  also have "\<dots> = replicate 197 0x61 @ js ''...''"
    by (simp add: js_eval)
  finally show ?thesis using p l by (simp add: js_def)
qed

text \<open>Any input that is not a string (null, undefined, a number) gives the empty string; nothing is thrown.\<close>

theorem sanitizeInput_non_string: "\<not> is_string v \<Longrightarrow> sanitizeInput v = []"
  by (simp add: sanitizeInput_def)

lemma ws_normal_append:
  "ws_normal (xs @ ys) \<longleftrightarrow> ws_normal xs \<and> ws_normal ys \<and>
     (xs \<noteq> [] \<and> ys \<noteq> [] \<and> is_js_space (last xs) \<longrightarrow> \<not> is_js_space (hd ys))"
  by (induction xs) auto

lemma ws_normal_collapse_ws: "ws_normal (collapse_ws s)"
proof (induction s rule: collapse_ws.induct)
  case (2 c cs)
  show ?case
  proof (cases "is_js_space c")
    case True
    let ?d = "dropWhile is_js_space cs"
    have "collapse_ws ?d = [] \<or> \<not> is_js_space (hd (collapse_ws ?d))"
    proof (cases ?d)
      case (Cons x r)
      then have "\<not> is_js_space x" using hd_dropWhile[of is_js_space cs] by auto
      with Cons show ?thesis by simp
    qed (simp del: dropWhile_eq_Nil_conv)
    with True "2.IH"(1) show ?thesis by (simp add: is_js_space_def)
  next
    case False
    with "2.IH"(2) show ?thesis by simp
  qed
qed simp

lemma ws_normal_take: "ws_normal s \<Longrightarrow> ws_normal (take n s)"
  by (metis append_take_drop_id ws_normal_append)

lemma ws_normal_truncate: "ws_normal s \<Longrightarrow> ws_normal (truncate_display s)"
  by (simp add: truncate_display_def ws_normal_append ws_normal_take js_def js_eval)

lemma ws_normal_js_trim: "ws_normal s \<Longrightarrow> ws_normal (js_trim s)"
  by (metis js_trim_infix ws_normal_append)

lemma ws_normal_sanitize_string: "ws_normal (sanitize_string s)"
  unfolding sanitize_string_def normalize_markup_def
  by (intro ws_normal_js_trim ws_normal_truncate ws_normal_collapse_ws)

text \<open>C11: In the output every whitespace code unit is a single space followed by a non-space: whitespace runs are collapsed.\<close>

theorem sanitizeInput_ws_normal: "ws_normal (sanitizeInput v)"
  by (cases v) (simp_all add: sanitizeInput_def ws_normal_sanitize_string)

subsection \<open>Tag-free text and a second pass\<close>

lemma find_gt_None: "0x3E \<notin> set s \<Longrightarrow> find_gt s = None"
  by (induction s) auto

lemma match_block_lt_gt:
  assumes "match_block tag (c # cs) = Some r"
  shows "c = 0x3C \<and> 0x3E \<in> set cs"
proof -
  from assms obtain q where p: "prefix_ci (js ''<'' @ tag) (c # cs)"
    and q: "find_gt (drop (Suc (length tag)) (c # cs)) = Some q"
    by (auto simp: match_block_def split: if_splits option.splits)
  from p have "c = 0x3C" by (simp add: js_def)
  moreover from q have "0x3E \<in> set (drop (length tag) cs)"
    using find_gt_None by fastforce
  then have "0x3E \<in> set cs" by (meson in_set_dropD)
  ultimately show ?thesis by blast
qed

lemma strip_block_tag_free: "tag_free s \<Longrightarrow> strip_block tag s = s"
proof (induction tag s rule: strip_block.induct)
  case (2 tag c cs)
  have "match_block tag (c # cs) = None"
    using "2.prems" by (cases "match_block tag (c # cs)") (auto dest: match_block_lt_gt)
  with 2 show ?case by simp
qed simp

lemma after_first_Some_in: "after_first d cs = Some r \<Longrightarrow> d \<in> set cs"
  by (metis after_first_None_iff option.distinct(1))

lemma strip_tags_tag_free: "tag_free s \<Longrightarrow> strip_tags s = s"
  by (induction s rule: strip_tags.induct) (auto split: option.splits dest: after_first_Some_in)

lemma js_trim_idem: "js_trim (js_trim s) = js_trim s"
proof -
  let ?a = "dropWhile is_js_space s"
  let ?b = "rev (dropWhile is_js_space (rev ?a))"
  have split: "?a = ?b @ rev (takeWhile is_js_space (rev ?a))"
    by (metis rev_append rev_rev_ident takeWhile_dropWhile_id)
  have hd_b: "dropWhile is_js_space ?b = ?b"
  proof (cases ?b)
    case (Cons x xs)
    with split have a: "?a = x # (xs @ rev (takeWhile is_js_space (rev ?a)))" by simp
    have "\<not> is_js_space x" using hd_dropWhile[of is_js_space s] a by (metis list.distinct(1) list.sel(1))
    with Cons show ?thesis by simp
  next
    case Nil
    show ?thesis by (simp only: Nil dropWhile.simps(1))
  qed
  have "dropWhile is_js_space (rev ?b) = rev ?b"
  proof (cases "rev ?b")
    case (Cons x xs)
    then have "dropWhile is_js_space (rev ?a) \<noteq> []" "hd (dropWhile is_js_space (rev ?a)) = x" by auto
    then have "\<not> is_js_space x" using hd_dropWhile by metis
    with Cons show ?thesis by simp
  next
    case Nil
    show ?thesis by (simp only: Nil dropWhile.simps(1))
  qed
  with hd_b show ?thesis by (simp add: js_trim_def)
qed

lemma length_strip_block_le: "length (strip_block tag s) \<le> length s"
proof (induction tag s rule: strip_block.induct)
  case (2 tag c cs)
  show ?case
  proof (cases "match_block tag (c # cs)")
    case (Some r)
    with "2.IH"(2)[OF Some] match_block_shorter[OF Some] show ?thesis by simp
  qed (use "2.IH"(1) in simp)
qed simp

lemma length_after_js_uri:
  "length (case after_first 0x3B (drop 11 (c # cs)) of None \<Rightarrow> [] | Some r \<Rightarrow> r) < length (c # cs)"
  by (auto split: option.splits dest!: after_first_shorter)

lemma length_strip_js_uri_le: "length (strip_js_uri s) \<le> length s"
proof (induction s rule: strip_js_uri.induct)
  case (2 c cs)
  then show ?case using length_after_js_uri[of c cs] by (cases "prefix_ci (js ''javascript:'') (c # cs)") simp_all
qed simp

lemma length_strip_js_uri_lt:
  "includes_ci (js ''javascript:'') s \<Longrightarrow> length (strip_js_uri s) < length s"
proof (induction s rule: strip_js_uri.induct)
  case (2 c cs)
  show ?case
  proof (cases "prefix_ci (js ''javascript:'') (c # cs)")
    case True
    let ?r = "case after_first 0x3B (drop 11 (c # cs)) of None \<Rightarrow> [] | Some r \<Rightarrow> r"
    have "length ?r < length (c # cs)" by (rule length_after_js_uri)
    with True show ?thesis using length_strip_js_uri_le[of ?r] by simp
  next
    case False
    with "2.prems" have "includes_ci (js ''javascript:'') cs" by simp
    with False "2.IH" show ?thesis by simp
  qed
qed (simp add: js_def)

lemma length_strip_tags_le: "length (strip_tags s) \<le> length s"
proof (induction s rule: strip_tags.induct)
  case (2 c cs)
  show ?case
  proof (cases "if c = 0x3C then after_first 0x3E cs else None")
    case (Some r)
    then have "after_first 0x3E cs = Some r" by (simp split: if_splits)
    with "2.IH"(2)[OF Some] after_first_shorter[OF this] Some show ?thesis by simp
  qed (use "2.IH"(1) in simp)
qed simp

lemma length_collapse_ws_le: "length (collapse_ws s) \<le> length s"
  by (induction s rule: collapse_ws.induct) (auto intro: le_trans[OF _ length_dropWhile_le])

lemma length_truncate_le: "length (truncate_display s) \<le> length s"
  by (simp add: truncate_display_def js_def)

lemma normalize_markup_fixed:
  assumes "tag_free s" and "\<not> includes_ci (js ''javascript:'') s" and "ws_normal s"
  shows "normalize_markup s = s"
  using assms by (simp add: normalize_markup_def strip_block_tag_free strip_js_uri_id
    strip_tags_tag_free collapse_ws_id)

lemma sanitizeInput_shape:
  "tag_free (sanitizeInput v) \<and> ws_normal (sanitizeInput v) \<and> length (sanitizeInput v) \<le> 200 \<and>
   js_trim (sanitizeInput v) = sanitizeInput v"
proof (cases "\<exists>s. v = JString s \<and> s \<noteq> []")
  case True
  then obtain s where v: "v = JString s" "s \<noteq> []" by blast
  have "js_trim (sanitize_string s) = sanitize_string s"
    by (simp add: sanitize_string_def js_trim_idem)
  with v show ?thesis
    by (simp add: sanitizeInput_JString tag_free_sanitize_string ws_normal_sanitize_string
      length_sanitize_string)
next
  case False
  then have "sanitizeInput v = []" by (cases v) (auto simp: sanitizeInput_def)
  then show ?thesis by (simp add: js_trim_def)
qed

lemma sanitize_fixpoint:
  assumes "tag_free s" and "ws_normal s" and "length s \<le> 200" and "js_trim s = s"
    and "\<not> includes_ci (js ''javascript:'') s"
  shows "sanitizeInput (JString s) = s"
  using assms by (simp add: sanitizeInput_JString sanitize_string_def normalize_markup_fixed
    truncate_display_def)

lemma sanitize_shrinks:
  assumes "tag_free s" and "includes_ci (js ''javascript:'') s"
  shows "length (sanitizeInput (JString s)) < length s"
proof -
  from assms(2) have "s \<noteq> []" by (auto simp: js_def)
  then have "sanitizeInput (JString s) =
      js_trim (truncate_display (collapse_ws (strip_tags (strip_js_uri s))))"
    using assms(1) by (simp add: sanitizeInput_JString sanitize_string_def normalize_markup_def
      strip_block_tag_free)
  also have "length \<dots> \<le> length (strip_js_uri s)"
    by (meson le_trans length_js_trim_le length_truncate_le length_collapse_ws_le
      length_strip_tags_le)
  finally show ?thesis using length_strip_js_uri_lt[OF assms(2)] by linarith
qed

lemmas sanitize_eval = sanitizeInput_JString sanitize_string_def normalize_markup_def match_block_def
  after_first_def truncate_display_def js_trim_def js_def js_eval

text \<open>The spec example: script and iframe blocks are deleted together with their content.\<close>

theorem sanitizeInput_spec_example:
  "sanitizeInput (JString (js ''<script>a</script>b<iframe>c</iframe>d'')) = js ''bd''"
  by (simp add: sanitize_eval)

text \<open>The sanitizer is not idempotent: deleting tags can join text into a
  \<open>javascript:\<close> fragment that only a second pass deletes (the spec, section 8, claims
  idempotence).\<close>

theorem sanitizeInput_not_idempotent:
  "sanitizeInput (JString (js ''<b>javascript</b>:x'')) = js ''javascript:x'' \<and>
   sanitizeInput (JString (sanitizeInput (JString (js ''<b>javascript</b>:x'')))) = []"
  by (simp add: sanitize_eval)

text \<open>C14: A second pass of the sanitizer changes its output exactly when the output
  holds a \<open>javascript:\<close> fragment (in any letter case): the output is tag-free, has
  single spaces, at most 200 code units and no outer spaces, so every other stage leaves
  it alone, while the fragment's stage always shortens it. The spec (section 8) claims
  idempotence for all inputs.\<close>

theorem sanitizeInput_idempotent_iff:
  "sanitizeInput (JString (sanitizeInput v)) = sanitizeInput v \<longleftrightarrow>
   \<not> includes_ci (js ''javascript:'') (sanitizeInput v)"
  using sanitizeInput_shape[of v] sanitize_fixpoint sanitize_shrinks by (metis less_irrefl)

text \<open>C15: On a tag-free text (no \<open><\<close> with a \<open>>\<close> after it) without
  \<open>javascript:\<close>, with single spaces and at most 200 code units, the sanitizer only
  trims: a \<open><\<close> that no \<open>>\<close> follows, such as an unclosed \<open><script\<close>, survives (the
  spec, section 4.1, says the output never contains \<open><script\<close>).\<close>

theorem sanitizeInput_tag_free_text:
  assumes "tag_free s" and "\<not> includes_ci (js ''javascript:'') s" and "ws_normal s"
    and "length s \<le> 200"
  shows "sanitizeInput (JString s) = js_trim s"
  using assms by (cases "s = []")
    (simp_all add: sanitizeInput_JString sanitize_string_def normalize_markup_fixed
      truncate_display_def js_trim_def)

text \<open>Text inside table markup survives sanitization: the unit test that expects the cell text removed fails against the code.\<close>

theorem sanitizeInput_keeps_cell_text:
  "sanitizeInput (JString (js ''<div class=\"orca-table2-cell\">'' @ [0x8868, 0x683C, 0x5185, 0x5BB9, 0x31] @ js ''</div>''))
   = [0x8868, 0x683C, 0x5185, 0x5BB9, 0x31]"
  by (simp add: sanitize_eval)

text \<open>A \<open>javascript:\<close> fragment with no \<open>;\<close> after it takes the rest of the
  text with it, spaces and later words included (the spec, section 4.1, says the
  fragment ends at a \<open>;\<close> or at the end of a token).\<close>

theorem sanitizeInput_js_uri_eats_rest:
  "sanitizeInput (JString (js ''see javascript:x and more'')) = js ''see''"
  by (simp add: sanitize_eval)


theorem sanitizeInput_non_string_witness:
  "sanitizeInput JNull = [] \<and> sanitizeInput JUndefined = [] \<and> sanitizeInput (JNumber 123) = []"
  using sanitizeInput_non_string[of JNull] sanitizeInput_non_string[of JUndefined]
    sanitizeInput_non_string[of "JNumber 123"] by simp

theorem sanitizeInput_ws_normal_witness:
  "ws_normal (sanitizeInput (JString (js ''a \<newline>  <b>b''))) \<and>
   sanitizeInput (JString (js ''a \<newline>  <b>b'')) = js ''a b''"
proof -
  have "sanitizeInput (JString (js ''a \<newline>  <b>b'')) = js ''a b''"
    by (simp add: sanitize_eval)
  with sanitizeInput_ws_normal[of "JString (js ''a \<newline>  <b>b'')"] show ?thesis by simp
qed

theorem sanitizeInput_tag_free_text_witness:
  "tag_free (js ''<script src=x'') \<and> \<not> includes_ci (js ''javascript:'') (js ''<script src=x'') \<and>
   ws_normal (js ''<script src=x'') \<and> length (js ''<script src=x'') \<le> 200 \<and>
   sanitizeInput (JString (js ''<script src=x'')) = js ''<script src=x''"
proof -
  have h: "tag_free (js ''<script src=x'')" "\<not> includes_ci (js ''javascript:'') (js ''<script src=x'')"
    "ws_normal (js ''<script src=x'')" "length (js ''<script src=x'') \<le> 200"
    by (simp_all add: js_def js_eval)
  have "js_trim (js ''<script src=x'') = js ''<script src=x''" by (simp add: js_trim_def js_def js_eval)
  with h sanitizeInput_tag_free_text[OF h] show ?thesis by simp
qed

end
