(* ===== verification/JS_Object.thy ===== *)
theory JS_Object
  imports JS_Prelude "HOL-Library.Multiset"
begin

text \<open>
  A plain JavaScript object used as a dictionary (\<open>Record<string, V>\<close>): its own
  properties in insertion order, keys distinct. A lookup \<open>ob[k]\<close> is the value under
  \<open>k\<close> or \<open>undefined\<close>; \<open>Object.keys(ob)\<close> lists the keys in the order of
  OrdinaryOwnPropertyKeys: first the array-index keys (canonical decimal strings of the
  integers \<open>0\<close> to \<open>2^32 - 2\<close>) in ascending numeric order, then the other string keys
  in insertion order. Properties inherited from \<open>Object.prototype\<close> are not modelled.
\<close>

type_synonym 'v jsobj = "(jstr \<times> 'v) list"

definition obj_get :: "'v jsobj \<Rightarrow> jstr \<Rightarrow> 'v option" where
  "obj_get ob k = map_of ob k"

definition obj_wf :: "'v jsobj \<Rightarrow> bool" where
  "obj_wf ob \<longleftrightarrow> distinct (map fst ob)"

text \<open>The value of a string of decimal digits.\<close>

definition digits_value :: "jstr \<Rightarrow> nat" where
  "digits_value s = foldl (\<lambda>n c. 10 * n + (unat c - 48)) 0 s"

definition is_array_index :: "jstr \<Rightarrow> bool" where
  "is_array_index k \<longleftrightarrow>
     k \<noteq> [] \<and> list_all is_digit k \<and> (k = [0x30] \<or> hd k \<noteq> 0x30) \<and>
     digits_value k < 4294967295"

definition object_keys :: "'v jsobj \<Rightarrow> jstr list" where
  "object_keys ob =
     sort_key digits_value (filter is_array_index (map fst ob)) @
     filter (\<lambda>k. \<not> is_array_index k) (map fst ob)"

lemma mset_object_keys: "mset (object_keys ob) = mset (map fst ob)"
  by (simp add: object_keys_def flip: multiset_partition)

lemma set_object_keys: "set (object_keys ob) = set (map fst ob)"
  by (auto simp: object_keys_def)

lemma set_object_keys_dom: "k \<in> set (object_keys ob) \<longleftrightarrow> obj_get ob k \<noteq> None"
  by (simp add: set_object_keys obj_get_def map_of_eq_None_iff)

lemma distinct_object_keys: "obj_wf ob \<Longrightarrow> distinct (object_keys ob)"
  by (auto simp: object_keys_def obj_wf_def)

lemma object_keys_no_index:
  "\<forall>k \<in> set (map fst ob). \<not> is_array_index k \<Longrightarrow> object_keys ob = map fst ob"
proof -
  assume "\<forall>k \<in> set (map fst ob). \<not> is_array_index k"
  then have "filter is_array_index (map fst ob) = []"
    and "filter (\<lambda>k. \<not> is_array_index k) (map fst ob) = map fst ob"
    by (simp_all add: filter_empty_conv)
  then show ?thesis by (simp add: object_keys_def)
qed

lemma sorted_object_keys_prefix:
  "sorted (map digits_value (take (length (filter is_array_index (map fst ob))) (object_keys ob)))"
  by (simp add: object_keys_def)

end
