(* ===== verification/Blocks.thy ===== *)
theory Blocks
  imports Sanitizer JS_Object
begin

text \<open>
  The data model of \<open>src/src/types.ts\<close>: a host block (\<open>Block\<close>) as a record whose
  optional fields are \<open>option\<close>s, since the host may omit them and the code guards them
  (\<open>block.text || ''\<close>, \<open>block.children || []\<close>, \<open>block.text?.trim()\<close>); the
  block mapping as a JavaScript object of blocks; the derived \<open>TreeNode\<close> as a
  datatype. Then the noise filter \<open>isTableRelatedBlock\<close> of \<open>helpers.ts\<close> with its
  keyword list and its table-cell regular expression, and the predicates on blocks that
  \<open>buildTree\<close> and \<open>findRootBlocks\<close> share. The unused \<open>properties\<close> field is
  left out.
\<close>

record block =
  block_id :: jstr
  block_text :: "jstr option"
  block_children :: "jstr list option"
  block_parent :: "jstr option"
  block_type :: "jstr option"

type_synonym blocks = "block jsobj"

datatype tree_node =
  TreeNode (node_id: jstr) (content: jstr) (node_children: "tree_node list") (level: nat)
    (node_parent: "jstr option")

text \<open>\<open>block.text || ''\<close> and \<open>block.children || []\<close>.\<close>

definition text_of :: "block \<Rightarrow> jstr" where
  "text_of b = (case block_text b of None \<Rightarrow> [] | Some t \<Rightarrow> t)"

definition children_of :: "block \<Rightarrow> jstr list" where
  "children_of b = (case block_children b of None \<Rightarrow> [] | Some cs \<Rightarrow> cs)"

text \<open>\<open>block.text?.trim()\<close> taken as a condition.\<close>

definition has_text :: "block \<Rightarrow> bool" where
  "has_text b = (case block_text b of None \<Rightarrow> False | Some t \<Rightarrow> js_trim t \<noteq> [])"

subsection \<open>The noise filter\<close>

text \<open>The keyword list of line 9, the words for ``stage'' (U+9636 U+6BB5) and
  ``function and features'' (U+529F U+80FD U+4E0E U+7279 U+70B9), as UTF-16 code units.\<close>

definition tableKeywords :: "jstr list" where
  "tableKeywords = [[0x9636, 0x6BB5], [0x529F, 0x80FD, 0x4E0E, 0x7279, 0x70B9]]"

text \<open>\<open>/^\d+\.\s*[\u4e00-\u9fff]+$/.test(s)\<close> (line 13): digits, a dot, optional whitespace,
  CJK ideographs to the end. The greedy runs cannot overlap (a dot is no digit, an
  ideograph no whitespace), so the match needs no backtracking.\<close>

definition is_table_cell_text :: "jstr \<Rightarrow> bool" where
  "is_table_cell_text s =
     (let r = dropWhile is_digit s in
      takeWhile is_digit s \<noteq> [] \<and> r \<noteq> [] \<and> hd r = 0x2E \<and>
      (let cs = dropWhile is_js_space (tl r) in cs \<noteq> [] \<and> list_all is_cjk cs))"

text \<open>\<open>isTableRelatedBlock(block)\<close>, helpers.ts lines 5 to 16.\<close>

definition isTableRelatedBlock :: "block \<Rightarrow> bool" where
  "isTableRelatedBlock b =
     (case block_text b of
        None \<Rightarrow> False
      | Some t \<Rightarrow> t \<noteq> [] \<and>
          (list_ex (js_includes t) tableKeywords \<or> is_table_cell_text (js_trim t)))"

text \<open>\<open>block.type === 'table2' || isTableRelatedBlock(block)\<close>, the test both
  \<open>buildTree\<close> (line 62) and \<open>findRootBlocks\<close> (line 99) apply.\<close>

definition is_noise :: "block \<Rightarrow> bool" where
  "is_noise b \<longleftrightarrow> block_type b = Some (js ''table2'') \<or> isTableRelatedBlock b"

text \<open>A block whose node \<open>buildTree\<close> fills and whose children it visits (line 62
  negated): a non-empty id, a non-blank sanitized text, no noise.\<close>

definition expands :: "block \<Rightarrow> bool" where
  "expands b \<longleftrightarrow>
     block_id b \<noteq> [] \<and> js_trim (sanitizeInput (JString (text_of b))) \<noteq> [] \<and> \<not> is_noise b"

text \<open>A rank that decreases along every child edge to a present block: the mapping's
  child graph is acyclic.\<close>

definition child_ranked :: "blocks \<Rightarrow> (jstr \<Rightarrow> nat) \<Rightarrow> bool" where
  "child_ranked bs rk \<longleftrightarrow>
     (\<forall>(k, b) \<in> set bs. \<forall>c \<in> set (children_of b). obj_get bs c \<noteq> None \<longrightarrow> rk c < rk k)"

text \<open>A list of keys each of which is present and lists a key of the list among its
  children: a cycle that a recursion over all children (the variants of the plugin
  recurse without the filters of \<open>helpers.ts\<close>) follows forever.\<close>

definition child_cycle :: "blocks \<Rightarrow> jstr list \<Rightarrow> bool" where
  "child_cycle bs S \<longleftrightarrow>
     list_all (\<lambda>k. case obj_get bs k of None \<Rightarrow> False | Some b \<Rightarrow> list_ex (\<lambda>c. c \<in> set S) (children_of b)) S"

subsection \<open>The table-cell pattern against its regular expression\<close>

lemma cjk_not_space: "is_cjk c \<Longrightarrow> \<not> is_js_space c"
  by (auto simp: is_cjk_def is_js_space_def is_line_terminator_def) unat_arith+

lemma dot_not_digit [simp]: "\<not> is_digit 0x2E"
  by (simp add: is_digit_def)

lemma dot_not_space [simp]: "\<not> is_js_space 0x2E"
  by (simp add: is_js_space_def is_line_terminator_def)

lemma dropWhile_append_stop:
  "xs' \<noteq> [] \<Longrightarrow> \<not> P (hd xs') \<Longrightarrow> list_all P ds \<Longrightarrow> dropWhile P (ds @ xs') = xs'"
  by (induction ds) (auto simp: neq_Nil_conv)

lemma takeWhile_append_stop:
  "xs' \<noteq> [] \<Longrightarrow> \<not> P (hd xs') \<Longrightarrow> list_all P ds \<Longrightarrow> takeWhile P (ds @ xs') = ds"
  by (induction ds) (auto simp: neq_Nil_conv)

text \<open>C17: The table-cell test accepts exactly the strings the regular expression
  \<open>/^\d+\.\s*[\u4e00-\u9fff]+$/\<close> describes: one or more digits, a dot, any
  whitespace, one or more CJK ideographs.\<close>

theorem is_table_cell_text_iff:
  "is_table_cell_text s \<longleftrightarrow>
     (\<exists>ds ws cs. s = ds @ [0x2E] @ ws @ cs \<and> ds \<noteq> [] \<and> list_all is_digit ds \<and>
        list_all is_js_space ws \<and> cs \<noteq> [] \<and> list_all is_cjk cs)"
proof
  assume H: "is_table_cell_text s"
  let ?ds = "takeWhile is_digit s" and ?r = "dropWhile is_digit s"
  let ?ws = "takeWhile is_js_space (tl ?r)" and ?cs = "dropWhile is_js_space (tl ?r)"
  from H have r: "?r \<noteq> []" "hd ?r = 0x2E" and ds: "?ds \<noteq> []"
    and cs: "?cs \<noteq> []" "list_all is_cjk ?cs"
    by (simp_all add: is_table_cell_text_def Let_def)
  have "?r = 0x2E # ?ws @ ?cs" using r by (metis list.collapse takeWhile_dropWhile_id)
  then have "s = ?ds @ [0x2E] @ ?ws @ ?cs" by (metis append_Cons append_Nil takeWhile_dropWhile_id)
  moreover have "list_all is_digit ?ds" "list_all is_js_space ?ws"
    by (auto simp: list_all_iff dest: set_takeWhileD)
  ultimately show "\<exists>ds ws cs. s = ds @ [0x2E] @ ws @ cs \<and> ds \<noteq> [] \<and> list_all is_digit ds \<and>
        list_all is_js_space ws \<and> cs \<noteq> [] \<and> list_all is_cjk cs"
    using ds cs by blast
next
  assume "\<exists>ds ws cs. s = ds @ [0x2E] @ ws @ cs \<and> ds \<noteq> [] \<and> list_all is_digit ds \<and>
        list_all is_js_space ws \<and> cs \<noteq> [] \<and> list_all is_cjk cs"
  then obtain ds ws cs where s: "s = ds @ [0x2E] @ ws @ cs" and ds: "ds \<noteq> []" "list_all is_digit ds"
    and ws: "list_all is_js_space ws" and cs: "cs \<noteq> []" "list_all is_cjk cs"
    by blast
  have "\<not> is_js_space (hd cs)" using cs by (metis list.set_sel(1) list_all_iff cjk_not_space)
  then have w: "dropWhile is_js_space (ws @ cs) = cs"
    using cs ws by (simp add: dropWhile_append_stop)
  have "dropWhile is_digit s = 0x2E # ws @ cs" "takeWhile is_digit s = ds"
    using ds s by (simp_all add: dropWhile_append_stop takeWhile_append_stop)
  with w ds cs show "is_table_cell_text s"
    by (simp add: is_table_cell_text_def del: dropWhile_eq_Nil_conv)
qed

theorem is_table_cell_text_iff_witness:
  "is_table_cell_text [0x31, 0x2E, 0x20, 0x7B2C, 0x4E00] \<and> \<not> is_table_cell_text (js ''1. a'')"
proof -
  have "\<exists>ds ws cs. [0x31, 0x2E, 0x20, 0x7B2C, 0x4E00] = ds @ [0x2E] @ ws @ cs \<and> ds \<noteq> [] \<and>
      list_all is_digit ds \<and> list_all is_js_space ws \<and> cs \<noteq> [] \<and> list_all is_cjk cs"
    by (rule exI[of _ "[0x31]"], rule exI[of _ "[0x20]"], rule exI[of _ "[0x7B2C, 0x4E00]"])
      (simp add: js_eval)
  then have "is_table_cell_text [0x31, 0x2E, 0x20, 0x7B2C, 0x4E00]"
    by (simp only: is_table_cell_text_iff)
  moreover have "\<not> is_table_cell_text (js ''1. a'')"
    by (simp add: is_table_cell_text_def js_def js_eval)
  ultimately show ?thesis by simp
qed

lemma child_cycle_step:
  assumes "child_cycle bs S" and "a \<in> set S"
  obtains b c where "obj_get bs a = Some b" "c \<in> set (children_of b)" "c \<in> set S"
  using assms by (auto simp: child_cycle_def list_all_iff list_ex_iff split: option.splits)

lemma child_ranked_step:
  "child_ranked bs rk \<Longrightarrow> obj_get bs a = Some b \<Longrightarrow> c \<in> set (children_of b) \<Longrightarrow>
   obj_get bs c \<noteq> None \<Longrightarrow> rk c < rk a"
proof -
  assume r: "child_ranked bs rk" and a: "obj_get bs a = Some b" and c: "c \<in> set (children_of b)"
    and e: "obj_get bs c \<noteq> None"
  from a have "(a, b) \<in> set bs" by (simp add: obj_get_def map_of_SomeD)
  with r c e show "rk c < rk a" unfolding child_ranked_def by fastforce
qed

end
