(* ===== verification/Tree_Builder.thy ===== *)
theory Tree_Builder
  imports Blocks
begin

text \<open>
  The Tree Builder and Root Discovery of \<open>src/src/utils/helpers.ts\<close>:
  \<open>buildTree(blockId, allBlocks, level)\<close> (lines 46 to 87) and
  \<open>findRootBlocks(blocks)\<close> (lines 90 to 104). \<open>buildTree\<close> recurses into the
  children a block lists without remembering the blocks on its path, so on a cyclic
  mapping it calls itself forever (in the engine: until the stack overflows). It is
  therefore a \<^theory_text>\<open>partial_function (option)\<close>: \<open>None\<close> is the call that never returns
  a tree. The theory proves that it returns on every mapping whose traversed child
  edges are ranked (acyclic), that it never returns on a cycle of expanding blocks, the
  shape of every tree it returns, and what \<open>findRootBlocks\<close> selects and in which order.
\<close>

text \<open>The filter of lines 73 to 76: the child exists, has an id and a non-blank text.\<close>

definition child_ok :: "blocks \<Rightarrow> jstr \<Rightarrow> bool" where
  "child_ok bs c =
     (case obj_get bs c of None \<Rightarrow> False | Some cb \<Rightarrow> block_id cb \<noteq> [] \<and> has_text cb)"

text \<open>The node of lines 49 to 58 for a missing block or one without an id.\<close>

definition invalid_node :: "jstr \<Rightarrow> nat \<Rightarrow> tree_node" where
  "invalid_node blockId lvl =
     TreeNode (if blockId = [] then js ''unknown'' else blockId) [] [] lvl None"

text \<open>\<open>buildTree(blockId, allBlocks, level)\<close>.\<close>

partial_function (option) buildTree :: "jstr \<Rightarrow> blocks \<Rightarrow> nat \<Rightarrow> tree_node option" where
  "buildTree blockId allBlocks lvl =
     (case obj_get allBlocks blockId of
        None \<Rightarrow> Some (invalid_node blockId lvl)
      | Some block \<Rightarrow>
          if block_id block = [] then Some (invalid_node blockId lvl)
          else
            (let cnt = sanitizeInput (JString (text_of block)) in
             if js_trim cnt = [] \<or> is_noise block
             then Some (TreeNode (block_id block) [] [] lvl (block_parent block))
             else Option.bind
                    (map_opt (\<lambda>c. buildTree c allBlocks (Suc lvl))
                       (filter (child_ok allBlocks) (children_of block)))
                    (\<lambda>kids. Some (TreeNode (block_id block) cnt
                       (filter (\<lambda>n. js_trim (content n) \<noteq> []) kids) lvl (block_parent block)))))"

text \<open>The test of lines 93 to 102 on one key.\<close>

definition root_ok :: "blocks \<Rightarrow> jstr \<Rightarrow> bool" where
  "root_ok bs k =
     (case obj_get bs k of
        None \<Rightarrow> False
      | Some b \<Rightarrow>
          if block_id b = [] \<or> \<not> has_text b then False
          else if is_noise b then False
          else (case block_parent b of None \<Rightarrow> True | Some p \<Rightarrow> p = [] \<or> obj_get bs p = None))"

text \<open>\<open>findRootBlocks(blocks)\<close>: the keys in \<open>Object.keys\<close> order that pass.\<close>

definition findRootBlocks :: "blocks \<Rightarrow> jstr list" where
  "findRootBlocks bs = filter (root_ok bs) (object_keys bs)"

subsection \<open>What the theorems are stated with\<close>

text \<open>A rank that every child edge \<open>buildTree\<close> follows decreases: the traversed part
  of the mapping is acyclic.\<close>

definition ranked :: "blocks \<Rightarrow> (jstr \<Rightarrow> nat) \<Rightarrow> bool" where
  "ranked bs rk \<longleftrightarrow>
     (\<forall>(k, b) \<in> set bs. expands b \<longrightarrow> (\<forall>c \<in> set (children_of b). child_ok bs c \<longrightarrow> rk c < rk k))"

text \<open>A list of keys each of which expands and lists, among its children that pass the
  filter, a key of the list again: a cycle \<open>buildTree\<close> follows forever.\<close>

definition cycle_closed :: "blocks \<Rightarrow> jstr list \<Rightarrow> bool" where
  "cycle_closed bs S \<longleftrightarrow>
     list_all (\<lambda>k. case obj_get bs k of
                     None \<Rightarrow> False
                   | Some b \<Rightarrow> expands b \<and> list_ex (\<lambda>c. child_ok bs c \<and> c \<in> set S) (children_of b)) S"

text \<open>The shape of a returned tree: levels count from the call's level, an empty
  content has no children, a non-empty content is the sanitized text of an expanding
  block with the node's id and parent, and every child has a non-blank content.\<close>

fun tree_ok :: "blocks \<Rightarrow> nat \<Rightarrow> tree_node \<Rightarrow> bool" where
  "tree_ok bs l (TreeNode i c ks lv p) \<longleftrightarrow>
     lv = l \<and> (c = [] \<longrightarrow> ks = []) \<and>
     (c \<noteq> [] \<longrightarrow> (\<exists>(k, b) \<in> set bs. expands b \<and> i = block_id b \<and>
        c = sanitizeInput (JString (text_of b)) \<and> p = block_parent b)) \<and>
     (\<forall>n \<in> set ks. js_trim (content n) \<noteq> [] \<and> tree_ok bs (Suc l) n)"

text \<open>The nodes of a tree in pre-order.\<close>

fun nodes :: "tree_node \<Rightarrow> tree_node list" where
  "nodes (TreeNode i c ks lv p) = TreeNode i c ks lv p # concat (map nodes ks)"

text \<open>The block mappings of the unit tests (\<open>src/src/__tests__/helpers.test.ts\<close>).\<close>

definition blk :: "jstr \<Rightarrow> jstr \<Rightarrow> jstr list \<Rightarrow> jstr option \<Rightarrow> block" where
  "blk i t cs p = \<lparr>block_id = i, block_text = Some t, block_children = Some cs,
     block_parent = p, block_type = None\<rparr>"

definition tree_test_blocks :: blocks where
  "tree_test_blocks =
     [(js ''1'', blk (js ''1'') [0x6839, 0x8282, 0x70B9] [js ''2'', js ''3''] None),
      (js ''2'', blk (js ''2'') [0x5B50, 0x8282, 0x70B9, 0x31] [] None),
      (js ''3'', blk (js ''3'') [0x5B50, 0x8282, 0x70B9, 0x32] [js ''4''] None),
      (js ''4'', blk (js ''4'') [0x5B59, 0x8282, 0x70B9] [] None)]"

definition root_test_blocks :: blocks where
  "root_test_blocks =
     [(js ''1'', blk (js ''1'') [0x6839, 0x8282, 0x70B9, 0x31] [js ''2''] None),
      (js ''2'', blk (js ''2'') [0x5B50, 0x8282, 0x70B9] [] (Some (js ''1''))),
      (js ''3'', blk (js ''3'') [0x6839, 0x8282, 0x70B9, 0x32] [] None)]"

definition missing_test_blocks :: blocks where
  "missing_test_blocks = [(js ''1'', blk (js ''1'') [0x5B58, 0x5728, 0x7684, 0x5757] [] None)]"

subsection \<open>One unfolding of buildTree per outcome\<close>

lemma buildTree_missing_eq: "obj_get bs a = None \<Longrightarrow> buildTree a bs l = Some (invalid_node a l)"
  by (subst buildTree.simps) simp

lemma buildTree_no_id:
  "obj_get bs a = Some b \<Longrightarrow> block_id b = [] \<Longrightarrow> buildTree a bs l = Some (invalid_node a l)"
  by (subst buildTree.simps) simp

lemma buildTree_suppressed:
  "obj_get bs a = Some b \<Longrightarrow> block_id b \<noteq> [] \<Longrightarrow> \<not> expands b \<Longrightarrow>
   buildTree a bs l = Some (TreeNode (block_id b) [] [] l (block_parent b))"
  by (subst buildTree.simps) (simp add: expands_def Let_def)

lemma buildTree_expands:
  "obj_get bs a = Some b \<Longrightarrow> expands b \<Longrightarrow>
   buildTree a bs l =
     Option.bind (map_opt (\<lambda>c. buildTree c bs (Suc l)) (filter (child_ok bs) (children_of b)))
       (\<lambda>kids. Some (TreeNode (block_id b) (sanitizeInput (JString (text_of b)))
          (filter (\<lambda>n. js_trim (content n) \<noteq> []) kids) l (block_parent b)))"
  by (subst buildTree.simps) (simp add: expands_def Let_def)

lemma buildTree_node:
  "obj_get bs a = Some b \<Longrightarrow> expands b \<Longrightarrow>
   map_opt (\<lambda>c. buildTree c bs (Suc l)) (filter (child_ok bs) (children_of b)) = Some kids \<Longrightarrow>
   buildTree a bs l = Some (TreeNode (block_id b) (sanitizeInput (JString (text_of b)))
     (filter (\<lambda>n. js_trim (content n) \<noteq> []) kids) l (block_parent b))"
  by (simp only: buildTree_expands Option.bind_lunit)

lemma buildTree_leaf:
  "obj_get bs a = Some b \<Longrightarrow> expands b \<Longrightarrow> filter (child_ok bs) (children_of b) = [] \<Longrightarrow>
   buildTree a bs l = Some (TreeNode (block_id b) (sanitizeInput (JString (text_of b))) [] l (block_parent b))"
  using buildTree_node[of bs a b l "[]"] by simp

lemma obj_get_in_set: "obj_get bs a = Some b \<Longrightarrow> (a, b) \<in> set bs"
  by (simp add: obj_get_def map_of_SomeD)

lemma js_trim_nonblank: "js_trim c \<noteq> [] \<Longrightarrow> c \<noteq> []"
  by (auto simp: js_trim_def)

lemmas tree_eval = tree_test_blocks_def blk_def obj_get_def expands_def is_noise_def
  isTableRelatedBlock_def is_table_cell_text_def tableKeywords_def text_of_def children_of_def
  child_ok_def has_text_def sanitize_eval

lemmas keys_eval = object_keys_def is_array_index_def digits_value_def

subsection \<open>Termination and non-termination\<close>

text \<open>C1: On a mapping whose traversed child edges are ranked, \<open>buildTree\<close> returns a
  tree from every key and level.\<close>

theorem buildTree_terminates: "ranked bs rk \<Longrightarrow> \<exists>t. buildTree a bs l = Some t"
proof (induction "rk a" arbitrary: a l rule: less_induct)
  case less
  show ?case
  proof (cases "obj_get bs a")
    case None
    then show ?thesis by (simp add: buildTree_missing_eq)
  next
    case (Some b)
    show ?thesis
    proof (cases "expands b")
      case False
      with Some show ?thesis
        by (cases "block_id b = []") (simp_all add: buildTree_no_id buildTree_suppressed)
    next
      case True
      let ?cs = "filter (child_ok bs) (children_of b)"
      have "\<forall>c \<in> set ?cs. rk c < rk a"
        using less.prems True obj_get_in_set[OF Some] by (auto simp: ranked_def)
      then have "\<forall>c \<in> set ?cs. buildTree c bs (Suc l) \<noteq> None"
        using less.hyps less.prems by blast
      then have "map_opt (\<lambda>c. buildTree c bs (Suc l)) ?cs \<noteq> None"
        by (simp only: map_opt_None_iff) blast
      then obtain kids where k: "map_opt (\<lambda>c. buildTree c bs (Suc l)) ?cs = Some kids"
        by blast
      show ?thesis
        by (simp only: buildTree_expands[OF Some True] k Option.bind_lunit) blast
    qed
  qed
qed

theorem buildTree_terminates_witness:
  "ranked tree_test_blocks (\<lambda>k. if k = js ''1'' then 2 else if k = js ''3'' then 1 else 0) \<and>
   (\<exists>t. buildTree (js ''1'') tree_test_blocks 0 = Some t)"
proof -
  have r: "ranked tree_test_blocks (\<lambda>k. if k = js ''1'' then 2 else if k = js ''3'' then 1 else 0)"
    by (simp add: ranked_def tree_eval)
  show ?thesis using r buildTree_terminates[OF r] by blast
qed

lemma buildTree_returns_outside_cycle:
  assumes S: "cycle_closed bs S" and ret: "buildTree a bs' l = Some t"
  shows "bs' = bs \<longrightarrow> a \<notin> set S"
proof (rule buildTree.raw_induct[where P = "\<lambda>a bs' l t. bs' = bs \<longrightarrow> a \<notin> set S", OF _ ret])
  fix f :: "jstr \<Rightarrow> blocks \<Rightarrow> nat \<Rightarrow> tree_node option" and a' bs' l' t'
  assume IH: "\<And>x y z w. f x y z = Some w \<Longrightarrow> y = bs \<longrightarrow> x \<notin> set S"
    and eq: "(case obj_get bs' a' of
      None \<Rightarrow> Some (invalid_node a' l')
      | Some block \<Rightarrow>
          if block_id block = [] then Some (invalid_node a' l')
          else let cnt = sanitizeInput (JString (text_of block))
               in if js_trim cnt = [] \<or> is_noise block
                  then Some (TreeNode (block_id block) [] [] l' (block_parent block))
                  else Option.bind
                        (map_opt (\<lambda>c. f c bs' (Suc l')) (filter (child_ok bs') (children_of block)))
                        (\<lambda>kids. Some (TreeNode (block_id block) cnt
                               (filter (\<lambda>n. js_trim (content n) \<noteq> []) kids) l' (block_parent block)))) =
     Some t'"
  show "bs' = bs \<longrightarrow> a' \<notin> set S"
  proof (intro impI notI)
    assume bs: "bs' = bs" and a': "a' \<in> set S"
    with S obtain b where b: "obj_get bs a' = Some b" and e: "expands b"
      and "\<exists>c \<in> set (children_of b). child_ok bs c \<and> c \<in> set S"
      by (auto simp: cycle_closed_def list_all_iff list_ex_iff split: option.splits)
    then obtain c where c: "c \<in> set (filter (child_ok bs) (children_of b))" "c \<in> set S"
      by auto
    let ?m = "map_opt (\<lambda>c. f c bs (Suc l')) (filter (child_ok bs) (children_of b))"
    from e have "block_id b \<noteq> []" "\<not> (js_trim (sanitizeInput (JString (text_of b))) = [] \<or> is_noise b)"
      by (simp_all add: expands_def)
    with eq b bs have "Option.bind ?m (\<lambda>kids. Some (TreeNode (block_id b) (sanitizeInput (JString (text_of b)))
        (filter (\<lambda>n. js_trim (content n) \<noteq> []) kids) l' (block_parent b))) = Some t'"
      by (simp only: option.case if_False Let_def)
    then have "?m \<noteq> None" by (cases ?m) simp_all
    with c(1) have "f c bs (Suc l') \<noteq> None"
      unfolding map_opt_None_iff by (metis (no_types, lifting))
    with IH c(2) show False by blast
  qed
qed

text \<open>C2: On a cycle of expanding blocks \<open>buildTree\<close> never returns: the source keeps no
  visited set (the spec, section 4.2, requires one).\<close>

theorem buildTree_cycle_diverges:
  assumes "cycle_closed bs S" and "a \<in> set S"
  shows "buildTree a bs l = None"
proof (rule ccontr)
  assume "buildTree a bs l \<noteq> None"
  then obtain t where "buildTree a bs l = Some t" by blast
  with buildTree_returns_outside_cycle[OF assms(1)] assms(2) show False by blast
qed

theorem buildTree_cycle_diverges_witness:
  "cycle_closed [(js ''a'', blk (js ''a'') (js ''x'') [js ''a''] None)] [js ''a''] \<and>
   buildTree (js ''a'') [(js ''a'', blk (js ''a'') (js ''x'') [js ''a''] None)] 0 = None \<and>
   cycle_closed [(js ''a'', blk (js ''a'') (js ''x'') [js ''b''] None),
                 (js ''b'', blk (js ''b'') (js ''y'') [js ''a''] None)] [js ''a'', js ''b''] \<and>
   buildTree (js ''a'') [(js ''a'', blk (js ''a'') (js ''x'') [js ''b''] None),
                         (js ''b'', blk (js ''b'') (js ''y'') [js ''a''] None)] 0 = None"
proof -
  have c1: "cycle_closed [(js ''a'', blk (js ''a'') (js ''x'') [js ''a''] None)] [js ''a'']"
    by (simp add: cycle_closed_def tree_eval)
  have c2: "cycle_closed [(js ''a'', blk (js ''a'') (js ''x'') [js ''b''] None),
                 (js ''b'', blk (js ''b'') (js ''y'') [js ''a''] None)] [js ''a'', js ''b'']"
    by (simp add: cycle_closed_def tree_eval)
  show ?thesis
    using c1 c2 buildTree_cycle_diverges[OF c1, of "js ''a''" 0]
      buildTree_cycle_diverges[OF c2, of "js ''a''" 0] by simp
qed

subsection \<open>The trees buildTree returns\<close>

lemma buildTree_tree_ok_aux:
  assumes ret: "buildTree a bs' l = Some t"
  shows "bs' = bs \<longrightarrow> tree_ok bs l t"
proof (rule buildTree.raw_induct[where P = "\<lambda>a bs' l t. bs' = bs \<longrightarrow> tree_ok bs l t", OF _ ret])
  fix f :: "jstr \<Rightarrow> blocks \<Rightarrow> nat \<Rightarrow> tree_node option" and a' bs' l' t'
  assume IH: "\<And>x y z w. f x y z = Some w \<Longrightarrow> y = bs \<longrightarrow> tree_ok bs z w"
    and eq: "(case obj_get bs' a' of
      None \<Rightarrow> Some (invalid_node a' l')
      | Some block \<Rightarrow>
          if block_id block = [] then Some (invalid_node a' l')
          else let cnt = sanitizeInput (JString (text_of block))
               in if js_trim cnt = [] \<or> is_noise block
                  then Some (TreeNode (block_id block) [] [] l' (block_parent block))
                  else Option.bind
                        (map_opt (\<lambda>c. f c bs' (Suc l')) (filter (child_ok bs') (children_of block)))
                        (\<lambda>kids. Some (TreeNode (block_id block) cnt
                               (filter (\<lambda>n. js_trim (content n) \<noteq> []) kids) l' (block_parent block)))) =
     Some t'"
  show "bs' = bs \<longrightarrow> tree_ok bs l' t'"
  proof
    assume bs: "bs' = bs"
    show "tree_ok bs l' t'"
    proof (cases "obj_get bs a'")
      case None
      with eq bs show ?thesis by (auto simp: invalid_node_def)
    next
      case (Some b)
      show ?thesis
      proof (cases "expands b")
        case False
        with eq bs Some show ?thesis
          by (cases "block_id b = []") (auto simp: invalid_node_def expands_def Let_def)
      next
        case True
        let ?m = "map_opt (\<lambda>c. f c bs (Suc l')) (filter (child_ok bs) (children_of b))"
        let ?c = "sanitizeInput (JString (text_of b))"
        from True have nb: "block_id b \<noteq> []" "js_trim ?c \<noteq> []" "\<not> is_noise b"
          by (simp_all add: expands_def)
        with eq bs Some have m: "Option.bind ?m (\<lambda>kids. Some (TreeNode (block_id b) ?c
            (filter (\<lambda>n. js_trim (content n) \<noteq> []) kids) l' (block_parent b))) = Some t'"
          by (simp only: option.case if_False Let_def simp_thms)
        then obtain kids where k: "?m = Some kids"
          and t': "t' = TreeNode (block_id b) ?c (filter (\<lambda>n. js_trim (content n) \<noteq> []) kids) l' (block_parent b)"
          by (cases ?m) auto
        have kids_ok: "tree_ok bs (Suc l') n" if "n \<in> set kids" for n
          using map_opt_set[OF k that] IH by blast
        have "(a', b) \<in> set bs" using Some by (rule obj_get_in_set)
        with True nb(2) kids_ok show ?thesis
          by (auto simp: t' dest: js_trim_nonblank)
      qed
    qed
  qed
qed

text \<open>C3: Every tree \<open>buildTree\<close> returns is well formed (\<open>tree_ok\<close>).\<close>

theorem buildTree_wf: "buildTree a bs l = Some t \<Longrightarrow> tree_ok bs l t"
  using buildTree_tree_ok_aux by blast

definition leaf_test_blocks :: blocks where
  "leaf_test_blocks = [(js ''a'', blk (js ''a'') (js ''x'') [] None)]"

lemma buildTree_leaf_test:
  "buildTree (js ''a'') leaf_test_blocks 0 = Some (TreeNode (js ''a'') (js ''x'') [] 0 None)"
proof -
  have g: "obj_get leaf_test_blocks (js ''a'') = Some (blk (js ''a'') (js ''x'') [] None)"
    by (simp add: leaf_test_blocks_def obj_get_def js_def)
  have e: "expands (blk (js ''a'') (js ''x'') [] None)" by (simp add: tree_eval)
  show ?thesis
    by (rule buildTree_leaf[OF g e, THEN trans]) (simp_all add: tree_eval)
qed

theorem buildTree_wf_witness:
  "buildTree (js ''a'') leaf_test_blocks 0 = Some (TreeNode (js ''a'') (js ''x'') [] 0 None) \<and>
   tree_ok leaf_test_blocks 0 (TreeNode (js ''a'') (js ''x'') [] 0 None)"
  using buildTree_leaf_test buildTree_wf[OF buildTree_leaf_test] by simp

lemma tree_ok_nodes:
  "tree_ok bs l t \<Longrightarrow> n \<in> set (nodes t) \<Longrightarrow> content n \<noteq> [] \<Longrightarrow>
   \<exists>(k, b) \<in> set bs. expands b \<and> content n = sanitizeInput (JString (text_of b))"
proof (induction t arbitrary: l)
  case (TreeNode i c ks lv p)
  show ?case
  proof (cases "n = TreeNode i c ks lv p")
    case True
    with TreeNode.prems show ?thesis by auto
  next
    case False
    with TreeNode.prems obtain k where "k \<in> set ks" "n \<in> set (nodes k)" "tree_ok bs (Suc l) k"
      by auto
    with TreeNode.IH TreeNode.prems(3) show ?thesis by blast
  qed
qed

text \<open>The node for a missing block has the empty string as content, not the
  placeholder \<open>'unknown block'\<close> the spec names nor the one the unit test expects
  (U+672A U+77E5 U+5757).\<close>

theorem buildTree_missing_content:
  "map_option content (buildTree (js ''999'') missing_test_blocks 0) = Some [] \<and>
   [] \<noteq> ([0x672A, 0x77E5, 0x5757] :: jstr)"
proof -
  have "obj_get missing_test_blocks (js ''999'') = None"
    by (simp add: missing_test_blocks_def obj_get_def js_def)
  then show ?thesis by (simp add: buildTree_missing_eq invalid_node_def)
qed

text \<open>The unit test's tree: root, two children, one grandchild under the second.\<close>

theorem buildTree_test_example:
  "buildTree (js ''1'') tree_test_blocks 0 =
     Some (TreeNode (js ''1'') [0x6839, 0x8282, 0x70B9]
       [TreeNode (js ''2'') [0x5B50, 0x8282, 0x70B9, 0x31] [] 1 None,
        TreeNode (js ''3'') [0x5B50, 0x8282, 0x70B9, 0x32]
          [TreeNode (js ''4'') [0x5B59, 0x8282, 0x70B9] [] 2 None] 1 None] 0 None)"
proof -
  let ?bs = tree_test_blocks
  let ?b1 = "blk (js ''1'') [0x6839, 0x8282, 0x70B9] [js ''2'', js ''3''] None"
  let ?b2 = "blk (js ''2'') [0x5B50, 0x8282, 0x70B9, 0x31] [] None"
  let ?b3 = "blk (js ''3'') [0x5B50, 0x8282, 0x70B9, 0x32] [js ''4''] None"
  let ?b4 = "blk (js ''4'') [0x5B59, 0x8282, 0x70B9] [] None"
  have g: "obj_get ?bs (js ''1'') = Some ?b1" "obj_get ?bs (js ''2'') = Some ?b2"
    "obj_get ?bs (js ''3'') = Some ?b3" "obj_get ?bs (js ''4'') = Some ?b4"
    by (simp_all add: tree_test_blocks_def obj_get_def js_def)
  have e: "expands ?b1" "expands ?b2" "expands ?b3" "expands ?b4"
    by (simp_all add: tree_eval)
  have t4: "buildTree (js ''4'') ?bs 2 = Some (TreeNode (js ''4'') [0x5B59, 0x8282, 0x70B9] [] 2 None)"
    by (rule buildTree_leaf[OF g(4) e(4), THEN trans]) (simp_all add: tree_eval)
  have t2: "buildTree (js ''2'') ?bs 1 = Some (TreeNode (js ''2'') [0x5B50, 0x8282, 0x70B9, 0x31] [] 1 None)"
    by (rule buildTree_leaf[OF g(2) e(2), THEN trans]) (simp_all add: tree_eval)
  have f3: "filter (child_ok ?bs) (children_of ?b3) = [js ''4'']" by (simp add: tree_eval)
  have "map_opt (\<lambda>c. buildTree c ?bs (Suc 1)) (filter (child_ok ?bs) (children_of ?b3)) =
      Some [TreeNode (js ''4'') [0x5B59, 0x8282, 0x70B9] [] 2 None]"
    unfolding f3 using t4 by (simp add: numeral_2_eq_2)
  from buildTree_node[OF g(3) e(3) this]
  have t3: "buildTree (js ''3'') ?bs 1 = Some (TreeNode (js ''3'') [0x5B50, 0x8282, 0x70B9, 0x32]
       [TreeNode (js ''4'') [0x5B59, 0x8282, 0x70B9] [] 2 None] 1 None)"
    by (simp add: tree_eval)
  have f1: "filter (child_ok ?bs) (children_of ?b1) = [js ''2'', js ''3'']" by (simp add: tree_eval)
  have "map_opt (\<lambda>c. buildTree c ?bs (Suc 0)) (filter (child_ok ?bs) (children_of ?b1)) =
      Some [TreeNode (js ''2'') [0x5B50, 0x8282, 0x70B9, 0x31] [] 1 None,
        TreeNode (js ''3'') [0x5B50, 0x8282, 0x70B9, 0x32]
          [TreeNode (js ''4'') [0x5B59, 0x8282, 0x70B9] [] 2 None] 1 None]"
    unfolding f1 using t2 t3 by simp
  from buildTree_node[OF g(1) e(1) this] show ?thesis
    by (simp add: tree_eval)
qed

subsection \<open>Root discovery\<close>

lemma root_ok_key: "root_ok bs k \<Longrightarrow> k \<in> set (object_keys bs)"
  by (auto simp: root_ok_def set_object_keys_dom split: option.splits)

text \<open>C6: \<open>findRootBlocks\<close> lists, each once, exactly the keys whose block has a
  non-empty id and a non-blank text, is not noise (a \<open>table2\<close> block, a table keyword,
  a numbered table-cell label), and whose parent is unset, empty or names no block.\<close>

theorem findRootBlocks_spec:
  assumes "obj_wf bs"
  shows "distinct (findRootBlocks bs) \<and>
    (k \<in> set (findRootBlocks bs) \<longleftrightarrow>
      (\<exists>b. obj_get bs k = Some b \<and> block_id b \<noteq> [] \<and> has_text b \<and> \<not> is_noise b \<and>
           (case block_parent b of None \<Rightarrow> True | Some p \<Rightarrow> p = [] \<or> obj_get bs p = None)))"
proof -
  have "k \<in> set (findRootBlocks bs) \<longleftrightarrow> root_ok bs k"
    using root_ok_key by (auto simp: findRootBlocks_def)
  also have "\<dots> \<longleftrightarrow> (\<exists>b. obj_get bs k = Some b \<and> block_id b \<noteq> [] \<and> has_text b \<and> \<not> is_noise b \<and>
           (case block_parent b of None \<Rightarrow> True | Some p \<Rightarrow> p = [] \<or> obj_get bs p = None))"
    by (auto simp: root_ok_def split: option.splits)
  finally show ?thesis
    using distinct_object_keys[OF assms] by (simp add: findRootBlocks_def)
qed

theorem findRootBlocks_spec_witness:
  "obj_wf root_test_blocks \<and> distinct (findRootBlocks root_test_blocks) \<and>
   (js ''1'' \<in> set (findRootBlocks root_test_blocks) \<longleftrightarrow>
      (\<exists>b. obj_get root_test_blocks (js ''1'') = Some b \<and> block_id b \<noteq> [] \<and> has_text b \<and>
           \<not> is_noise b \<and> (case block_parent b of None \<Rightarrow> True
                              | Some p \<Rightarrow> p = [] \<or> obj_get root_test_blocks p = None)))"
proof -
  have w: "obj_wf root_test_blocks" by (simp add: obj_wf_def root_test_blocks_def js_def)
  show ?thesis using w findRootBlocks_spec[OF w, of "js ''1''"] by blast
qed

text \<open>When no key is an array index, the roots come in insertion order.\<close>

theorem findRootBlocks_insertion_order:
  "\<forall>k \<in> set (map fst bs). \<not> is_array_index k \<Longrightarrow> findRootBlocks bs = filter (root_ok bs) (map fst bs)"
  by (simp add: findRootBlocks_def object_keys_no_index)

theorem findRootBlocks_insertion_order_witness:
  "findRootBlocks [(js ''a'', blk (js ''a'') (js ''r'') [] None)] = [js ''a'']"
proof -
  have h: "\<forall>k \<in> set (map fst [(js ''a'', blk (js ''a'') (js ''r'') [] None)]). \<not> is_array_index k"
    by (simp add: is_array_index_def js_def js_eval)
  show ?thesis
    using findRootBlocks_insertion_order[OF h] by (simp add: root_ok_def tree_eval)
qed

text \<open>The unit test's mapping has the roots \<open>1\<close> and \<open>3\<close>, never \<open>2\<close>.\<close>

theorem findRootBlocks_test_example: "findRootBlocks root_test_blocks = [js ''1'', js ''3'']"
  by (simp add: findRootBlocks_def root_test_blocks_def root_ok_def keys_eval tree_eval)

text \<open>Keys that are array indices come first, in numeric order, whatever the
  insertion order: the spec (section 4.3) promises insertion order.\<close>

theorem findRootBlocks_index_keys_first:
  "findRootBlocks [(js ''b'', blk (js ''b'') (js ''r1'') [] None),
                   (js ''1'', blk (js ''1'') (js ''r2'') [] None)] = [js ''1'', js ''b'']"
  by (simp add: findRootBlocks_def root_ok_def keys_eval tree_eval)

end
