(* ===== verification/JS_Number.thy ===== *)
theory JS_Number
  imports JS_Prelude
begin

text \<open>
  Numbers where the source turns them into strings or reads them back: \<open>String(n)\<close>
  of a non-negative integer (\<open>nat_str\<close>, used for the \<open>data-level\<close> attributes, the
  font sizes and the counts the markup shows), and \<open>parseInt(s)\<close> without a radix
  (\<open>js_parseInt\<close>, used by the click handler of \<open>MindMap.ts\<close> on those attributes),
  with \<open>NaN\<close> as \<open>None\<close> and comparisons that are false on \<open>NaN\<close>. The main
  lemma is the round trip \<open>parseInt(String(n)) = n\<close>. Integral values only: the
  numbers the source prints and parses are counts and depths. \<open>Number(s)\<close> of a string
  (\<open>js_Number\<close>, used by the version check of \<open>main.ts\<close> on the pieces of
  \<open>split('.')\<close>, \<open>split_on\<close>) gives a decimal value \<open>m \<cdot> 10^e\<close> exactly, \<open>NaN\<close> or an
  infinity; it reads back \<open>String(n)\<close> as \<open>n\<close>.
\<close>

subsection \<open>Numbers in strings\<close>

text \<open>\<open>String(n)\<close> of a non-negative integral number below \<open>10^21\<close>: its decimal digits.\<close>

definition digit_char :: "nat \<Rightarrow> code_unit" where
  "digit_char d = of_nat (48 + d)"

fun nat_str :: "nat \<Rightarrow> jstr" where
  "nat_str n = (if n < 10 then [digit_char n] else nat_str (n div 10) @ [digit_char (n mod 10)])"

declare nat_str.simps [simp del]

definition int_str :: "int \<Rightarrow> jstr" where
  "int_str i = (if i < 0 then 0x2D # nat_str (nat (- i)) else nat_str (nat i))"

text \<open>The value of a code unit as a digit of radix up to 36 (36: no digit).\<close>

definition digit_val :: "code_unit \<Rightarrow> nat" where
  "digit_val c =
     (if 0x30 \<le> c \<and> c \<le> 0x39 then unat c - 48
      else if 0x61 \<le> c \<and> c \<le> 0x7A then unat c - 87
      else if 0x41 \<le> c \<and> c \<le> 0x5A then unat c - 55 else 36)"

definition radix_value :: "nat \<Rightarrow> jstr \<Rightarrow> nat" where
  "radix_value r ds = foldl (\<lambda>n c. r * n + digit_val c) 0 ds"

text \<open>\<open>parseInt(s)\<close> without a radix (ECMA-262 \<open>parseInt\<close>): leading white space, a
  sign, the prefix \<open>0x\<close> or \<open>0X\<close> selecting radix 16, then the longest run of digits;
  no digit gives \<open>NaN\<close>, here \<open>None\<close>.\<close>

definition js_parseInt :: "jstr \<Rightarrow> int option" where
  "js_parseInt s =
     (let s1 = dropWhile is_js_space s;
          neg = (s1 \<noteq> [] \<and> hd s1 = 0x2D);
          s2 = (if s1 \<noteq> [] \<and> (hd s1 = 0x2D \<or> hd s1 = 0x2B) then tl s1 else s1);
          hex = (take 2 s2 = js ''0x'' \<or> take 2 s2 = js ''0X'');
          r = (if hex then 16 else 10);
          ds = takeWhile (\<lambda>c. digit_val c < r) (if hex then drop 2 s2 else s2)
      in if ds = [] then None else Some ((if neg then -1 else 1) * int (radix_value r ds)))"

text \<open>Comparisons of numbers that may be \<open>NaN\<close>: every comparison with \<open>NaN\<close> is false.\<close>

fun num_le :: "int option \<Rightarrow> int option \<Rightarrow> bool" where
  "num_le (Some a) (Some b) = (a \<le> b)"
| "num_le _ _ = False"

fun num_eq :: "int option \<Rightarrow> int option \<Rightarrow> bool" where
  "num_eq (Some a) (Some b) = (a = b)"
| "num_eq _ _ = False"

subsection \<open>Number\<close>

text \<open>A number value: \<open>JNum m e\<close> is \<open>m \<cdot> 10^e\<close>, exact (the rounding to a double is not
  modelled), \<open>JNaN\<close>, and the infinities (\<open>True\<close>: positive).\<close>

datatype jsnum = JNum int int | JNaN | JInf bool

text \<open>\<open>Number(s)\<close> of a string (ECMA-262 StringToNumber): white space around is ignored,
  the empty string is \<open>0\<close>; \<open>0x\<close>, \<open>0o\<close> and \<open>0b\<close> literals without sign; otherwise a
  sign, then \<open>Infinity\<close> or decimal digits with an optional fraction and exponent;
  anything else is \<open>NaN\<close>.\<close>

definition js_exponent :: "jstr \<Rightarrow> int option" where
  "js_exponent r =
     (if r = [] then Some 0
      else if hd r \<noteq> 0x65 \<and> hd r \<noteq> 0x45 then None
      else (let u = tl r;
                neg = (u \<noteq> [] \<and> hd u = 0x2D);
                ds = (if u \<noteq> [] \<and> (hd u = 0x2D \<or> hd u = 0x2B) then tl u else u)
            in if ds \<noteq> [] \<and> list_all is_digit ds
               then Some ((if neg then -1 else 1) * int (radix_value 10 ds)) else None))"

definition js_Number :: "jstr \<Rightarrow> jsnum" where
  "js_Number s =
     (let t = js_trim s in
      if t = [] then JNum 0 0
      else if 2 < length t \<and> hd t = 0x30 \<and> t ! 1 \<in> {0x78, 0x58, 0x6F, 0x4F, 0x62, 0x42} then
        (let r = (if t ! 1 \<in> {0x78, 0x58} then 16 else if t ! 1 \<in> {0x6F, 0x4F} then 8 else 2);
             ds = drop 2 t
         in if list_all (\<lambda>c. digit_val c < r) ds then JNum (int (radix_value r ds)) 0 else JNaN)
      else
        (let neg = (hd t = 0x2D);
             u = (if hd t = 0x2D \<or> hd t = 0x2B then tl t else t)
         in if u = js ''Infinity'' then JInf (\<not> neg)
            else
              (let ip = takeWhile is_digit u; r1 = dropWhile is_digit u;
                   dot = (r1 \<noteq> [] \<and> hd r1 = 0x2E);
                   fp = (if dot then takeWhile is_digit (tl r1) else []);
                   r2 = (if dot then dropWhile is_digit (tl r1) else r1)
               in if ip @ fp = [] then JNaN
                  else (case js_exponent r2 of
                          None \<Rightarrow> JNaN
                        | Some x \<Rightarrow> JNum ((if neg then -1 else 1) * int (radix_value 10 (ip @ fp)))
                                        (x - int (length fp))))))"

text \<open>\<open>x < k\<close> and \<open>x === k\<close> for an integer \<open>k\<close>; \<open>undefined\<close> converts to \<open>NaN\<close>.\<close>

fun num_lt_int :: "jsnum \<Rightarrow> int \<Rightarrow> bool" where
  "num_lt_int (JNum m e) k = (if 0 \<le> e then m * 10 ^ nat e < k else m < k * 10 ^ nat (- e))"
| "num_lt_int JNaN k = False"
| "num_lt_int (JInf b) k = (\<not> b)"

fun num_eq_int :: "jsnum \<Rightarrow> int \<Rightarrow> bool" where
  "num_eq_int (JNum m e) k = (if 0 \<le> e then m * 10 ^ nat e = k else m = k * 10 ^ nat (- e))"
| "num_eq_int JNaN k = False"
| "num_eq_int (JInf b) k = False"

text \<open>\<open>s.split(d)\<close> with a one-code-unit separator: the pieces between separators.\<close>

fun split_on :: "code_unit \<Rightarrow> jstr \<Rightarrow> jstr list" where
  "split_on d [] = [[]]"
| "split_on d (c # cs) =
     (if c = d then [] # split_on d cs
      else (case split_on d cs of p # ps \<Rightarrow> (c # p) # ps | [] \<Rightarrow> [[c]]))"

subsection \<open>Printing and parsing back\<close>

lemma unat_digit_char: "m < 10 \<Longrightarrow> unat (digit_char m) = 48 + m"
  unfolding digit_char_def by (simp only: unat_of_nat) simp

lemma digit_val_digit_char [simp]: "m < 10 \<Longrightarrow> digit_val (digit_char m) = m"
  by (simp add: digit_val_def word_le_nat_alt unat_digit_char)

lemma digit_char_facts:
  assumes "m < 10"
  shows "\<not> is_js_space (digit_char m)" "digit_char m \<noteq> 0x2D" "digit_char m \<noteq> 0x2B"
    "digit_char m \<noteq> 0x78" "digit_char m \<noteq> 0x58" "digit_val (digit_char m) < 10"
  using assms unat_digit_char[OF assms]
  by (auto simp: is_js_space_def is_line_terminator_def word_le_nat_alt word_unat_eq_iff)

lemma nat_str_digits: "c \<in> set (nat_str n) \<Longrightarrow> \<exists>m < 10. c = digit_char m"
proof (induction n rule: nat_str.induct)
  case (1 n)
  have "\<exists>m<10. digit_char (n mod 10) = digit_char m" by (intro exI[of _ "n mod 10"]) simp
  with 1 show ?case by (subst (asm) nat_str.simps) (auto split: if_splits)
qed

lemma nat_str_not_Nil [simp]: "nat_str n \<noteq> []"
  by (subst nat_str.simps) simp

lemma radix_value_snoc: "radix_value r (xs @ [c]) = r * radix_value r xs + digit_val c"
  by (simp add: radix_value_def)

lemma radix_value_nat_str: "radix_value 10 (nat_str n) = n"
proof (induction n rule: nat_str.induct)
  case (1 n)
  then show ?case by (subst nat_str.simps) (simp add: radix_value_snoc radix_value_def)
qed

lemma nat_str_chars:
  "c \<in> set (nat_str n) \<Longrightarrow>
   \<not> is_js_space c \<and> c \<noteq> 0x2D \<and> c \<noteq> 0x2B \<and> c \<noteq> 0x78 \<and> c \<noteq> 0x58 \<and> digit_val c < 10"
proof -
  assume "c \<in> set (nat_str n)"
  then obtain m where "m < 10" "c = digit_char m" using nat_str_digits by blast
  then show ?thesis using digit_char_facts[of m] by simp
qed

lemma js_parseInt_nat_str: "js_parseInt (nat_str n) = Some (int n)"
proof -
  let ?s = "nat_str n"
  obtain c cs where s: "?s = c # cs" by (cases ?s) auto
  then have c: "\<not> is_js_space c" "c \<noteq> 0x2D" "c \<noteq> 0x2B" using nat_str_chars[of c n] by auto
  have x: "0x78 \<notin> set ?s" "0x58 \<notin> set ?s" using nat_str_chars by auto
  have "take 2 ?s \<noteq> js ''0x''"
  proof
    assume "take 2 ?s = js ''0x''"
    then have "0x78 \<in> set (take 2 ?s)" by (simp add: js_def)
    with x show False by (meson in_set_takeD)
  qed
  moreover have "take 2 ?s \<noteq> js ''0X''"
  proof
    assume "take 2 ?s = js ''0X''"
    then have "0x58 \<in> set (take 2 ?s)" by (simp add: js_def)
    with x show False by (meson in_set_takeD)
  qed
  moreover have "takeWhile (\<lambda>c. digit_val c < 10) ?s = ?s"
    using nat_str_chars by (simp add: takeWhile_eq_all_conv)
  ultimately show ?thesis
    using c by (simp add: js_parseInt_def Let_def s radix_value_nat_str[of n, unfolded s])
qed

lemma nat_str_inj: "nat_str a = nat_str b \<Longrightarrow> a = b"
  by (metis js_parseInt_nat_str of_nat_eq_iff option.inject)

lemma nat_str_zero: "nat_str 0 = js ''0''"
  by (simp add: nat_str.simps digit_char_def js_def)

lemma nat_str_digit: "n < 10 \<Longrightarrow> nat_str n = [digit_char n]"
  by (simp add: nat_str.simps)

lemma split_on_not_Nil [simp]: "split_on d s \<noteq> []"
  by (induction s) (auto split: list.splits)

lemma split_on_append_sep:
  "d \<notin> set a \<Longrightarrow> split_on d (a @ d # b) = a # split_on d b"
proof (induction a)
  case (Cons c a)
  then show ?case by auto
qed simp

lemma split_on_no_sep: "d \<notin> set a \<Longrightarrow> split_on d a = [a]"
proof (induction a)
  case (Cons c a)
  then show ?case by auto
qed simp

lemma dropWhile_none: "\<forall>c \<in> set s. \<not> P c \<Longrightarrow> dropWhile P s = s"
  by (cases s) auto

lemma nat_str_is_digit: "c \<in> set (nat_str n) \<Longrightarrow> is_digit c"
proof -
  assume "c \<in> set (nat_str n)"
  then obtain m where "m < 10" "c = digit_char m" using nat_str_digits by blast
  then show ?thesis by (simp add: is_digit_def word_le_nat_alt unat_digit_char)
qed

lemma js_trim_nat_str: "js_trim (nat_str n) = nat_str n"
proof -
  have "\<forall>c \<in> set (nat_str n). \<not> is_js_space c" using nat_str_chars by blast
  then show ?thesis by (simp add: js_trim_def dropWhile_none)
qed

lemma js_Number_nat_str: "js_Number (nat_str n) = JNum (int n) 0"
proof -
  let ?t = "nat_str n"
  have d: "\<forall>c \<in> set ?t. is_digit c" using nat_str_is_digit by blast
  obtain c cs where t: "?t = c # cs" by (cases ?t) auto
  have c: "is_digit c" using d t by simp
  have nh: "c \<noteq> 0x2D" "c \<noteq> 0x2B" using c by (auto simp: is_digit_def)
  have np: "\<not> (2 < length ?t \<and> hd ?t = 0x30 \<and> ?t ! 1 \<in> {0x78, 0x58, 0x6F, 0x4F, 0x62, 0x42})"
  proof
    assume A: "2 < length ?t \<and> hd ?t = 0x30 \<and> ?t ! 1 \<in> {0x78, 0x58, 0x6F, 0x4F, 0x62, 0x42}"
    then have "is_digit (?t ! 1)" using d by simp
    with A show False by (auto simp: is_digit_def)
  qed
  have ni: "?t \<noteq> js ''Infinity''" using c t by (auto simp: js_def is_digit_def)
  have tw: "takeWhile is_digit ?t = ?t" "dropWhile is_digit ?t = []"
    using d by (simp_all add: takeWhile_eq_all_conv dropWhile_eq_Nil_conv)
  have h: "hd ?t = c" "?t \<noteq> []" using t by simp_all
  have e: "js_exponent [] = Some 0" by (simp add: js_exponent_def)
  show ?thesis
    unfolding js_Number_def Let_def js_trim_nat_str
    using np ni nh h by (simp add: tw e radix_value_nat_str) blast
qed

end
