(* ===== verification/Renderer.thy ===== *)
theory Renderer
  imports Tree_Builder JS_Number
begin

text \<open>
  The renderer of \<open>src/src/components/MindMap.ts\<close> (class \<open>MindMapRenderer\<close>): the
  markup of a tree (\<open>renderTreeAsHTML\<close>, one \<open>div.mindmap-node\<close> per node with its
  depth in \<open>data-level\<close>), the panel markup (\<open>generateMindMapHTML\<close>) and the
  element list the browser builds from it (\<open>createInteractiveMindMap\<close>), and the
  handlers \<open>addInteractivity\<close> installs: the click handler that hides or shows the
  nodes one level below the clicked one, and the hover handlers. The node elements are
  siblings inside \<open>.mindmap-content\<close>, so the DOM the handlers walk is the
  pre-order list of the nodes with their depths (\<open>render_flat\<close>); each element keeps
  its \<open>data-level\<close>, \<open>style.display\<close> and class flags. The lemmas show that the markup
  is one element per node in pre-order, that a click on a node below the top level
  toggles exactly its direct children (against the reference \<open>child_positions\<close> on
  the tree), that two clicks restore what is shown, that nodes of the top two levels are
  never hidden, that grandchildren stay shown under a collapsed child, and that a
  sanitized content can still complete a tag with the template's own \<open>>\<close>.
\<close>

subsection \<open>The renderer of \<open>MindMap.ts\<close>\<close>

text \<open>\<open>getTextColor(depth)\<close> and \<open>getBullet(depth)\<close> (lines 131 to 147): the entry at
  \<open>min(depth, 4)\<close>; the bullets are U+25CF, U+25CB, U+25AA, U+25AB, U+2023, each with
  a space.\<close>

definition getTextColor :: "nat \<Rightarrow> jstr" where
  "getTextColor depth =
     [js ''var(--orca-color-text-1)'', js ''var(--orca-color-text-2)'', js ''var(--orca-color-text-3)'',
      js ''var(--orca-color-primary)'', js ''var(--orca-color-secondary)''] ! min depth 4"

definition getBullet :: "nat \<Rightarrow> jstr" where
  "getBullet depth = [[0x25CF, 0x20], [0x25CB, 0x20], [0x25AA, 0x20], [0x25AB, 0x20], [0x2023, 0x20]] ! min depth 4"

text \<open>The element one node renders to (lines 13 to 20).\<close>

definition node_line :: "nat \<Rightarrow> jstr \<Rightarrow> jstr \<Rightarrow> jstr" where
  \<open>node_line depth i c =
     concat (replicate depth (js ''  '')) @ js ''<div class="mindmap-node" data-level="'' @
     nat_str depth @ js ''" data-id="'' @ i @ js ''" style="margin: 5px 0; font-size: '' @
     int_str (max 12 (16 - int depth * 2)) @ js ''px; color: '' @ getTextColor depth @ js '';">'' @
     getBullet depth @ c @ js ''</div>'' @ [0x0A]\<close>

text \<open>\<open>renderTreeAsHTML(node, depth)\<close> (lines 12 to 27).\<close>

fun renderTreeAsHTML :: "tree_node \<Rightarrow> nat \<Rightarrow> jstr" where
  "renderTreeAsHTML (TreeNode i c ks lv p) depth =
     node_line depth i c @ concat (map (\<lambda>child. renderTreeAsHTML child (Suc depth)) ks)"

text \<open>\<open>generateMindMapHTML(trees, totalBlocks)\<close> (lines 30 to 59).\<close>

definition mindmap_header :: jstr where
  "mindmap_header =
     js ''\<newline>      <div class=\"mindmap-container\">\<newline>        <div class=\"mindmap-header\">\<newline>          <h3 class=\"mindmap-title\">\<newline>            '' @ [0xD83D, 0xDCD6] @ js '' '' @ [0x7B14, 0x8BB0, 0x5927, 0x7EB2, 0x7ED3, 0x6784] @ js ''\<newline>          </h3>\<newline>          <div class=\"mindmap-controls\">\<newline>            <button class=\"mindmap-btn\" onclick=\"this.closest('' @ [0x0027] @ js ''.mindmap-container'' @ [0x0027] @ js '').querySelector('' @ [0x0027] @ js ''.mindmap-content'' @ [0x0027] @ js '').classList.toggle('' @ [0x0027] @ js ''collapsed'' @ [0x0027] @ js '')\">\<newline>              '' @ [0x5207, 0x6362, 0x6298, 0x53E0] @ js ''\<newline>            </button>\<newline>          </div>\<newline>        </div>\<newline>        <div class=\"mindmap-content\">\<newline>    ''"

definition mindmap_footer :: "nat \<Rightarrow> jstr" where
  "mindmap_footer totalBlocks =
     js ''\<newline>        </div>\<newline>        <div class=\"mindmap-footer\">\<newline>          '' @ [0xD83D, 0xDCA1] @ js '' '' @ [0x5C42, 0x7EA7, 0x7ED3, 0x6784, 0x53EF, 0x89C6, 0x5316] @ js '' | '' @ [0x5171] @ js '' '' @
     nat_str totalBlocks @
     js '' '' @ [0x4E2A, 0x5757] @ js ''\<newline>        </div>\<newline>      </div>\<newline>    ''"

definition generateMindMapHTML :: "tree_node list \<Rightarrow> nat \<Rightarrow> jstr" where
  "generateMindMapHTML trees totalBlocks =
     mindmap_header @ concat (map (\<lambda>t. renderTreeAsHTML t 0) trees) @ mindmap_footer totalBlocks"

subsection \<open>The rendered nodes as elements\<close>

text \<open>The nodes in the order their elements appear, each with its depth: a pre-order
  walk. The elements are siblings inside \<open>.mindmap-content\<close>.\<close>

fun render_flat :: "nat \<Rightarrow> tree_node \<Rightarrow> (nat \<times> tree_node) list" where
  "render_flat d (TreeNode i c ks lv p) =
     (d, TreeNode i c ks lv p) # concat (map (render_flat (Suc d)) ks)"

definition forest_flat :: "tree_node list \<Rightarrow> (nat \<times> tree_node) list" where
  "forest_flat ts = concat (map (render_flat 0) ts)"

text \<open>A node element as the handlers see it: its \<open>data-level\<close> attribute, its
  \<open>style.display\<close> and whether its class list holds \<open>collapsed\<close> and \<open>hover\<close>.\<close>

record dom_node =
  dn_level :: jstr
  dn_display :: jstr
  dn_collapsed :: bool
  dn_hover :: bool

definition fresh_node :: "nat \<Rightarrow> dom_node" where
  "fresh_node d = \<lparr>dn_level = nat_str d, dn_display = [], dn_collapsed = False, dn_hover = False\<rparr>"

text \<open>\<open>createInteractiveMindMap(trees, totalBlocks)\<close> (lines 62 to 70): the markup
  and the node elements it parses to.\<close>

definition createInteractiveMindMap :: "tree_node list \<Rightarrow> nat \<Rightarrow> jstr \<times> dom_node list" where
  "createInteractiveMindMap trees totalBlocks =
     (generateMindMapHTML trees totalBlocks, map (fresh_node \<circ> fst) (forest_flat trees))"

text \<open>\<open>parseInt(el.dataset.level || '0')\<close>.\<close>

definition level_num :: "dom_node \<Rightarrow> int option" where
  "level_num e = js_parseInt (if dn_level e = [] then js ''0'' else dn_level e)"

text \<open>The loop of lines 85 to 97 from the element after the clicked one (index \<open>j\<close>):
  stop at the first element whose level is not above the current one, collect those
  exactly one level below.\<close>

fun collect_children :: "int option \<Rightarrow> dom_node list \<Rightarrow> nat \<Rightarrow> nat list" where
  "collect_children cur [] j = []"
| "collect_children cur (e # es) j =
     (if num_le (level_num e) cur then []
      else (if num_eq (level_num e) (map_option (\<lambda>l. l + 1) cur) then [j] else []) @
        collect_children cur es (Suc j))"

definition toggle_display :: "jstr \<Rightarrow> jstr" where
  "toggle_display d = (if d = js ''none'' then js ''block'' else js ''none'')"

definition toggle_display_at :: "nat \<Rightarrow> dom_node list \<Rightarrow> dom_node list" where
  "toggle_display_at j ns = ns[j := (ns ! j)\<lparr>dn_display := toggle_display (dn_display (ns ! j))\<rparr>]"

text \<open>The click handler of lines 75 to 108, clicked inside the node element at the given
  index (\<open>closest('.mindmap-node')\<close>; \<open>None\<close>: outside every node).\<close>

definition click_node :: "nat option \<Rightarrow> dom_node list \<Rightarrow> dom_node list" where
  "click_node t ns =
     (case t of
        None \<Rightarrow> ns
      | Some i \<Rightarrow>
          if i < length ns \<and> dn_level (ns ! i) \<noteq> js ''0'' then
            (let kids = collect_children (level_num (ns ! i)) (drop (Suc i) ns) (Suc i);
                 ns' = fold toggle_display_at kids ns
             in ns'[i := (ns' ! i)\<lparr>dn_collapsed := \<not> dn_collapsed (ns' ! i)\<rparr>])
          else ns)"

text \<open>The hover handlers of lines 111 to 127.\<close>

definition mouse_over :: "nat option \<Rightarrow> dom_node list \<Rightarrow> dom_node list" where
  "mouse_over t ns =
     (case t of None \<Rightarrow> ns | Some i \<Rightarrow> ns[i := (ns ! i)\<lparr>dn_hover := True\<rparr>])"

definition mouse_out :: "nat option \<Rightarrow> dom_node list \<Rightarrow> dom_node list" where
  "mouse_out t ns =
     (case t of None \<Rightarrow> ns | Some i \<Rightarrow> ns[i := (ns ! i)\<lparr>dn_hover := False\<rparr>])"

text \<open>The reference: the positions of the direct children, in the pre-order list, of a
  node whose first child sits at position \<open>j\<close>.\<close>

fun child_positions :: "nat \<Rightarrow> tree_node list \<Rightarrow> nat list" where
  "child_positions j [] = []"
| "child_positions j (k # ks) = j # child_positions (j + length (nodes k)) ks"

text \<open>Trees of the examples below: \<open>leaf i ks\<close> is a node with id and content \<open>i\<close>.\<close>

definition leaf :: "jstr \<Rightarrow> tree_node list \<Rightarrow> tree_node" where
  "leaf i ks = TreeNode i i ks 0 None"

definition chain_forest :: "tree_node list" where
  "chain_forest = [leaf (js ''r'') [leaf (js ''a'') [leaf (js ''b'') [leaf (js ''c'') []]]]]"

definition two_forest :: "tree_node list" where
  "two_forest = [leaf (js ''r'') [leaf (js ''a'') [leaf (js ''x'') [], leaf (js ''y'') []]],
                 leaf (js ''s'') [leaf (js ''b'') []]]"

definition img_payload :: jstr where
  "img_payload = js ''<img src=x onerror=alert(1)//''"

definition payload_blocks :: blocks where
  "payload_blocks = [(js ''x'', blk (js ''x'') img_payload [] None)]"

subsection \<open>The markup, node by node\<close>

lemma renderTreeAsHTML_flat:
  "renderTreeAsHTML t d = concat (map (\<lambda>(e, n). node_line e (node_id n) (content n)) (render_flat d t))"
proof (induction t arbitrary: d)
  case (TreeNode i c ks lv p)
  then have "concat (map (\<lambda>child. renderTreeAsHTML child (Suc d)) ks) =
      concat (map (\<lambda>child. concat (map (\<lambda>(e, n). node_line e (node_id n) (content n))
        (render_flat (Suc d) child))) ks)"
    by (intro arg_cong[where f=concat] map_cong) auto
  then show ?case by (simp add: map_concat comp_def concat_concat_map map_map)
qed

lemma length_render_flat: "length (render_flat d t) = length (nodes t)"
proof (induction t arbitrary: d)
  case (TreeNode i c ks lv p)
  have "sum_list (map (length \<circ> render_flat (Suc d)) ks) = sum_list (map (length \<circ> nodes) ks)"
    by (rule arg_cong[where f=sum_list], rule map_cong) (simp_all add: TreeNode)
  then show ?case by (simp add: length_concat)
qed

lemma render_flat_depth: "x \<in> set (render_flat d t) \<Longrightarrow> d \<le> fst x"
proof (induction t arbitrary: d)
  case (TreeNode i c ks lv p)
  then show ?case by (fastforce dest: Suc_leD)
qed

lemma level_num_fresh [simp]: "level_num (fresh_node e) = Some (int e)"
  by (simp add: level_num_def fresh_node_def js_parseInt_nat_str)



lemma collect_skip:
  "\<forall>x \<in> set xs. Suc (Suc d) \<le> fst x \<Longrightarrow>
   collect_children (Some (int d)) (map (fresh_node \<circ> fst) xs @ ys) j =
   collect_children (Some (int d)) ys (j + length xs)"
  by (induction xs arbitrary: j) auto

lemma collect_tree:
  "collect_children (Some (int d)) (map (fresh_node \<circ> fst) (render_flat (Suc d) t) @ ys) j =
   j # collect_children (Some (int d)) ys (j + length (nodes t))"
proof (cases t)
  case (TreeNode i c ks lv p)
  have "\<forall>x \<in> set (concat (map (render_flat (Suc (Suc d))) ks)). Suc (Suc d) \<le> fst x"
    using render_flat_depth by fastforce
  from collect_skip[OF this, of ys "Suc j"]
  have "collect_children (Some (int d)) (map (fresh_node \<circ> fst) (render_flat (Suc d) t) @ ys) j =
    j # collect_children (Some (int d)) ys (Suc j + length (concat (map (render_flat (Suc (Suc d))) ks)))"
    by (simp add: TreeNode)
  moreover have "j + length (nodes t) = Suc j + length (concat (map (render_flat (Suc (Suc d))) ks))"
    using length_render_flat[of "Suc d" t] by (simp add: TreeNode)
  ultimately show ?thesis by simp
qed

lemma collect_forest:
  "collect_children (Some (int d)) (map (fresh_node \<circ> fst) (concat (map (render_flat (Suc d)) ks)) @ ys) j =
   child_positions j ks @ collect_children (Some (int d)) ys (j + sum_list (map (length \<circ> nodes) ks))"
  by (induction ks arbitrary: j) (simp_all add: collect_tree add.assoc)

lemma collect_stop:
  "ys \<noteq> [] \<longrightarrow> fst (hd ys) \<le> d \<Longrightarrow> collect_children (Some (int d)) (map (fresh_node \<circ> fst) ys) j = []"
  by (cases ys) auto

lemma render_flat_hd: "\<exists>r. render_flat d t = (d, t) # r"
  by (cases t) simp

lemma forest_hd: "concat (map (render_flat d) ts) \<noteq> [] \<Longrightarrow> fst (hd (concat (map (render_flat d) ts))) = d"
proof (cases ts)
  case (Cons t ts')
  obtain r where "render_flat d t = (d, t) # r" using render_flat_hd by blast
  then show ?thesis by (simp add: Cons)
qed simp

lemma flat_decomp_forest_aux:
  assumes "\<And>t d i. t \<in> set ts \<Longrightarrow> i < length (render_flat d t) \<Longrightarrow>
    \<exists>pre e n post. render_flat d t = pre @ render_flat e n @ post \<and> length pre = i \<and> d \<le> e \<and>
      (post \<noteq> [] \<longrightarrow> fst (hd post) \<le> e)"
    and "i < length (concat (map (render_flat d) ts))"
  shows "\<exists>pre e n post. concat (map (render_flat d) ts) = pre @ render_flat e n @ post \<and> length pre = i \<and>
    d \<le> e \<and> (post \<noteq> [] \<longrightarrow> fst (hd post) \<le> e)"
  using assms
proof (induction ts arbitrary: i)
  case Nil
  then show ?case by simp
next
  case (Cons t ts)
  let ?rest = "concat (map (render_flat d) ts)"
  show ?case
  proof (cases "i < length (render_flat d t)")
    case True
    then obtain pre e n post where A: "render_flat d t = pre @ render_flat e n @ post" "length pre = i"
      "d \<le> e" "post \<noteq> [] \<longrightarrow> fst (hd post) \<le> e"
      using Cons.prems(1)[of t i d] by auto
    have "post @ ?rest \<noteq> [] \<longrightarrow> fst (hd (post @ ?rest)) \<le> e"
      using A(3,4) forest_hd[of d ts] by (cases post) auto
    with A show ?thesis
      by (intro exI[of _ pre] exI[of _ e] exI[of _ n] exI[of _ "post @ ?rest"]) simp
  next
    case False
    then have "i - length (render_flat d t) < length ?rest" using Cons.prems(2) by simp
    with Cons.IH[of "i - length (render_flat d t)"] Cons.prems(1)
    obtain pre e n post where A: "?rest = pre @ render_flat e n @ post"
      "length pre = i - length (render_flat d t)" "d \<le> e" "post \<noteq> [] \<longrightarrow> fst (hd post) \<le> e"
      by (metis list.set_intros(2))
    with False show ?thesis
      by (intro exI[of _ "render_flat d t @ pre"] exI[of _ e] exI[of _ n] exI[of _ post]) simp
  qed
qed

lemma flat_decomp_tree:
  "i < length (render_flat d t) \<Longrightarrow>
   \<exists>pre e n post. render_flat d t = pre @ render_flat e n @ post \<and> length pre = i \<and> d \<le> e \<and>
     (post \<noteq> [] \<longrightarrow> fst (hd post) \<le> e)"
proof (induction t arbitrary: d i)
  case (TreeNode x c ks lv p)
  show ?case
  proof (cases i)
    case 0
    then show ?thesis
      by (intro exI[of _ "[]"] exI[of _ d] exI[of _ "TreeNode x c ks lv p"] exI[of _ "[]"]) simp
  next
    case (Suc i')
    then have "i' < length (concat (map (render_flat (Suc d)) ks))" using TreeNode.prems by simp
    from flat_decomp_forest_aux[OF TreeNode.IH this] obtain pre e n post where
      A: "concat (map (render_flat (Suc d)) ks) = pre @ render_flat e n @ post" "length pre = i'"
        "Suc d \<le> e" "post \<noteq> [] \<longrightarrow> fst (hd post) \<le> e"
      by blast
    then show ?thesis
      by (intro exI[of _ "(d, TreeNode x c ks lv p) # pre"] exI[of _ e] exI[of _ n] exI[of _ post])
        (simp add: Suc)
  qed
qed

lemmas flat_decomp_forest = flat_decomp_forest_aux[OF flat_decomp_tree]

lemma child_positions_range:
  "p \<in> set (child_positions j ks) \<Longrightarrow> j \<le> p \<and> p < j + sum_list (map (length \<circ> nodes) ks)"
proof (induction j ks rule: child_positions.induct)
  case (2 j k ks)
  have "0 < length (nodes k)" by (cases k) simp
  with 2 show ?case by auto
qed simp

lemma distinct_child_positions: "distinct (child_positions j ks)"
proof (induction j ks rule: child_positions.induct)
  case (2 j k ks)
  have "0 < length (nodes k)" by (cases k) simp
  with 2 show ?case by (auto dest: child_positions_range)
qed simp

lemma length_fold_toggle [simp]: "length (fold toggle_display_at ps ns) = length ns"
  by (induction ps arbitrary: ns) (simp_all add: toggle_display_at_def)

lemma nth_fold_toggle:
  "distinct ps \<Longrightarrow> \<forall>p \<in> set ps. p < length ns \<Longrightarrow> j < length ns \<Longrightarrow>
   fold toggle_display_at ps ns ! j =
     (if j \<in> set ps then (ns ! j)\<lparr>dn_display := toggle_display (dn_display (ns ! j))\<rparr> else ns ! j)"
  by (induction ps arbitrary: ns) (auto simp: toggle_display_at_def nth_list_update)

lemma toggle_display_Nil: "toggle_display [] = js ''none''"
  by (simp add: toggle_display_def js_def)

lemma length_forest_flat: "length (concat (map (render_flat d) ks)) = sum_list (map (length \<circ> nodes) ks)"
  by (induction ks) (simp_all add: length_render_flat)

text \<open>C21: On the elements of a rendered forest, a click on a node below the top level
  hides exactly the elements of its direct children (their positions in the pre-order
  list, computed on the tree) and changes the display of no other element.\<close>

theorem click_node_hides_children:
  assumes i: "i < length (forest_flat ts)" and at: "forest_flat ts ! i = (e, n)" and e: "0 < e"
  shows "map dn_display (click_node (Some i) (map (fresh_node \<circ> fst) (forest_flat ts))) =
    map (\<lambda>j. if j \<in> set (child_positions (Suc i) (node_children n)) then js ''none'' else [])
      [0..<length (forest_flat ts)]"
proof -
  let ?fl = "forest_flat ts" and ?ns = "map (fresh_node \<circ> fst) (forest_flat ts)"
  let ?ks = "node_children n" and ?ps = "child_positions (Suc i) (node_children n)"
  obtain pre e' n' post where D: "?fl = pre @ render_flat e' n' @ post" "length pre = i"
    "post \<noteq> [] \<longrightarrow> fst (hd post) \<le> e'"
    using flat_decomp_forest[where i=i and d=0 and ts=ts] i unfolding forest_flat_def by blast
  obtain r where r: "render_flat e' n' = (e', n') # r" using render_flat_hd by blast
  with D at have en: "e' = e" "n' = n" by (simp_all add: nth_append)
  have rf: "render_flat e n = (e, n) # concat (map (render_flat (Suc e)) ?ks)"
    by (cases n) simp
  have drop: "drop (Suc i) ?ns = map (fresh_node \<circ> fst) (concat (map (render_flat (Suc e)) ?ks) @ post)"
    using D en rf by simp
  have nsi: "?ns ! i = fresh_node e" using D en rf by (simp add: nth_append)
  have lvl: "dn_level (?ns ! i) \<noteq> js ''0''"
    using e nsi nat_str_inj[of e 0] by (auto simp: fresh_node_def nat_str_zero)
  have kids: "collect_children (level_num (?ns ! i)) (drop (Suc i) ?ns) (Suc i) = ?ps"
    using D(3) en by (simp add: nsi drop collect_forest collect_stop)
  have "length ?fl = length pre + length (render_flat e n) + length post" using D en by simp
  then have bound: "\<forall>p \<in> set ?ps. p < length ?ns"
    using D(2) rf by (auto dest!: child_positions_range simp: length_forest_flat)
  have "i \<notin> set ?ps" using child_positions_range by fastforce
  then show ?thesis
    using i lvl kids bound distinct_child_positions
    by (intro nth_equalityI)
      (auto simp: click_node_def Let_def nth_fold_toggle nth_list_update toggle_display_Nil fresh_node_def)
qed

lemma collect_range: "p \<in> set (collect_children cur ns j) \<Longrightarrow> j \<le> p \<and> p < j + length ns"
  by (induction cur ns j rule: collect_children.induct) (auto split: if_splits)

lemma distinct_collect: "distinct (collect_children cur ns j)"
  by (induction cur ns j rule: collect_children.induct) (auto dest: collect_range)

lemma collect_level:
  "p \<in> set (collect_children cur ns j) \<Longrightarrow>
   num_eq (level_num (ns ! (p - j))) (map_option (\<lambda>l. l + 1) cur)"
proof (induction cur ns j rule: collect_children.induct)
  case (2 cur e es j)
  show ?case
  proof (cases "p = j")
    case False
    with 2 have "p \<in> set (collect_children cur es (Suc j))" by (auto split: if_splits)
    with 2 collect_range[OF this] show ?thesis by (auto split: if_splits simp: nth_Cons')
  qed (use 2 in \<open>auto split: if_splits dest: collect_range\<close>)
qed simp

lemma map_update_nth_id: "i < length xs \<Longrightarrow> (map f xs)[i := f (xs ! i)] = map f xs"
  by (metis list_update_id nth_map)

lemma map_level_toggle: "map dn_level (toggle_display_at a ns) = map dn_level ns"
  by (cases "a < length ns") (simp_all add: toggle_display_at_def map_update map_update_nth_id list_update_beyond)

lemma map_level_fold_toggle: "map dn_level (fold toggle_display_at ps ns) = map dn_level ns"
  by (induction ps arbitrary: ns) (simp_all add: map_level_toggle)

lemma click_node_levels:
  "map dn_level (click_node t ns) = map dn_level ns \<and> length (click_node t ns) = length ns"
proof (cases t)
  case (Some i)
  show ?thesis
  proof (cases "i < length ns \<and> dn_level (ns ! i) \<noteq> js ''0''")
    case True
    let ?ns' = "fold toggle_display_at (collect_children (level_num (ns ! i)) (drop (Suc i) ns) (Suc i)) ns"
    have m: "map dn_level ?ns' = map dn_level ns" by (rule map_level_fold_toggle)
    moreover have l: "length ?ns' = length ns" by simp
    moreover have "dn_level (?ns' ! i) = dn_level (ns ! i)"
      using True m l by (metis nth_map)
    ultimately show ?thesis
      using True Some by (simp add: click_node_def Let_def map_update map_update_nth_id)
  qed (use Some in \<open>auto simp: click_node_def\<close>)
qed (simp add: click_node_def)

lemma click_node_nth:
  assumes "i < length ns" "dn_level (ns ! i) \<noteq> js ''0''" "j < length ns"
  shows "click_node (Some i) ns ! j =
    (let ps = collect_children (level_num (ns ! i)) (drop (Suc i) ns) (Suc i);
         x' = (if j \<in> set ps then (ns ! j)\<lparr>dn_display := toggle_display (dn_display (ns ! j))\<rparr> else ns ! j)
     in if j = i then x'\<lparr>dn_collapsed := \<not> dn_collapsed x'\<rparr> else x')"
proof -
  let ?ps = "collect_children (level_num (ns ! i)) (drop (Suc i) ns) (Suc i)"
  have "\<forall>p \<in> set ?ps. p < length ns" using assms(1) by (auto dest: collect_range)
  then show ?thesis
    using assms distinct_collect[of "level_num (ns ! i)" "drop (Suc i) ns" "Suc i"]
    by (auto simp: click_node_def Let_def nth_list_update nth_fold_toggle)
qed

lemma level_num_nat_str: "dn_level x = nat_str d \<Longrightarrow> level_num x = Some (int d)"
  by (simp add: level_num_def js_parseInt_nat_str)

lemma click_keeps_top_levels:
  assumes lv: "map dn_level ns = map (nat_str \<circ> fst) fl" and k: "k < length ns" "fst (fl ! k) \<le> 1"
  shows "dn_display (click_node t ns ! k) = dn_display (ns ! k)"
proof (cases t)
  case (Some i)
  show ?thesis
  proof (cases "i < length ns \<and> dn_level (ns ! i) \<noteq> js ''0''")
    case True
    have len: "length fl = length ns" using lv by (metis length_map)
    have di: "dn_level (ns ! i) = nat_str (fst (fl ! i))" using lv True len by (metis comp_apply nth_map)
    then have i0: "fst (fl ! i) \<noteq> 0" using True nat_str_zero by (metis)
    have dk: "dn_level (ns ! k) = nat_str (fst (fl ! k))" using lv k len by (metis comp_apply nth_map)
    have "k \<notin> set (collect_children (level_num (ns ! i)) (drop (Suc i) ns) (Suc i))"
    proof
      assume A: "k \<in> set (collect_children (level_num (ns ! i)) (drop (Suc i) ns) (Suc i))"
      from collect_range[OF A] have "Suc i \<le> k" by simp
      then have "drop (Suc i) ns ! (k - Suc i) = ns ! k" using k by simp
      with collect_level[OF A] show False
        using level_num_nat_str[OF di] level_num_nat_str[OF dk] i0 k(2) by simp
    qed
    then show ?thesis using True k by (auto simp: Some click_node_nth Let_def)
  qed (use Some in \<open>auto simp: click_node_def\<close>)
qed (simp add: click_node_def)

lemma fold_click_keeps_top_levels:
  "map dn_level ns = map (nat_str \<circ> fst) fl \<Longrightarrow> j < length ns \<Longrightarrow> fst (fl ! j) \<le> 1 \<Longrightarrow>
   dn_display (fold click_node cs ns ! j) = dn_display (ns ! j)"
proof (induction cs arbitrary: ns)
  case (Cons c cs)
  have "map dn_level (click_node c ns) = map (nat_str \<circ> fst) fl" "j < length (click_node c ns)"
    using Cons.prems click_node_levels by metis+
  from Cons.IH[OF this Cons.prems(3)] click_keeps_top_levels[OF Cons.prems] show ?case by simp
qed simp

text \<open>C22: No sequence of clicks on a rendered forest hides a node of depth 0 or 1: the
  handler ignores clicks on top-level nodes, so their children can never be collapsed
  (the comment of line 74 promises that clicking a node folds its children).\<close>

theorem click_never_hides_top_levels:
  assumes "j < length (forest_flat ts)" and "fst (forest_flat ts ! j) \<le> 1"
  shows "dn_display (fold click_node cs (map (fresh_node \<circ> fst) (forest_flat ts)) ! j) = []"
  using fold_click_keeps_top_levels[of "map (fresh_node \<circ> fst) (forest_flat ts)" "forest_flat ts" j cs] assms
  by (simp add: fresh_node_def comp_def)

lemma forest_flat_two:
  "forest_flat two_forest =
     [(0, leaf (js ''r'') [leaf (js ''a'') [leaf (js ''x'') [], leaf (js ''y'') []]]),
      (1, leaf (js ''a'') [leaf (js ''x'') [], leaf (js ''y'') []]),
      (2, leaf (js ''x'') []), (2, leaf (js ''y'') []),
      (0, leaf (js ''s'') [leaf (js ''b'') []]), (1, leaf (js ''b'') [])]"
  by (simp add: forest_flat_def two_forest_def leaf_def)

lemma forest_flat_chain:
  "forest_flat chain_forest =
     [(0, leaf (js ''r'') [leaf (js ''a'') [leaf (js ''b'') [leaf (js ''c'') []]]]),
      (1, leaf (js ''a'') [leaf (js ''b'') [leaf (js ''c'') []]]),
      (2, leaf (js ''b'') [leaf (js ''c'') []]), (3, leaf (js ''c'') [])]"
  by (simp add: forest_flat_def chain_forest_def leaf_def)

theorem click_never_hides_top_levels_witness:
  "dn_display (fold click_node [Some 1, Some 2, Some 1, Some 0]
     (map (fresh_node \<circ> fst) (forest_flat chain_forest)) ! 1) = []"
proof -
  have "1 < length (forest_flat chain_forest)" "fst (forest_flat chain_forest ! 1) \<le> 1"
    by (simp_all add: forest_flat_chain)
  from click_never_hides_top_levels[OF this] show ?thesis .
qed

theorem click_node_hides_children_witness:
  "map dn_display (click_node (Some 1) (map (fresh_node \<circ> fst) (forest_flat two_forest))) =
     [[], [], js ''none'', js ''none'', [], []]"
proof -
  have "1 < length (forest_flat two_forest)" "forest_flat two_forest ! 1 = (1, leaf (js ''a'') [leaf (js ''x'') [], leaf (js ''y'') []])"
    "(0::nat) < 1" by (simp_all add: forest_flat_two)
  from click_node_hides_children[OF this] show ?thesis
    by (simp add: forest_flat_two leaf_def upt_rec)
qed

lemma fresh_node_sel [simp]:
  "dn_level (fresh_node d) = nat_str d" "dn_display (fresh_node d) = []"
  "dn_collapsed (fresh_node d) = False"
  by (simp_all add: fresh_node_def)



text \<open>Collapsing a node hides only its direct children: under the chain
  \<open>r, a, b, c\<close> a click on \<open>a\<close> hides \<open>b\<close> while \<open>c\<close>, the child of the hidden \<open>b\<close>,
  stays shown.\<close>

theorem click_leaves_grandchildren:
  "map dn_display (click_node (Some 1) (map (fresh_node \<circ> fst) (forest_flat chain_forest))) =
     [[], [], js ''none'', []]"
proof -
  have l1: "nat_str (Suc 0) = [0x31]" by (subst nat_str_digit) (simp_all add: digit_char_def)
  show ?thesis
    by (simp add: forest_flat_chain click_node_def l1 toggle_display_at_def toggle_display_def js_def)
qed

lemma renderTreeAsHTML_content:
  "sublist (c @ js ''</div>'') (renderTreeAsHTML (TreeNode i c ks lv p) d)"
proof -
  obtain X where "node_line d i c = X @ (c @ js ''</div>'') @ [0x0A]"
    by (simp add: node_line_def)
  then show ?thesis unfolding sublist_def
    by (intro exI[of _ X] exI[of _ "[0x0A] @ concat (map (\<lambda>child. renderTreeAsHTML child (Suc d)) ks)"]) simp
qed

lemma map_snd_render_flat: "map snd (render_flat d t) = nodes t"
proof (induction t arbitrary: d)
  case (TreeNode i c ks lv p)
  have "concat (map (\<lambda>x. map snd (render_flat (Suc d) x)) ks) = concat (map nodes ks)"
    by (rule arg_cong[where f=concat], rule map_cong) (simp_all add: TreeNode)
  then show ?case by (simp add: map_concat comp_def)
qed

text \<open>The panel markup is the fixed header, one element per node of the trees in
  pre-order with its depth, and the footer with the block count.\<close>

theorem generateMindMapHTML_nodes:
  "generateMindMapHTML ts cnt =
     mindmap_header @ concat (map (\<lambda>(e, n). node_line e (node_id n) (content n)) (forest_flat ts)) @
     mindmap_footer cnt"
  by (simp add: generateMindMapHTML_def forest_flat_def renderTreeAsHTML_flat map_concat comp_def
    concat_concat_map)

text \<open>C24: A block text \<open><img src=x onerror=alert(1)//\<close> passes the sanitizer
  unchanged (it has no \<open>>\<close>, so it is tag-free), becomes the content of its node, and
  the renderer inserts it unescaped before the template's \<open></div>\<close>: the markup then
  contains the complete tag \<open><img src=x onerror=alert(1)//</div>\<close>, an element with an
  event handler once the string is assigned to \<open>innerHTML\<close>.\<close>

theorem rendered_content_closes_tag:
  "buildTree (js ''x'') payload_blocks 0 = Some (TreeNode (js ''x'') img_payload [] 0 None) \<and>
   tag_free img_payload \<and> \<not> tag_free (img_payload @ js ''</div>'') \<and>
   sublist (img_payload @ js ''</div>'') (renderTreeAsHTML (TreeNode (js ''x'') img_payload [] 0 None) 0)"
proof -
  have g: "obj_get payload_blocks (js ''x'') = Some (blk (js ''x'') img_payload [] None)"
    by (simp add: payload_blocks_def obj_get_def js_def)
  have s: "sanitizeInput (JString img_payload) = img_payload"
    by (simp add: img_payload_def sanitize_eval)
  have n: "js_trim img_payload \<noteq> [] \<and> \<not> is_noise (blk (js ''x'') img_payload [] None)"
    by (simp add: blk_def is_noise_def isTableRelatedBlock_def img_payload_def tableKeywords_def
      is_table_cell_text_def js_trim_def js_def js_eval)
  have e: "expands (blk (js ''x'') img_payload [] None)"
    using n by (simp add: expands_def text_of_def blk_def s js_def)
  have t: "buildTree (js ''x'') payload_blocks 0 = Some (TreeNode (js ''x'') img_payload [] 0 None)"
    by (rule buildTree_leaf[OF g e, THEN trans]) (simp_all add: blk_def text_of_def s children_of_def js_def)
  have "tag_free img_payload" by (simp add: img_payload_def js_def)
  moreover have "\<not> tag_free (img_payload @ js ''</div>'')"
    unfolding tag_free_iff
    by (simp only: not_all not_not, rule exI[of _ "[]"],
        rule exI[of _ "js ''img src=x onerror=alert(1)//</div''"], rule exI[of _ "[]"])
      (simp add: img_payload_def js_def)
  ultimately show ?thesis using t renderTreeAsHTML_content by blast
qed

end
