(* ===== verification/Host.thy ===== *)
theory Host
  imports Blocks "HOL-Library.AList"
begin

text \<open>
  The host runtime the plugins talk to, as the state its side channels keep: the
  \<open>OrcaAPI\<close> interface of \<open>src/src/types.ts\<close> (lines 19 to 52) seen from the plugin. It is
  the contract the plugins rely on, not code of the repository: the live block mapping and
  API version (\<open>orca.state\<close>), the notifications shown (\<open>orca.notify\<close>), the
  registries of commands, shortcuts, toolbar buttons and broadcast handlers, the open
  panels and the plugin data keys written. The type parameter \<open>'h\<close> names the function
  values a plugin registers (each plugin has its own datatype of them), so that
  registering and unregistering the same function can be compared. Panel ids are
  naturals handed out fresh when \<open>addPanel\<close> settles. An asynchronous host call settles
  later with an \<open>outcome\<close>, when the model's event loop says so.
\<close>

type_synonym panel_id = nat

text \<open>How a promise of the host settles: fulfilled, or rejected with a value that is an
  \<open>Error\<close> with its message (\<open>Some\<close>) or anything else (\<open>None\<close>).\<close>

datatype outcome = Resolved | Rejected "jstr option"

record 'h host =
  h_blocks :: "blocks option"
  h_api_version :: "jstr option"
  h_notices :: "(jstr \<times> jstr) list"
  h_commands :: "(jstr \<times> 'h) list"
  h_shortcuts :: "(jstr \<times> jstr) list"
  h_buttons :: "(jstr \<times> jstr) list"
  h_handlers :: "(jstr \<times> 'h) list"
  h_panels :: "panel_id list"
  h_next_panel :: panel_id
  h_data :: "(jstr \<times> jstr) list"

text \<open>\<open>orca.notify(type, message)\<close>: the notification is shown (appended to the log).\<close>

definition notify :: "jstr \<Rightarrow> jstr \<Rightarrow> 'h host \<Rightarrow> 'h host" where
  "notify ty msg h = h\<lparr>h_notices := h_notices h @ [(ty, msg)]\<rparr>"

text \<open>The registries: a second registration under the same id replaces the first;
  unregistering an id that is not registered changes nothing.\<close>

definition registerCommand :: "jstr \<Rightarrow> 'h \<Rightarrow> 'h host \<Rightarrow> 'h host" where
  "registerCommand k f h = h\<lparr>h_commands := AList.update k f (h_commands h)\<rparr>"

definition unregisterCommand :: "jstr \<Rightarrow> 'h host \<Rightarrow> 'h host" where
  "unregisterCommand k h = h\<lparr>h_commands := AList.delete k (h_commands h)\<rparr>"

definition registerShortcut :: "jstr \<Rightarrow> jstr \<Rightarrow> 'h host \<Rightarrow> 'h host" where
  "registerShortcut sc k h = h\<lparr>h_shortcuts := AList.update sc k (h_shortcuts h)\<rparr>"

definition unregisterShortcut :: "jstr \<Rightarrow> 'h host \<Rightarrow> 'h host" where
  "unregisterShortcut sc h = h\<lparr>h_shortcuts := AList.delete sc (h_shortcuts h)\<rparr>"

definition registerToolbarButton :: "jstr \<Rightarrow> jstr \<Rightarrow> 'h host \<Rightarrow> 'h host" where
  "registerToolbarButton b k h = h\<lparr>h_buttons := AList.update b k (h_buttons h)\<rparr>"

definition unregisterToolbarButton :: "jstr \<Rightarrow> 'h host \<Rightarrow> 'h host" where
  "unregisterToolbarButton b h = h\<lparr>h_buttons := AList.delete b (h_buttons h)\<rparr>"

text \<open>Broadcast handlers: a set of event and function pairs.\<close>

definition registerHandler :: "jstr \<Rightarrow> 'h \<Rightarrow> 'h host \<Rightarrow> 'h host" where
  "registerHandler ev f h = h\<lparr>h_handlers := List.insert (ev, f) (h_handlers h)\<rparr>"

definition unregisterHandler :: "jstr \<Rightarrow> 'h \<Rightarrow> 'h host \<Rightarrow> 'h host" where
  "unregisterHandler ev f h = h\<lparr>h_handlers := removeAll (ev, f) (h_handlers h)\<rparr>"

text \<open>\<open>addPanel\<close> settling: a fresh panel opens and its id is the promise's value.
  \<open>closePanel(id)\<close> closes it; closing a panel that is not open changes nothing.\<close>

definition open_panel :: "'h host \<Rightarrow> panel_id \<times> 'h host" where
  "open_panel h = (h_next_panel h,
     h\<lparr>h_panels := h_panels h @ [h_next_panel h], h_next_panel := Suc (h_next_panel h)\<rparr>)"

definition closePanel :: "panel_id \<Rightarrow> 'h host \<Rightarrow> 'h host" where
  "closePanel p h = h\<lparr>h_panels := removeAll p (h_panels h)\<rparr>"

text \<open>\<open>orca.plugins.setData(plugin, key, data)\<close>: the key is written (the data, which
  holds a timestamp, is not kept).\<close>

definition setData :: "jstr \<Rightarrow> jstr \<Rightarrow> 'h host \<Rightarrow> 'h host" where
  "setData pl k h = h\<lparr>h_data := List.insert (pl, k) (h_data h)\<rparr>"

text \<open>What can happen next, as the host's event loop offers it to a plugin: the host
  loads the plugin under a name or unloads it, runs a command (from the palette, a
  shortcut or the toolbar button), broadcasts an event, lets the clock reach a time,
  settles the \<open>i\<close>-th pending promise of the plugin, or the user closes a panel. Each
  plugin model has a step function on these events.\<close>

datatype host_event =
    Load jstr | Unload | Invoke jstr | Shortcut jstr | Button jstr | Broadcast jstr
  | Tick | Settle nat outcome | UserClosesPanel panel_id

text \<open>The registries a plugin fills, seen as maps and sets.\<close>

definition registrations :: "'h host \<Rightarrow>
    (jstr \<rightharpoonup> 'h) \<times> (jstr \<rightharpoonup> jstr) \<times> (jstr \<rightharpoonup> jstr) \<times> (jstr \<times> 'h) set" where
  "registrations h = (map_of (h_commands h), map_of (h_shortcuts h), map_of (h_buttons h),
     set (h_handlers h))"

text \<open>A host with no notification, registration or panel, holding the given mapping.\<close>

definition fresh_host :: "blocks option \<Rightarrow> jstr option \<Rightarrow> 'h host" where
  "fresh_host bs v = \<lparr>h_blocks = bs, h_api_version = v, h_notices = [], h_commands = [],
     h_shortcuts = [], h_buttons = [], h_handlers = [], h_panels = [], h_next_panel = 0, h_data = []\<rparr>"

subsection \<open>Facts about the host operations\<close>

lemma notify_sel [simp]:
  "h_panels (notify ty m h) = h_panels h" "h_next_panel (notify ty m h) = h_next_panel h"
  "h_blocks (notify ty m h) = h_blocks h" "h_api_version (notify ty m h) = h_api_version h"
  "h_commands (notify ty m h) = h_commands h" "h_shortcuts (notify ty m h) = h_shortcuts h"
  "h_buttons (notify ty m h) = h_buttons h" "h_handlers (notify ty m h) = h_handlers h"
  "h_notices (notify ty m h) = h_notices h @ [(ty, m)]"
  by (simp_all add: notify_def)

lemma closePanel_sel [simp]:
  "h_panels (closePanel p h) = removeAll p (h_panels h)" "h_next_panel (closePanel p h) = h_next_panel h"
  "h_blocks (closePanel p h) = h_blocks h" "h_notices (closePanel p h) = h_notices h"
  "h_commands (closePanel p h) = h_commands h" "h_handlers (closePanel p h) = h_handlers h"
  by (simp_all add: closePanel_def)

lemma open_panel_sel [simp]:
  "fst (open_panel h) = h_next_panel h"
  "h_panels (snd (open_panel h)) = h_panels h @ [h_next_panel h]"
  "h_next_panel (snd (open_panel h)) = Suc (h_next_panel h)"
  "h_blocks (snd (open_panel h)) = h_blocks h" "h_notices (snd (open_panel h)) = h_notices h"
  "h_commands (snd (open_panel h)) = h_commands h" "h_handlers (snd (open_panel h)) = h_handlers h"
  by (simp_all add: open_panel_def)

lemma setData_sel [simp]:
  "h_panels (setData pl k h) = h_panels h" "h_next_panel (setData pl k h) = h_next_panel h"
  "h_blocks (setData pl k h) = h_blocks h" "h_notices (setData pl k h) = h_notices h"
  by (simp_all add: setData_def)

end
