(* ===== verification/Utilities.thy ===== *)
theory Utilities
  imports JS_Prelude
begin

text \<open>
  The two higher-order helpers of \<open>src/src/utils/helpers.ts\<close>. \<open>debounce(func, wait)\<close>
  (lines 107 to 117) returns a function whose every call cancels the pending timer and
  arms a new one \<open>wait\<close> milliseconds later with the call's arguments: its state is the
  pending deadline and arguments. \<open>debounce_run\<close> runs it on a list of timed calls, the
  timer firing when the clock reaches its deadline (a timer due at the time of a call
  runs before the call). Its specification \<open>trailing\<close> is the trailing edge: a call fires
  \<open>wait\<close> after it exactly when no other call comes within \<open>wait\<close>.
  \<open>withErrorBoundary(fn, fallback)\<close> (lines 120 to 140) is a combinator on functions that
  pass a state and may throw (\<open>Inl\<close> with the message): an exception is reported and
  replaced by the fallback's result or by \<open>null\<close>.
\<close>

subsection \<open>debounce\<close>

record 'a debounce =
  db_pending :: "(nat \<times> 'a) option"

definition debounce_init :: "'a debounce" where
  "debounce_init = \<lparr>db_pending = None\<rparr>"

text \<open>One call at time \<open>now\<close> (lines 113 to 116): \<open>clearTimeout\<close>, then \<open>setTimeout\<close>.\<close>

definition debounce_call :: "nat \<Rightarrow> nat \<Rightarrow> 'a \<Rightarrow> 'a debounce \<Rightarrow> 'a debounce" where
  "debounce_call wait now args d = d\<lparr>db_pending := Some (now + wait, args)\<rparr>"

text \<open>The timer task at time \<open>now\<close>: a due timer runs \<open>func\<close> with its arguments.\<close>

definition debounce_fire :: "nat \<Rightarrow> 'a debounce \<Rightarrow> 'a option \<times> 'a debounce" where
  "debounce_fire now d =
     (case db_pending d of
        Some (t, a) \<Rightarrow> if t \<le> now then (Some a, d\<lparr>db_pending := None\<rparr>) else (None, d)
      | None \<Rightarrow> (None, d))"

text \<open>The runs of \<open>func\<close> (time and arguments) for a list of calls with their times.\<close>

fun debounce_run :: "nat \<Rightarrow> (nat \<times> 'a) list \<Rightarrow> 'a debounce \<Rightarrow> (nat \<times> 'a) list" where
  "debounce_run wait [] d = (case db_pending d of None \<Rightarrow> [] | Some (t, a) \<Rightarrow> [(t, a)])"
| "debounce_run wait ((now, a) # cs) d =
     (case debounce_fire now d of
        (fired, d') \<Rightarrow>
          (case fired of Some b \<Rightarrow> [(fst (the (db_pending d)), b)] | None \<Rightarrow> []) @
          debounce_run wait cs (debounce_call wait now a d'))"

text \<open>The specification: the call at position \<open>i\<close> runs \<open>func\<close> at its time plus \<open>wait\<close>
  exactly when it is the last call or the next call comes at least \<open>wait\<close> later.\<close>

definition trailing :: "nat \<Rightarrow> (nat \<times> 'a) list \<Rightarrow> (nat \<times> 'a) list" where
  "trailing wait cs =
     map (\<lambda>i. (fst (cs ! i) + wait, snd (cs ! i)))
       (filter (\<lambda>i. Suc i = length cs \<or> fst (cs ! i) + wait \<le> fst (cs ! Suc i)) [0..<length cs])"

subsection \<open>withErrorBoundary\<close>

text \<open>\<open>withErrorBoundary(fn, fallback)\<close> applied: \<open>report\<close> is the \<open>console.error\<close> and the
  \<open>orca.notify\<close> of lines 128 to 131; the result is \<open>Inl\<close> when an exception escapes,
  which only the fallback can throw; \<open>Inr None\<close> is \<open>null\<close>.\<close>

definition withErrorBoundary ::
  "('s \<Rightarrow> (jstr + 'r) \<times> 's) \<Rightarrow> ('s \<Rightarrow> (jstr + 'r option) \<times> 's) option \<Rightarrow> ('s \<Rightarrow> 's) \<Rightarrow>
   's \<Rightarrow> (jstr + 'r option) \<times> 's" where
  "withErrorBoundary fn fallback report s =
     (case fn s of
        (Inr r, s') \<Rightarrow> (Inr (Some r), s')
      | (Inl e, s') \<Rightarrow>
          (case fallback of
             Some fb \<Rightarrow> fb (report s')
           | None \<Rightarrow> (Inr None, report s')))"


subsection \<open>Proofs\<close>

lemma trailing_single: "trailing wait [(t, a)] = [(t + wait, a)]"
  by (simp add: trailing_def)

lemma upt_0_Suc: "[0..<Suc m] = 0 # map Suc [0..<m]"
  by (simp add: map_Suc_upt upt_conv_Cons del: upt_Suc)

lemma trailing_Cons2:
  "trailing wait (c # c' # cs) =
     (if fst c + wait \<le> fst c' then [(fst c + wait, snd c)] else []) @ trailing wait (c' # cs)"
proof -
  let ?P = "\<lambda>xs i. Suc i = length xs \<or> fst (xs ! i) + wait \<le> fst (xs ! Suc i)"
  let ?f = "\<lambda>xs i. (fst (xs ! i) + wait, snd (xs ! i))"
  have u: "[0..<length (c # c' # cs)] = 0 # map Suc [0..<length (c' # cs)]"
    by (simp only: length_Cons upt_0_Suc)
  have "filter (?P (c # c' # cs)) (map Suc [0..<length (c' # cs)]) =
      map Suc (filter (?P (c' # cs)) [0..<length (c' # cs)])"
    by (simp add: filter_map comp_def)
  then show ?thesis
    unfolding trailing_def u by (simp add: comp_def)
qed

lemma debounce_run_pending:
  "debounce_run wait cs \<lparr>db_pending = Some (t0 + wait, a0)\<rparr> = trailing wait ((t0, a0) # cs)"
proof (induction cs arbitrary: t0 a0)
  case Nil
  then show ?case by (simp add: trailing_single)
next
  case (Cons c cs)
  obtain t a where c: "c = (t, a)" by fastforce
  have "debounce_call wait t a d = \<lparr>db_pending = Some (t + wait, a)\<rparr>" for d :: "'a debounce"
    by (simp add: debounce_call_def)
  then show ?case
    using Cons[of t a] by (simp add: c debounce_fire_def trailing_Cons2)
qed

lemma debounce_run_init: "debounce_run wait cs debounce_init = trailing wait cs"
proof (cases cs)
  case (Cons c cs')
  obtain t a where c: "c = (t, a)" by fastforce
  have "debounce_call wait t a debounce_init = \<lparr>db_pending = Some (t + wait, a)\<rparr>"
    by (simp add: debounce_call_def debounce_init_def)
  then show ?thesis
    by (simp add: Cons c debounce_fire_def debounce_init_def debounce_run_pending)
qed (simp add: debounce_init_def trailing_def)

text \<open>C25: Run on any list of timed calls, the debounced function runs exactly at the
  specification's times with its arguments: a call runs \<open>func\<close> \<open>wait\<close> after it when no
  later call comes within \<open>wait\<close>, and is dropped otherwise.\<close>

theorem debounce_run_trailing: "debounce_run wait cs debounce_init = trailing wait cs"
  by (rule debounce_run_init)

lemma debounce_burst_fires_once:
  assumes "cs \<noteq> []" and "\<forall>i. Suc i < length cs \<longrightarrow> fst (cs ! Suc i) < fst (cs ! i) + wait"
  shows "debounce_run wait cs debounce_init = [(fst (last cs) + wait, snd (last cs))]"
proof -
  let ?n = "length cs"
  have "filter (\<lambda>i. Suc i = ?n \<or> fst (cs ! i) + wait \<le> fst (cs ! Suc i)) [0..<?n] =
      filter (\<lambda>i. Suc i = ?n) [0..<?n]"
  proof (rule filter_cong)
    fix i assume "i \<in> set [0..<?n]"
    then have "i < ?n" by simp
    with assms(2) show "(Suc i = ?n \<or> fst (cs ! i) + wait \<le> fst (cs ! Suc i)) = (Suc i = ?n)"
      by (metis Suc_lessI not_le)
  qed simp
  also have "\<dots> = [?n - 1]"
  proof -
    obtain m where m: "?n = Suc m" using assms(1) by (cases cs) auto
    have "filter (\<lambda>i. Suc i = Suc m) [0..<m] = []" by (auto simp: filter_empty_conv)
    then show ?thesis by (simp add: m)
  qed
  finally show ?thesis
    using assms(1) by (simp add: debounce_run_init trailing_def last_conv_nth)
qed

subsection \<open>withErrorBoundary\<close>

lemma withErrorBoundary_ok:
  "fn s = (Inr r, s') \<Longrightarrow> withErrorBoundary fn fallback report s = (Inr (Some r), s')"
  by (simp add: withErrorBoundary_def)

lemma withErrorBoundary_throw:
  "fn s = (Inl e, s') \<Longrightarrow>
   withErrorBoundary fn fallback report s =
     (case fallback of Some fb \<Rightarrow> fb (report s') | None \<Rightarrow> (Inr None, report s'))"
  by (simp add: withErrorBoundary_def)

text \<open>C26: The wrapper returns normally whenever its fallback does (or there is none):
  an exception of the wrapped function never escapes.\<close>

theorem withErrorBoundary_no_escape:
  assumes "\<forall>fb. fallback = Some fb \<longrightarrow> (\<forall>s. \<not> isl (fst (fb s)))"
  shows "\<not> isl (fst (withErrorBoundary fn fallback report s))"
proof (cases "fn s")
  case (Pair v s')
  with assms show ?thesis
    by (cases v; cases fallback) (simp_all add: withErrorBoundary_def)
qed

theorem withErrorBoundary_no_escape_witness:
  "\<not> isl (fst (withErrorBoundary (\<lambda>s :: nat. (Inl (js ''boom'') :: jstr + nat, s))
      (Some (\<lambda>s. (Inr None, s))) Suc 0))"
proof -
  have "\<forall>fb. Some (\<lambda>s :: nat. (Inr None :: jstr + nat option, s)) = Some fb \<longrightarrow> (\<forall>s. \<not> isl (fst (fb s)))"
    by auto
  from withErrorBoundary_no_escape[OF this] show ?thesis .
qed

end
