(* ===== verification/Plugin_Main.thy ===== *)
theory Plugin_Main
  imports Renderer Host Utilities
begin

text \<open>
  The plugin of \<open>src/src/main.ts\<close>: its module state (\<open>mindMapPanel\<close>,
  \<open>mindMapRenderer\<close>, the timer of the debounced refresh) with the host of \<open>Host\<close>, and
  every function of the file as an operation on that world. An \<open>async\<close> function runs
  up to its first \<open>await\<close> of a host promise and leaves its continuation in
  \<open>mw_tasks\<close>; the event \<open>Settle i out\<close> resumes the \<open>i\<close>-th one. \<open>main_step\<close> is one
  event of the host's event loop; \<open>seq_run\<close> is a use in which every promise settles
  before the next event (\<open>drain\<close>), \<open>main_run\<close> any interleaving. The theorems: in
  sequential use at most one panel is open and it is the tracked one; two toggles
  before the first panel opens leak a panel, as does an unload while a panel is
  opening; the version check on \<open>a.b\<close>; unload undoes what load registered; a cyclic
  mapping is reported as an error.
\<close>

text \<open>The function values \<open>main.ts\<close> hands to the host.\<close>

datatype main_handler = SafeShowMindMap | SafeToggleMindMap | HandleBlockUpdate | HandleThemeChange

text \<open>Where a suspended call resumes: \<open>showMindMap\<close> after \<open>addPanel\<close> (line 57, with the
  trees and the block count it captured) and after \<open>setData\<close> (line 76), \<open>load\<close> after
  \<open>setSettingsSchema\<close> inside \<open>initializePlugin\<close> (line 140).\<close>

datatype main_task = ShowAwaitPanel "tree_node list" nat | ShowAwaitData | LoadAwaitSchema

text \<open>The module state of \<open>main.ts\<close> (lines 12 to 14 and the timer of \<open>refreshMindMap\<close>,
  line 100) with the host and the pending continuations.\<close>

record main_world =
  mw_host :: "main_handler host"
  mindMapPanel :: "panel_id option"
  mindMapRenderer :: bool
  mw_tasks :: "main_task list"
  mw_refresh :: "unit debounce"

text \<open>The notification texts of \<open>main.ts\<close>, as UTF-16 code units: ``the current note has no
  blocks'', ``no root block found'', ``no valid block'', ``outline view shown'', ``showing the
  outline failed: '', ``unknown error'', ``outline view closed'', ``plugin version
  incompatible, please update'', ``outline plugin enabled'', ``outline plugin disabled''.\<close>

definition txt_no_blocks :: jstr where "txt_no_blocks = [0x5F53, 0x524D, 0x7B14, 0x8BB0, 0x6CA1, 0x6709, 0x5185, 0x5BB9, 0x5757]"
definition txt_no_roots :: jstr where "txt_no_roots = [0x672A, 0x627E, 0x5230, 0x6839, 0x7EA7, 0x5757]"
definition txt_no_valid :: jstr where "txt_no_valid = [0x6CA1, 0x6709, 0x6709, 0x6548, 0x7684, 0x5185, 0x5BB9, 0x5757]"
definition txt_shown :: jstr where "txt_shown = [0x5927, 0x7EB2, 0x89C6, 0x56FE, 0x5DF2, 0x663E, 0x793A]"
definition txt_show_failed :: jstr where "txt_show_failed = [0x663E, 0x793A, 0x5927, 0x7EB2, 0x5931, 0x8D25] @ js '': ''"
definition txt_unknown :: jstr where "txt_unknown = [0x672A, 0x77E5, 0x9519, 0x8BEF]"
definition txt_closed :: jstr where "txt_closed = [0x5927, 0x7EB2, 0x89C6, 0x56FE, 0x5DF2, 0x5173, 0x95ED]"
definition txt_incompatible :: jstr where "txt_incompatible = [0x63D2, 0x4EF6, 0x7248, 0x672C, 0x4E0D, 0x517C, 0x5BB9, 0xFF0C, 0x8BF7, 0x66F4, 0x65B0, 0x864E, 0x9CB8, 0x7B14, 0x8BB0]"
definition txt_enabled :: jstr where "txt_enabled = [0x5927, 0x7EB2, 0x63D2, 0x4EF6, 0x5DF2, 0x542F, 0x7528]"
definition txt_disabled :: jstr where "txt_disabled = [0x5927, 0x7EB2, 0x63D2, 0x4EF6, 0x5DF2, 0x7981, 0x7528]"
definition txt_op_failed :: jstr where "txt_op_failed = [0x64CD, 0x4F5C, 0x5931, 0x8D25, 0xFF0C, 0x8BF7, 0x91CD, 0x8BD5]"
definition txt_toggle_failed :: jstr where "txt_toggle_failed = [0x5207, 0x6362, 0x5927, 0x7EB2, 0x89C6, 0x56FE, 0x5931, 0x8D25]"

text \<open>The message of the \<open>RangeError\<close> the engine (V8, in the host's Electron shell)
  throws when the recursion of \<open>buildTree\<close> exhausts the stack.\<close>

definition stack_overflow_message :: jstr where
  "stack_overflow_message = js ''Maximum call stack size exceeded''"

text \<open>\<open>error instanceof Error ? error.message : '...'\<close>\<close>

definition error_message :: "jstr option \<Rightarrow> jstr" where
  "error_message e = (case e of Some m \<Rightarrow> m | None \<Rightarrow> txt_unknown)"

definition on_host :: "(main_handler host \<Rightarrow> main_handler host) \<Rightarrow> main_world \<Rightarrow> main_world" where
  "on_host f w = w\<lparr>mw_host := f (mw_host w)\<rparr>"

subsection \<open>showMindMap\<close>

text \<open>\<open>showMindMap()\<close> up to its first \<open>await\<close> (lines 17 to 57), with the \<open>catch\<close> of
  lines 81 to 85 for the exception of a non-terminating \<open>buildTree\<close>: \<open>buildTree\<close>
  returning \<open>None\<close> is the recursion that overflows the stack. The call of \<open>addPanel\<close>
  leaves a pending continuation.\<close>

definition showMindMap :: "main_world \<Rightarrow> main_world" where
  "showMindMap w =
     (case h_blocks (mw_host w) of
        None \<Rightarrow> on_host (notify (js ''warn'') txt_no_blocks) w
      | Some bs \<Rightarrow>
          if object_keys bs = [] then on_host (notify (js ''warn'') txt_no_blocks) w
          else
            (let roots = findRootBlocks bs in
             if roots = [] then on_host (notify (js ''warn'') txt_no_roots) w
             else
               (case map_opt (\<lambda>r. buildTree r bs 0) roots of
                  None \<Rightarrow> on_host (notify (js ''error'') (txt_show_failed @ stack_overflow_message)) w
                | Some trees \<Rightarrow>
                    (let valid = filter (\<lambda>t. js_trim (content t) \<noteq> []) trees in
                     if valid = [] then on_host (notify (js ''warn'') txt_no_valid) w
                     else w\<lparr>mw_host := (case mindMapPanel w of Some p \<Rightarrow> closePanel p (mw_host w)
                                                             | None \<Rightarrow> mw_host w),
                            mindMapRenderer := True,
                            mw_tasks := mw_tasks w @ [ShowAwaitPanel valid (length (object_keys bs))]\<rparr>))))"

text \<open>The rest of \<open>showMindMap\<close> when \<open>addPanel\<close> settles (lines 57 to 85): the panel id
  is stored, success is shown and the layout is written with \<open>setData\<close>, whose own
  failure is only logged; a rejection goes to the \<open>catch\<close>.\<close>

definition showMindMap_resume :: "outcome \<Rightarrow> main_world \<Rightarrow> main_world" where
  "showMindMap_resume out w =
     (case out of
        Resolved \<Rightarrow>
          (let (p, h) = open_panel (mw_host w) in
           w\<lparr>mw_host := setData (js ''outline-plugin'') (js ''last-layout'') (notify (js ''success'') txt_shown h),
             mindMapPanel := Some p, mw_tasks := mw_tasks w @ [ShowAwaitData]\<rparr>)
      | Rejected e \<Rightarrow> on_host (notify (js ''error'') (txt_show_failed @ error_message e)) w)"

subsection \<open>toggle, refresh, the handlers\<close>

text \<open>\<open>toggleMindMap()\<close> (lines 89 to 97).\<close>

definition toggleMindMap :: "main_world \<Rightarrow> main_world" where
  "toggleMindMap w =
     (case mindMapPanel w of
        Some p \<Rightarrow> w\<lparr>mw_host := notify (js ''info'') txt_closed (closePanel p (mw_host w)), mindMapPanel := None\<rparr>
      | None \<Rightarrow> showMindMap w)"

text \<open>The body of \<open>refreshMindMap\<close> (lines 100 to 104) and \<open>handleBlockUpdate\<close>
  (lines 107 to 110), which calls the debounced function.\<close>

definition refresh_body :: "main_world \<Rightarrow> main_world" where
  "refresh_body w = (if mindMapPanel w \<noteq> None then showMindMap w else w)"

definition handleBlockUpdate :: "nat \<Rightarrow> main_world \<Rightarrow> main_world" where
  "handleBlockUpdate now w = w\<lparr>mw_refresh := debounce_call 500 now () (mw_refresh w)\<rparr>"

text \<open>The timer of \<open>refreshMindMap\<close> at time \<open>now\<close>.\<close>

definition refresh_tick :: "nat \<Rightarrow> main_world \<Rightarrow> main_world" where
  "refresh_tick now w =
     (case debounce_fire now (mw_refresh w) of
        (Some u, d) \<Rightarrow> refresh_body (w\<lparr>mw_refresh := d\<rparr>)
      | (None, d) \<Rightarrow> w\<lparr>mw_refresh := d\<rparr>)"

text \<open>\<open>safeShowMindMap\<close> and \<open>safeToggleMindMap\<close> (lines 169 to 172): the error boundary
  around the two commands, with the fallback notification for the toggle. Neither
  command throws synchronously here (\<open>showMindMap\<close> is \<open>async\<close>: its errors reject its
  promise, and it catches them itself).\<close>

definition boundary_report :: "main_world \<Rightarrow> main_world" where
  "boundary_report = on_host (notify (js ''error'') txt_op_failed)"

definition safeShowMindMap :: "main_world \<Rightarrow> main_world" where
  "safeShowMindMap w = snd (withErrorBoundary (\<lambda>w. (Inr (), showMindMap w)) None boundary_report w)"

definition safeToggleMindMap :: "main_world \<Rightarrow> main_world" where
  "safeToggleMindMap w =
     snd (withErrorBoundary (\<lambda>w. (Inr (), toggleMindMap w))
       (Some (\<lambda>w. (Inr None, on_host (notify (js ''error'') txt_toggle_failed) w))) boundary_report w)"

text \<open>What a registered function does when the host calls it at time \<open>now\<close>
  (\<open>handleThemeChange\<close>, lines 113 to 116, only logs).\<close>

fun run_handler :: "nat \<Rightarrow> main_handler \<Rightarrow> main_world \<Rightarrow> main_world" where
  "run_handler now SafeShowMindMap w = safeShowMindMap w"
| "run_handler now SafeToggleMindMap w = safeToggleMindMap w"
| "run_handler now HandleBlockUpdate w = handleBlockUpdate now w"
| "run_handler now HandleThemeChange w = w"

subsection \<open>checkCompatibility, load, unload\<close>

text \<open>\<open>checkCompatibility()\<close> (lines 119 to 134): an empty or absent \<open>apiVersion\<close> passes;
  otherwise \<open>split('.').map(Number)\<close>, a missing minor part is \<open>undefined\<close>, which
  compares as \<open>NaN\<close>. The host object itself is present.\<close>

definition checkCompatibility :: "'h host \<Rightarrow> bool" where
  "checkCompatibility h =
     (case h_api_version h of
        None \<Rightarrow> True
      | Some v \<Rightarrow>
          if v = [] then True
          else (let parts = map js_Number (split_on 0x2E v);
                    major = hd parts;
                    minor = (if 2 \<le> length parts then parts ! 1 else JNaN)
                in \<not> (num_lt_int major 1 \<or> (num_eq_int major 1 \<and> num_lt_int minor 5))))"

text \<open>\<open>load(pluginName)\<close> (lines 175 to 228) up to the \<open>await\<close> of
  \<open>setSettingsSchema\<close> inside \<open>initializePlugin\<close> (lines 137 to 166), and its rest once
  that promise settles (a rejection is only logged by \<open>initializePlugin\<close>).\<close>

definition load :: "main_world \<Rightarrow> main_world" where
  "load w =
     (if \<not> checkCompatibility (mw_host w) then on_host (notify (js ''error'') txt_incompatible) w
      else w\<lparr>mw_tasks := mw_tasks w @ [LoadAwaitSchema]\<rparr>)"

definition load_resume :: "main_world \<Rightarrow> main_world" where
  "load_resume =
     on_host (notify (js ''success'') txt_enabled \<circ>
       registerHandler (js ''core.themeChanged'') HandleThemeChange \<circ>
       registerHandler (js ''core.block.deleted'') HandleBlockUpdate \<circ>
       registerHandler (js ''core.block.created'') HandleBlockUpdate \<circ>
       registerHandler (js ''core.block.updated'') HandleBlockUpdate \<circ>
       registerShortcut (js ''Ctrl+M'') (js ''outline-plugin.toggleMindMap'') \<circ>
       registerToolbarButton (js ''outline-plugin.button'') (js ''outline-plugin.showMindMap'') \<circ>
       registerCommand (js ''outline-plugin.toggleMindMap'') SafeToggleMindMap \<circ>
       registerCommand (js ''outline-plugin.showMindMap'') SafeShowMindMap)"

text \<open>\<open>unload()\<close> (lines 231 to 266).\<close>

definition unload :: "main_world \<Rightarrow> main_world" where
  "unload w =
     (let w1 = (case mindMapPanel w of
                  Some p \<Rightarrow> w\<lparr>mw_host := closePanel p (mw_host w), mindMapPanel := None\<rparr>
                | None \<Rightarrow> w)
      in on_host (notify (js ''info'') txt_disabled \<circ>
           unregisterHandler (js ''core.themeChanged'') HandleThemeChange \<circ>
           unregisterHandler (js ''core.block.deleted'') HandleBlockUpdate \<circ>
           unregisterHandler (js ''core.block.created'') HandleBlockUpdate \<circ>
           unregisterHandler (js ''core.block.updated'') HandleBlockUpdate \<circ>
           unregisterShortcut (js ''Ctrl+M'') \<circ>
           unregisterToolbarButton (js ''outline-plugin.button'') \<circ>
           unregisterCommand (js ''outline-plugin.toggleMindMap'') \<circ>
           unregisterCommand (js ''outline-plugin.showMindMap''))
         (w1\<lparr>mindMapRenderer := False\<rparr>))"

subsection \<open>The event loop\<close>

text \<open>Settling the \<open>i\<close>-th pending promise resumes its continuation.\<close>

definition settle :: "nat \<Rightarrow> outcome \<Rightarrow> main_world \<Rightarrow> main_world" where
  "settle i out w =
     (if i < length (mw_tasks w) then
        (let w' = w\<lparr>mw_tasks := take i (mw_tasks w) @ drop (Suc i) (mw_tasks w)\<rparr> in
         case mw_tasks w ! i of
           ShowAwaitPanel valid cnt \<Rightarrow> showMindMap_resume out w'
         | ShowAwaitData \<Rightarrow> w'
         | LoadAwaitSchema \<Rightarrow> load_resume w')
      else w)"

definition invoke :: "nat \<Rightarrow> jstr \<Rightarrow> main_world \<Rightarrow> main_world" where
  "invoke now k w = (case map_of (h_commands (mw_host w)) k of None \<Rightarrow> w | Some f \<Rightarrow> run_handler now f w)"

text \<open>One event at time \<open>now\<close>.\<close>

fun main_step :: "main_world \<Rightarrow> nat \<times> host_event \<Rightarrow> main_world" where
  "main_step w (now, Load nm) = load w"
| "main_step w (now, Unload) = unload w"
| "main_step w (now, Invoke k) = invoke now k w"
| "main_step w (now, Shortcut sc) =
     (case map_of (h_shortcuts (mw_host w)) sc of None \<Rightarrow> w | Some k \<Rightarrow> invoke now k w)"
| "main_step w (now, Button b) =
     (case map_of (h_buttons (mw_host w)) b of None \<Rightarrow> w | Some k \<Rightarrow> invoke now k w)"
| "main_step w (now, Broadcast ev) =
     fold (\<lambda>(e, f) w. if e = ev then run_handler now f w else w) (h_handlers (mw_host w)) w"
| "main_step w (now, Tick) = refresh_tick now w"
| "main_step w (now, Settle i out) = settle i out w"
| "main_step w (now, UserClosesPanel p) = on_host (closePanel p) w"

definition main_run :: "main_world \<Rightarrow> (nat \<times> host_event) list \<Rightarrow> main_world" where
  "main_run w es = fold (\<lambda>e w. main_step w e) es w"

definition main_init :: "blocks option \<Rightarrow> jstr option \<Rightarrow> main_world" where
  "main_init bs v = \<lparr>mw_host = fresh_host bs v, mindMapPanel = None, mindMapRenderer = False,
     mw_tasks = [], mw_refresh = debounce_init\<rparr>"

subsection \<open>The invariant and the scenarios\<close>

text \<open>At most one panel of the plugin is open, and it is the one \<open>mindMapPanel\<close> holds;
  the broadcast handlers registered are those of \<open>load\<close>; nothing is pending.\<close>

definition panels_tracked :: "main_world \<Rightarrow> bool" where
  "panels_tracked w \<longleftrightarrow>
     h_panels (mw_host w) = [] \<or> (\<exists>p. mindMapPanel w = Some p \<and> h_panels (mw_host w) = [p])"

definition handlers_ok :: "main_world \<Rightarrow> bool" where
  "handlers_ok w \<longleftrightarrow>
     (\<forall>(e, f) \<in> set (h_handlers (mw_host w)). f = HandleBlockUpdate \<or> f = HandleThemeChange)"

definition main_inv :: "main_world \<Rightarrow> bool" where
  "main_inv w \<longleftrightarrow> mw_tasks w = [] \<and> panels_tracked w \<and> handlers_ok w"

text \<open>The states one event leaves before the host settles what it started.\<close>

definition pre_inv :: "main_world \<Rightarrow> bool" where
  "pre_inv w \<longleftrightarrow> handlers_ok w \<and>
     ((mw_tasks w = [] \<and> panels_tracked w) \<or> (mw_tasks w = [LoadAwaitSchema] \<and> panels_tracked w) \<or>
      (\<exists>v c. mw_tasks w = [ShowAwaitPanel v c] \<and> h_panels (mw_host w) = []))"

text \<open>The four broadcast subscriptions of lines 199 to 202 (and 245 to 248).\<close>

definition main_handlers :: "(jstr \<times> main_handler) set" where
  "main_handlers = {(js ''core.block.updated'', HandleBlockUpdate), (js ''core.block.created'', HandleBlockUpdate),
     (js ''core.block.deleted'', HandleBlockUpdate), (js ''core.themeChanged'', HandleThemeChange)}"

text \<open>Fixtures: the tree of the one-block mapping \<open>leaf_test_blocks\<close>; the command id of
  the toggle; two interleavings of host events.\<close>

definition leaf_tree :: tree_node where
  "leaf_tree = TreeNode (js ''a'') (js ''x'') [] 0 None"

definition toggle_key :: jstr where
  "toggle_key = js ''outline-plugin.toggleMindMap''"

definition double_toggle_events :: "(nat \<times> host_event) list" where
  "double_toggle_events = [(0, Load (js ''outline-plugin'')), (0, Settle 0 Resolved),
     (1, Invoke toggle_key), (2, Invoke toggle_key), (3, Settle 0 Resolved), (4, Settle 0 Resolved),
     (5, Invoke toggle_key), (6, Unload)]"

definition unload_pending_events :: "(nat \<times> host_event) list" where
  "unload_pending_events = [(0, Load (js ''outline-plugin'')), (0, Settle 0 Resolved),
     (1, Invoke toggle_key), (2, Unload), (3, Settle 0 Resolved)]"

text \<open>No command, shortcut, button or subscription of the plugin is registered yet.\<close>

definition main_keys_free :: "main_handler host \<Rightarrow> bool" where
  "main_keys_free h \<longleftrightarrow>
     map_of (h_commands h) (js ''outline-plugin.showMindMap'') = None \<and>
     map_of (h_commands h) (js ''outline-plugin.toggleMindMap'') = None \<and>
     map_of (h_shortcuts h) (js ''Ctrl+M'') = None \<and>
     map_of (h_buttons h) (js ''outline-plugin.button'') = None \<and>
     set (h_handlers h) \<inter> main_handlers = {}"

text \<open>A mapping whose only block lists itself as its child.\<close>

definition self_loop_blocks :: blocks where
  "self_loop_blocks = [(js ''a'', blk (js ''a'') (js ''x'') [js ''a''] None)]"

subsection \<open>Proofs\<close>

text \<open>Every continuation of \<open>main.ts\<close> awaits at most once more: \<open>showMindMap\<close> after
  \<open>addPanel\<close> still awaits \<open>setData\<close>.\<close>

fun task_weight :: "main_task \<Rightarrow> nat" where
  "task_weight (ShowAwaitPanel v c) = 2"
| "task_weight ShowAwaitData = 1"
| "task_weight LoadAwaitSchema = 1"

lemma mw_tasks_on_host [simp]: "mw_tasks (on_host f w) = mw_tasks w"
  by (simp add: on_host_def)

lemma mindMapPanel_on_host [simp]: "mindMapPanel (on_host f w) = mindMapPanel w"
  by (simp add: on_host_def)

lemma mw_host_on_host [simp]: "mw_host (on_host f w) = f (mw_host w)"
  by (simp add: on_host_def)

lemma mw_tasks_load_resume [simp]: "mw_tasks (load_resume w) = mw_tasks w"
  by (simp add: load_resume_def)

lemma mw_tasks_resume:
  "mw_tasks (showMindMap_resume out w) = mw_tasks w @ (if out = Resolved then [ShowAwaitData] else [])"
  by (cases out) (simp_all add: showMindMap_resume_def split: prod.splits)

lemma settle_weight:
  "mw_tasks w \<noteq> [] \<Longrightarrow>
   sum_list (map task_weight (mw_tasks (settle 0 Resolved w))) < sum_list (map task_weight (mw_tasks w))"
  by (cases "mw_tasks w"; cases "hd (mw_tasks w)") (simp_all add: settle_def mw_tasks_resume)

text \<open>The host settling every pending promise, oldest first, each fulfilled.\<close>

function drain :: "main_world \<Rightarrow> main_world" where
  "drain w = (if mw_tasks w = [] then w else drain (settle 0 Resolved w))"
  by pat_completeness auto
termination
  by (relation "measure (\<lambda>w. sum_list (map task_weight (mw_tasks w)))") (simp_all add: settle_weight)

declare drain.simps [simp del]

text \<open>A use of the plugin in which the host settles every promise before the next event.\<close>

definition seq_run :: "main_world \<Rightarrow> (nat \<times> host_event) list \<Rightarrow> main_world" where
  "seq_run w es = fold (\<lambda>e w. drain (main_step w e)) es w"

lemma host_reg_sel [simp]:
  "h_panels (registerCommand k f h) = h_panels h" "h_handlers (registerCommand k f h) = h_handlers h"
  "h_panels (unregisterCommand k h) = h_panels h" "h_handlers (unregisterCommand k h) = h_handlers h"
  "h_panels (registerShortcut sc k h) = h_panels h" "h_handlers (registerShortcut sc k h) = h_handlers h"
  "h_panels (unregisterShortcut sc h) = h_panels h" "h_handlers (unregisterShortcut sc h) = h_handlers h"
  "h_panels (registerToolbarButton b k h) = h_panels h" "h_handlers (registerToolbarButton b k h) = h_handlers h"
  "h_panels (unregisterToolbarButton b h) = h_panels h" "h_handlers (unregisterToolbarButton b h) = h_handlers h"
  "h_panels (registerHandler ev f h) = h_panels h" "h_panels (unregisterHandler ev f h) = h_panels h"
  "h_handlers (registerHandler ev f h) = List.insert (ev, f) (h_handlers h)"
  "h_handlers (unregisterHandler ev f h) = removeAll (ev, f) (h_handlers h)"
  "h_handlers (setData pl k h) = h_handlers h" "h_handlers (closePanel p h) = h_handlers h"
  by (simp_all add: registerCommand_def unregisterCommand_def registerShortcut_def unregisterShortcut_def
    registerToolbarButton_def unregisterToolbarButton_def registerHandler_def unregisterHandler_def
    setData_def closePanel_def)

subsection \<open>Sequential use keeps every open panel tracked\<close>

lemma drain_Nil: "mw_tasks w = [] \<Longrightarrow> drain w = w"
  by (simp add: drain.simps)

lemma drain_step: "mw_tasks w \<noteq> [] \<Longrightarrow> drain w = drain (settle 0 Resolved w)"
  by (subst drain.simps) simp

lemma load_resume_sel [simp]:
  "h_panels (mw_host (load_resume w)) = h_panels (mw_host w)"
  "mindMapPanel (load_resume w) = mindMapPanel w"
  "set (h_handlers (mw_host (load_resume w))) = set (h_handlers (mw_host w)) \<union> main_handlers"
  by (auto simp: load_resume_def main_handlers_def)

lemma drain_pre:
  assumes "pre_inv w" shows "main_inv (drain w)"
proof -
  have h: "handlers_ok w" using assms by (simp add: pre_inv_def)
  from assms consider (quiet) "mw_tasks w = []" "panels_tracked w"
    | (loading) "mw_tasks w = [LoadAwaitSchema]" "panels_tracked w"
    | (showing) v c where "mw_tasks w = [ShowAwaitPanel v c]" "h_panels (mw_host w) = []"
    unfolding pre_inv_def by blast
  then show ?thesis
  proof cases
    case quiet
    then show ?thesis using h by (simp add: drain_Nil main_inv_def)
  next
    case loading
    let ?w = "load_resume (w\<lparr>mw_tasks := []\<rparr>)"
    have "drain w = ?w" using loading by (simp add: drain_step settle_def drain_Nil)
    moreover have "handlers_ok ?w" using h by (auto simp: handlers_ok_def main_handlers_def)
    ultimately show ?thesis using loading by (simp add: main_inv_def panels_tracked_def)
  next
    case showing
    let ?w = "showMindMap_resume Resolved (w\<lparr>mw_tasks := []\<rparr>)"
    have "mw_tasks ?w = [ShowAwaitData]" by (simp add: mw_tasks_resume)
    then have "drain w = ?w\<lparr>mw_tasks := []\<rparr>"
      using showing by (simp add: drain_step settle_def drain_Nil)
    moreover have "panels_tracked ?w" "handlers_ok ?w"
      using h showing by (auto simp: showMindMap_resume_def open_panel_def panels_tracked_def handlers_ok_def)
    ultimately show ?thesis by (simp add: main_inv_def panels_tracked_def handlers_ok_def)
  qed
qed


lemma showMindMap_pre:
  assumes "main_inv w" shows "pre_inv (showMindMap w)"
proof -
  have inv: "mw_tasks w = []" "panels_tracked w" "handlers_ok w"
    using assms by (simp_all add: main_inv_def)
  have notice: "pre_inv (on_host (notify ty m) w)" for ty m
    using inv by (simp add: pre_inv_def panels_tracked_def handlers_ok_def)
  have closed: "h_panels (case mindMapPanel w of Some p \<Rightarrow> closePanel p (mw_host w)
      | None \<Rightarrow> mw_host w) = []"
    using inv(2) by (auto simp: panels_tracked_def split: option.splits)
  have "handlers_ok (w\<lparr>mw_host := (case mindMapPanel w of Some p \<Rightarrow> closePanel p (mw_host w)
      | None \<Rightarrow> mw_host w), mindMapRenderer := True, mw_tasks := ts\<rparr>)" for ts
    using inv(3) by (simp add: handlers_ok_def split: option.splits)
  then show ?thesis
    using notice closed inv(1)
    by (simp add: showMindMap_def pre_inv_def Let_def split: option.splits)
qed

lemma toggleMindMap_pre:
  assumes "main_inv w" shows "pre_inv (toggleMindMap w)"
  using assms showMindMap_pre[OF assms]
  by (auto simp: toggleMindMap_def main_inv_def pre_inv_def panels_tracked_def handlers_ok_def
    split: option.splits)

lemma main_inv_refresh [simp]: "main_inv (w\<lparr>mw_refresh := d\<rparr>) = main_inv w"
  by (simp add: main_inv_def panels_tracked_def handlers_ok_def)

lemma showMindMap_refresh: "showMindMap (w\<lparr>mw_refresh := d\<rparr>) = (showMindMap w)\<lparr>mw_refresh := d\<rparr>"
  by (simp add: showMindMap_def on_host_def Let_def split: option.splits)

lemma main_inv_pre: "main_inv w \<Longrightarrow> pre_inv w"
  by (simp add: main_inv_def pre_inv_def)

lemma pre_inv_refresh [simp]: "pre_inv (w\<lparr>mw_refresh := d\<rparr>) = pre_inv w"
  by (simp add: pre_inv_def panels_tracked_def handlers_ok_def)

lemma run_handler_pre:
  assumes "main_inv w" shows "pre_inv (run_handler now f w)"
proof (cases f)
  case SafeShowMindMap
  have "safeShowMindMap w = showMindMap w"
    by (simp add: safeShowMindMap_def withErrorBoundary_def)
  then show ?thesis using SafeShowMindMap showMindMap_pre[OF assms] by simp
next
  case SafeToggleMindMap
  have "safeToggleMindMap w = toggleMindMap w"
    by (simp add: safeToggleMindMap_def withErrorBoundary_def)
  then show ?thesis using SafeToggleMindMap toggleMindMap_pre[OF assms] by simp
next
  case HandleBlockUpdate
  then show ?thesis using main_inv_pre[OF assms] by (simp add: handleBlockUpdate_def)
next
  case HandleThemeChange
  then show ?thesis using main_inv_pre[OF assms] by simp
qed

lemma invoke_pre:
  assumes "main_inv w" shows "pre_inv (invoke now k w)"
proof (cases "map_of (h_commands (mw_host w)) k")
  case None
  then show ?thesis using main_inv_pre[OF assms] by (simp add: invoke_def)
next
  case (Some f)
  then show ?thesis using run_handler_pre[OF assms] by (simp add: invoke_def)
qed

lemma handler_refresh_only:
  assumes "f = HandleBlockUpdate \<or> f = HandleThemeChange"
  shows "run_handler now f w = w\<lparr>mw_refresh := (if f = HandleBlockUpdate
    then debounce_call 500 now () (mw_refresh w) else mw_refresh w)\<rparr>"
  using assms by (elim disjE) (simp_all add: handleBlockUpdate_def)

lemma broadcast_keeps:
  assumes "\<forall>(e, f) \<in> set hs. f = HandleBlockUpdate \<or> f = HandleThemeChange"
  shows "\<exists>d. fold (\<lambda>(e, f) w. if e = ev then run_handler now f w else w) hs w = w\<lparr>mw_refresh := d\<rparr>"
  using assms
proof (induction hs arbitrary: w)
  case Nil
  show ?case by (rule exI[of _ "mw_refresh w"]) simp
next
  case (Cons x hs)
  obtain e f where x: "x = (e, f)" by fastforce
  have f: "f = HandleBlockUpdate \<or> f = HandleThemeChange" using Cons.prems x by auto
  obtain d where one: "(if e = ev then run_handler now f w else w) = w\<lparr>mw_refresh := d\<rparr>"
  proof (cases "e = ev")
    case True
    then show ?thesis using that handler_refresh_only[OF f] by simp
  next
    case False
    then show ?thesis using that[of "mw_refresh w"] by simp
  qed
  have "\<forall>(e, f) \<in> set hs. f = HandleBlockUpdate \<or> f = HandleThemeChange"
    using Cons.prems by simp
  then obtain d' where "fold (\<lambda>(e, f) w. if e = ev then run_handler now f w else w) hs
      (w\<lparr>mw_refresh := d\<rparr>) = w\<lparr>mw_refresh := d\<rparr>\<lparr>mw_refresh := d'\<rparr>"
    using Cons.IH by blast
  then show ?case by (intro exI[of _ d']) (simp add: x one)
qed

lemma unload_sel:
  "mindMapPanel (unload w) = None"
  "h_panels (mw_host (unload w)) =
     (case mindMapPanel w of Some p \<Rightarrow> removeAll p (h_panels (mw_host w)) | None \<Rightarrow> h_panels (mw_host w))"
  "set (h_handlers (mw_host (unload w))) \<subseteq> set (h_handlers (mw_host w))"
  "mw_tasks (unload w) = mw_tasks w"
  "h_next_panel (mw_host (unload w)) = h_next_panel (mw_host w)"
  by (auto simp: unload_def Let_def unregisterCommand_def unregisterShortcut_def
    unregisterToolbarButton_def unregisterHandler_def split: option.splits)

lemma unload_pre:
  assumes "main_inv w" shows "pre_inv (unload w)"
proof -
  have "h_panels (mw_host (unload w)) = []"
    using assms by (auto simp: unload_sel main_inv_def panels_tracked_def split: option.splits)
  moreover have "handlers_ok (unload w)"
    using assms unload_sel(3)[of w] by (fastforce simp: main_inv_def handlers_ok_def)
  ultimately show ?thesis
    using assms by (simp add: pre_inv_def panels_tracked_def unload_sel main_inv_def)
qed

lemma load_pre: "main_inv w \<Longrightarrow> pre_inv (load w)"
  by (simp add: load_def main_inv_def pre_inv_def panels_tracked_def handlers_ok_def)

lemma refresh_tick_pre:
  assumes "main_inv w" shows "pre_inv (refresh_tick now w)"
proof (cases "debounce_fire now (mw_refresh w)")
  case (Pair u d)
  have w': "main_inv (w\<lparr>mw_refresh := d\<rparr>)" using assms by simp
  show ?thesis
  proof (cases u)
    case None
    then show ?thesis using Pair main_inv_pre[OF w'] by (simp add: refresh_tick_def)
  next
    case (Some x)
    then show ?thesis using Pair main_inv_pre[OF w'] showMindMap_pre[OF w']
      by (simp add: refresh_tick_def refresh_body_def)
  qed
qed

lemma step_pre:
  assumes "main_inv w" shows "pre_inv (main_step w e)"
proof -
  obtain now ev where e: "e = (now, ev)" by fastforce
  have quiet: "mw_tasks w = []" "handlers_ok w" using assms by (simp_all add: main_inv_def)
  show ?thesis
  proof (cases ev)
    case (Broadcast x)
    obtain d where "main_step w e = w\<lparr>mw_refresh := d\<rparr>"
      using broadcast_keeps[of "h_handlers (mw_host w)" x now w] quiet(2)
      by (auto simp: e Broadcast handlers_ok_def)
    then show ?thesis using main_inv_pre[OF assms] by simp
  next
    case (Settle i out)
    then show ?thesis using main_inv_pre[OF assms] quiet by (simp add: e settle_def)
  next
    case (UserClosesPanel p)
    then show ?thesis using assms
      by (auto simp: e main_inv_def pre_inv_def panels_tracked_def handlers_ok_def split: if_splits)
  qed (use assms in \<open>simp_all add: e load_pre unload_pre invoke_pre refresh_tick_pre main_inv_pre
    split: option.splits\<close>)
qed

lemma main_inv_init: "main_inv (main_init bs v)"
  by (simp add: main_init_def fresh_host_def main_inv_def panels_tracked_def handlers_ok_def)

lemma seq_run_inv: "main_inv w \<Longrightarrow> main_inv (seq_run w es)"
proof (induction es arbitrary: w)
  case (Cons e es)
  then show ?case using drain_pre[OF step_pre[OF Cons.prems]] by (simp add: seq_run_def)
qed (simp add: seq_run_def)

text \<open>C27: When the host settles every promise before the next event, whatever the events
  (loads, unloads, commands, shortcuts, the toolbar button, broadcasts, timer ticks, the
  user closing panels), at most one panel of the plugin is open and \<open>mindMapPanel\<close>
  holds its id.\<close>

theorem seq_run_tracks_panel: "panels_tracked (seq_run (main_init bs v) es)"
  using seq_run_inv[OF main_inv_init] by (simp add: main_inv_def)

theorem seq_run_tracks_panel_witness:
  "panels_tracked (seq_run (main_init (Some leaf_test_blocks) None)
     [(0, Load (js ''outline-plugin'')), (1, Invoke toggle_key)])"
  by (rule seq_run_tracks_panel)

lemma dot_not_in_nat_str: "0x2E \<notin> set (nat_str n)"
  using nat_str_is_digit dot_not_digit by blast

lemma split_version: "split_on 0x2E (nat_str a @ 0x2E # nat_str b) = [nat_str a, nat_str b]"
  by (simp add: split_on_append_sep split_on_no_sep dot_not_in_nat_str)

text \<open>C30: The version check on an \<open>apiVersion\<close> of the form \<open>a.b\<close> (decimal digits) passes
  exactly when \<open>(a, b)\<close> is at least \<open>(1, 5)\<close> in lexicographic order.\<close>

theorem checkCompatibility_version:
  "checkCompatibility (h\<lparr>h_api_version := Some (nat_str a @ 0x2E # nat_str b)\<rparr>) \<longleftrightarrow>
     1 < a \<or> (a = 1 \<and> 5 \<le> b)"
  by (auto simp: checkCompatibility_def Let_def split_version js_Number_nat_str)

text \<open>A malformed \<open>apiVersion\<close> passes the check: the parts of \<open>x.y\<close> are \<open>NaN\<close>,
  the missing minor part of \<open>1\<close> is \<open>NaN\<close>, and every comparison with \<open>NaN\<close> is false.\<close>

theorem checkCompatibility_malformed:
  "checkCompatibility (h\<lparr>h_api_version := Some (js ''x.y'')\<rparr>) \<and>
   checkCompatibility (h\<lparr>h_api_version := Some (js ''1'')\<rparr>)"
  by (simp add: checkCompatibility_def Let_def js_def js_Number_def js_trim_def js_exponent_def
    js_eval radix_value_def digit_val_def)

subsection \<open>Interleavings\<close>

lemma leaf_test_keys: "object_keys leaf_test_blocks = [js ''a'']"
  by (simp add: leaf_test_blocks_def keys_eval js_def js_eval)

lemma leaf_test_roots: "findRootBlocks leaf_test_blocks = [js ''a'']"
  unfolding findRootBlocks_def leaf_test_keys
  by (simp add: root_ok_def leaf_test_blocks_def tree_eval js_def js_eval)

lemma showMindMap_leaf:
  "h_blocks (mw_host w) = Some leaf_test_blocks \<Longrightarrow>
   showMindMap w = w\<lparr>mw_host := (case mindMapPanel w of Some p \<Rightarrow> closePanel p (mw_host w)
       | None \<Rightarrow> mw_host w), mindMapRenderer := True,
     mw_tasks := mw_tasks w @ [ShowAwaitPanel [leaf_tree] 1]\<rparr>"
proof -
  have "js_trim (js ''x'') \<noteq> []" by (simp add: js_trim_def js_def js_eval)
  then show "h_blocks (mw_host w) = Some leaf_test_blocks \<Longrightarrow> ?thesis"
    by (simp add: showMindMap_def leaf_test_keys leaf_test_roots buildTree_leaf_test leaf_tree_def)
qed

lemma safe_commands [simp]:
  "safeShowMindMap w = showMindMap w" "safeToggleMindMap w = toggleMindMap w"
  by (simp_all add: safeShowMindMap_def safeToggleMindMap_def withErrorBoundary_def)

lemma host_blocks_sel [simp]:
  "h_blocks (mw_host (load_resume w)) = h_blocks (mw_host w)"
  "h_blocks (registerCommand k f h) = h_blocks h" "h_blocks (unregisterCommand k h) = h_blocks h"
  "h_blocks (registerShortcut sc k h) = h_blocks h" "h_blocks (unregisterShortcut sc h) = h_blocks h"
  "h_blocks (registerToolbarButton b k h) = h_blocks h" "h_blocks (unregisterToolbarButton b h) = h_blocks h"
  "h_blocks (registerHandler ev f h) = h_blocks h" "h_blocks (unregisterHandler ev f h) = h_blocks h"
  "h_blocks (setData pl k h) = h_blocks h"
  by (simp_all add: load_resume_def registerCommand_def unregisterCommand_def registerShortcut_def
    unregisterShortcut_def registerToolbarButton_def unregisterToolbarButton_def registerHandler_def
    unregisterHandler_def setData_def)

lemma resume_sel [simp]:
  "mindMapPanel (showMindMap_resume Resolved w) = Some (h_next_panel (mw_host w))"
  "h_panels (mw_host (showMindMap_resume Resolved w)) = h_panels (mw_host w) @ [h_next_panel (mw_host w)]"
  "h_next_panel (mw_host (showMindMap_resume Resolved w)) = Suc (h_next_panel (mw_host w))"
  "h_blocks (mw_host (showMindMap_resume Resolved w)) = h_blocks (mw_host w)"
  "h_commands (mw_host (showMindMap_resume Resolved w)) = h_commands (mw_host w)"
  "mw_tasks (showMindMap_resume Resolved w) = mw_tasks w @ [ShowAwaitData]"
  by (simp_all add: showMindMap_resume_def split: prod.splits) (simp_all add: setData_def open_panel_def)

lemma load_resume_next [simp]:
  "h_next_panel (mw_host (load_resume w)) = h_next_panel (mw_host w)"
  by (simp add: load_resume_def registerCommand_def registerShortcut_def
    registerToolbarButton_def registerHandler_def)

lemma toggle_key_lookup:
  "map_of (h_commands (mw_host (load_resume w))) toggle_key = Some SafeToggleMindMap"
  by (simp add: load_resume_def registerCommand_def toggle_key_def registerShortcut_def
    registerToolbarButton_def registerHandler_def update_conv')

text \<open>The race on the trace load, toggle, toggle, both settled, toggle, unload: the
  first panel stays open and nothing refers to it.\<close>

lemma double_toggle_trace:
  "h_panels (mw_host (main_run (main_init (Some leaf_test_blocks) None) double_toggle_events)) = [0] \<and>
   mindMapPanel (main_run (main_init (Some leaf_test_blocks) None) double_toggle_events) = None"
  apply (simp add: main_run_def double_toggle_events_def main_init_def load_def checkCompatibility_def
     fresh_host_def settle_def invoke_def toggle_key_lookup showMindMap_leaf toggleMindMap_def Let_def unload_sel)
  done

lemma unload_toggle_key:
  "map_of (h_commands (mw_host (unload w))) toggle_key = None"
  by (simp add: unload_def Let_def unregisterCommand_def delete_conv' toggle_key_def unregisterShortcut_def
    unregisterToolbarButton_def unregisterHandler_def split: option.splits)

text \<open>The same on the trace load, toggle, unload, settle.\<close>

lemma unload_pending_trace:
  "h_panels (mw_host (main_run (main_init (Some leaf_test_blocks) None) unload_pending_events)) = [0] \<and>
   mindMapPanel (main_run (main_init (Some leaf_test_blocks) None) unload_pending_events) = Some 0 \<and>
   map_of (h_commands (mw_host (main_run (main_init (Some leaf_test_blocks) None) unload_pending_events)))
     toggle_key = None"
  by (simp add: main_run_def unload_pending_events_def main_init_def load_def checkCompatibility_def
     fresh_host_def settle_def invoke_def toggle_key_lookup showMindMap_leaf toggleMindMap_def Let_def
     unload_sel unload_toggle_key)

subsection \<open>The races in general\<close>

lemma showMindMap_awaits:
  assumes "mindMapPanel w = None" and "mw_tasks (showMindMap w) \<noteq> mw_tasks w"
  shows "mw_host (showMindMap w) = mw_host w \<and> mindMapPanel (showMindMap w) = None"
  using assms by (auto simp: showMindMap_def Let_def split: option.splits if_splits)

lemma settle_await_panel:
  assumes "i < length (mw_tasks w)" and "mw_tasks w ! i = ShowAwaitPanel ts n"
  shows "mindMapPanel (settle i Resolved w) = Some (h_next_panel (mw_host w))"
    "h_panels (mw_host (settle i Resolved w)) = h_panels (mw_host w) @ [h_next_panel (mw_host w)]"
    "h_next_panel (mw_host (settle i Resolved w)) = Suc (h_next_panel (mw_host w))"
    "h_commands (mw_host (settle i Resolved w)) = h_commands (mw_host w)"
    "mw_tasks (settle i Resolved w) = take i (mw_tasks w) @ drop (Suc i) (mw_tasks w) @ [ShowAwaitData]"
  using assms by (simp_all add: settle_def showMindMap_resume_def Let_def case_prod_beta setData_def)

lemma unload_keeps:
  "mw_tasks (unload w) = mw_tasks w" "h_next_panel (mw_host (unload w)) = h_next_panel (mw_host w)"
  by (simp_all add: unload_def Let_def unregisterCommand_def unregisterShortcut_def
    unregisterToolbarButton_def unregisterHandler_def split: option.splits)

text \<open>C28: From any world tracking no panel, when two toggles each reach the
  \<open>addPanel\<close> call before either settles, settling both opens two panels and only the
  second is tracked: the first is never closed by the plugin.\<close>

theorem double_toggle_leaks_panel:
  assumes "mindMapPanel w = None"
    and "mw_tasks (toggleMindMap w) = mw_tasks w @ [ShowAwaitPanel ts1 n1]"
    and "mw_tasks (toggleMindMap (toggleMindMap w)) = mw_tasks (toggleMindMap w) @ [ShowAwaitPanel ts2 n2]"
  shows "h_panels (mw_host (settle (length (mw_tasks w)) Resolved
            (settle (length (mw_tasks w)) Resolved (toggleMindMap (toggleMindMap w))))) =
           h_panels (mw_host w) @ [h_next_panel (mw_host w), Suc (h_next_panel (mw_host w))] \<and>
         mindMapPanel (settle (length (mw_tasks w)) Resolved
            (settle (length (mw_tasks w)) Resolved (toggleMindMap (toggleMindMap w)))) =
           Some (Suc (h_next_panel (mw_host w)))"
proof -
  let ?w1 = "toggleMindMap w" and ?w2 = "toggleMindMap (toggleMindMap w)" and ?i = "length (mw_tasks w)"
  have t1: "?w1 = showMindMap w" using assms(1) by (simp add: toggleMindMap_def)
  from showMindMap_awaits[OF assms(1)] assms(2) t1
  have h1: "mw_host ?w1 = mw_host w" "mindMapPanel ?w1 = None" by auto
  have t2: "?w2 = showMindMap ?w1" using h1(2) by (simp add: toggleMindMap_def)
  from showMindMap_awaits[OF h1(2)] assms(3) t2
  have h2: "mw_host ?w2 = mw_host w" by (auto simp: h1)
  have tk: "mw_tasks ?w2 = mw_tasks w @ [ShowAwaitPanel ts1 n1, ShowAwaitPanel ts2 n2]"
    using assms(2,3) by simp
  have s1: "?i < length (mw_tasks ?w2)" "mw_tasks ?w2 ! ?i = ShowAwaitPanel ts1 n1"
    by (simp_all add: tk nth_append)
  let ?w3 = "settle ?i Resolved ?w2"
  have s2: "?i < length (mw_tasks ?w3)" "mw_tasks ?w3 ! ?i = ShowAwaitPanel ts2 n2"
    using settle_await_panel(5)[OF s1] by (simp_all add: tk nth_append)
  show ?thesis
    using settle_await_panel(1,2,3)[OF s1] settle_await_panel(1,2)[OF s2] by (simp add: h2)
qed

text \<open>C29: From any world with an \<open>addPanel\<close> of \<open>showMindMap\<close> pending, an
  \<open>unload\<close> closes nothing for it; when the call settles the panel opens and is tracked
  by the unloaded plugin, whose toggle command is gone.\<close>

theorem unload_then_panel_opens:
  assumes "i < length (mw_tasks w)" and "mw_tasks w ! i = ShowAwaitPanel ts n"
  shows "mindMapPanel (settle i Resolved (unload w)) = Some (h_next_panel (mw_host w)) \<and>
    h_next_panel (mw_host w) \<in> set (h_panels (mw_host (settle i Resolved (unload w)))) \<and>
    map_of (h_commands (mw_host (settle i Resolved (unload w)))) toggle_key = None"
proof -
  have "i < length (mw_tasks (unload w))" "mw_tasks (unload w) ! i = ShowAwaitPanel ts n"
    using assms by (simp_all add: unload_keeps)
  from settle_await_panel[OF this] show ?thesis by (simp add: unload_keeps unload_toggle_key)
qed

subsection \<open>Registrations\<close>

lemma map_of_delete_update:
  "map_of al k = None \<Longrightarrow> map_of (AList.delete k (AList.update k v al)) = map_of al"
  by (auto simp: delete_conv' update_conv')

lemma unload_regs:
  "h_commands (mw_host (unload w)) = AList.delete (js ''outline-plugin.toggleMindMap'')
     (AList.delete (js ''outline-plugin.showMindMap'') (h_commands (mw_host w)))"
  "h_shortcuts (mw_host (unload w)) = AList.delete (js ''Ctrl+M'') (h_shortcuts (mw_host w))"
  "h_buttons (mw_host (unload w)) = AList.delete (js ''outline-plugin.button'') (h_buttons (mw_host w))"
  "set (h_handlers (mw_host (unload w))) = set (h_handlers (mw_host w)) - main_handlers"
  by (auto simp: unload_def Let_def unregisterCommand_def unregisterShortcut_def closePanel_def
    unregisterToolbarButton_def unregisterHandler_def notify_def main_handlers_def split: option.splits)

lemma load_resume_regs:
  "h_commands (mw_host (load_resume w)) = AList.update (js ''outline-plugin.toggleMindMap'') SafeToggleMindMap
     (AList.update (js ''outline-plugin.showMindMap'') SafeShowMindMap (h_commands (mw_host w)))"
  "h_shortcuts (mw_host (load_resume w)) =
     AList.update (js ''Ctrl+M'') (js ''outline-plugin.toggleMindMap'') (h_shortcuts (mw_host w))"
  "h_buttons (mw_host (load_resume w)) =
     AList.update (js ''outline-plugin.button'') (js ''outline-plugin.showMindMap'') (h_buttons (mw_host w))"
  by (simp_all add: load_resume_def registerCommand_def registerShortcut_def
    registerToolbarButton_def registerHandler_def)

text \<open>C31: On a host where the plugin's ids are free, \<open>unload\<close> after \<open>load\<close> leaves the
  command, shortcut, button and broadcast registries as they were.\<close>

theorem unload_load_registrations:
  assumes "main_keys_free (mw_host w)"
  shows "registrations (mw_host (unload (load_resume w))) = registrations (mw_host w)"
proof -
  have c: "map_of (h_commands (mw_host (unload (load_resume w)))) = map_of (h_commands (mw_host w))"
    using assms by (auto simp: unload_regs load_resume_regs delete_conv' update_conv' main_keys_free_def)
  have s: "map_of (h_shortcuts (mw_host (unload (load_resume w)))) = map_of (h_shortcuts (mw_host w))"
    using assms by (simp add: unload_regs load_resume_regs map_of_delete_update main_keys_free_def)
  have b: "map_of (h_buttons (mw_host (unload (load_resume w)))) = map_of (h_buttons (mw_host w))"
    using assms by (simp add: unload_regs load_resume_regs map_of_delete_update main_keys_free_def)
  have h: "set (h_handlers (mw_host (unload (load_resume w)))) = set (h_handlers (mw_host w))"
    using assms by (simp add: unload_regs load_resume_regs main_keys_free_def Un_Diff Diff_triv)
  show ?thesis using c s b h by (simp add: registrations_def)
qed

theorem unload_load_registrations_witness:
  "registrations (mw_host (unload (load_resume (main_init (Some leaf_test_blocks) None)))) =
   registrations (mw_host (main_init (Some leaf_test_blocks) None))"
proof -
  have "main_keys_free (mw_host (main_init (Some leaf_test_blocks) None))"
    by (simp add: main_keys_free_def main_init_def fresh_host_def)
  from unload_load_registrations[OF this] show ?thesis .
qed

subsection \<open>A cyclic mapping\<close>

text \<open>C32: When a root lies on a cycle of expanding blocks, \<open>showMindMap\<close> catches the
  stack overflow of \<open>buildTree\<close>: it only shows the error notification and opens or
  closes no panel.\<close>

theorem showMindMap_cycle_reports:
  assumes "h_blocks (mw_host w) = Some bs" and "cycle_closed bs S"
    and "r \<in> set (findRootBlocks bs)" and "r \<in> set S"
  shows "showMindMap w = on_host (notify (js ''error'') (txt_show_failed @ stack_overflow_message)) w"
proof -
  have "buildTree r bs 0 \<noteq> Some t" for t
    using buildTree_returns_outside_cycle[OF assms(2)] assms(4) by blast
  then have none: "map_opt (\<lambda>r. buildTree r bs 0) (findRootBlocks bs) = None"
    using assms(3) unfolding map_opt_None_iff by (metis not_Some_eq)
  have "findRootBlocks bs \<noteq> []" using assms(3) by auto
  moreover have "object_keys bs \<noteq> []" using assms(3) by (auto simp: findRootBlocks_def)
  ultimately show ?thesis using assms(1) none by (simp add: showMindMap_def)
qed

theorem showMindMap_cycle_reports_witness:
  "showMindMap (main_init (Some self_loop_blocks) None) =
   on_host (notify (js ''error'') (txt_show_failed @ stack_overflow_message)) (main_init (Some self_loop_blocks) None)"
proof -
  have c: "cycle_closed self_loop_blocks [js ''a'']"
    by (simp add: cycle_closed_def self_loop_blocks_def tree_eval)
  have r: "js ''a'' \<in> set (findRootBlocks self_loop_blocks)"
    by (simp add: findRootBlocks_def self_loop_blocks_def root_ok_def keys_eval tree_eval)
  have b: "h_blocks (mw_host (main_init (Some self_loop_blocks) None)) = Some self_loop_blocks"
    by (simp add: main_init_def fresh_host_def)
  show ?thesis using showMindMap_cycle_reports[OF b c r] by simp
qed

theorem double_toggle_leaks_panel_witness:
  "h_panels (mw_host (settle 0 Resolved (settle 0 Resolved
      (toggleMindMap (toggleMindMap (main_init (Some leaf_test_blocks) None)))))) = [0, 1] \<and>
   mindMapPanel (settle 0 Resolved (settle 0 Resolved
      (toggleMindMap (toggleMindMap (main_init (Some leaf_test_blocks) None))))) = Some 1"
proof -
  let ?w = "main_init (Some leaf_test_blocks) None"
  have p: "mindMapPanel ?w = None" by (simp add: main_init_def)
  have b: "h_blocks (mw_host ?w) = Some leaf_test_blocks" by (simp add: main_init_def fresh_host_def)
  have t1: "toggleMindMap ?w = showMindMap ?w" using p by (simp add: toggleMindMap_def)
  have k1: "mw_tasks (toggleMindMap ?w) = mw_tasks ?w @ [ShowAwaitPanel [leaf_tree] 1]"
    "mindMapPanel (toggleMindMap ?w) = None"
    "h_blocks (mw_host (toggleMindMap ?w)) = Some leaf_test_blocks"
    using p b by (simp_all add: t1 showMindMap_leaf[OF b])
  have t2: "toggleMindMap (toggleMindMap ?w) = showMindMap (toggleMindMap ?w)"
    using k1(2) by (simp add: toggleMindMap_def)
  have h2: "mw_tasks (toggleMindMap ?w) = mw_tasks ?w @ [ShowAwaitPanel [leaf_tree] 1]"
    "mw_tasks (toggleMindMap (toggleMindMap ?w)) = mw_tasks (toggleMindMap ?w) @ [ShowAwaitPanel [leaf_tree] 1]"
    using k1 by (simp_all add: t2 showMindMap_leaf[OF k1(3)])
  show ?thesis using double_toggle_leaks_panel[OF p h2]
    by (simp add: main_init_def fresh_host_def)
qed

theorem unload_then_panel_opens_witness:
  "0 < length (mw_tasks ((main_init None None)\<lparr>mw_tasks := [ShowAwaitPanel [] 0]\<rparr>)) \<and>
   mindMapPanel (settle 0 Resolved (unload ((main_init None None)\<lparr>mw_tasks := [ShowAwaitPanel [] 0]\<rparr>))) = Some 0 \<and>
   map_of (h_commands (mw_host (settle 0 Resolved
     (unload ((main_init None None)\<lparr>mw_tasks := [ShowAwaitPanel [] 0]\<rparr>))))) toggle_key = None"
  using unload_then_panel_opens[of 0 "(main_init None None)\<lparr>mw_tasks := [ShowAwaitPanel [] 0]\<rparr>" "[]" 0]
  by (simp add: main_init_def fresh_host_def)

end
