(* ===== verification/Plugin_Simple.thy ===== *)
theory Plugin_Simple
  imports Plugin_Main "HOL-Library.Sublist"
begin

text \<open>
  The plugin of \<open>src/src/main-simple.ts\<close>: its own \<open>buildTree\<close> (raw text cut to 200
  code units, no sanitizer, no noise filter, every child visited, \<open>partial_function\<close>
  since it does not return on a cycle), \<open>findRootBlocks\<close> (parent test only),
  \<open>renderTree\<close> and the panel markup, then \<open>showMindMap\<close> split at its \<open>await\<close> of
  \<open>addPanel\<close>, \<open>toggleMindMap\<close>, \<open>load\<close> and \<open>unload\<close> with the ids built from the
  plugin name, driven by the host events of \<open>Host\<close>. The notification texts it shares
  with \<open>main.ts\<close> are those of \<open>Plugin_Main\<close>. The theorem: the block text reaches the
  panel markup unsanitized.
\<close>

text \<open>The function values \<open>main-simple.ts\<close> registers: \<open>showMindMap\<close> and \<open>toggleMindMap\<close>
  themselves, without an error boundary.\<close>

datatype simple_handler = SShowMindMap | SToggleMindMap

text \<open>The object \<open>buildTree\<close> returns (lines 22 to 27): no parent field, the raw text.\<close>

datatype simple_node =
  SNode (sn_id: jstr) (sn_content: jstr) (sn_children: "simple_node list") (sn_level: nat)

text \<open>The module state (lines 10 and 11) with the host and the pending continuations of
  \<open>showMindMap\<close>, each holding the markup its panel will show. \<open>pluginName\<close> starts
  \<open>undefined\<close>, which a template literal prints as \<open>undefined\<close>.\<close>

record simple_world =
  sw_host :: "simple_handler host"
  pluginName :: jstr
  sw_panel :: "panel_id option"
  sw_tasks :: "jstr list"

text \<open>\<open>buildTree(blockId, allBlocks, level)\<close> (lines 14 to 28): \<open>null\<close> (the inner \<open>None\<close>)
  for a missing block, the text cut to 200 code units, no sanitizing and no noise filter,
  every child visited; \<open>.filter(Boolean)\<close> drops the \<open>null\<close> children. The outer \<open>None\<close>
  is the recursion that never returns (on a cycle).\<close>

partial_function (option) simple_buildTree ::
  "jstr \<Rightarrow> blocks \<Rightarrow> nat \<Rightarrow> simple_node option option" where
  "simple_buildTree blockId allBlocks lvl =
     (case obj_get allBlocks blockId of
        None \<Rightarrow> Some None
      | Some block \<Rightarrow>
          Option.bind (map_opt (\<lambda>c. simple_buildTree c allBlocks (Suc lvl)) (children_of block))
            (\<lambda>kids. Some (Some (SNode (block_id block) (take 200 (text_of block))
               (List.map_filter id kids) lvl))))"

text \<open>\<open>findRootBlocks(blocks)\<close> (lines 31 to 36): only the parent test.\<close>

definition simple_root_ok :: "blocks \<Rightarrow> jstr \<Rightarrow> bool" where
  "simple_root_ok bs k =
     (case obj_get bs k of
        None \<Rightarrow> False
      | Some b \<Rightarrow> (case block_parent b of None \<Rightarrow> True | Some p \<Rightarrow> p = [] \<or> obj_get bs p = None))"

definition simple_findRootBlocks :: "blocks \<Rightarrow> jstr list" where
  "simple_findRootBlocks bs = filter (simple_root_ok bs) (object_keys bs)"

text \<open>\<open>renderTree(node, depth)\<close> (lines 39 to 51); the bullets are those of \<open>getBullet\<close>.\<close>

definition simple_line :: "nat \<Rightarrow> jstr \<Rightarrow> jstr" where
  \<open>simple_line depth c =
     concat (replicate depth (js ''  '')) @ js ''<div style="margin: 5px 0; font-size: '' @
     int_str (max 12 (16 - int depth * 2)) @ js ''px; padding-left: '' @ nat_str (depth * 20) @
     js ''px;">'' @ getBullet depth @ c @ js ''</div>'' @ [0x0A]\<close>

fun renderTree :: "simple_node \<Rightarrow> nat \<Rightarrow> jstr" where
  "renderTree (SNode i c ks l) depth =
     simple_line depth c @ concat (map (\<lambda>k. renderTree k (Suc depth)) ks)"

text \<open>The markup \<open>showMindMap\<close> assembles (lines 70 to 84).\<close>

definition simple_header :: jstr where
  \<open>simple_header = js ''\<newline>    <div style="padding: 20px; font-family: var(--orca-font-family, sans-serif);">\<newline>      <h3 style="margin: 0 0 15px 0; color: var(--orca-color-text-1, #333);">'' @ [0xD83D, 0xDCD6] @ js '' '' @ [0x7B14, 0x8BB0, 0x5927, 0x7EB2, 0x7ED3, 0x6784] @ js ''</h3>\<newline>      <div style="border: 1px solid var(--orca-color-border, #e0e0e0); border-radius: 8px; padding: 15px; background: var(--orca-color-bg-2, #fafafa); max-height: 500px; overflow-y: auto;">\<newline>  ''\<close>

definition simple_footer :: "nat \<Rightarrow> jstr" where
  \<open>simple_footer cnt = js ''\<newline>      </div>\<newline>      <p style="margin-top: 15px; font-size: 12px; color: var(--orca-color-text-3, #999);">'' @ [0xD83D, 0xDCA1] @ js '' '' @ [0x5171] @ js '' '' @ nat_str cnt @ js '' '' @ [0x4E2A, 0x5757] @ js ''</p>\<newline>    </div>\<newline>  ''\<close>

definition simple_html :: "simple_node list \<Rightarrow> nat \<Rightarrow> jstr" where
  "simple_html trees cnt = simple_header @ concat (map (\<lambda>t. renderTree t 0) trees) @ simple_footer cnt"

definition son_host :: "(simple_handler host \<Rightarrow> simple_handler host) \<Rightarrow> simple_world \<Rightarrow> simple_world" where
  "son_host f w = w\<lparr>sw_host := f (sw_host w)\<rparr>"

text \<open>\<open>showMindMap()\<close> (lines 54 to 92) up to the \<open>await\<close> of \<open>addPanel\<close>. There is no
  \<open>try\<close>: a \<open>buildTree\<close> that overflows the stack rejects the returned promise and
  nothing is shown or changed.\<close>

definition simple_showMindMap :: "simple_world \<Rightarrow> simple_world" where
  "simple_showMindMap w =
     (case h_blocks (sw_host w) of
        None \<Rightarrow> son_host (notify (js ''warn'') txt_no_blocks) w
      | Some bs \<Rightarrow>
          if object_keys bs = [] then son_host (notify (js ''warn'') txt_no_blocks) w
          else
            (let roots = simple_findRootBlocks bs in
             if roots = [] then son_host (notify (js ''warn'') txt_no_roots) w
             else
               (case map_opt (\<lambda>r. simple_buildTree r bs 0) roots of
                  None \<Rightarrow> w
                | Some ts \<Rightarrow>
                    w\<lparr>sw_host := (case sw_panel w of Some p \<Rightarrow> closePanel p (sw_host w)
                                                   | None \<Rightarrow> sw_host w),
                      sw_tasks := sw_tasks w @ [simple_html (List.map_filter id ts) (length (object_keys bs))]\<rparr>)))"

text \<open>The rest once \<open>addPanel\<close> settles (lines 92 to 104); a rejection is unhandled.\<close>

definition simple_showMindMap_resume :: "outcome \<Rightarrow> simple_world \<Rightarrow> simple_world" where
  "simple_showMindMap_resume out w =
     (case out of
        Resolved \<Rightarrow>
          (let (p, h) = open_panel (sw_host w) in
           w\<lparr>sw_host := notify (js ''success'') txt_shown h, sw_panel := Some p\<rparr>)
      | Rejected e \<Rightarrow> w)"

text \<open>\<open>toggleMindMap()\<close> (lines 108 to 116).\<close>

definition simple_toggleMindMap :: "simple_world \<Rightarrow> simple_world" where
  "simple_toggleMindMap w =
     (case sw_panel w of
        Some p \<Rightarrow> w\<lparr>sw_host := notify (js ''info'') txt_closed (closePanel p (sw_host w)), sw_panel := None\<rparr>
      | None \<Rightarrow> simple_showMindMap w)"

text \<open>\<open>load(_name)\<close> (lines 119 to 151): the ids are built from the plugin name.\<close>

definition simple_load :: "jstr \<Rightarrow> simple_world \<Rightarrow> simple_world" where
  "simple_load nm w =
     son_host (notify (js ''success'') txt_enabled \<circ>
       registerShortcut (js ''Ctrl+M'') (nm @ js ''.toggleMindMap'') \<circ>
       registerToolbarButton (nm @ js ''.button'') (nm @ js ''.showMindMap'') \<circ>
       registerCommand (nm @ js ''.toggleMindMap'') SToggleMindMap \<circ>
       registerCommand (nm @ js ''.showMindMap'') SShowMindMap) (w\<lparr>pluginName := nm\<rparr>)"

text \<open>\<open>unload()\<close> (lines 154 to 175).\<close>

definition simple_unload :: "simple_world \<Rightarrow> simple_world" where
  "simple_unload w =
     (let nm = pluginName w;
          w1 = (case sw_panel w of
                  Some p \<Rightarrow> w\<lparr>sw_host := closePanel p (sw_host w), sw_panel := None\<rparr>
                | None \<Rightarrow> w)
      in son_host (notify (js ''info'') txt_disabled \<circ>
           unregisterShortcut (js ''Ctrl+M'') \<circ>
           unregisterToolbarButton (nm @ js ''.button'') \<circ>
           unregisterCommand (nm @ js ''.toggleMindMap'') \<circ>
           unregisterCommand (nm @ js ''.showMindMap'')) w1)"

fun simple_run_handler :: "simple_handler \<Rightarrow> simple_world \<Rightarrow> simple_world" where
  "simple_run_handler SShowMindMap w = simple_showMindMap w"
| "simple_run_handler SToggleMindMap w = simple_toggleMindMap w"

definition simple_invoke :: "jstr \<Rightarrow> simple_world \<Rightarrow> simple_world" where
  "simple_invoke k w =
     (case map_of (h_commands (sw_host w)) k of None \<Rightarrow> w | Some f \<Rightarrow> simple_run_handler f w)"

definition simple_settle :: "nat \<Rightarrow> outcome \<Rightarrow> simple_world \<Rightarrow> simple_world" where
  "simple_settle i out w =
     (if i < length (sw_tasks w) then
        simple_showMindMap_resume out (w\<lparr>sw_tasks := take i (sw_tasks w) @ drop (Suc i) (sw_tasks w)\<rparr>)
      else w)"

fun simple_step :: "simple_world \<Rightarrow> nat \<times> host_event \<Rightarrow> simple_world" where
  "simple_step w (now, Load nm) = simple_load nm w"
| "simple_step w (now, Unload) = simple_unload w"
| "simple_step w (now, Invoke k) = simple_invoke k w"
| "simple_step w (now, Shortcut sc) =
     (case map_of (h_shortcuts (sw_host w)) sc of None \<Rightarrow> w | Some k \<Rightarrow> simple_invoke k w)"
| "simple_step w (now, Button b) =
     (case map_of (h_buttons (sw_host w)) b of None \<Rightarrow> w | Some k \<Rightarrow> simple_invoke k w)"
| "simple_step w (now, Broadcast ev) = w"
| "simple_step w (now, Tick) = w"
| "simple_step w (now, Settle i out) = simple_settle i out w"
| "simple_step w (now, UserClosesPanel p) = son_host (closePanel p) w"

definition simple_init :: "blocks option \<Rightarrow> simple_world" where
  "simple_init bs = \<lparr>sw_host = fresh_host bs None, pluginName = js ''undefined'', sw_panel = None,
     sw_tasks = []\<rparr>"

text \<open>A block text that is a complete tag with an event handler.\<close>

definition img_tag :: jstr where
  "img_tag = js ''<img src=x onerror=alert(1)>''"

subsection \<open>Proofs\<close>

lemma object_keys_single: "object_keys [(k, b)] = [k]"
  by (simp add: object_keys_def)

lemma simple_buildTree_leaf:
  "obj_get bs k = Some b \<Longrightarrow> children_of b = [] \<Longrightarrow>
   simple_buildTree k bs l = Some (Some (SNode (block_id b) (take 200 (text_of b)) [] l))"
  by (simp add: simple_buildTree.simps)

lemma sublist_simple_line: "sublist c (simple_line d c)"
proof -
  have \<open>simple_line d c = (concat (replicate d (js ''  '')) @ js ''<div style="margin: 5px 0; font-size: '' @
     int_str (max 12 (16 - int d * 2)) @ js ''px; padding-left: '' @ nat_str (d * 20) @
     js ''px;">'' @ getBullet d) @ c @ (js ''</div>'' @ [0x0A])\<close>
    by (simp add: simple_line_def)
  then show ?thesis by (metis sublist_appendI)
qed

text \<open>C33: The simple variant puts the block text (its first 200 code units) into the
  markup of the panel unchanged: \<open>buildTree\<close> of \<open>main-simple.ts\<close> applies no
  sanitizer, and the markup is assigned to \<open>innerHTML\<close>.\<close>

theorem simple_show_raw_text:
  assumes "h_blocks (sw_host w) = Some [(k, b)]" and "block_parent b = None" and "children_of b = []"
  shows "sublist (take 200 (text_of b)) (last (sw_tasks (simple_showMindMap w)))"
proof -
  have r: "simple_findRootBlocks [(k, b)] = [k]"
    using assms(2) by (simp add: simple_findRootBlocks_def object_keys_single simple_root_ok_def obj_get_def)
  have t: "simple_buildTree k [(k, b)] 0 = Some (Some (SNode (block_id b) (take 200 (text_of b)) [] 0))"
    using assms(3) by (simp add: simple_buildTree_leaf obj_get_def)
  have "last (sw_tasks (simple_showMindMap w)) =
      simple_header @ simple_line 0 (take 200 (text_of b)) @ simple_footer 1"
    using assms(1) r t by (simp add: simple_showMindMap_def object_keys_single simple_html_def)
  moreover have "sublist (take 200 (text_of b))
      (simple_header @ simple_line 0 (take 200 (text_of b)) @ simple_footer 1)"
    using sublist_simple_line by (simp add: sublist_append)
  ultimately show ?thesis by simp
qed

theorem simple_show_raw_text_witness:
  "sublist img_tag (last (sw_tasks (simple_showMindMap
     (simple_init (Some [(js ''x'', blk (js ''x'') img_tag [] None)])))))"
proof -
  have "sublist (take 200 (text_of (blk (js ''x'') img_tag [] None))) (last (sw_tasks (simple_showMindMap
     (simple_init (Some [(js ''x'', blk (js ''x'') img_tag [] None)])))))"
    by (rule simple_show_raw_text) (simp_all add: simple_init_def fresh_host_def blk_def children_of_def)
  moreover have "take 200 img_tag = img_tag" by (simp add: img_tag_def js_def)
  ultimately show ?thesis by (simp add: blk_def text_of_def)
qed

end
