(* ===== verification/Plugin_Basic.thy ===== *)
theory Plugin_Basic
  imports Plugin_Main
begin

text \<open>
  The plugin of \<open>src/src/basic-outline.ts\<close>: \<open>renderNode\<close> and \<open>countBlocks\<close>, both
  recursions over every child id with no visited set (\<open>partial_function (option)\<close>,
  \<open>None\<close> when they never return), \<open>generateOutlineHTML\<close> with its templates, the two
  display routes (a new window, whose document is kept, and a modal overlay appended
  to the page) and the plugin lifecycle, driven by the host events of \<open>Host\<close>. The
  lemmas: on a cycle of children both recursions diverge and the commands report the
  stack overflow; the count on the unit test's mapping; the command starts from the
  first key of \<open>Object.keys\<close>, which need not be a root.
\<close>

text \<open>The functions \<open>basic-outline.ts\<close> registers: the two command closures of \<open>load\<close>.\<close>

datatype basic_handler = BShowInWindow | BShowDialog

text \<open>The module state (\<open>pluginName\<close>, line 10), the host, and the browser around the
  plugin: the documents written into the windows it opened, the dialog markup of the
  overlays it appended to \<open>document.body\<close>, whether \<open>window.open\<close> returns a window
  (pop-ups allowed), and \<open>toLocaleTimeString()\<close> of a time.\<close>

record basic_world =
  bw_host :: "basic_handler host"
  bw_name :: jstr
  bw_windows :: "jstr list"
  bw_overlays :: "jstr list"
  bw_popups :: bool
  bw_clock :: "nat \<Rightarrow> jstr"

text \<open>\<open>renderNode(nodeId, level)\<close> (lines 21 to 49): the bullet, colour and content of a
  node, the markup of one node, then every child in order. A missing node renders as
  the empty string; the recursion follows every child id and does not return on a
  cycle (\<open>None\<close>).\<close>

definition basic_bullet :: "nat \<Rightarrow> jstr" where
  "basic_bullet lvl = [[0x25CF], [0x25CB], [0x25AA], [0x25AB], [0x2023]] ! min lvl 4"

definition basic_text_color :: "nat \<Rightarrow> jstr" where
  "basic_text_color lvl =
     (if lvl = 0 then js ''#2563eb'' else if lvl = 1 then js ''#374151'' else js ''#6b7280'')"

definition basic_content :: "block \<Rightarrow> jstr" where
  "basic_content node = take 150 (if text_of node = [] then [0x672A, 0x547D, 0x540D] else text_of node)"

definition basic_node_html :: "nat \<Rightarrow> block \<Rightarrow> jstr" where
  \<open>basic_node_html lvl node =
     js ''<div style="\<newline>      margin: '' @ (if lvl = 0 then js ''12px'' else js ''6px'') @ js '' 0; \<newline>      padding-left: '' @ nat_str (lvl * 24) @ js ''px; \<newline>      font-size: '' @ int_str (max 12 (16 - int lvl * 2)) @ js ''px; \<newline>      line-height: 1.5;\<newline>      font-weight: '' @ (if lvl = 0 then js ''600'' else if lvl = 1 then js ''500'' else js ''normal'') @ js '';\<newline>    ">\<newline>      <span style="color: #2563eb; margin-right: 8px;">'' @ basic_bullet lvl @ js ''</span>\<newline>      <span style="color: '' @ basic_text_color lvl @ js '';">'' @ basic_content node @ js ''</span>\<newline>    </div>''\<close>

partial_function (option) renderNode :: "jstr \<Rightarrow> blocks \<Rightarrow> nat \<Rightarrow> jstr option" where
  "renderNode nodeId allBlocks lvl =
     (case obj_get allBlocks nodeId of
        None \<Rightarrow> Some []
      | Some node \<Rightarrow>
          Option.bind (map_opt (\<lambda>c. renderNode c allBlocks (Suc lvl)) (children_of node))
            (\<lambda>hs. Some (basic_node_html lvl node @ concat hs)))"

text \<open>\<open>countBlocks(blockId, allBlocks)\<close> (lines 102 to 113): the block and, for every child
  id, its count; a missing block counts \<open>0\<close>.\<close>

partial_function (option) countBlocks :: "jstr \<Rightarrow> blocks \<Rightarrow> nat option" where
  "countBlocks blockId allBlocks =
     (case obj_get allBlocks blockId of
        None \<Rightarrow> Some 0
      | Some block \<Rightarrow>
          Option.bind (map_opt (\<lambda>c. countBlocks c allBlocks) (children_of block))
            (\<lambda>ns. Some (1 + sum_list ns)))"

text \<open>\<open>generateOutlineHTML(blockId)\<close> (lines 13 to 99) with the blocks it reads and the
  time it prints.\<close>

definition basic_missing_html :: jstr where
  \<open>basic_missing_html =
     js ''<div style="padding: 20px; color: red;">'' @ [0x672A, 0x627E, 0x5230, 0x6307, 0x5B9A, 0x5757] @ js ''</div>''\<close>

definition basic_page :: "jstr \<Rightarrow> jstr \<Rightarrow> nat \<Rightarrow> jstr \<Rightarrow> jstr" where
  \<open>basic_page title body cnt time =
     js ''\<newline>    <div style="\<newline>      font-family: -apple-system, BlinkMacSystemFont, '' @ [0x0027] @ js ''Segoe UI'' @ [0x0027] @ js '', system-ui, sans-serif;\<newline>      max-width: 800px;\<newline>      margin: 0 auto;\<newline>      padding: 24px;\<newline>      background: white;\<newline>      border-radius: 8px;\<newline>      box-shadow: 0 4px 6px rgba(0, 0, 0, 0.1);\<newline>    ">\<newline>      <h2 style="\<newline>        margin: 0 0 24px 0;\<newline>        color: #1f2937;\<newline>        font-size: 24px;\<newline>        border-bottom: 3px solid #2563eb;\<newline>        padding-bottom: 12px;\<newline>      ">\<newline>        '' @ [0xD83E, 0xDDE0] @ js '' '' @ title @ js ''\<newline>      </h2>\<newline>      \<newline>      <div style="\<newline>        background: #f8fafc;\<newline>        border: 1px solid #e2e8f0;\<newline>        border-radius: 6px;\<newline>        padding: 20px;\<newline>        margin-bottom: 16px;\<newline>        max-height: 500px;\<newline>        overflow-y: auto;\<newline>      ">\<newline>        '' @ body @ js ''\<newline>      </div>\<newline>      \<newline>      <div style="\<newline>        display: flex;\<newline>        justify-content: space-between;\<newline>        align-items: center;\<newline>        font-size: 14px;\<newline>        color: #6b7280;\<newline>        border-top: 1px solid #e2e8f0;\<newline>        padding-top: 12px;\<newline>      ">\<newline>        <span>'' @ [0xD83D, 0xDCCA] @ js '' '' @ [0x5305, 0x542B] @ js '' '' @ nat_str cnt @ js '' '' @ [0x4E2A, 0x8282, 0x70B9] @ js ''</span>\<newline>        <span>'' @ [0xD83D, 0xDD52] @ js '' '' @ time @ js ''</span>\<newline>      </div>\<newline>    </div>\<newline>  ''\<close>

definition generateOutlineHTML :: "jstr \<Rightarrow> blocks \<Rightarrow> jstr \<Rightarrow> jstr option" where
  "generateOutlineHTML blockId allBlocks time =
     (case obj_get allBlocks blockId of
        None \<Rightarrow> Some basic_missing_html
      | Some block \<Rightarrow>
          Option.bind (countBlocks blockId allBlocks) (\<lambda>cnt.
          Option.bind (renderNode blockId allBlocks 0) (\<lambda>body.
            Some (basic_page (take 60 (if text_of block = [] then [0x601D, 0x7EF4, 0x5BFC, 0x56FE]
                                       else text_of block)) body cnt time))))"

text \<open>The document written into a new window (lines 127 to 146).\<close>

definition window_document :: "jstr \<Rightarrow> jstr" where
  \<open>window_document outlineHTML =
     js ''\<newline>      <!DOCTYPE html>\<newline>      <html>\<newline>        <head>\<newline>          <meta charset="utf-8">\<newline>          <title>'' @ [0x601D, 0x7EF4, 0x5BFC, 0x56FE] @ js '' - '' @ [0x864E, 0x9CB8, 0x7B14, 0x8BB0] @ js ''</title>\<newline>          <style>\<newline>            body {\<newline>              margin: 0;\<newline>              padding: 20px;\<newline>              background: #f1f5f9;\<newline>              font-family: -apple-system, BlinkMacSystemFont, '' @ [0x0027] @ js ''Segoe UI'' @ [0x0027] @ js '', system-ui, sans-serif;\<newline>            }\<newline>          </style>\<newline>        </head>\<newline>        <body>\<newline>          '' @ outlineHTML @ js ''\<newline>        </body>\<newline>      </html>\<newline>    ''\<close>

text \<open>The notification texts: pop-up blocked, opened in a new window, generated, the node
  count suffix, generation failed, no block, enabled, disabled.\<close>

definition txt_popup_blocked :: jstr where
  "txt_popup_blocked = [0x65E0, 0x6CD5, 0x6253, 0x5F00, 0x65B0, 0x7A97, 0x53E3, 0xFF0C, 0x8BF7, 0x68C0,
     0x67E5, 0x6D4F, 0x89C8, 0x5668, 0x5F39, 0x7A97, 0x8BBE, 0x7F6E]"
definition txt_window_opened :: jstr where
  "txt_window_opened = [0x601D, 0x7EF4, 0x5BFC, 0x56FE, 0x5DF2, 0x5728, 0x65B0, 0x7A97, 0x53E3, 0x6253, 0x5F00] @ js '' - ''"
definition txt_dialog_shown :: jstr where
  "txt_dialog_shown = [0x601D, 0x7EF4, 0x5BFC, 0x56FE, 0x5DF2, 0x751F, 0x6210] @ js '' - ''"
definition txt_nodes :: jstr where
  "txt_nodes = js '' '' @ [0x4E2A, 0x8282, 0x70B9]"
definition txt_gen_failed :: jstr where
  "txt_gen_failed = [0x751F, 0x6210, 0x5931, 0x8D25] @ js '': ''"
definition txt_no_first_block :: jstr where
  "txt_no_first_block = [0x5F53, 0x524D, 0x6CA1, 0x6709, 0x53EF, 0x7528, 0x7684, 0x7B14, 0x8BB0, 0x5757]"
definition txt_basic_enabled :: jstr where
  "txt_basic_enabled = [0x601D, 0x7EF4, 0x5BFC, 0x56FE, 0x63D2, 0x4EF6, 0x5DF2, 0x542F, 0x7528]"
definition txt_basic_disabled :: jstr where
  "txt_basic_disabled = [0x601D, 0x7EF4, 0x5BFC, 0x56FE, 0x63D2, 0x4EF6, 0x5DF2, 0x7981, 0x7528]"

definition bon_host :: "(basic_handler host \<Rightarrow> basic_handler host) \<Rightarrow> basic_world \<Rightarrow> basic_world" where
  "bon_host f w = w\<lparr>bw_host := f (bw_host w)\<rparr>"

text \<open>\<open>showOutlineInNewWindow(blockId)\<close> (lines 116 to 161) at time \<open>now\<close>: a
  \<open>generateOutlineHTML\<close> or \<open>countBlocks\<close> that overflows the stack is caught and
  reported; the second one after the window is written.\<close>

definition showOutlineInNewWindow :: "nat \<Rightarrow> jstr \<Rightarrow> blocks \<Rightarrow> basic_world \<Rightarrow> basic_world" where
  "showOutlineInNewWindow now blockId bs w =
     (case generateOutlineHTML blockId bs (bw_clock w now) of
        None \<Rightarrow> bon_host (notify (js ''error'') (txt_gen_failed @ stack_overflow_message)) w
      | Some outlineHTML \<Rightarrow>
          if \<not> bw_popups w then bon_host (notify (js ''error'') txt_popup_blocked) w
          else
            (let w1 = w\<lparr>bw_windows := bw_windows w @ [window_document outlineHTML]\<rparr> in
             case countBlocks blockId bs of
               None \<Rightarrow> bon_host (notify (js ''error'') (txt_gen_failed @ stack_overflow_message)) w1
             | Some n \<Rightarrow> bon_host (notify (js ''success'') (txt_window_opened @ nat_str n @ txt_nodes)) w1))"

text \<open>\<open>showOutlineDialog(blockId)\<close> (lines 164 to 236): the overlay with the dialog holding
  the markup is appended to the page.\<close>

definition showOutlineDialog :: "nat \<Rightarrow> jstr \<Rightarrow> blocks \<Rightarrow> basic_world \<Rightarrow> basic_world" where
  "showOutlineDialog now blockId bs w =
     (case generateOutlineHTML blockId bs (bw_clock w now) of
        None \<Rightarrow> bon_host (notify (js ''error'') (txt_gen_failed @ stack_overflow_message)) w
      | Some outlineHTML \<Rightarrow>
          (let w1 = w\<lparr>bw_overlays := bw_overlays w @ [outlineHTML]\<rparr> in
           case countBlocks blockId bs of
             None \<Rightarrow> bon_host (notify (js ''error'') (txt_gen_failed @ stack_overflow_message)) w1
           | Some n \<Rightarrow> bon_host (notify (js ''success'') (txt_dialog_shown @ nat_str n @ txt_nodes)) w1))"

text \<open>The close button and the click on the backdrop (lines 211 to 225): the overlay is
  removed from the page.\<close>

definition close_overlay :: "nat \<Rightarrow> basic_world \<Rightarrow> basic_world" where
  "close_overlay i w =
     (if i < length (bw_overlays w) then w\<lparr>bw_overlays := take i (bw_overlays w) @ drop (Suc i) (bw_overlays w)\<rparr>
      else w)"

text \<open>The command closures of \<open>load\<close> (lines 246 to 255 and 262 to 271): the first key
  of \<open>Object.keys(orca.state.blocks)\<close>, if truthy (the empty key is not). Without a block
  mapping \<open>Object.keys\<close> throws out of the closure and nothing changes.\<close>

definition basic_command :: "basic_handler \<Rightarrow> nat \<Rightarrow> basic_world \<Rightarrow> basic_world" where
  "basic_command f now w =
     (case h_blocks (bw_host w) of
        None \<Rightarrow> w
      | Some bs \<Rightarrow>
          (case object_keys bs of
             [] \<Rightarrow> bon_host (notify (js ''warn'') txt_no_first_block) w
           | k # ks \<Rightarrow>
               if k = [] then bon_host (notify (js ''warn'') txt_no_first_block) w
               else (case f of BShowInWindow \<Rightarrow> showOutlineInNewWindow now k bs w
                             | BShowDialog \<Rightarrow> showOutlineDialog now k bs w)))"

text \<open>\<open>load(_name)\<close> (lines 239 to 290) and \<open>unload()\<close> (lines 293 to 304).\<close>

definition basic_load :: "jstr \<Rightarrow> basic_world \<Rightarrow> basic_world" where
  "basic_load nm w =
     bon_host (notify (js ''success'') txt_basic_enabled \<circ>
       registerShortcut (js ''Ctrl+Shift+M'') (nm @ js ''.showDialog'') \<circ>
       registerToolbarButton (nm @ js ''.button'') (nm @ js ''.showDialog'') \<circ>
       registerCommand (nm @ js ''.showDialog'') BShowDialog \<circ>
       registerCommand (nm @ js ''.showInWindow'') BShowInWindow) (w\<lparr>bw_name := nm\<rparr>)"

definition basic_unload :: "basic_world \<Rightarrow> basic_world" where
  "basic_unload w =
     bon_host (notify (js ''info'') txt_basic_disabled \<circ>
       unregisterShortcut (js ''Ctrl+Shift+M'') \<circ>
       unregisterToolbarButton (bw_name w @ js ''.button'') \<circ>
       unregisterCommand (bw_name w @ js ''.showDialog'') \<circ>
       unregisterCommand (bw_name w @ js ''.showInWindow'')) w"

definition basic_invoke :: "nat \<Rightarrow> jstr \<Rightarrow> basic_world \<Rightarrow> basic_world" where
  "basic_invoke now k w =
     (case map_of (h_commands (bw_host w)) k of None \<Rightarrow> w | Some f \<Rightarrow> basic_command f now w)"

fun basic_step :: "basic_world \<Rightarrow> nat \<times> host_event \<Rightarrow> basic_world" where
  "basic_step w (now, Load nm) = basic_load nm w"
| "basic_step w (now, Unload) = basic_unload w"
| "basic_step w (now, Invoke k) = basic_invoke now k w"
| "basic_step w (now, Shortcut sc) =
     (case map_of (h_shortcuts (bw_host w)) sc of None \<Rightarrow> w | Some k \<Rightarrow> basic_invoke now k w)"
| "basic_step w (now, Button b) =
     (case map_of (h_buttons (bw_host w)) b of None \<Rightarrow> w | Some k \<Rightarrow> basic_invoke now k w)"
| "basic_step w (now, Broadcast ev) = w"
| "basic_step w (now, Tick) = w"
| "basic_step w (now, Settle i out) = w"
| "basic_step w (now, UserClosesPanel p) = w"

text \<open>A mapping whose first key in \<open>Object.keys\<close> order is a child: the array index
  \<open>1\<close> comes before the root \<open>b\<close>.\<close>

definition child_first_blocks :: blocks where
  "child_first_blocks = [(js ''b'', blk (js ''b'') (js ''r'') [js ''1''] None),
     (js ''1'', blk (js ''1'') (js ''c'') [] (Some (js ''b'')))]"

subsection \<open>Proofs\<close>

lemma countBlocks_returns_outside_cycle:
  assumes S: "child_cycle bs S" and ret: "countBlocks a bs' = Some n"
  shows "bs' = bs \<longrightarrow> a \<notin> set S"
proof (rule countBlocks.raw_induct[where P = "\<lambda>a bs' n. bs' = bs \<longrightarrow> a \<notin> set S", OF _ ret])
  fix f :: "jstr \<Rightarrow> blocks \<Rightarrow> nat option" and a' bs' n'
  assume IH: "\<And>x y z. f x y = Some z \<Longrightarrow> y = bs \<longrightarrow> x \<notin> set S"
    and eq: "(case obj_get bs' a' of None \<Rightarrow> Some 0
      | Some block \<Rightarrow> Option.bind (map_opt (\<lambda>c. f c bs') (children_of block))
          (\<lambda>ns. Some (1 + sum_list ns))) = Some n'"
  show "bs' = bs \<longrightarrow> a' \<notin> set S"
  proof (intro impI notI)
    assume bs: "bs' = bs" and a': "a' \<in> set S"
    then obtain b c where b: "obj_get bs a' = Some b" and c: "c \<in> set (children_of b)" "c \<in> set S"
      using child_cycle_step[OF S] by blast
    with eq bs have "map_opt (\<lambda>c. f c bs) (children_of b) \<noteq> None"
      by (cases "map_opt (\<lambda>c. f c bs) (children_of b)") simp_all
    with c(1) have "f c bs \<noteq> None" unfolding map_opt_None_iff by (metis (no_types, lifting))
    with IH c(2) show False by blast
  qed
qed

lemma renderNode_returns_outside_cycle:
  assumes S: "child_cycle bs S" and ret: "renderNode a bs' l = Some h"
  shows "bs' = bs \<longrightarrow> a \<notin> set S"
proof (rule renderNode.raw_induct[where P = "\<lambda>a bs' l h. bs' = bs \<longrightarrow> a \<notin> set S", OF _ ret])
  fix f :: "jstr \<Rightarrow> blocks \<Rightarrow> nat \<Rightarrow> jstr option" and a' bs' l' h'
  assume IH: "\<And>x y z u. f x y z = Some u \<Longrightarrow> y = bs \<longrightarrow> x \<notin> set S"
    and eq: "(case obj_get bs' a' of None \<Rightarrow> Some []
      | Some node \<Rightarrow> Option.bind (map_opt (\<lambda>c. f c bs' (Suc l')) (children_of node))
          (\<lambda>hs. Some (basic_node_html l' node @ concat hs))) = Some h'"
  show "bs' = bs \<longrightarrow> a' \<notin> set S"
  proof (intro impI notI)
    assume bs: "bs' = bs" and a': "a' \<in> set S"
    then obtain b c where b: "obj_get bs a' = Some b" and c: "c \<in> set (children_of b)" "c \<in> set S"
      using child_cycle_step[OF S] by blast
    with eq bs have "map_opt (\<lambda>c. f c bs (Suc l')) (children_of b) \<noteq> None"
      by (cases "map_opt (\<lambda>c. f c bs (Suc l')) (children_of b)") simp_all
    with c(1) have "f c bs (Suc l') \<noteq> None" unfolding map_opt_None_iff by (metis (no_types, lifting))
    with IH c(2) show False by blast
  qed
qed

lemma generateOutlineHTML_cycle:
  assumes "child_cycle bs S" and "a \<in> set S"
  shows "generateOutlineHTML a bs t = None"
proof -
  have "countBlocks a bs = None"
    using countBlocks_returns_outside_cycle[OF assms(1)] assms(2) by (cases "countBlocks a bs") auto
  moreover obtain b where "obj_get bs a = Some b"
    using child_cycle_step[OF assms] by blast
  ultimately show ?thesis by (simp add: generateOutlineHTML_def)
qed

lemma showOutlineDialog_cycle:
  assumes "child_cycle bs S" and "a \<in> set S"
  shows "showOutlineDialog now a bs w = bon_host (notify (js ''error'') (txt_gen_failed @ stack_overflow_message)) w"
  by (simp add: showOutlineDialog_def generateOutlineHTML_cycle[OF assms])

lemma countBlocks_tree_test: "countBlocks (js ''1'') tree_test_blocks = Some 4"
  by (simp add: countBlocks.simps tree_eval js_def)

lemma basic_command_child_first:
  "h_blocks (bw_host w) = Some child_first_blocks \<Longrightarrow>
   basic_command BShowDialog now w = showOutlineDialog now (js ''1'') child_first_blocks w"
proof -
  have "object_keys child_first_blocks = [js ''1'', js ''b'']"
    by (simp add: child_first_blocks_def keys_eval js_def js_eval)
  then show "h_blocks (bw_host w) = Some child_first_blocks \<Longrightarrow> ?thesis"
    by (simp add: basic_command_def js_def)
qed

lemma countBlocks_terminates: "child_ranked bs rk \<Longrightarrow> \<exists>n. countBlocks a bs = Some n"
proof (induction "rk a" arbitrary: a rule: less_induct)
  case less
  show ?case
  proof (cases "obj_get bs a")
    case None
    then show ?thesis by (simp add: countBlocks.simps)
  next
    case (Some b)
    have "\<forall>c \<in> set (children_of b). countBlocks c bs \<noteq> None"
    proof
      fix c assume c: "c \<in> set (children_of b)"
      show "countBlocks c bs \<noteq> None"
      proof (cases "obj_get bs c")
        case None
        then show ?thesis by (simp add: countBlocks.simps)
      next
        case (Some cb)
        then have "rk c < rk a" using child_ranked_step[OF less.prems] \<open>obj_get bs a = Some b\<close> c by simp
        then show ?thesis using less.hyps less.prems by blast
      qed
    qed
    then have "map_opt (\<lambda>c. countBlocks c bs) (children_of b) \<noteq> None"
      by (simp only: map_opt_None_iff) blast
    then obtain ns where "map_opt (\<lambda>c. countBlocks c bs) (children_of b) = Some ns"
      by blast
    then show ?thesis using Some by (simp add: countBlocks.simps)
  qed
qed

lemma renderNode_terminates: "child_ranked bs rk \<Longrightarrow> \<exists>h. renderNode a bs l = Some h"
proof (induction "rk a" arbitrary: a l rule: less_induct)
  case less
  show ?case
  proof (cases "obj_get bs a")
    case None
    then show ?thesis by (simp add: renderNode.simps)
  next
    case (Some b)
    have "\<forall>c \<in> set (children_of b). renderNode c bs (Suc l) \<noteq> None"
    proof
      fix c assume c: "c \<in> set (children_of b)"
      show "renderNode c bs (Suc l) \<noteq> None"
      proof (cases "obj_get bs c")
        case None
        then show ?thesis by (simp add: renderNode.simps)
      next
        case (Some cb)
        then have "rk c < rk a" using child_ranked_step[OF less.prems] \<open>obj_get bs a = Some b\<close> c by simp
        then show ?thesis using less.hyps less.prems by blast
      qed
    qed
    then have "map_opt (\<lambda>c. renderNode c bs (Suc l)) (children_of b) \<noteq> None"
      by (simp only: map_opt_None_iff) blast
    then obtain hs where "map_opt (\<lambda>c. renderNode c bs (Suc l)) (children_of b) = Some hs"
      by blast
    then show ?thesis using Some by (simp add: renderNode.simps)
  qed
qed

lemma generateOutlineHTML_terminates:
  "child_ranked bs rk \<Longrightarrow> \<exists>h. generateOutlineHTML a bs t = Some h"
  using countBlocks_terminates[of bs rk a] renderNode_terminates[of bs rk a 0]
  by (auto simp: generateOutlineHTML_def split: option.splits)

end
