(* ===== verification/Plugin_Markmap_Simple.thy ===== *)
theory Plugin_Markmap_Simple
  imports Plugin_Basic
begin

text \<open>
  The plugin of \<open>src/src/markmap-simple.ts\<close>: \<open>blockToMarkdown\<close> (defined, never
  called), the inner \<open>renderTree\<close> of \<open>createSimpleMindMap\<close> and \<open>countTotalBlocks\<close>
  (recursions over every child id, \<open>partial_function (option)\<close>), the view a panel
  shows, \<open>createSimpleMindMap\<close> split at its \<open>await\<close> of \<open>addPanel\<close> with its \<open>catch\<close>,
  the panel map \<open>mindMapPanels\<close>, the context-menu listener and its menu item, and
  \<open>load\<close>/\<open>unload\<close>; \<open>mm_step\<close> runs them on the host events and the DOM events of the
  page. The styles (\<open>cssText\<close>) and the 10 ms delay before the menu item is added are
  not modelled. The lemmas: \<open>unload\<close> closes exactly the panels of the map, and
  \<open>blockToMarkdown\<close> diverges on a cycle of children.
\<close>

text \<open>\<open>blockToMarkdown(blockId, allBlocks, level)\<close> (lines 14 to 32): a heading of
  \<open>min(level, 6)\<close> hashes, the text without \<open>#\<close> and \<open>*\<close> (\<open>replace(/[#*]/g, '')\<close>), a
  blank line, then the children that exist. (The function is not called in the file.)\<close>

definition md_clean :: "jstr \<Rightarrow> jstr" where
  "md_clean t = filter (\<lambda>c. c \<noteq> 0x23 \<and> c \<noteq> 0x2A) t"

partial_function (option) blockToMarkdown :: "jstr \<Rightarrow> blocks \<Rightarrow> nat \<Rightarrow> jstr option" where
  "blockToMarkdown blockId allBlocks lvl =
     (case obj_get allBlocks blockId of
        None \<Rightarrow> Some []
      | Some block \<Rightarrow>
          Option.bind (map_opt (\<lambda>c. blockToMarkdown c allBlocks (Suc lvl))
                         (filter (\<lambda>c. obj_get allBlocks c \<noteq> None) (children_of block)))
            (\<lambda>ms. Some (replicate (min lvl 6) 0x23 @ [0x20] @
               md_clean (if text_of block = [] then [0x672A, 0x547D, 0x540D, 0x5757] else text_of block) @
               [0x0A, 0x0A] @ concat ms)))"

text \<open>The inner \<open>renderTree(nodeId, level)\<close> of \<open>createSimpleMindMap\<close> (lines 46 to 66); its
  \<open>indent\<close> is computed but not used.\<close>

definition mm_content :: "block \<Rightarrow> jstr" where
  "mm_content node = take 100 (if text_of node = [] then [0x672A, 0x547D, 0x540D] else text_of node)"

definition mm_node_html :: "nat \<Rightarrow> block \<Rightarrow> jstr" where
  \<open>mm_node_html lvl node =
     js ''<div style="margin: 8px 0; padding-left: '' @ nat_str (lvl * 24) @ js ''px; font-size: '' @ int_str (16 - int lvl) @ js ''px; line-height: 1.4;">\<newline>        <span style="color: var(--orca-color-primary, #007acc); margin-right: 8px;">'' @ basic_bullet lvl @ js ''</span>\<newline>        <span style="color: var(--orca-color-text-1, #333);">'' @ mm_content node @ js ''</span>\<newline>      </div>''\<close>

partial_function (option) mm_renderTree :: "jstr \<Rightarrow> blocks \<Rightarrow> nat \<Rightarrow> jstr option" where
  "mm_renderTree nodeId allBlocks lvl =
     (case obj_get allBlocks nodeId of
        None \<Rightarrow> Some []
      | Some node \<Rightarrow>
          Option.bind (map_opt (\<lambda>c. mm_renderTree c allBlocks (Suc lvl)) (children_of node))
            (\<lambda>hs. Some (mm_node_html lvl node @ concat hs)))"

text \<open>\<open>countTotalBlocks(blockId, allBlocks)\<close> (lines 161 to 172) is, up to names, the
  code of \<open>countBlocks\<close> of \<open>basic-outline.ts\<close>.\<close>

definition countTotalBlocks :: "jstr \<Rightarrow> blocks \<Rightarrow> nat option" where
  "countTotalBlocks = countBlocks"

text \<open>What the panel of a block shows: the title (\<open>textContent\<close>), the tree markup
  (\<open>innerHTML\<close>), the statistics line (\<open>textContent\<close>) and the block its refresh button
  rebuilds.\<close>

record mm_view =
  mv_title :: jstr
  mv_tree :: jstr
  mv_stats :: jstr
  mv_block :: jstr

datatype mm_handler = MCreateMindMap

text \<open>A suspended \<open>createSimpleMindMap\<close> awaiting \<open>addPanel\<close>: the block, its view, the
  count, and whether a context-menu click awaits it to remove the menu afterwards.\<close>

record mm_task =
  mt_block :: jstr
  mt_view :: mm_view
  mt_count :: nat
  mt_menu :: bool

text \<open>The module state (lines 10 and 11: \<open>pluginName\<close>, the \<open>Map\<close> from block ids to
  panel ids as an association list in insertion order), the host, the views of the open
  panels, whether the \<open>contextmenu\<close> listener is installed, and the items the plugin
  added to the open context menu (\<open>None\<close>: no menu).\<close>

record mm_world =
  mm_host :: "mm_handler host"
  mm_name :: jstr
  mindMapPanels :: "(jstr \<times> panel_id) list"
  mm_views :: "(panel_id \<times> mm_view) list"
  mm_listening :: bool
  mm_menu :: "jstr list option"
  mm_tasks :: "mm_task list"

definition txt_nodes_blocks :: jstr where
  "txt_nodes_blocks = js '' '' @ [0x4E2A, 0x5757]"
definition txt_mm_block_missing :: jstr where
  "txt_mm_block_missing = [0x672A, 0x627E, 0x5230, 0x6307, 0x5B9A, 0x5757]"
definition txt_mm_created :: jstr where
  "txt_mm_created = [0x601D, 0x7EF4, 0x5BFC, 0x56FE, 0x5DF2, 0x751F, 0x6210, 0xFF0C, 0x5171] @ js '' ''"
definition txt_mm_enabled :: jstr where
  "txt_mm_enabled = js ''Markmap'' @ [0x63D2, 0x4EF6, 0x5DF2, 0x542F, 0x7528] @ js '' - '' @
     [0x53F3, 0x952E, 0x8282, 0x70B9, 0x67E5, 0x770B, 0x9009, 0x9879]"
definition txt_mm_disabled :: jstr where
  "txt_mm_disabled = js ''Markmap'' @ [0x63D2, 0x4EF6, 0x5DF2, 0x7981, 0x7528]"

definition mmon_host :: "(mm_handler host \<Rightarrow> mm_handler host) \<Rightarrow> mm_world \<Rightarrow> mm_world" where
  "mmon_host f w = w\<lparr>mm_host := f (mm_host w)\<rparr>"

text \<open>The message of the \<open>TypeError\<close> the engine throws for \<open>undefined[k]\<close>.\<close>

definition undefined_read_message :: "jstr \<Rightarrow> jstr" where
  "undefined_read_message k = js ''Cannot read properties of undefined (reading '' @ [0x27] @ k @ [0x27] @ js '')''"

text \<open>Removing the context menu (lines 212 to 214).\<close>

definition close_menu :: "bool \<Rightarrow> mm_world \<Rightarrow> mm_world" where
  "close_menu b w = (if b then w\<lparr>mm_menu := None\<rparr> else w)"

text \<open>\<open>createSimpleMindMap(blockId)\<close> (lines 35 to 148) up to the \<open>await\<close> of
  \<open>addPanel\<close>, with the \<open>catch\<close> of lines 153 to 157; \<open>menu\<close> says whether a menu click
  awaits the call. Without a block mapping the lookup throws a \<open>TypeError\<close>, which is
  caught.\<close>

definition createSimpleMindMap :: "bool \<Rightarrow> jstr \<Rightarrow> mm_world \<Rightarrow> mm_world" where
  "createSimpleMindMap menu blockId w =
     (case h_blocks (mm_host w) of
        None \<Rightarrow> close_menu menu (mmon_host (notify (js ''error'') (txt_gen_failed @ undefined_read_message blockId)) w)
      | Some allBlocks \<Rightarrow>
          (case obj_get allBlocks blockId of
             None \<Rightarrow> close_menu menu (mmon_host (notify (js ''error'') txt_mm_block_missing) w)
           | Some block \<Rightarrow>
               (case mm_renderTree blockId allBlocks 0 of
                  None \<Rightarrow> close_menu menu (mmon_host (notify (js ''error'') (txt_gen_failed @ stack_overflow_message)) w)
                | Some treeHtml \<Rightarrow>
                    (case countTotalBlocks blockId allBlocks of
                       None \<Rightarrow> close_menu menu (mmon_host (notify (js ''error'') (txt_gen_failed @ stack_overflow_message)) w)
                     | Some cnt \<Rightarrow>
                         (let v = \<lparr>mv_title = [0xD83E, 0xDDE0, 0x20] @
                                     take 50 (if text_of block = [] then [0x601D, 0x7EF4, 0x5BFC, 0x56FE] else text_of block),
                                   mv_tree = treeHtml,
                                   mv_stats = [0xD83D, 0xDCCA, 0x20, 0x5171, 0x5305, 0x542B, 0x20] @ nat_str cnt @ txt_nodes_blocks,
                                   mv_block = blockId\<rparr>
                          in w\<lparr>mm_host := (case map_of (mindMapPanels w) blockId of
                                             Some p \<Rightarrow> closePanel p (mm_host w) | None \<Rightarrow> mm_host w),
                               mm_tasks := mm_tasks w @ [\<lparr>mt_block = blockId, mt_view = v, mt_count = cnt, mt_menu = menu\<rparr>]\<rparr>)))))"

text \<open>The rest of \<open>createSimpleMindMap\<close> once \<open>addPanel\<close> settles (lines 142 to 157),
  then the removal of the menu by a menu click that awaited it.\<close>

definition createSimpleMindMap_resume :: "outcome \<Rightarrow> mm_task \<Rightarrow> mm_world \<Rightarrow> mm_world" where
  "createSimpleMindMap_resume out t w =
     close_menu (mt_menu t)
       (case out of
          Resolved \<Rightarrow>
            (let (p, h) = open_panel (mm_host w) in
             w\<lparr>mm_host := notify (js ''success'') (txt_mm_created @ nat_str (mt_count t) @ txt_nodes) h,
               mindMapPanels := AList.update (mt_block t) p (mindMapPanels w),
               mm_views := mm_views w @ [(p, mt_view t)]\<rparr>)
        | Rejected e \<Rightarrow> mmon_host (notify (js ''error'') (txt_gen_failed @ error_message e)) w)"

text \<open>\<open>handleContextMenu(e)\<close> (lines 175 to 220) with the timer that follows: a right click
  inside the element of a block with an id, when the host has opened its context menu,
  gets the plugin's item.\<close>

definition handleContextMenu :: "jstr option \<Rightarrow> bool \<Rightarrow> mm_world \<Rightarrow> mm_world" where
  "handleContextMenu target menu_open w =
     (case target of
        None \<Rightarrow> w
      | Some blockId \<Rightarrow>
          if blockId = [] \<or> \<not> menu_open then w
          else w\<lparr>mm_menu := Some (case mm_menu w of Some items \<Rightarrow> items @ [blockId] | None \<Rightarrow> [blockId])\<rparr>)"

text \<open>A click on the \<open>i\<close>-th item the plugin added (lines 208 to 215).\<close>

definition menu_item_click :: "nat \<Rightarrow> mm_world \<Rightarrow> mm_world" where
  "menu_item_click i w =
     (case mm_menu w of
        Some items \<Rightarrow> if i < length items then createSimpleMindMap True (items ! i) w else w
      | None \<Rightarrow> w)"

text \<open>The command closure of \<open>load\<close> (lines 230 to 240).\<close>

definition mm_command :: "mm_world \<Rightarrow> mm_world" where
  "mm_command w =
     (case h_blocks (mm_host w) of
        None \<Rightarrow> w
      | Some bs \<Rightarrow>
          (case object_keys bs of
             k # ks \<Rightarrow> if k = [] then mmon_host (notify (js ''warn'') txt_no_first_block) w
                      else createSimpleMindMap False k w
           | [] \<Rightarrow> mmon_host (notify (js ''warn'') txt_no_first_block) w))"

text \<open>\<open>load(_name)\<close> (lines 223 to 262) and \<open>unload()\<close> (lines 265 to 284).\<close>

definition mm_load :: "jstr \<Rightarrow> mm_world \<Rightarrow> mm_world" where
  "mm_load nm w =
     mmon_host (notify (js ''success'') txt_mm_enabled \<circ>
       registerShortcut (js ''Ctrl+Shift+M'') (nm @ js ''.createMindMap'') \<circ>
       registerToolbarButton (nm @ js ''.button'') (nm @ js ''.createMindMap'') \<circ>
       registerCommand (nm @ js ''.createMindMap'') MCreateMindMap) (w\<lparr>mm_name := nm, mm_listening := True\<rparr>)"

definition mm_unload :: "mm_world \<Rightarrow> mm_world" where
  "mm_unload w =
     mmon_host (notify (js ''info'') txt_mm_disabled \<circ>
       unregisterShortcut (js ''Ctrl+Shift+M'') \<circ>
       unregisterToolbarButton (mm_name w @ js ''.button'') \<circ>
       unregisterCommand (mm_name w @ js ''.createMindMap'') \<circ>
       fold (\<lambda>(b, p). closePanel p) (mindMapPanels w))
     (w\<lparr>mindMapPanels := [], mm_listening := False\<rparr>)"

text \<open>The events of this plugin: those of the host, a right click (the block element's
  id, whether the host opened its menu), a click on a menu item, a click on the refresh
  button of a panel.\<close>

datatype mm_event = MHost host_event | MContextMenu "jstr option" bool | MMenuClick nat | MRefresh panel_id

definition mm_invoke :: "jstr \<Rightarrow> mm_world \<Rightarrow> mm_world" where
  "mm_invoke k w = (case map_of (h_commands (mm_host w)) k of None \<Rightarrow> w | Some f \<Rightarrow> mm_command w)"

definition mm_settle :: "nat \<Rightarrow> outcome \<Rightarrow> mm_world \<Rightarrow> mm_world" where
  "mm_settle i out w =
     (if i < length (mm_tasks w) then
        createSimpleMindMap_resume out (mm_tasks w ! i)
          (w\<lparr>mm_tasks := take i (mm_tasks w) @ drop (Suc i) (mm_tasks w)\<rparr>)
      else w)"

fun mm_step :: "mm_world \<Rightarrow> mm_event \<Rightarrow> mm_world" where
  "mm_step w (MHost (Load nm)) = mm_load nm w"
| "mm_step w (MHost Unload) = mm_unload w"
| "mm_step w (MHost (Invoke k)) = mm_invoke k w"
| "mm_step w (MHost (Shortcut sc)) =
     (case map_of (h_shortcuts (mm_host w)) sc of None \<Rightarrow> w | Some k \<Rightarrow> mm_invoke k w)"
| "mm_step w (MHost (Button b)) =
     (case map_of (h_buttons (mm_host w)) b of None \<Rightarrow> w | Some k \<Rightarrow> mm_invoke k w)"
| "mm_step w (MHost (Broadcast ev)) = w"
| "mm_step w (MHost Tick) = w"
| "mm_step w (MHost (Settle i out)) = mm_settle i out w"
| "mm_step w (MHost (UserClosesPanel p)) = mmon_host (closePanel p) w"
| "mm_step w (MContextMenu t m) = (if mm_listening w then handleContextMenu t m w else w)"
| "mm_step w (MMenuClick i) = menu_item_click i w"
| "mm_step w (MRefresh p) =
     (if p \<in> set (h_panels (mm_host w)) then
        (case map_of (mm_views w) p of Some v \<Rightarrow> createSimpleMindMap False (mv_block v) w | None \<Rightarrow> w)
      else w)"

definition mm_init :: "blocks option \<Rightarrow> mm_world" where
  "mm_init bs = \<lparr>mm_host = fresh_host bs None, mm_name = js ''undefined'', mindMapPanels = [],
     mm_views = [], mm_listening = False, mm_menu = None, mm_tasks = []\<rparr>"

subsection \<open>Proofs\<close>

lemma fold_closePanel_panels:
  "h_panels (fold (\<lambda>(b, p). closePanel p) ps h) = filter (\<lambda>q. q \<notin> snd ` set ps) (h_panels h)"
proof (induction ps arbitrary: h)
  case (Cons bp ps)
  then show ?case by (cases bp) (auto simp: removeAll_filter_not_eq filter_filter intro: filter_cong)
qed simp

lemma mm_unload_panels:
  "h_panels (mm_host (mm_unload w)) = filter (\<lambda>q. q \<notin> snd ` set (mindMapPanels w)) (h_panels (mm_host w))"
  by (simp add: mm_unload_def mmon_host_def fold_closePanel_panels registerShortcut_def unregisterShortcut_def
    unregisterToolbarButton_def unregisterCommand_def)

lemma blockToMarkdown_returns_outside_cycle:
  assumes S: "child_cycle bs S" and ret: "blockToMarkdown a bs' l = Some m"
  shows "bs' = bs \<longrightarrow> a \<notin> set S"
proof (rule blockToMarkdown.raw_induct[where P = "\<lambda>a bs' l m. bs' = bs \<longrightarrow> a \<notin> set S", OF _ ret])
  fix f :: "jstr \<Rightarrow> blocks \<Rightarrow> nat \<Rightarrow> jstr option" and a' bs' l' m'
  assume IH: "\<And>x y z u. f x y z = Some u \<Longrightarrow> y = bs \<longrightarrow> x \<notin> set S"
    and eq: "(case obj_get bs' a' of None \<Rightarrow> Some []
      | Some block \<Rightarrow> Option.bind (map_opt (\<lambda>c. f c bs' (Suc l'))
            (filter (\<lambda>c. obj_get bs' c \<noteq> None) (children_of block)))
          (\<lambda>ms. Some (replicate (min l' 6) 0x23 @ [0x20] @
             md_clean (if text_of block = [] then [0x672A, 0x547D, 0x540D, 0x5757] else text_of block) @
             [0x0A, 0x0A] @ concat ms))) = Some m'"
  show "bs' = bs \<longrightarrow> a' \<notin> set S"
  proof (intro impI notI)
    assume bs: "bs' = bs" and a': "a' \<in> set S"
    then obtain b c where b: "obj_get bs a' = Some b" and c: "c \<in> set (children_of b)" "c \<in> set S"
      using child_cycle_step[OF S] by blast
    obtain cb where "obj_get bs c = Some cb" using child_cycle_step[OF S c(2)] by blast
    with c(1) have c': "c \<in> set (filter (\<lambda>c. obj_get bs c \<noteq> None) (children_of b))" by simp
    let ?m = "map_opt (\<lambda>c. f c bs (Suc l')) (filter (\<lambda>c. obj_get bs c \<noteq> None) (children_of b))"
    from eq bs b have "?m \<noteq> None" by (cases ?m) simp_all
    with c' have "f c bs (Suc l') \<noteq> None" unfolding map_opt_None_iff by (metis (no_types, lifting))
    with IH c(2) show False by blast
  qed
qed

lemma blockToMarkdown_leaf:
  "obj_get bs k = Some b \<Longrightarrow> children_of b = [] \<Longrightarrow> text_of b \<noteq> [] \<Longrightarrow>
   blockToMarkdown k bs l = Some (replicate (min l 6) 0x23 @ [0x20] @ md_clean (text_of b) @ [0x0A, 0x0A])"
  by (simp add: blockToMarkdown.simps)

end
