(* ===== verification/Plugin_Page.thy ===== *)
theory Plugin_Page
  imports Plugin_Basic Plugin_Simple
begin

text \<open>
  The plugin of \<open>src/src/page-mindmap.ts\<close>, which replaces the page's main content by a
  mind map and back: \<open>getPageRootBlocks\<close>, the inner \<open>renderNode\<close> (a recursion over
  every child id, \<open>partial_function (option)\<close>) and \<open>generatePageMindMapHTML\<close> with
  its templates; the mode machine \<open>switchToMindMapMode\<close> / \<open>switchToNormalMode\<close> /
  \<open>toggleMindMapMode\<close> on the page state (the main element's \<open>innerHTML\<close>, the saved
  copy, the toolbar button's style); \<open>load\<close>/\<open>unload\<close>; \<open>page_step\<close> on the host
  events. The lemmas: switching to the mind map and back restores the main content, and
  every step keeps the saved copy present while the mind map is shown.
\<close>

text \<open>The function \<open>page-mindmap.ts\<close> registers: \<open>toggleMindMapMode\<close>.\<close>

datatype page_handler = PToggleMindMapMode

text \<open>The module state (lines 10 to 12: \<open>pluginName\<close>, \<open>isInMindMapMode\<close>, the
  \<open>innerHTML\<close> of \<open>originalContent\<close>), the host, and the page around the plugin: the
  \<open>innerHTML\<close> of the first element matching \<open>.orca-main-content, .main-content, main\<close>
  (\<open>None\<close>: no match), the background, colour and title of the toolbar button element
  (\<open>None\<close>: not found), and \<open>toLocaleString()\<close> of a time.\<close>

record page_world =
  pg_host :: "page_handler host"
  pg_name :: jstr
  isInMindMapMode :: bool
  originalContent :: "jstr option"
  pg_main :: "jstr option"
  pg_button :: "(jstr \<times> jstr \<times> jstr) option"
  pg_clock :: "nat \<Rightarrow> jstr"

text \<open>\<open>getPageRootBlocks()\<close> (lines 15 to 24): the filter of \<open>main-simple.ts\<close>'s
  \<open>findRootBlocks\<close>, on the blocks read (\<open>[]\<close> without them).\<close>

definition getPageRootBlocks :: "blocks option \<Rightarrow> jstr list" where
  "getPageRootBlocks bso = (case bso of None \<Rightarrow> [] | Some bs \<Rightarrow> filter (simple_root_ok bs) (object_keys bs))"

text \<open>The inner \<open>renderNode(nodeId, level)\<close> of \<open>generatePageMindMapHTML\<close> (lines 49 to
  124) with \<open>getNodeStyle\<close> (lines 60 to 86).\<close>

definition page_bullet :: "nat \<Rightarrow> jstr" where
  "page_bullet lvl = [[0xD83D, 0xDD35], [0x26AA], [0xD83D, 0xDD38], [0xD83D, 0xDD39], [0x25AB, 0xFE0F]] ! min lvl 4"

definition page_color :: "nat \<Rightarrow> jstr" where
  "page_color lvl =
     (if lvl = 0 then js ''var(--orca-color-primary, #2563eb)''
      else if lvl = 1 then js ''var(--orca-color-text-1, #1f2937)''
      else if lvl = 2 then js ''var(--orca-color-text-1, #374151)''
      else js ''var(--orca-color-text-2, #6b7280)'')"

definition page_weight :: "nat \<Rightarrow> jstr" where
  "page_weight lvl =
     (if lvl = 0 then js ''700'' else if lvl = 1 then js ''600'' else if lvl = 2 then js ''500'' else js ''400'')"

definition page_font :: "nat \<Rightarrow> jstr" where
  "page_font lvl =
     (if lvl = 0 then js ''24px'' else if lvl = 1 then js ''20px'' else if lvl = 2 then js ''18px'' else js ''16px'')"

definition page_content :: "block \<Rightarrow> jstr" where
  "page_content node = take 200 (if text_of node = [] then [0x65E0, 0x6807, 0x9898] else text_of node)"

definition page_node_html :: "nat \<Rightarrow> block \<Rightarrow> jstr" where
  \<open>page_node_html lvl node =
     js ''\<newline>      <div style="\<newline>        margin: '' @ (if lvl = 0 then js ''20px'' else js ''12px'') @ js '' 0;\<newline>        padding-left: '' @ nat_str (lvl * 32) @ js ''px;\<newline>        line-height: 1.6;\<newline>        '' @ (if lvl = 0 then js ''border-left: 4px solid var(--orca-color-primary, #2563eb); padding-left: '' @ nat_str (lvl * 32 + 16) @ js ''px;'' else []) @ js ''\<newline>      ">\<newline>        <div style="\<newline>          display: flex;\<newline>          align-items: flex-start;\<newline>          gap: 12px;\<newline>        ">\<newline>          <span style="\<newline>            font-size: '' @ int_str (max 14 (20 - int lvl * 2)) @ js ''px;\<newline>            margin-top: 2px;\<newline>            flex-shrink: 0;\<newline>          ">'' @ page_bullet lvl @ js ''</span>\<newline>          <span style="\<newline>            color: '' @ page_color lvl @ js '';\<newline>            font-weight: '' @ page_weight lvl @ js '';\<newline>            font-size: '' @ page_font lvl @ js '';\<newline>            line-height: 1.5;\<newline>          ">'' @ page_content node @ js ''</span>\<newline>        </div>\<newline>      </div>\<newline>    ''\<close>

partial_function (option) page_renderNode :: "jstr \<Rightarrow> blocks \<Rightarrow> nat \<Rightarrow> jstr option" where
  "page_renderNode nodeId allBlocks lvl =
     (case obj_get allBlocks nodeId of
        None \<Rightarrow> Some []
      | Some node \<Rightarrow>
          Option.bind (map_opt (\<lambda>c. page_renderNode c allBlocks (Suc lvl)) (children_of node))
            (\<lambda>hs. Some (page_node_html lvl node @ concat hs)))"

text \<open>\<open>generatePageMindMapHTML()\<close> (lines 27 to 195) on the blocks read and the time.\<close>

definition page_empty_html :: jstr where
  \<open>page_empty_html =
     js ''\<newline>      <div style="\<newline>        display: flex;\<newline>        align-items: center;\<newline>        justify-content: center;\<newline>        height: 100vh;\<newline>        font-family: var(--orca-font-family, sans-serif);\<newline>        color: var(--orca-color-text-2, #666);\<newline>      ">\<newline>        <div style="text-align: center;">\<newline>          <div style="font-size: 48px; margin-bottom: 16px;">'' @ [0xD83D, 0xDCDD] @ js ''</div>\<newline>          <div style="font-size: 18px;">'' @ [0x9875, 0x9762, 0x5185, 0x5BB9, 0x4E3A, 0x7A7A] @ js ''</div>\<newline>        </div>\<newline>      </div>\<newline>    ''\<close>

definition page_html :: "nat \<Rightarrow> nat \<Rightarrow> jstr \<Rightarrow> jstr \<Rightarrow> jstr" where
  \<open>page_html totalBlocks nroots time body =
     js ''\<newline>    <div style="\<newline>      font-family: var(--orca-font-family, -apple-system, BlinkMacSystemFont, '' @ [0x0027] @ js ''Segoe UI'' @ [0x0027] @ js '', sans-serif);\<newline>      background: var(--orca-color-bg-1, #ffffff);\<newline>      color: var(--orca-color-text-1, #1f2937);\<newline>      min-height: 100vh;\<newline>      padding: 40px;\<newline>      transition: all 0.3s ease;\<newline>    ">\<newline>      <div style="\<newline>        max-width: 1200px;\<newline>        margin: 0 auto;\<newline>      ">\<newline>        <div style="\<newline>          text-align: center;\<newline>          margin-bottom: 40px;\<newline>          padding-bottom: 20px;\<newline>          border-bottom: 2px solid var(--orca-color-border, #e5e7eb);\<newline>        ">\<newline>          <h1 style="\<newline>            margin: 0 0 12px 0;\<newline>            font-size: 32px;\<newline>            font-weight: 700;\<newline>            color: var(--orca-color-primary, #2563eb);\<newline>          ">'' @ [0xD83E, 0xDDE0] @ js '' '' @ [0x9875, 0x9762, 0x601D, 0x7EF4, 0x5BFC, 0x56FE] @ js ''</h1>\<newline>          <div style="\<newline>            display: flex;\<newline>            justify-content: center;\<newline>            gap: 24px;\<newline>            font-size: 14px;\<newline>            color: var(--orca-color-text-2, #6b7280);\<newline>          ">\<newline>            <span>'' @ [0xD83D, 0xDCCA] @ js '' '' @ nat_str totalBlocks @ js '' '' @ [0x4E2A, 0x8282, 0x70B9] @ js ''</span>\<newline>            <span>'' @ [0xD83C, 0xDF33] @ js '' '' @ nat_str nroots @ js '' '' @ [0x4E2A, 0x6839, 0x8282, 0x70B9] @ js ''</span>\<newline>            <span>'' @ [0xD83D, 0xDD52] @ js '' '' @ time @ js ''</span>\<newline>          </div>\<newline>        </div>\<newline>        \<newline>        <div style="\<newline>          background: var(--orca-color-bg-2, #f9fafb);\<newline>          border: 1px solid var(--orca-color-border, #e5e7eb);\<newline>          border-radius: 12px;\<newline>          padding: 32px;\<newline>          box-shadow: 0 4px 6px -1px rgba(0, 0, 0, 0.1);\<newline>        ">\<newline>          '' @ body @ js ''\<newline>        </div>\<newline>        \<newline>        <div style="\<newline>          text-align: center;\<newline>          margin-top: 32px;\<newline>          padding-top: 20px;\<newline>          border-top: 1px solid var(--orca-color-border, #e5e7eb);\<newline>          color: var(--orca-color-text-3, #9ca3af);\<newline>          font-size: 12px;\<newline>        ">\<newline>          '' @ [0xD83D, 0xDCA1] @ js '' '' @ [0x63D0, 0x793A, 0xFF1A, 0x70B9, 0x51FB, 0x53F3, 0x4E0A, 0x89D2, 0x6309, 0x94AE, 0x8FD4, 0x56DE, 0x6B63, 0x5E38, 0x89C6, 0x56FE] @ js ''\<newline>        </div>\<newline>      </div>\<newline>    </div>\<newline>  ''\<close>

definition generatePageMindMapHTML :: "blocks option \<Rightarrow> jstr \<Rightarrow> jstr option" where
  "generatePageMindMapHTML bso time =
     (let rootBlocks = getPageRootBlocks bso in
      if rootBlocks = [] then Some page_empty_html
      else (case bso of
              None \<Rightarrow> Some page_empty_html
            | Some allBlocks \<Rightarrow>
                Option.bind (map_opt (\<lambda>r. page_renderNode r allBlocks 0) rootBlocks) (\<lambda>hs.
                  Some (page_html (length (object_keys allBlocks)) (length rootBlocks) time (concat hs)))))"

text \<open>The notification texts: no main content area, switched to the mind map (a node
  count follows), switch failed, switched back, enabled, disabled; and the button titles.\<close>

definition txt_no_main :: jstr where
  "txt_no_main = [0x627E, 0x4E0D, 0x5230, 0x4E3B, 0x5185, 0x5BB9, 0x533A, 0x57DF]"
definition txt_to_mindmap :: jstr where
  "txt_to_mindmap = [0x5DF2, 0x5207, 0x6362, 0x5230, 0x601D, 0x7EF4, 0x5BFC, 0x56FE, 0x6A21, 0x5F0F] @ js '' - ''"
definition txt_switch_failed :: jstr where
  "txt_switch_failed = [0x5207, 0x6362, 0x5931, 0x8D25] @ js '': ''"
definition txt_to_normal :: jstr where
  "txt_to_normal = [0x5DF2, 0x5207, 0x6362, 0x56DE, 0x6B63, 0x5E38, 0x89C6, 0x56FE]"
definition txt_title_normal :: jstr where
  "txt_title_normal = [0x5207, 0x6362, 0x56DE, 0x6B63, 0x5E38, 0x89C6, 0x56FE]"
definition txt_title_mindmap :: jstr where
  "txt_title_mindmap = [0x5207, 0x6362, 0x5230, 0x601D, 0x7EF4, 0x5BFC, 0x56FE, 0x6A21, 0x5F0F]"
definition txt_page_enabled :: jstr where
  "txt_page_enabled = [0x9875, 0x9762, 0x601D, 0x7EF4, 0x5BFC, 0x56FE, 0x63D2, 0x4EF6, 0x5DF2, 0x542F, 0x7528] @
     js '' - '' @ [0x70B9, 0x51FB, 0x53F3, 0x4E0A, 0x89D2, 0xD83E, 0xDDE0, 0x6309, 0x94AE]"
definition txt_page_disabled :: jstr where
  "txt_page_disabled = [0x9875, 0x9762, 0x601D, 0x7EF4, 0x5BFC, 0x56FE, 0x63D2, 0x4EF6, 0x5DF2, 0x7981, 0x7528]"

definition pgon_host :: "(page_handler host \<Rightarrow> page_handler host) \<Rightarrow> page_world \<Rightarrow> page_world" where
  "pgon_host f w = w\<lparr>pg_host := f (pg_host w)\<rparr>"

text \<open>\<open>updateToggleButton()\<close> (lines 271 to 284).\<close>

definition updateToggleButton :: "page_world \<Rightarrow> page_world" where
  "updateToggleButton w =
     (case pg_button w of
        None \<Rightarrow> w
      | Some b \<Rightarrow>
          w\<lparr>pg_button := Some (if isInMindMapMode w
                                then (js ''var(--orca-color-primary, #2563eb)'', js ''white'', txt_title_normal)
                                else ([], [], txt_title_mindmap))\<rparr>)"

text \<open>\<open>switchToMindMapMode()\<close> (lines 198 to 230) at time \<open>now\<close>: the main content is
  saved, replaced by the mind map, the mode and the button are updated. A
  \<open>generatePageMindMapHTML\<close> that overflows the stack is caught after the save.\<close>

definition switchToMindMapMode :: "nat \<Rightarrow> page_world \<Rightarrow> page_world" where
  "switchToMindMapMode now w =
     (if isInMindMapMode w then w
      else (case pg_main w of
              None \<Rightarrow> pgon_host (notify (js ''error'') txt_no_main) w
            | Some m \<Rightarrow>
                (let w1 = w\<lparr>originalContent := Some m\<rparr> in
                 case generatePageMindMapHTML (h_blocks (pg_host w)) (pg_clock w now) of
                   None \<Rightarrow> pgon_host (notify (js ''error'') (txt_switch_failed @ stack_overflow_message)) w1
                 | Some html \<Rightarrow>
                     (let w2 = updateToggleButton (w1\<lparr>pg_main := Some html, isInMindMapMode := True\<rparr>);
                          total = (case h_blocks (pg_host w) of None \<Rightarrow> 0 | Some bs \<Rightarrow> length (object_keys bs))
                      in pgon_host (notify (js ''success'') (txt_to_mindmap @ nat_str total @ txt_nodes)) w2))))"

text \<open>\<open>switchToNormalMode()\<close> (lines 233 to 259): the saved content comes back.\<close>

definition switchToNormalMode :: "page_world \<Rightarrow> page_world" where
  "switchToNormalMode w =
     (case originalContent w of
        None \<Rightarrow> w
      | Some orig \<Rightarrow>
          if \<not> isInMindMapMode w then w
          else (case pg_main w of
                  None \<Rightarrow> pgon_host (notify (js ''error'') txt_no_main) w
                | Some m \<Rightarrow>
                    pgon_host (notify (js ''success'') txt_to_normal)
                      (updateToggleButton (w\<lparr>pg_main := Some orig, isInMindMapMode := False,
                                               originalContent := None\<rparr>))))"

text \<open>\<open>toggleMindMapMode()\<close> (lines 262 to 268).\<close>

definition toggleMindMapMode :: "nat \<Rightarrow> page_world \<Rightarrow> page_world" where
  "toggleMindMapMode now w =
     (if isInMindMapMode w then switchToNormalMode w else switchToMindMapMode now w)"

text \<open>\<open>load(_name)\<close> (lines 287 to 314) and \<open>unload()\<close> (lines 317 to 336).\<close>

definition page_load :: "jstr \<Rightarrow> page_world \<Rightarrow> page_world" where
  "page_load nm w =
     pgon_host (notify (js ''success'') txt_page_enabled \<circ>
       registerShortcut (js ''Ctrl+Shift+M'') (nm @ js ''.toggle'') \<circ>
       registerToolbarButton (nm @ js ''.toggle'') (nm @ js ''.toggle'') \<circ>
       registerCommand (nm @ js ''.toggle'') PToggleMindMapMode) (w\<lparr>pg_name := nm\<rparr>)"

definition page_unload :: "page_world \<Rightarrow> page_world" where
  "page_unload w =
     (let w1 = (if isInMindMapMode w then switchToNormalMode w else w)
      in pgon_host (notify (js ''info'') txt_page_disabled)
           ((pgon_host (unregisterShortcut (js ''Ctrl+Shift+M'') \<circ>
                        unregisterToolbarButton (pg_name w1 @ js ''.toggle'') \<circ>
                        unregisterCommand (pg_name w1 @ js ''.toggle'')) w1)
             \<lparr>isInMindMapMode := False, originalContent := None\<rparr>))"

definition page_invoke :: "nat \<Rightarrow> jstr \<Rightarrow> page_world \<Rightarrow> page_world" where
  "page_invoke now k w =
     (case map_of (h_commands (pg_host w)) k of None \<Rightarrow> w | Some f \<Rightarrow> toggleMindMapMode now w)"

fun page_step :: "page_world \<Rightarrow> nat \<times> host_event \<Rightarrow> page_world" where
  "page_step w (now, Load nm) = page_load nm w"
| "page_step w (now, Unload) = page_unload w"
| "page_step w (now, Invoke k) = page_invoke now k w"
| "page_step w (now, Shortcut sc) =
     (case map_of (h_shortcuts (pg_host w)) sc of None \<Rightarrow> w | Some k \<Rightarrow> page_invoke now k w)"
| "page_step w (now, Button b) =
     (case map_of (h_buttons (pg_host w)) b of None \<Rightarrow> w | Some k \<Rightarrow> page_invoke now k w)"
| "page_step w (now, Broadcast ev) = w"
| "page_step w (now, Tick) = w"
| "page_step w (now, Settle i out) = w"
| "page_step w (now, UserClosesPanel p) = w"

text \<open>In mind-map mode the saved content is present, so that switching back restores it.\<close>

definition page_inv :: "page_world \<Rightarrow> bool" where
  "page_inv w \<longleftrightarrow> (isInMindMapMode w \<longrightarrow> originalContent w \<noteq> None)"

subsection \<open>Proofs\<close>

lemma switch_round_trip:
  assumes "pg_main w = Some m" and "\<not> isInMindMapMode w"
    and "generatePageMindMapHTML (h_blocks (pg_host w)) (pg_clock w now) = Some html"
  shows "pg_main (switchToNormalMode (switchToMindMapMode now w)) = Some m \<and>
         \<not> isInMindMapMode (switchToNormalMode (switchToMindMapMode now w)) \<and>
         originalContent (switchToNormalMode (switchToMindMapMode now w)) = None"
  using assms
  by (simp add: switchToMindMapMode_def switchToNormalMode_def pgon_host_def updateToggleButton_def Let_def
    split: option.splits)

lemma updateToggleButton_sel [simp]:
  "isInMindMapMode (updateToggleButton w) = isInMindMapMode w"
  "originalContent (updateToggleButton w) = originalContent w"
  "pg_main (updateToggleButton w) = pg_main w"
  "pg_host (updateToggleButton w) = pg_host w"
  by (simp_all add: updateToggleButton_def split: option.splits)

lemma pgon_host_sel [simp]:
  "isInMindMapMode (pgon_host f w) = isInMindMapMode w"
  "originalContent (pgon_host f w) = originalContent w"
  "pg_main (pgon_host f w) = pg_main w"
  by (simp_all add: pgon_host_def)

lemma switchToMindMapMode_inv: "page_inv w \<Longrightarrow> page_inv (switchToMindMapMode now w)"
  by (auto simp: page_inv_def switchToMindMapMode_def Let_def split: option.splits)

lemma switchToNormalMode_inv: "page_inv w \<Longrightarrow> page_inv (switchToNormalMode w)"
  by (auto simp: page_inv_def switchToNormalMode_def split: option.splits)

lemma page_step_inv: "page_inv w \<Longrightarrow> page_inv (page_step w e)"
proof -
  assume inv: "page_inv w"
  obtain now ev where e: "e = (now, ev)" by fastforce
  have inv_host: "page_inv (pgon_host f w)" for f using inv by (simp add: page_inv_def)
  have toggle: "page_inv (page_invoke now k w)" for k
    using inv switchToMindMapMode_inv switchToNormalMode_inv
    by (simp add: page_invoke_def toggleMindMapMode_def split: option.splits)
  show ?thesis
  proof (cases ev)
    case (Load nm)
    then show ?thesis using inv by (simp add: e page_load_def page_inv_def pgon_host_def)
  next
    case Unload
    then show ?thesis by (simp add: e page_unload_def page_inv_def pgon_host_def Let_def)
  qed (simp_all add: e inv toggle split: option.splits)
qed

end
