(* ===== verification/JS_Template.thy ===== *)
theory JS_Template
  imports JS_Number
begin

text \<open>
  Template literals as the JavaScript parser reads them: the value (TV) of the text
  between two backticks when the text holds no substitution, or \<open>None\<close> when the parser
  would not read it as one complete literal with that value (an unescaped backtick ends
  it early, \<open>${\<close> starts a substitution, a malformed escape is a \<open>SyntaxError\<close>).
  \<open>esc_backticks\<close> is the escaping the source applies before it embeds a text in a
  template literal it generates (\<open>s.replace(/`/g, '\\`')\<close>).
\<close>

definition is_hex :: "code_unit \<Rightarrow> bool" where
  "is_hex c \<longleftrightarrow> digit_val c < 16"

text \<open>A code point as UTF-16 code units.\<close>

definition utf16_of_cp :: "nat \<Rightarrow> jstr" where
  "utf16_of_cp cp =
     (if cp < 0x10000 then [of_nat cp]
      else [of_nat (0xD800 + (cp - 0x10000) div 0x400), of_nat (0xDC00 + (cp - 0x10000) mod 0x400)])"

text \<open>\<open>Array.prototype.join(sep)\<close> on strings.\<close>

fun js_join :: "jstr \<Rightarrow> jstr list \<Rightarrow> jstr" where
  "js_join sep [] = []"
| "js_join sep [x] = x"
| "js_join sep (x # y # xs) = x @ sep @ js_join sep (y # xs)"

definition esc_backticks :: "jstr \<Rightarrow> jstr" where
  "esc_backticks md = concat (map (\<lambda>c. if c = 0x60 then [0x5C, 0x60] else [c]) md)"

text \<open>The value of the template characters (ECMA-262, TV of \<open>TemplateCharacters\<close>): a
  raw CR or CR LF is LF; after a backslash: a line terminator is a line continuation,
  \<open>b f n r t v\<close> are the control characters, \<open>0\<close> not before a digit is NUL, other
  digits are errors, \<open>x\<close> takes two hex digits, \<open>u\<close> four or a braced code point up to
  \<open>10FFFF\<close>, and every other code unit stands for itself.\<close>

function cook_template :: "jstr \<Rightarrow> jstr option" where
  "cook_template [] = Some []"
| "cook_template (c # cs) =
     (if c = 0x60 then None
      else if c = 0x24 \<and> cs \<noteq> [] \<and> hd cs = 0x7B then None
      else if c = 0x0D then
        map_option (Cons 0x0A) (cook_template (if cs \<noteq> [] \<and> hd cs = 0x0A then tl cs else cs))
      else if c \<noteq> 0x5C then map_option (Cons c) (cook_template cs)
      else (case cs of
              [] \<Rightarrow> None
            | d # ds \<Rightarrow>
                if d = 0x0D then cook_template (if ds \<noteq> [] \<and> hd ds = 0x0A then tl ds else ds)
                else if is_line_terminator d then cook_template ds
                else if d = 0x62 then map_option (Cons 0x08) (cook_template ds)
                else if d = 0x66 then map_option (Cons 0x0C) (cook_template ds)
                else if d = 0x6E then map_option (Cons 0x0A) (cook_template ds)
                else if d = 0x72 then map_option (Cons 0x0D) (cook_template ds)
                else if d = 0x74 then map_option (Cons 0x09) (cook_template ds)
                else if d = 0x76 then map_option (Cons 0x0B) (cook_template ds)
                else if d = 0x30 then
                  (if ds \<noteq> [] \<and> is_digit (hd ds) then None else map_option (Cons 0x00) (cook_template ds))
                else if is_digit d then None
                else if d = 0x78 then
                  (if 2 \<le> length ds \<and> list_all is_hex (take 2 ds)
                   then map_option (Cons (of_nat (radix_value 16 (take 2 ds)))) (cook_template (drop 2 ds))
                   else None)
                else if d = 0x75 then
                  (if ds \<noteq> [] \<and> hd ds = 0x7B then
                     (let hs = takeWhile is_hex (tl ds); rest = drop (length hs) (tl ds) in
                      if hs \<noteq> [] \<and> rest \<noteq> [] \<and> hd rest = 0x7D \<and> radix_value 16 hs \<le> 0x10FFFF
                      then map_option (\<lambda>r. utf16_of_cp (radix_value 16 hs) @ r)
                             (cook_template (drop (Suc (length hs)) (tl ds)))
                      else None)
                   else if 4 \<le> length ds \<and> list_all is_hex (take 4 ds)
                   then map_option (Cons (of_nat (radix_value 16 (take 4 ds)))) (cook_template (drop 4 ds))
                   else None)
                else map_option (Cons d) (cook_template ds)))"
  by pat_completeness auto
termination
  by (relation "measure length")
    (auto simp: le_imp_less_Suc less_Suc_eq_le length_tl)

subsection \<open>Proofs\<close>

lemma esc_backticks_Cons:
  "esc_backticks (c # cs) = (if c = 0x60 then [0x5C, 0x60] else [c]) @ esc_backticks cs"
  by (simp add: esc_backticks_def)

lemma hd_esc_backticks: "cs \<noteq> [] \<Longrightarrow> hd (esc_backticks cs) = (if hd cs = 0x60 then 0x5C else hd cs)"
  by (cases cs) (simp_all add: esc_backticks_Cons)

lemma esc_backticks_Nil_iff [simp]: "esc_backticks cs = [] \<longleftrightarrow> cs = []"
  by (cases cs) (simp_all add: esc_backticks_Cons esc_backticks_def)

text \<open>Escaping the backticks is enough exactly for texts without backslash, CR and
  \<open>${\<close>: then the literal's value is the text.\<close>

lemma cook_esc_backticks:
  "0x5C \<notin> set s \<Longrightarrow> 0x0D \<notin> set s \<Longrightarrow> \<not> sublist [0x24, 0x7B] s \<Longrightarrow>
   cook_template (esc_backticks s) = Some s"
proof (induction s)
  case Nil
  then show ?case by (simp add: esc_backticks_def)
next
  case (Cons c cs)
  have IH: "cook_template (esc_backticks cs) = Some cs"
    using Cons by (simp add: sublist_Cons_right)
  show ?case
  proof (cases "c = 0x60")
    case True
    then show ?thesis using IH by (simp add: esc_backticks_Cons is_line_terminator_def is_digit_def)
  next
    case False
    have "\<not> (c = 0x24 \<and> esc_backticks cs \<noteq> [] \<and> hd (esc_backticks cs) = 0x7B)"
    proof
      assume a: "c = 0x24 \<and> esc_backticks cs \<noteq> [] \<and> hd (esc_backticks cs) = 0x7B"
      then have "cs \<noteq> []" "hd cs = 0x7B" using hd_esc_backticks[of cs] by (auto split: if_splits)
      then have "sublist [0x24, 0x7B] (c # cs)" using a by (cases cs) (auto simp: sublist_Cons_right)
      with Cons.prems show False by simp
    qed
    then show ?thesis using False Cons.prems IH by (simp add: esc_backticks_Cons)
  qed
qed

end
