(* ===== verification/Plugin_Orca.thy ===== *)
theory Plugin_Orca
  imports Plugin_Basic JS_Template
begin

text \<open>
  The plugin of \<open>src/src/orca-mindmap.ts\<close>, which replaces the editor's block list by a
  markmap page and back: \<open>extractPageStructure\<close> on the block elements of the editor
  (\<open>dom_block\<close>), the inner \<open>blocksToMarkdown\<close> with its \<open>'#'.repeat\<close> that throws on a
  negative count, the markup of \<open>generateMindMapHTML\<close> (the loader and initialising
  scripts are kept as the strings the code writes), the toolbar button and its states,
  the mode machine \<open>switchToMindMapMode\<close> / \<open>switchToEditMode\<close>, \<open>load\<close>/\<open>unload\<close> and
  \<open>om_step\<close> on the host and page events. The lemmas: the markdown conversion fails
  exactly when some level is below \<open>-1\<close> (a \<open>data-indent\<close> of \<open>-2\<close> gives
  \<open>Invalid count value: -1\<close>); switching to the mind map and back restores the editor;
  every step keeps the saved markup non-empty while the mind map is shown.
\<close>

text \<open>A block element of the editor as \<open>extractPageStructure\<close> reads it: \<open>data-id\<close>,
  \<open>data-indent\<close>, \<open>data-type\<close>, and its \<open>.orca-repr-main-content\<close> element if any, with
  the \<open>textContent\<close> of each of its text elements (\<open>.orca-inline\<close>, titles, headings)
  in document order and its own \<open>textContent\<close>.\<close>

record dom_block =
  db_id :: "jstr option"
  db_indent :: "jstr option"
  db_type :: "jstr option"
  db_main :: "(jstr list \<times> jstr) option"

text \<open>An entry of the structure (lines 44 to 50): the id (\<open>None\<close>: the generated
  \<open>block-<time>-<random>\<close> id), the content, the level as \<open>parseInt\<close> gives it
  (\<open>None\<close>: \<open>NaN\<close>) and the type. The element reference is not used downstream.\<close>

record page_block =
  pb_id :: "jstr option"
  pb_content :: jstr
  pb_level :: "int option"
  pb_type :: jstr

text \<open>The editor element \<open>.orca-block-editor-blocks\<close>: its \<open>innerHTML\<close> with the block
  elements it parses to, and its \<open>contentEditable\<close>.\<close>

record om_editor =
  ed_html :: jstr
  ed_blocks :: "dom_block list"
  ed_editable :: jstr

text \<open>One block element to its entry, if its content is not blank (lines 25 to 52).\<close>

definition extract_block :: "dom_block \<Rightarrow> page_block option" where
  "extract_block b =
     (let content = (case db_main b of
                       None \<Rightarrow> []
                     | Some (texts, txt) \<Rightarrow>
                         if texts \<noteq> [] then js_trim (js_join [0x20] texts) else txt)
      in if js_trim content = [] then None
         else Some \<lparr>pb_id = (case db_id b of Some i \<Rightarrow> if i = [] then None else Some i | None \<Rightarrow> None),
                    pb_content = take 200 content,
                    pb_level = js_parseInt (case db_indent b of Some s \<Rightarrow> if s = [] then js ''0'' else s
                                                              | None \<Rightarrow> js ''0''),
                    pb_type = (case db_type b of Some t \<Rightarrow> if t = [] then js ''text'' else t
                                               | None \<Rightarrow> js ''text'')\<rparr>)"

text \<open>\<open>extractPageStructure()\<close> (lines 18 to 55) on the editor element found.\<close>

definition extractPageStructure :: "om_editor option \<Rightarrow> page_block list" where
  "extractPageStructure ed =
     (case ed of None \<Rightarrow> [] | Some e \<Rightarrow> List.map_filter extract_block (ed_blocks e))"

text \<open>\<open>'#'.repeat(Math.min(block.level + 1, 6))\<close>: a \<open>NaN\<close> count repeats nothing, a
  negative count throws \<open>RangeError\<close> (\<open>Inl\<close> with its message).\<close>

definition heading_hashes :: "int option \<Rightarrow> jstr + jstr" where
  "heading_hashes lv =
     (case lv of
        None \<Rightarrow> Inr []
      | Some l \<Rightarrow> if min (l + 1) 6 < 0 then Inl (js ''Invalid count value: '' @ int_str (min (l + 1) 6))
                 else Inr (replicate (nat (min (l + 1) 6)) 0x23))"

text \<open>The inner \<open>blocksToMarkdown(blocks)\<close> of \<open>generateMindMapHTML\<close> (lines 76 to 88),
  with the markdown built so far.\<close>

fun blocksToMarkdown_acc :: "jstr \<Rightarrow> page_block list \<Rightarrow> jstr + jstr" where
  "blocksToMarkdown_acc md [] = Inr (js_trim md)"
| "blocksToMarkdown_acc md (b # bs) =
     (case heading_hashes (pb_level b) of
        Inl e \<Rightarrow> Inl e
      | Inr h \<Rightarrow>
          (let c = js_trim (pb_content b) in
           blocksToMarkdown_acc (if c \<noteq> [] then md @ h @ [0x20] @ c @ [0x0A, 0x0A] else md) bs))"

definition om_blocksToMarkdown :: "page_block list \<Rightarrow> jstr + jstr" where
  "om_blocksToMarkdown bs = blocksToMarkdown_acc [] bs"

text \<open>The markup of \<open>generateMindMapHTML(blocks)\<close> (lines 58 to 297): the empty page, the
  container with the loading text and the script tags, the fallback loader script and
  the initialising script that embeds the markdown in a template literal.\<close>

definition om_empty_html :: jstr where
  \<open>om_empty_html =
     js ''\<newline>'' @
     js ''      <div style="\<newline>'' @
     js ''        display: flex;\<newline>'' @
     js ''        align-items: center;\<newline>'' @
     js ''        justify-content: center;\<newline>'' @
     js ''        height: 100vh;\<newline>'' @
     js ''        background: white;\<newline>'' @
     js ''        font-family: var(--orca-font-family, sans-serif);\<newline>'' @
     js ''        color: #666;\<newline>'' @
     js ''      ">\<newline>'' @
     js ''        <div>'' @ [0x9875, 0x9762, 0x5185, 0x5BB9, 0x4E3A, 0x7A7A] @ js ''</div>\<newline>'' @
     js ''      </div>\<newline>'' @
     js ''    ''\<close>

definition om_page_head :: "jstr \<Rightarrow> jstr" where
  \<open>om_page_head cid =
     js ''\<newline>'' @
     js ''    <div style="\<newline>'' @
     js ''      width: 100%;\<newline>'' @
     js ''      height: 100vh;\<newline>'' @
     js ''      background: white;\<newline>'' @
     js ''      overflow: hidden;\<newline>'' @
     js ''      font-family: var(--orca-font-family, -apple-system, BlinkMacSystemFont, '' @ [0x0027] @ js ''Segoe UI'' @ [0x0027] @ js '', sans-serif);\<newline>'' @
     js ''    ">\<newline>'' @
     js ''      <div id="'' @
     cid @
     js ''" style="width: 100%; height: 100%;"></div>\<newline>'' @
     js ''      <div id="loading-'' @
     cid @
     js ''" style="\<newline>'' @
     js ''        position: absolute;\<newline>'' @
     js ''        top: 50%;\<newline>'' @
     js ''        left: 50%;\<newline>'' @
     js ''        transform: translate(-50%, -50%);\<newline>'' @
     js ''        color: #666;\<newline>'' @
     js ''        font-size: 16px;\<newline>'' @
     js ''      ">'' @ [0x52A0, 0x8F7D, 0x601D, 0x7EF4, 0x5BFC, 0x56FE, 0x4E2D] @ js ''...</div>\<newline>'' @
     js ''      \<newline>'' @
     js ''      <!-- '' @ [0x4F7F, 0x7528, 0x56FD, 0x5185] @ js ''CDN'' @ [0x52A0, 0x8F7D, 0x5E93] @ js '' -->\<newline>'' @
     js ''      <script src="https://lib.baomitu.com/d3/7.8.5/d3.min.js"></script>\<newline>'' @
     js ''      <script src="https://cdn.staticfile.org/markmap-lib/0.17.0/browser/index.min.js"></script>\<newline>'' @
     js ''      <script src="https://cdn.staticfile.org/markmap-view/0.17.0/browser/index.min.js"></script>\<newline>'' @
     js ''      \<newline>'' @
     js ''      <!-- '' @ [0x591A, 0x4E2A, 0x56FD, 0x5185] @ js ''CDN'' @ [0x5907, 0x7528, 0x65B9, 0x6848] @ js '' -->\<newline>''\<close>

definition om_cdn_script :: jstr where
  \<open>om_cdn_script =
     js ''      <script>\<newline>'' @
     js ''        let scriptLoadAttempts = 0;\<newline>'' @
     js ''        const maxLoadAttempts = 3;\<newline>'' @
     js ''        \<newline>'' @
     js ''        // CDN'' @ [0x5907, 0x9009, 0x65B9, 0x6848, 0x5217, 0x8868] @ js ''\<newline>'' @
     js ''        const cdnSources = [\<newline>'' @
     js ''          {\<newline>'' @
     js ''            name: '' @ [0x0027, 0x4E03, 0x725B, 0x4E91] @ js ''CDN'' @ [0x0027] @ js '',\<newline>'' @
     js ''            d3: '' @ [0x0027] @ js ''https://cdn.staticfile.org/d3/7.8.5/d3.min.js'' @ [0x0027] @ js '',\<newline>'' @
     js ''            markmapLib: '' @ [0x0027] @ js ''https://cdn.staticfile.org/markmap-lib/0.17.0/browser/index.min.js'' @ [0x0027] @ js '',\<newline>'' @
     js ''            markmapView: '' @ [0x0027] @ js ''https://cdn.staticfile.org/markmap-view/0.17.0/browser/index.min.js'' @ [0x0027] @ js ''\<newline>'' @
     js ''          },\<newline>'' @
     js ''          {\<newline>'' @
     js ''            name: '' @ [0x0027] @ js ''360CDN'' @ [0x0027] @ js '',\<newline>'' @
     js ''            d3: '' @ [0x0027] @ js ''https://lib.baomitu.com/d3/7.8.5/d3.min.js'' @ [0x0027] @ js '',\<newline>'' @
     js ''            markmapLib: '' @ [0x0027] @ js ''https://lib.baomitu.com/markmap-lib/0.17.0/browser/index.min.js'' @ [0x0027] @ js '',\<newline>'' @
     js ''            markmapView: '' @ [0x0027] @ js ''https://lib.baomitu.com/markmap-view/0.17.0/browser/index.min.js'' @ [0x0027] @ js ''\<newline>'' @
     js ''          },\<newline>'' @
     js ''          {\<newline>'' @
     js ''            name: '' @ [0x0027] @ js ''unpkg'' @ [0x955C, 0x50CF, 0x0027] @ js '',\<newline>'' @
     js ''            d3: '' @ [0x0027] @ js ''https://unpkg.com/d3@7/dist/d3.min.js'' @ [0x0027] @ js '',\<newline>'' @
     js ''            markmapLib: '' @ [0x0027] @ js ''https://unpkg.com/markmap-lib@0.17.0/dist/browser/index.min.js'' @ [0x0027] @ js '',\<newline>'' @
     js ''            markmapView: '' @ [0x0027] @ js ''https://unpkg.com/markmap-view@0.17.0/dist/browser/index.min.js'' @ [0x0027] @ js ''\<newline>'' @
     js ''          }\<newline>'' @
     js ''        ];\<newline>'' @
     js ''        \<newline>'' @
     js ''        function loadScriptsFromCDN(cdnIndex = 0) {\<newline>'' @
     js ''          if (cdnIndex >= cdnSources.length) {\<newline>'' @
     js ''            console.error('' @ [0x0027, 0x6240, 0x6709] @ js ''CDN'' @ [0x6E90, 0x90FD, 0x5931, 0x8D25, 0x4E86, 0x0027] @ js '');\<newline>'' @
     js ''            return;\<newline>'' @
     js ''          }\<newline>'' @
     js ''          \<newline>'' @
     js ''          const cdn = cdnSources[cdnIndex];\<newline>'' @
     js ''          console.log(`'' @ [0x5C1D, 0x8BD5, 0x4ECE] @ js '' ${cdn.name} '' @ [0x52A0, 0x8F7D, 0x811A, 0x672C] @ js ''...`);\<newline>'' @
     js ''          \<newline>'' @
     js ''          const scripts = [cdn.d3, cdn.markmapLib, cdn.markmapView];\<newline>'' @
     js ''          let loadedCount = 0;\<newline>'' @
     js ''          let hasError = false;\<newline>'' @
     js ''          \<newline>'' @
     js ''          scripts.forEach(src => {\<newline>'' @
     js ''            const script = document.createElement('' @ [0x0027] @ js ''script'' @ [0x0027] @ js '');\<newline>'' @
     js ''            script.src = src;\<newline>'' @
     js ''            \<newline>'' @
     js ''            script.onload = () => {\<newline>'' @
     js ''              loadedCount++;\<newline>'' @
     js ''              if (loadedCount === scripts.length && !hasError) {\<newline>'' @
     js ''                console.log(`${cdn.name} '' @ [0x52A0, 0x8F7D, 0x5B8C, 0x6210] @ js ''`);\<newline>'' @
     js ''                // '' @ [0x9A8C, 0x8BC1, 0x5E93, 0x662F, 0x5426, 0x6B63, 0x786E, 0x52A0, 0x8F7D] @ js ''\<newline>'' @
     js ''                setTimeout(() => {\<newline>'' @
     js ''                  if (typeof d3 === '' @ [0x0027] @ js ''undefined'' @ [0x0027] @ js '' || typeof markmap === '' @ [0x0027] @ js ''undefined'' @ [0x0027] @ js '') {\<newline>'' @
     js ''                    console.warn(`${cdn.name} '' @ [0x811A, 0x672C, 0x52A0, 0x8F7D, 0x4F46, 0x5E93, 0x672A, 0x5B9A, 0x4E49, 0xFF0C, 0x5C1D, 0x8BD5, 0x4E0B, 0x4E00, 0x4E2A] @ js ''CDN`);\<newline>'' @
     js ''                    loadScriptsFromCDN(cdnIndex + 1);\<newline>'' @
     js ''                  }\<newline>'' @
     js ''                }, 100);\<newline>'' @
     js ''              }\<newline>'' @
     js ''            };\<newline>'' @
     js ''            \<newline>'' @
     js ''            script.onerror = () => {\<newline>'' @
     js ''              if (!hasError) {\<newline>'' @
     js ''                hasError = true;\<newline>'' @
     js ''                console.warn(`${cdn.name} '' @ [0x52A0, 0x8F7D, 0x5931, 0x8D25, 0xFF0C, 0x5C1D, 0x8BD5, 0x4E0B, 0x4E00, 0x4E2A] @ js ''CDN`);\<newline>'' @
     js ''                setTimeout(() => loadScriptsFromCDN(cdnIndex + 1), 500);\<newline>'' @
     js ''              }\<newline>'' @
     js ''            };\<newline>'' @
     js ''            \<newline>'' @
     js ''            document.head.appendChild(script);\<newline>'' @
     js ''          });\<newline>'' @
     js ''          \<newline>'' @
     js ''          // '' @ [0x8D85, 0x65F6, 0x68C0, 0x6D4B] @ js ''\<newline>'' @
     js ''          setTimeout(() => {\<newline>'' @
     js ''            if (loadedCount < scripts.length) {\<newline>'' @
     js ''              console.warn(`${cdn.name} '' @ [0x52A0, 0x8F7D, 0x8D85, 0x65F6, 0xFF0C, 0x5C1D, 0x8BD5, 0x4E0B, 0x4E00, 0x4E2A] @ js ''CDN`);\<newline>'' @
     js ''              if (!hasError) {\<newline>'' @
     js ''                hasError = true;\<newline>'' @
     js ''                loadScriptsFromCDN(cdnIndex + 1);\<newline>'' @
     js ''              }\<newline>'' @
     js ''            }\<newline>'' @
     js ''          }, 5000);\<newline>'' @
     js ''        }\<newline>'' @
     js ''        \<newline>'' @
     js ''        // '' @ [0x68C0, 0x6D4B, 0x521D, 0x59CB, 0x811A, 0x672C, 0x662F, 0x5426, 0x52A0, 0x8F7D, 0x6210, 0x529F] @ js ''\<newline>'' @
     js ''        setTimeout(() => {\<newline>'' @
     js ''          if (typeof d3 === '' @ [0x0027] @ js ''undefined'' @ [0x0027] @ js '' || typeof markmap === '' @ [0x0027] @ js ''undefined'' @ [0x0027] @ js '') {\<newline>'' @
     js ''            console.log('' @ [0x0027, 0x521D, 0x59CB] @ js ''CDN'' @ [0x52A0, 0x8F7D, 0x5931, 0x8D25, 0xFF0C, 0x542F, 0x52A8, 0x5907, 0x7528] @ js ''CDN'' @ [0x65B9, 0x6848] @ js ''...'' @ [0x0027] @ js '');\<newline>'' @
     js ''            loadScriptsFromCDN(0);\<newline>'' @
     js ''          }\<newline>'' @
     js ''        }, 2000);\<newline>'' @
     js ''      </script>\<newline>'' @
     js ''      \<newline>''\<close>

definition om_init_script :: "jstr \<Rightarrow> jstr \<Rightarrow> jstr" where
  \<open>om_init_script cid md =
     js ''      <script>\<newline>'' @
     js ''        (function() {\<newline>'' @
     js ''          const containerId = '' @ [0x0027] @
     cid @
     [0x0027] @ js '';\<newline>'' @
     js ''          const markdown = `'' @
     esc_backticks md @
     js ''`;\<newline>'' @
     js ''          \<newline>'' @
     js ''          // '' @ [0x7B49, 0x5F85, 0x6240, 0x6709, 0x811A, 0x672C, 0x52A0, 0x8F7D, 0x5B8C, 0x6210, 0xFF0C, 0x589E, 0x52A0, 0x8D85, 0x65F6, 0x5904, 0x7406] @ js ''\<newline>'' @
     js ''          let waitAttempts = 0;\<newline>'' @
     js ''          const maxWaitAttempts = 100; // 10'' @ [0x79D2, 0x8D85, 0x65F6] @ js ''\<newline>'' @
     js ''          \<newline>'' @
     js ''          function waitForMarkmap() {\<newline>'' @
     js ''            waitAttempts++;\<newline>'' @
     js ''            \<newline>'' @
     js ''            if (typeof d3 !== '' @ [0x0027] @ js ''undefined'' @ [0x0027] @ js '' && typeof markmap !== '' @ [0x0027] @ js ''undefined'' @ [0x0027] @ js '' && markmap.Transformer && markmap.Markmap) {\<newline>'' @
     js ''              console.log('' @ [0x0027, 0x6240, 0x6709, 0x811A, 0x672C, 0x52A0, 0x8F7D, 0x5B8C, 0x6210, 0xFF0C, 0x5F00, 0x59CB, 0x521D, 0x59CB, 0x5316] @ js '' Markmap'' @ [0x0027] @ js '');\<newline>'' @
     js ''              initializeMarkmap();\<newline>'' @
     js ''            } else if (waitAttempts >= maxWaitAttempts) {\<newline>'' @
     js ''              console.error('' @ [0x0027, 0x811A, 0x672C, 0x52A0, 0x8F7D, 0x8D85, 0x65F6, 0x0027] @ js '');\<newline>'' @
     js ''              const container = document.getElementById(containerId);\<newline>'' @
     js ''              const loadingEl = document.getElementById('' @ [0x0027] @ js ''loading-'' @ [0x0027] @ js '' + containerId);\<newline>'' @
     js ''              if (loadingEl) loadingEl.style.display = '' @ [0x0027] @ js ''none'' @ [0x0027] @ js '';\<newline>'' @
     js ''              if (container) {\<newline>'' @
     js ''                container.innerHTML = `\<newline>'' @
     js ''                  <div style="display:flex;flex-direction:column;align-items:center;justify-content:center;height:100%;color:#ef4444;font-size:16px;text-align:center;">\<newline>'' @
     js ''                    <div>'' @ [0x7F51, 0x7EDC, 0x8FDE, 0x63A5, 0x95EE, 0x9898, 0xFF0C, 0x65E0, 0x6CD5, 0x52A0, 0x8F7D, 0x601D, 0x7EF4, 0x5BFC, 0x56FE, 0x5E93] @ js ''</div>\<newline>'' @
     js ''                    <div style="font-size:14px;color:#666;margin-top:10px;">\<newline>'' @
     js ''                      '' @ [0x68C0, 0x6D4B, 0x5230, 0x7684, 0x72B6, 0x6001, 0xFF1A] @ js ''<br/>\<newline>'' @
     js ''                      D3: ${typeof d3 !== '' @ [0x0027] @ js ''undefined'' @ [0x0027] @ js '' ? '' @ [0x0027, 0x2713, 0x0027] @ js '' : '' @ [0x0027, 0x2717, 0x0027] @ js ''}<br/>\<newline>'' @
     js ''                      Markmap: ${typeof markmap !== '' @ [0x0027] @ js ''undefined'' @ [0x0027] @ js '' ? '' @ [0x0027, 0x2713, 0x0027] @ js '' : '' @ [0x0027, 0x2717, 0x0027] @ js ''}\<newline>'' @
     js ''                    </div>\<newline>'' @
     js ''                    <button onclick="location.reload()" style="margin-top:15px;padding:8px 16px;background:#3498db;color:white;border:none;border-radius:4px;cursor:pointer;">\<newline>'' @
     js ''                      '' @ [0x91CD, 0x8BD5] @ js ''\<newline>'' @
     js ''                    </button>\<newline>'' @
     js ''                  </div>\<newline>'' @
     js ''                `;\<newline>'' @
     js ''              }\<newline>'' @
     js ''            } else {\<newline>'' @
     js ''              setTimeout(waitForMarkmap, 100);\<newline>'' @
     js ''            }\<newline>'' @
     js ''          }\<newline>'' @
     js ''          \<newline>'' @
     js ''          function initializeMarkmap() {\<newline>'' @
     js ''            try {\<newline>'' @
     js ''              const loadingEl = document.getElementById('' @ [0x0027] @ js ''loading-'' @ [0x0027] @ js '' + containerId);\<newline>'' @
     js ''              if (loadingEl) loadingEl.style.display = '' @ [0x0027] @ js ''none'' @ [0x0027] @ js '';\<newline>'' @
     js ''              \<newline>'' @
     js ''              const container = document.getElementById(containerId);\<newline>'' @
     js ''              if (!container) return;\<newline>'' @
     js ''              \<newline>'' @
     js ''              // '' @ [0x4F7F, 0x7528] @ js '' Markmap '' @ [0x5E93] @ js ''\<newline>'' @
     js ''              const transformer = new markmap.Transformer();\<newline>'' @
     js ''              const { root, features } = transformer.transform(markdown);\<newline>'' @
     js ''              \<newline>'' @
     js ''              // '' @ [0x52A0, 0x8F7D, 0x5FC5, 0x8981, 0x7684, 0x8D44, 0x6E90] @ js ''\<newline>'' @
     js ''              const { styles, scripts } = transformer.getUsedAssets(features);\<newline>'' @
     js ''              if (styles) markmap.loadCSS(styles);\<newline>'' @
     js ''              if (scripts) markmap.loadJS(scripts);\<newline>'' @
     js ''              \<newline>'' @
     js ''              // '' @ [0x521B, 0x5EFA, 0x601D, 0x7EF4, 0x5BFC, 0x56FE] @ js ''\<newline>'' @
     js ''              const mm = markmap.Markmap.create(container, {\<newline>'' @
     js ''                color: (d) => {\<newline>'' @
     js ''                  const colors = ['' @ [0x0027] @ js ''#3498db'' @ [0x0027] @ js '', '' @ [0x0027] @ js ''#e74c3c'' @ [0x0027] @ js '', '' @ [0x0027] @ js ''#2ecc71'' @ [0x0027] @ js '', '' @ [0x0027] @ js ''#f39c12'' @ [0x0027] @ js '', '' @ [0x0027] @ js ''#9b59b6'' @ [0x0027] @ js '', '' @ [0x0027] @ js ''#1abc9c'' @ [0x0027] @ js '', '' @ [0x0027] @ js ''#34495e'' @ [0x0027] @ js '', '' @ [0x0027] @ js ''#e67e22'' @ [0x0027] @ js ''];\<newline>'' @
     js ''                  return colors[d.depth % colors.length];\<newline>'' @
     js ''                },\<newline>'' @
     js ''                duration: 500,\<newline>'' @
     js ''                maxWidth: 300,\<newline>'' @
     js ''                paddingX: 8,\<newline>'' @
     js ''                spacingVertical: 8,\<newline>'' @
     js ''                spacingHorizontal: 120,\<newline>'' @
     js ''                fitRatio: 0.95,\<newline>'' @
     js ''                initialExpandLevel: -1\<newline>'' @
     js ''              });\<newline>'' @
     js ''              \<newline>'' @
     js ''              mm.setData(root);\<newline>'' @
     js ''              mm.fit();\<newline>'' @
     js ''              \<newline>'' @
     js ''              console.log('' @ [0x0027] @ js ''Markmap '' @ [0x521D, 0x59CB, 0x5316, 0x6210, 0x529F, 0x0027] @ js '');\<newline>'' @
     js ''            } catch (error) {\<newline>'' @
     js ''              console.error('' @ [0x0027] @ js ''Markmap '' @ [0x521D, 0x59CB, 0x5316, 0x5931, 0x8D25] @ js '':'' @ [0x0027] @ js '', error);\<newline>'' @
     js ''              const container = document.getElementById(containerId);\<newline>'' @
     js ''              if (container) {\<newline>'' @
     js ''                container.innerHTML = '' @ [0x0027] @ js ''<div style="display:flex;align-items:center;justify-content:center;height:100%;color:#ef4444;font-size:16px;">'' @ [0x601D, 0x7EF4, 0x5BFC, 0x56FE, 0x52A0, 0x8F7D, 0x5931, 0x8D25] @ js '': '' @ [0x0027] @ js '' + error.message + '' @ [0x0027] @ js ''</div>'' @ [0x0027] @ js '';\<newline>'' @
     js ''              }\<newline>'' @
     js ''            }\<newline>'' @
     js ''          }\<newline>'' @
     js ''          \<newline>'' @
     js ''          // '' @ [0x5F00, 0x59CB, 0x68C0, 0x67E5] @ js '' Markmap '' @ [0x662F, 0x5426, 0x52A0, 0x8F7D, 0x5B8C, 0x6210] @ js ''\<newline>'' @
     js ''          setTimeout(waitForMarkmap, 200);\<newline>'' @
     js ''        })();\<newline>'' @
     js ''      </script>\<newline>'' @
     js ''    </div>\<newline>'' @
     js ''  ''\<close>

definition om_generateMindMapHTML :: "jstr \<Rightarrow> page_block list \<Rightarrow> jstr + jstr" where
  "om_generateMindMapHTML cid blocks =
     (if blocks = [] then Inr om_empty_html
      else (case om_blocksToMarkdown blocks of
              Inl e \<Rightarrow> Inl e
            | Inr md \<Rightarrow> Inr (om_page_head cid @ om_cdn_script @ om_init_script cid md)))"

text \<open>The toolbar button the plugin creates (lines 300 to 326 and 329 to 349): whether
  it is attached to the toolbar, its background, colour, title and icon colour.\<close>

record om_button =
  bt_attached :: bool
  bt_background :: jstr
  bt_color :: jstr
  bt_title :: jstr
  bt_icon_color :: jstr

datatype om_handler = OToggleMindMapMode

text \<open>The module state (lines 12 to 15: \<open>pluginName\<close>, \<open>isInMindMapMode\<close>,
  \<open>originalContent\<close> with the block elements its markup parses to, \<open>toggleButton\<close>),
  the host, the page (the editor element, whether the head bar's toolbar exists, a
  pending retry of \<open>addButtonToToolbar\<close>) and the fresh container id the page would draw
  from \<open>Date.now()\<close> and \<open>Math.random()\<close> at a time.\<close>

record om_world =
  om_host :: "om_handler host"
  om_name :: jstr
  om_mode :: bool
  om_original :: "jstr \<times> dom_block list"
  toggleButton :: "om_button option"
  om_editor :: "om_editor option"
  om_toolbar :: bool
  om_retry :: bool
  om_fresh_id :: "nat \<Rightarrow> jstr"

definition txt_no_editor :: jstr where
  "txt_no_editor = [0x627E, 0x4E0D, 0x5230, 0x4E3B, 0x7F16, 0x8F91, 0x533A, 0x57DF]"
definition txt_nothing_to_show :: jstr where
  "txt_nothing_to_show = [0x5F53, 0x524D, 0x9875, 0x9762, 0x6CA1, 0x6709, 0x53EF, 0x663E, 0x793A, 0x7684, 0x5185, 0x5BB9]"
definition txt_back_to_edit :: jstr where
  "txt_back_to_edit = [0x5DF2, 0x8FD4, 0x56DE, 0x7F16, 0x8F91, 0x6A21, 0x5F0F]"
definition txt_title_edit :: jstr where
  "txt_title_edit = [0x8FD4, 0x56DE, 0x7F16, 0x8F91, 0x6A21, 0x5F0F]"
definition txt_title_toggle :: jstr where
  "txt_title_toggle = [0x5207, 0x6362, 0x601D, 0x7EF4, 0x5BFC, 0x56FE, 0x6A21, 0x5F0F]"
definition txt_om_enabled :: jstr where
  "txt_om_enabled = [0x601D, 0x7EF4, 0x5BFC, 0x56FE, 0x63D2, 0x4EF6, 0x5DF2, 0x542F, 0x7528] @ js '' - '' @
     [0x53F3, 0x4E0A, 0x89D2, 0xD83E, 0xDDE0, 0x6309, 0x94AE]"
definition txt_om_disabled :: jstr where
  "txt_om_disabled = [0x601D, 0x7EF4, 0x5BFC, 0x56FE, 0x63D2, 0x4EF6, 0x5DF2, 0x7981, 0x7528]"

definition txt_switch_failed_om :: jstr where
  "txt_switch_failed_om = [0x5207, 0x6362, 0x5931, 0x8D25] @ js '': ''"
definition txt_to_mindmap_om :: jstr where
  "txt_to_mindmap_om = [0x5DF2, 0x5207, 0x6362, 0x5230, 0x601D, 0x7EF4, 0x5BFC, 0x56FE, 0x6A21, 0x5F0F] @ js '' - ''"

definition omon_host :: "(om_handler host \<Rightarrow> om_handler host) \<Rightarrow> om_world \<Rightarrow> om_world" where
  "omon_host f w = w\<lparr>om_host := f (om_host w)\<rparr>"

text \<open>\<open>createToggleButton()\<close> (lines 300 to 326): a detached plain button.\<close>

definition createToggleButton :: om_button where
  "createToggleButton = \<lparr>bt_attached = False, bt_background = [], bt_color = [], bt_title = txt_title_toggle,
     bt_icon_color = []\<rparr>"

text \<open>The hover handlers of the button (lines 313 to 323).\<close>

definition button_hover :: "bool \<Rightarrow> om_world \<Rightarrow> om_world" where
  "button_hover enter w =
     (case toggleButton w of
        None \<Rightarrow> w
      | Some b \<Rightarrow> if om_mode w then w
                 else w\<lparr>toggleButton := Some (b\<lparr>bt_background := (if enter then js ''var(--orca-color-bg-2, #f0f0f0)'' else [])\<rparr>)\<rparr>)"

text \<open>\<open>updateButtonState()\<close> (lines 329 to 349).\<close>

definition updateButtonState :: "om_world \<Rightarrow> om_world" where
  "updateButtonState w =
     (case toggleButton w of
        None \<Rightarrow> w
      | Some b \<Rightarrow>
          w\<lparr>toggleButton := Some (if om_mode w
             then b\<lparr>bt_background := js ''var(--orca-color-primary, #2563eb)'', bt_color := js ''white'',
                    bt_title := txt_title_edit, bt_icon_color := js ''white''\<rparr>
             else b\<lparr>bt_background := [], bt_color := [], bt_title := txt_title_toggle, bt_icon_color := []\<rparr>)\<rparr>)"

text \<open>\<open>switchToMindMapMode()\<close> (lines 352 to 390) at time \<open>now\<close>. The markup the mind map
  replaces the editor's with holds no block element. A \<open>RangeError\<close> of the markdown
  conversion is caught after the original content is saved.\<close>

definition switchToMindMapMode_om :: "nat \<Rightarrow> om_world \<Rightarrow> om_world" where
  "switchToMindMapMode_om now w =
     (if om_mode w then w
      else (case om_editor w of
              None \<Rightarrow> omon_host (notify (js ''error'') txt_no_editor) w
            | Some e \<Rightarrow>
                (let w1 = w\<lparr>om_original := (ed_html e, ed_blocks e)\<rparr>;
                     blocks = extractPageStructure (Some e)
                 in if blocks = [] then omon_host (notify (js ''warn'') txt_nothing_to_show) w1
                    else (case om_generateMindMapHTML (om_fresh_id w now) blocks of
                            Inl msg \<Rightarrow> omon_host (notify (js ''error'') (txt_switch_failed_om @ msg)) w1
                          | Inr html \<Rightarrow>
                              omon_host (notify (js ''success'') (txt_to_mindmap_om @ nat_str (length blocks) @ txt_nodes))
                                (updateButtonState (w1\<lparr>om_editor := Some (e\<lparr>ed_html := html, ed_blocks := [],
                                                                           ed_editable := js ''false''\<rparr>),
                                                         om_mode := True\<rparr>))))))"

text \<open>\<open>switchToEditMode()\<close> (lines 393 to 418): the saved markup comes back.\<close>

definition switchToEditMode :: "om_world \<Rightarrow> om_world" where
  "switchToEditMode w =
     (if \<not> om_mode w \<or> fst (om_original w) = [] then w
      else (case om_editor w of
              None \<Rightarrow> omon_host (notify (js ''error'') txt_no_editor) w
            | Some e \<Rightarrow>
                omon_host (notify (js ''success'') txt_back_to_edit)
                  (updateButtonState (w\<lparr>om_editor := Some (e\<lparr>ed_html := fst (om_original w),
                                                            ed_blocks := snd (om_original w),
                                                            ed_editable := js ''plaintext-only''\<rparr>),
                                         om_mode := False, om_original := ([], [])\<rparr>))))"

definition toggleMindMapMode_om :: "nat \<Rightarrow> om_world \<Rightarrow> om_world" where
  "toggleMindMapMode_om now w = (if om_mode w then switchToEditMode w else switchToMindMapMode_om now w)"

text \<open>\<open>addButtonToToolbar()\<close> (lines 430 to 447): without the toolbar a retry is scheduled
  a second later; an attached button is not added twice.\<close>

definition addButtonToToolbar :: "om_world \<Rightarrow> om_world" where
  "addButtonToToolbar w =
     (if \<not> om_toolbar w then w\<lparr>om_retry := True\<rparr>
      else (case toggleButton w of
              Some b \<Rightarrow> if bt_attached b then w else w\<lparr>toggleButton := Some (createToggleButton\<lparr>bt_attached := True\<rparr>)\<rparr>
            | None \<Rightarrow> w\<lparr>toggleButton := Some (createToggleButton\<lparr>bt_attached := True\<rparr>)\<rparr>))"

definition removeButtonFromToolbar :: "om_world \<Rightarrow> om_world" where
  "removeButtonFromToolbar w =
     (case toggleButton w of
        Some b \<Rightarrow> if bt_attached b then w\<lparr>toggleButton := None\<rparr> else w
      | None \<Rightarrow> w)"

text \<open>\<open>load(_name)\<close> (lines 458 to 482) and \<open>unload()\<close> (lines 485 to 510); the host has
  \<open>registerShortcut\<close> and the unregister functions.\<close>

definition om_load :: "jstr \<Rightarrow> om_world \<Rightarrow> om_world" where
  "om_load nm w =
     omon_host (notify (js ''success'') txt_om_enabled)
       (addButtonToToolbar
         (omon_host (registerShortcut (js ''Ctrl+Shift+M'') (nm @ js ''.toggle'') \<circ>
                     registerCommand (nm @ js ''.toggle'') OToggleMindMapMode) (w\<lparr>om_name := nm\<rparr>)))"

definition om_unload :: "om_world \<Rightarrow> om_world" where
  "om_unload w =
     (let w1 = removeButtonFromToolbar (if om_mode w then switchToEditMode w else w)
      in omon_host (notify (js ''info'') txt_om_disabled)
           ((omon_host (unregisterShortcut (js ''Ctrl+Shift+M'') \<circ> unregisterCommand (om_name w1 @ js ''.toggle'')) w1)
              \<lparr>om_mode := False, om_original := ([], [])\<rparr>))"

text \<open>The events: those of the host (the clock tick runs a due retry of
  \<open>addButtonToToolbar\<close>), a click on the plugin's button, the pointer entering or
  leaving it, the head bar's toolbar appearing.\<close>

datatype om_event = OHost host_event | OButtonClick | OButtonHover bool | OToolbarAppears

definition om_invoke :: "nat \<Rightarrow> jstr \<Rightarrow> om_world \<Rightarrow> om_world" where
  "om_invoke now k w =
     (case map_of (h_commands (om_host w)) k of None \<Rightarrow> w | Some f \<Rightarrow> toggleMindMapMode_om now w)"

fun om_step :: "om_world \<Rightarrow> nat \<times> om_event \<Rightarrow> om_world" where
  "om_step w (now, OHost (Load nm)) = om_load nm w"
| "om_step w (now, OHost Unload) = om_unload w"
| "om_step w (now, OHost (Invoke k)) = om_invoke now k w"
| "om_step w (now, OHost (Shortcut sc)) =
     (case map_of (h_shortcuts (om_host w)) sc of None \<Rightarrow> w | Some k \<Rightarrow> om_invoke now k w)"
| "om_step w (now, OHost (Button b)) = w"
| "om_step w (now, OHost (Broadcast ev)) = w"
| "om_step w (now, OHost Tick) = (if om_retry w then addButtonToToolbar (w\<lparr>om_retry := False\<rparr>) else w)"
| "om_step w (now, OHost (Settle i out)) = w"
| "om_step w (now, OHost (UserClosesPanel p)) = w"
| "om_step w (now, OButtonClick) =
     (case toggleButton w of Some b \<Rightarrow> if bt_attached b then toggleMindMapMode_om now w else w | None \<Rightarrow> w)"
| "om_step w (now, OButtonHover enter) = button_hover enter w"
| "om_step w (now, OToolbarAppears) = w\<lparr>om_toolbar := True\<rparr>"

text \<open>While the mind map is shown the saved markup is not empty, so that the guard of
  \<open>switchToEditMode\<close> lets it back; this needs the editor's markup to be non-empty when
  it holds block elements.\<close>

definition om_inv :: "om_world \<Rightarrow> bool" where
  "om_inv w \<longleftrightarrow>
     (om_mode w \<longrightarrow> fst (om_original w) \<noteq> []) \<and>
     (snd (om_original w) \<noteq> [] \<longrightarrow> fst (om_original w) \<noteq> []) \<and>
     (case om_editor w of None \<Rightarrow> True | Some e \<Rightarrow> ed_blocks e \<noteq> [] \<longrightarrow> ed_html e \<noteq> [])"

text \<open>The shape every entry of the page structure has (the \<open>PageBlock\<close> the
  markdown builders read): a content of one to 200 code units, a type, and an id that
  is either generated or a non-empty \<open>data-id\<close>.\<close>

definition page_block_ok :: "page_block \<Rightarrow> bool" where
  "page_block_ok b \<longleftrightarrow>
     pb_content b \<noteq> [] \<and> length (pb_content b) \<le> 200 \<and> pb_type b \<noteq> [] \<and> pb_id b \<noteq> Some []"

subsection \<open>Proofs\<close>

lemma heading_hashes_Inl: "(\<exists>e. heading_hashes lv = Inl e) \<longleftrightarrow> (\<exists>l. lv = Some l \<and> l < -1)"
  by (cases lv) (auto simp: heading_hashes_def)

lemma blocksToMarkdown_acc_Inl:
  "(\<exists>e. blocksToMarkdown_acc md bs = Inl e) \<longleftrightarrow> (\<exists>b \<in> set bs. \<exists>l. pb_level b = Some l \<and> l < -1)"
proof (induction bs arbitrary: md)
  case (Cons b bs)
  show ?case
  proof (cases "heading_hashes (pb_level b)")
    case (Inl e)
    then show ?thesis using heading_hashes_Inl[of "pb_level b"] by auto
  next
    case (Inr h)
    then have "\<not> (\<exists>l. pb_level b = Some l \<and> l < -1)" using heading_hashes_Inl[of "pb_level b"] by auto
    with Inr Cons.IH show ?thesis by (auto simp: Let_def)
  qed
qed simp

lemma om_blocksToMarkdown_error:
  "(\<exists>e. om_blocksToMarkdown bs = Inl e) \<longleftrightarrow> (\<exists>b \<in> set bs. \<exists>l. pb_level b = Some l \<and> l < -1)"
  by (simp add: om_blocksToMarkdown_def blocksToMarkdown_acc_Inl)

lemma om_blocksToMarkdown_indent:
  "om_blocksToMarkdown [\<lparr>pb_id = None, pb_content = js ''x'', pb_level = Some (-2), pb_type = js ''text''\<rparr>] =
   Inl (js ''Invalid count value: -1'')"
  by (simp add: om_blocksToMarkdown_def heading_hashes_def int_str_def nat_str_digit digit_char_def js_def)

lemma switch_edit_round_trip:
  assumes "om_editor w = Some e" and "\<not> om_mode w" and "ed_html e \<noteq> []"
    and "extractPageStructure (Some e) \<noteq> []"
    and "om_generateMindMapHTML (om_fresh_id w now) (extractPageStructure (Some e)) = Inr html"
  shows "map_option (\<lambda>e. (ed_html e, ed_blocks e)) (om_editor (switchToEditMode (switchToMindMapMode_om now w))) =
           Some (ed_html e, ed_blocks e) \<and>
         \<not> om_mode (switchToEditMode (switchToMindMapMode_om now w))"
  using assms
  by (simp add: switchToMindMapMode_om_def switchToEditMode_def omon_host_def updateButtonState_def Let_def
    split: option.splits)

lemma updateButtonState_sel [simp]:
  "om_mode (updateButtonState w) = om_mode w" "om_original (updateButtonState w) = om_original w"
  "om_editor (updateButtonState w) = om_editor w"
  by (simp_all add: updateButtonState_def split: option.splits)

lemma omon_host_sel [simp]:
  "om_mode (omon_host f w) = om_mode w" "om_original (omon_host f w) = om_original w"
  "om_editor (omon_host f w) = om_editor w"
  by (simp_all add: omon_host_def)

lemma om_inv_host [simp]: "om_inv (omon_host f w) = om_inv w"
  by (simp add: om_inv_def)

lemma om_inv_button [simp]: "om_inv (updateButtonState v) = om_inv v"
  by (simp add: om_inv_def)

lemma extract_nonempty: "extractPageStructure (Some e) \<noteq> [] \<Longrightarrow> ed_blocks e \<noteq> []"
  by (auto simp: extractPageStructure_def map_filter_simps)

lemma om_page_head_nonempty: "om_page_head cid \<noteq> []"
  by (simp add: om_page_head_def js_def)

lemma switchToMindMapMode_om_inv:
  assumes inv: "om_inv w" shows "om_inv (switchToMindMapMode_om now w)"
proof (cases "om_mode w")
  case False
  show ?thesis
  proof (cases "om_editor w")
    case (Some e)
    let ?w1 = "w\<lparr>om_original := (ed_html e, ed_blocks e)\<rparr>"
    have w1: "om_inv ?w1" using inv Some False by (simp add: om_inv_def)
    show ?thesis
    proof (cases "extractPageStructure (Some e) = []")
      case True
      then show ?thesis using False Some w1 by (simp add: switchToMindMapMode_om_def Let_def)
    next
      case ne: False
      then have "ed_html e \<noteq> []" using inv Some extract_nonempty by (simp add: om_inv_def)
      then have "om_inv (?w1\<lparr>om_editor := Some (e\<lparr>ed_html := html, ed_blocks := [], ed_editable := x\<rparr>),
          om_mode := True\<rparr>)" for html x
        using w1 by (simp add: om_inv_def)
      then show ?thesis using False Some w1 ne
        by (simp add: switchToMindMapMode_om_def Let_def split: sum.split)
    qed
  qed (simp_all add: switchToMindMapMode_om_def inv)
qed (simp add: switchToMindMapMode_om_def inv)

lemma switchToEditMode_inv: "om_inv w \<Longrightarrow> om_inv (switchToEditMode w)"
  by (auto simp: switchToEditMode_def om_inv_def split: option.splits)

lemma removeButton_inv: "om_inv v \<Longrightarrow> om_inv (removeButtonFromToolbar v)"
  by (simp add: removeButtonFromToolbar_def om_inv_def split: option.splits)

lemma reset_inv: "om_inv v \<Longrightarrow> om_inv (v\<lparr>om_mode := False, om_original := ([], [])\<rparr>)"
  by (simp add: om_inv_def)

lemma om_step_inv: "om_inv w \<Longrightarrow> om_inv (om_step w e)"
proof -
  assume inv: "om_inv w"
  obtain now ev where e: "e = (now, ev)" by fastforce
  have sel: "om_inv (w\<lparr>toggleButton := b\<rparr>)" "om_inv (w\<lparr>om_retry := r\<rparr>)" "om_inv (w\<lparr>om_toolbar := t\<rparr>)"
    "om_inv (w\<lparr>om_name := nm\<rparr>)" for b r t nm
    using inv by (simp_all add: om_inv_def)
  have add: "om_inv v \<Longrightarrow> om_inv (addButtonToToolbar v)" for v
    by (simp add: addButtonToToolbar_def om_inv_def split: option.splits)
  have toggle: "om_inv (toggleMindMapMode_om now w)"
    using inv by (simp add: toggleMindMapMode_om_def switchToMindMapMode_om_inv switchToEditMode_inv)
  show ?thesis
  proof (cases ev)
    case (OHost h)
    show ?thesis
    proof (cases h)
      case (Load nm)
      have "om_inv (omon_host f (w\<lparr>om_name := nm\<rparr>))" for f using sel(4) by simp
      then show ?thesis using OHost Load add by (simp add: e om_load_def)
    next
      case Unload
      have "om_inv (if om_mode w then switchToEditMode w else w)" using inv switchToEditMode_inv by simp
      then have "om_inv (removeButtonFromToolbar (if om_mode w then switchToEditMode w else w))"
        by (rule removeButton_inv)
      then show ?thesis using OHost Unload by (simp add: e om_unload_def Let_def reset_inv)
    next
      case Tick
      then show ?thesis using OHost inv add sel(2) by (simp add: e)
    qed (use OHost inv toggle in \<open>simp_all add: e om_invoke_def split: option.splits\<close>)
  next
    case OButtonClick
    then show ?thesis using inv toggle by (simp add: e split: option.splits)
  next
    case (OButtonHover b)
    then show ?thesis using inv by (simp add: e button_hover_def om_inv_def split: option.splits)
  next
    case OToolbarAppears
    then show ?thesis using sel(3) by (simp add: e)
  qed
qed

lemma extract_block_typed:
  assumes "extract_block b = Some p"
  shows "page_block_ok p"
proof -
  define c where "c = (case db_main b of None \<Rightarrow> [] | Some (texts, txt) \<Rightarrow>
                         if texts \<noteq> [] then js_trim (js_join [0x20] texts) else txt)"
  from assms have ne: "js_trim c \<noteq> []" and pc: "pb_content p = take 200 c"
    and pt: "pb_type p = (case db_type b of Some t \<Rightarrow> if t = [] then js ''text'' else t
                                           | None \<Rightarrow> js ''text'')"
    and pid: "pb_id p = (case db_id b of Some i \<Rightarrow> if i = [] then None else Some i | None \<Rightarrow> None)"
    unfolding extract_block_def Let_def c_def[symmetric] by (auto split: if_splits)
  from ne have "c \<noteq> []" by (auto simp: js_trim_def)
  moreover have "pb_type p \<noteq> []" by (simp add: pt js_def split: option.split)
  moreover have "pb_id p \<noteq> Some []" by (simp add: pid split: option.split)
  ultimately show ?thesis by (simp add: page_block_ok_def pc)
qed
text \<open>A content that is blank only in its first 200 code units still makes an entry:
  the test is on the whole text, the cut comes after it.\<close>

lemma extract_block_blank_content:
  "extract_block \<lparr>db_id = None, db_indent = None, db_type = None,
                  db_main = Some ([], replicate 200 0x20 @ js ''x'')\<rparr> =
     Some \<lparr>pb_id = None, pb_content = replicate 200 0x20, pb_level = Some 0, pb_type = js ''text''\<rparr>"
proof -
  have "js_trim (replicate 200 0x20 @ js ''x'') \<noteq> []"
    by (simp add: js_trim_Nil_iff js_def js_eval)
  moreover have "js_parseInt (js ''0'') = Some 0" by code_simp
  ultimately show ?thesis by (simp add: extract_block_def)
qed

text \<open>C12: Every entry extractPageStructure returns is a well-formed page block: a
  non-empty content of at most 200 code units, a non-empty type (text by default), and
  an id that is not the empty string.\<close>

theorem extractPageStructure_typed: "list_all page_block_ok (extractPageStructure ed)"
proof (cases ed)
  case (Some e)
  have "\<forall>p \<in> set (List.map_filter extract_block (ed_blocks e)). page_block_ok p"
    by (auto simp: map_filter_def intro: extract_block_typed)
  then show ?thesis by (simp add: Some extractPageStructure_def list_all_iff)
qed (simp add: extractPageStructure_def)
end
