(* ===== verification/Plugin_Markmap.thy ===== *)
theory Plugin_Markmap
  imports Plugin_Basic
begin

text \<open>
  The Markmap variant \<open>src/src/markmap-plugin.ts\<close>: a command, shortcut and toolbar button
  (and a click on the icon before a block) run \<open>createMindMap(blockId)\<close>, which loads the
  Markmap library from a CDN script on first use, turns the block's subtree into Markdown
  headings (\<open>blockToMarkdown\<close>), transforms it with the library's \<open>Transformer\<close> and shows
  the rendered SVG in a panel with refresh and export buttons. The world of
  \<open>mp_world\<close> holds the module variables, the page's globals and the pending continuations
  of the \<open>await\<close>s (the loading script, \<open>addPanel\<close>); \<open>mp_step\<close> runs one event of the
  host or the page. The lemmas show that \<open>blockToMarkdown\<close> returns on every acyclic
  mapping and that, when the CDN bundle has no \<open>Transformer\<close> (the \<open>markmap-view\<close> bundle
  of line 33 has none: the class is in \<open>markmap-lib\<close>), no reachable state ever shows a
  mind map.
\<close>

text \<open>The global \<open>window.markmap\<close> as the plugin sees it: whether it has the
  \<open>Transformer\<close> class (the browser bundle of \<open>markmap-view\<close> the plugin loads does not;
  \<open>Transformer\<close> is in \<open>markmap-lib\<close>).\<close>

record markmap_lib =
  lib_has_transformer :: bool

text \<open>The module variable \<open>transformer\<close>: unset, the class itself (line 27) or an
  instance (line 39).\<close>

datatype transformer_val = TUnset | TClass | TInstance

text \<open>\<open>blockToMarkdown(blockId, allBlocks, level)\<close> (lines 47 to 64): a heading of
  \<open>min(level, 6)\<close> hashes, the raw text, a blank line, then the children that exist.\<close>

partial_function (option) mp_blockToMarkdown :: "jstr \<Rightarrow> blocks \<Rightarrow> nat \<Rightarrow> jstr option" where
  "mp_blockToMarkdown blockId allBlocks lvl =
     (case obj_get allBlocks blockId of
        None \<Rightarrow> Some []
      | Some block \<Rightarrow>
          Option.bind (map_opt (\<lambda>c. mp_blockToMarkdown c allBlocks (Suc lvl))
                         (filter (\<lambda>c. obj_get allBlocks c \<noteq> None) (children_of block)))
            (\<lambda>ms. Some (replicate (min lvl 6) 0x23 @ [0x20] @
               (if text_of block = [] then [0x672A, 0x547D, 0x540D, 0x5757] else text_of block) @
               [0x0A, 0x0A] @ concat ms)))"

text \<open>What a panel shows: the title (\<open>textContent\<close>), the markdown handed to the
  transformer, the block the refresh button rebuilds, and whether the container holds
  the rendered SVG.\<close>

record mp_view =
  mpv_title :: jstr
  mpv_markdown :: jstr
  mpv_block :: jstr
  mpv_svg :: bool

datatype mp_handler = MPCreateMindMap

text \<open>Where a \<open>createMindMap\<close> call waits: for the markmap script it appended (lines 36 to
  43) or for \<open>addPanel\<close> (line 161) with the view it built.\<close>

datatype mp_task = MPAwaitScript jstr | MPAwaitPanel jstr mp_view

text \<open>The module state (lines 15 to 21), the host's \<open>currentBlockId\<close>, the page (the
  global \<open>window.markmap\<close>, the library the CDN script of line 33 defines, the number of script elements the plugin appended, the
  \<open>data-role\<close> of the style elements in the head, whether the click listener is
  installed, the SVG files downloaded) and the pending continuations.\<close>

record mp_world =
  mp_host :: "mp_handler host"
  mp_name :: jstr
  mp_panels :: "(jstr \<times> panel_id) list"
  mp_markmap :: "markmap_lib option"
  mp_transformer :: transformer_val
  mp_current :: "jstr option"
  mp_window_markmap :: "markmap_lib option"
  mp_cdn_lib :: markmap_lib
  mp_scripts :: nat
  mp_styles :: "jstr list"
  mp_listening :: bool
  mp_downloads :: "jstr list"
  mp_views :: "(panel_id \<times> mp_view) list"
  mp_tasks :: "mp_task list"

definition txt_mp_block_missing :: jstr where
  "txt_mp_block_missing = [0x672A, 0x627E, 0x5230, 0x6307, 0x5B9A, 0x5757]"
definition txt_mp_loading :: jstr where
  "txt_mp_loading = [0x6B63, 0x5728, 0x52A0, 0x8F7D, 0x601D, 0x7EF4, 0x5BFC, 0x56FE, 0x7EC4, 0x4EF6] @ js ''...''"
definition txt_mp_created :: jstr where
  "txt_mp_created = [0x601D, 0x7EF4, 0x5BFC, 0x56FE, 0x5DF2, 0x751F, 0x6210]"
definition txt_mp_failed :: jstr where
  "txt_mp_failed = [0x751F, 0x6210, 0x601D, 0x7EF4, 0x5BFC, 0x56FE, 0x5931, 0x8D25]"
definition txt_mp_no_svg :: jstr where
  "txt_mp_no_svg = [0x672A, 0x627E, 0x5230, 0x601D, 0x7EF4, 0x5BFC, 0x56FE, 0x5185, 0x5BB9]"
definition txt_mp_exported :: jstr where
  "txt_mp_exported = js ''SVG'' @ [0x5DF2, 0x5BFC, 0x51FA]"
definition txt_mp_select :: jstr where
  "txt_mp_select = [0x8BF7, 0x5148, 0x9009, 0x62E9, 0x4E00, 0x4E2A, 0x5757]"
definition txt_mp_enabled :: jstr where
  "txt_mp_enabled = js ''Markmap'' @ [0x63D2, 0x4EF6, 0x5DF2, 0x542F, 0x7528]"
definition txt_mp_disabled :: jstr where
  "txt_mp_disabled = js ''Markmap'' @ [0x63D2, 0x4EF6, 0x5DF2, 0x7981, 0x7528]"

definition mpon_host :: "(mp_handler host \<Rightarrow> mp_handler host) \<Rightarrow> mp_world \<Rightarrow> mp_world" where
  "mpon_host f w = w\<lparr>mp_host := f (mp_host w)\<rparr>"

definition mp_fail :: "mp_world \<Rightarrow> mp_world" where
  "mp_fail = mpon_host (notify (js ''error'') txt_mp_failed)"

text \<open>The part of \<open>createMindMap(blockId)\<close> after the library is loaded (lines 83 to 161):
  \<open>transformer.transform\<close> throws unless the transformer is an instance; then the view is
  built and rendered, the block's old panel closed and \<open>addPanel\<close> awaited.\<close>

definition createMindMap_render :: "jstr \<Rightarrow> mp_world \<Rightarrow> mp_world" where
  "createMindMap_render blockId w =
     (case h_blocks (mp_host w) of
        None \<Rightarrow> mp_fail w
      | Some allBlocks \<Rightarrow>
          (case obj_get allBlocks blockId of
             None \<Rightarrow> mp_fail w
           | Some block \<Rightarrow>
               (case mp_blockToMarkdown blockId allBlocks 1 of
                  None \<Rightarrow> mp_fail w
                | Some md \<Rightarrow>
                    if mp_transformer w \<noteq> TInstance then mp_fail w
                    else
                      (let v = \<lparr>mpv_title = [0xD83E, 0xDDE0, 0x20] @
                                  (if text_of block = [] then [0x601D, 0x7EF4, 0x5BFC, 0x56FE] else text_of block),
                                mpv_markdown = md, mpv_block = blockId, mpv_svg = True\<rparr>
                       in w\<lparr>mp_host := (case map_of (mp_panels w) blockId of
                                          Some p \<Rightarrow> closePanel p (mp_host w) | None \<Rightarrow> mp_host w),
                            mp_tasks := mp_tasks w @ [MPAwaitPanel blockId v]\<rparr>))))"

text \<open>\<open>loadMarkmap()\<close> (lines 24 to 35) called from \<open>createMindMap(blockId)\<close>, with the
  rest of that call as its continuation: a global \<open>window.markmap\<close> is taken with its
  \<open>Transformer\<close> class itself as transformer and the call goes on at once; otherwise a
  script element is appended and awaited.\<close>

definition loadMarkmap :: "jstr \<Rightarrow> mp_world \<Rightarrow> mp_world" where
  "loadMarkmap blockId w =
     (case mp_window_markmap w of
        Some lib \<Rightarrow>
          createMindMap_render blockId
            (w\<lparr>mp_markmap := Some lib,
                mp_transformer := (if lib_has_transformer lib then TClass else TUnset)\<rparr>)
      | None \<Rightarrow> w\<lparr>mp_scripts := Suc (mp_scripts w), mp_tasks := mp_tasks w @ [MPAwaitScript blockId]\<rparr>)"

text \<open>\<open>createMindMap(blockId)\<close> (lines 67 to 81) up to the loading of the library.\<close>

definition createMindMap :: "jstr \<Rightarrow> mp_world \<Rightarrow> mp_world" where
  "createMindMap blockId w =
     (case h_blocks (mp_host w) of
        None \<Rightarrow> mp_fail w
      | Some allBlocks \<Rightarrow>
          (case obj_get allBlocks blockId of
             None \<Rightarrow> mpon_host (notify (js ''error'') txt_mp_block_missing) w
           | Some block \<Rightarrow>
               if mp_markmap w \<noteq> None then createMindMap_render blockId w
               else loadMarkmap blockId (mpon_host (notify (js ''info'') txt_mp_loading) w)))"

text \<open>The script settles: on load the global appears and the \<open>onload\<close> handler runs
  \<open>new markmap.Transformer()\<close>, which throws when the bundle lacks the class, so that the
  promise never settles and the call never resumes; on error the promise rejects into
  the \<open>catch\<close>.\<close>

definition script_settled :: "bool \<Rightarrow> markmap_lib \<Rightarrow> jstr \<Rightarrow> mp_world \<Rightarrow> mp_world" where
  "script_settled ok lib blockId w =
     (if \<not> ok then mp_fail w
      else (let w1 = w\<lparr>mp_window_markmap := Some lib, mp_markmap := Some lib\<rparr> in
            if lib_has_transformer lib then createMindMap_render blockId (w1\<lparr>mp_transformer := TInstance\<rparr>)
            else w1))"

text \<open>The rest once \<open>addPanel\<close> settles (lines 161 to 175).\<close>

definition createMindMap_resume :: "outcome \<Rightarrow> jstr \<Rightarrow> mp_view \<Rightarrow> mp_world \<Rightarrow> mp_world" where
  "createMindMap_resume out blockId v w =
     (case out of
        Resolved \<Rightarrow>
          (let (p, h) = open_panel (mp_host w) in
           w\<lparr>mp_host := notify (js ''success'') txt_mp_created h,
             mp_panels := AList.update blockId p (mp_panels w), mp_views := mp_views w @ [(p, v)]\<rparr>)
      | Rejected e \<Rightarrow> mp_fail w)"

text \<open>\<open>exportMindMap(container)\<close> (lines 179 to 197) at time \<open>now\<close>: the SVG is downloaded
  as \<open>mindmap-<now>.svg\<close>.\<close>

definition exportMindMap :: "nat \<Rightarrow> mp_view \<Rightarrow> mp_world \<Rightarrow> mp_world" where
  "exportMindMap now v w =
     (if \<not> mpv_svg v then mpon_host (notify (js ''error'') txt_mp_no_svg) w
      else mpon_host (notify (js ''success'') txt_mp_exported)
             (w\<lparr>mp_downloads := mp_downloads w @ [js ''mindmap-'' @ nat_str now @ js ''.svg'']\<rparr>))"

text \<open>The style sheet of \<open>injectStyles()\<close> (lines 200 to 235) and \<open>removeStyles()\<close>
  (lines 238 to 241): the style elements carry the plugin name as \<open>data-role\<close>.\<close>

definition mp_css :: jstr where
  \<open>mp_css =
     js ''\<newline>'' @
     js ''    .orca-repr-main-content::before {\<newline>'' @
     js ''      content: "'' @ [0x005C] @ js ''f1c4"; /* tabler-icons '' @ [0x8111, 0x56FE, 0x56FE, 0x6807] @ js '' */\<newline>'' @
     js ''      font-family: "tabler-icons";\<newline>'' @
     js ''      speak: none;\<newline>'' @
     js ''      font-style: normal;\<newline>'' @
     js ''      font-weight: normal;\<newline>'' @
     js ''      font-variant: normal;\<newline>'' @
     js ''      text-transform: none;\<newline>'' @
     js ''      -webkit-font-smoothing: antialiased;\<newline>'' @
     js ''      margin-right: var(--orca-spacing-md, 8px);\<newline>'' @
     js ''      cursor: pointer;\<newline>'' @
     js ''      font-size: var(--orca-fontsize-md, 14px);\<newline>'' @
     js ''      color: var(--orca-color-text-3, #888);\<newline>'' @
     js ''      display: inline-block;\<newline>'' @
     js ''      translate: 0 1px;\<newline>'' @
     js ''      line-height: 1;\<newline>'' @
     js ''      opacity: 0;\<newline>'' @
     js ''      transition: opacity 0.2s ease;\<newline>'' @
     js ''    }\<newline>'' @
     js ''\<newline>'' @
     js ''    .orca-repr-main-content:hover::before {\<newline>'' @
     js ''      opacity: 1;\<newline>'' @
     js ''    }\<newline>'' @
     js ''\<newline>'' @
     js ''    .orca-repr-main-content:hover::before:hover {\<newline>'' @
     js ''      color: var(--orca-color-primary, #007acc);\<newline>'' @
     js ''    }\<newline>'' @
     js ''  ''\<close>

definition injectStyles :: "mp_world \<Rightarrow> mp_world" where
  "injectStyles w = w\<lparr>mp_styles := mp_styles w @ [mp_name w]\<rparr>"

definition removeStyles :: "mp_world \<Rightarrow> mp_world" where
  "removeStyles w = w\<lparr>mp_styles := removeAll (mp_name w) (mp_styles w)\<rparr>"

text \<open>\<open>onClick(e)\<close> (lines 244 to 265): a click inside the icon area (\<open>x\<close>, \<open>y\<close> from the
  element's corner, the computed left padding, \<open>NaN\<close> as \<open>None\<close>) of a block's main
  content.\<close>

definition onClick :: "bool \<Rightarrow> int \<Rightarrow> int \<Rightarrow> int option \<Rightarrow> jstr option \<Rightarrow> mp_world \<Rightarrow> mp_world" where
  "onClick is_content x y padding blockId w =
     (if \<not> is_content then w
      else (let iconSize = 20 + (case padding of Some p \<Rightarrow> p | None \<Rightarrow> 0) in
            if x < 0 \<or> x > iconSize \<or> y < 0 \<or> y > iconSize then w
            else (case blockId of None \<Rightarrow> w | Some b \<Rightarrow> if b = [] then w else createMindMap b w)))"

text \<open>The command closure of \<open>load\<close> (lines 275 to 283): the current block, else the
  first key of the mapping; \<open>Object.keys\<close> of an undefined mapping throws out of the
  closure and nothing changes.\<close>

definition mp_command :: "mp_world \<Rightarrow> mp_world" where
  "mp_command w =
     (let cur = (case mp_current w of Some c \<Rightarrow> if c = [] then None else Some c | None \<Rightarrow> None) in
      case cur of
        Some c \<Rightarrow> createMindMap c w
      | None \<Rightarrow>
          (case h_blocks (mp_host w) of
             None \<Rightarrow> w
           | Some bs \<Rightarrow> (case object_keys bs of
                           k # ks \<Rightarrow> if k = [] then mpon_host (notify (js ''warn'') txt_mp_select) w
                                    else createMindMap k w
                         | [] \<Rightarrow> mpon_host (notify (js ''warn'') txt_mp_select) w)))"

text \<open>\<open>load(_name)\<close> (lines 268 to 306) and \<open>unload()\<close> (lines 309 to 336); the
  \<open>unsubscribe\<close> variable is never assigned.\<close>

definition mp_load :: "jstr \<Rightarrow> mp_world \<Rightarrow> mp_world" where
  "mp_load nm w =
     mpon_host (notify (js ''success'') txt_mp_enabled)
       ((injectStyles
          (mpon_host (registerShortcut (js ''Ctrl+Shift+M'') (nm @ js ''.createMindMap'') \<circ>
                      registerToolbarButton (nm @ js ''.button'') (nm @ js ''.createMindMap'') \<circ>
                      registerCommand (nm @ js ''.createMindMap'') MPCreateMindMap) (w\<lparr>mp_name := nm\<rparr>)))
        \<lparr>mp_listening := True\<rparr>)"

definition mp_unload :: "mp_world \<Rightarrow> mp_world" where
  "mp_unload w =
     mpon_host (notify (js ''info'') txt_mp_disabled \<circ>
       unregisterShortcut (js ''Ctrl+Shift+M'') \<circ>
       unregisterToolbarButton (mp_name w @ js ''.button'') \<circ>
       unregisterCommand (mp_name w @ js ''.createMindMap''))
     (removeStyles
       ((mpon_host (fold (\<lambda>(b, p). closePanel p) (mp_panels w)) w)\<lparr>mp_panels := [], mp_listening := False\<rparr>))"

text \<open>What else can happen to the plugin: a click on the page (\<open>onClick\<close>'s inputs), the
  export or the refresh button of the panel with the given id, the export at a time.\<close>

datatype mp_event =
    MPHost host_event | MPClick bool int int "int option" "jstr option"
  | MPExport nat panel_id | MPRefresh panel_id

definition mp_invoke :: "jstr \<Rightarrow> mp_world \<Rightarrow> mp_world" where
  "mp_invoke k w = (case map_of (h_commands (mp_host w)) k of None \<Rightarrow> w | Some f \<Rightarrow> mp_command w)"

text \<open>The \<open>i\<close>-th pending continuation resumes: a script settling (loaded or failed)
  or \<open>addPanel\<close> settling.\<close>

definition mp_settle :: "nat \<Rightarrow> outcome \<Rightarrow> mp_world \<Rightarrow> mp_world" where
  "mp_settle i out w =
     (if i < length (mp_tasks w) then
        (let w' = w\<lparr>mp_tasks := take i (mp_tasks w) @ drop (Suc i) (mp_tasks w)\<rparr> in
         case mp_tasks w ! i of
           MPAwaitScript b \<Rightarrow> script_settled (out = Resolved) (mp_cdn_lib w) b w'
         | MPAwaitPanel b v \<Rightarrow> createMindMap_resume out b v w')
      else w)"

text \<open>A panel's buttons work while the panel is open.\<close>

fun mp_step :: "mp_world \<Rightarrow> mp_event \<Rightarrow> mp_world" where
  "mp_step w (MPHost (Load nm)) = mp_load nm w"
| "mp_step w (MPHost Unload) = mp_unload w"
| "mp_step w (MPHost (Invoke k)) = mp_invoke k w"
| "mp_step w (MPHost (Shortcut sc)) =
     (case map_of (h_shortcuts (mp_host w)) sc of None \<Rightarrow> w | Some k \<Rightarrow> mp_invoke k w)"
| "mp_step w (MPHost (Button b)) =
     (case map_of (h_buttons (mp_host w)) b of None \<Rightarrow> w | Some k \<Rightarrow> mp_invoke k w)"
| "mp_step w (MPHost (Broadcast ev)) = w"
| "mp_step w (MPHost Tick) = w"
| "mp_step w (MPHost (Settle i out)) = mp_settle i out w"
| "mp_step w (MPHost (UserClosesPanel p)) = mpon_host (closePanel p) w"
| "mp_step w (MPClick c x y pad b) = (if mp_listening w then onClick c x y pad b w else w)"
| "mp_step w (MPExport now p) =
     (if p \<in> set (h_panels (mp_host w)) then
        (case map_of (mp_views w) p of Some v \<Rightarrow> exportMindMap now v w | None \<Rightarrow> w)
      else w)"
| "mp_step w (MPRefresh p) =
     (if p \<in> set (h_panels (mp_host w)) then
        (case map_of (mp_views w) p of Some v \<Rightarrow> createMindMap (mpv_block v) w | None \<Rightarrow> w)
      else w)"

text \<open>The page before the plugin loads: the mapping, the current block, the global
  \<open>window.markmap\<close> if another script defined it, and the library the CDN script defines.\<close>

definition mp_init :: "blocks option \<Rightarrow> jstr option \<Rightarrow> markmap_lib option \<Rightarrow> markmap_lib \<Rightarrow> mp_world" where
  "mp_init bs cur win cdn =
     \<lparr>mp_host = fresh_host bs None, mp_name = js ''undefined'', mp_panels = [], mp_markmap = None,
      mp_transformer = TUnset, mp_current = cur, mp_window_markmap = win, mp_cdn_lib = cdn,
      mp_scripts = 0, mp_styles = [], mp_listening = False, mp_downloads = [], mp_views = [],
      mp_tasks = []\<rparr>"

text \<open>The state in which no mind map can ever be shown: the transformer is not an
  instance, the CDN library has no \<open>Transformer\<close>, no panel is recorded or awaited and
  the success message of \<open>createMindMap\<close> has not been shown.\<close>

definition mp_broken :: "mp_world \<Rightarrow> bool" where
  "mp_broken w \<longleftrightarrow> mp_transformer w \<noteq> TInstance \<and> \<not> lib_has_transformer (mp_cdn_lib w) \<and>
     mp_panels w = [] \<and> list_all (\<lambda>t. case t of MPAwaitScript b \<Rightarrow> True | _ \<Rightarrow> False) (mp_tasks w) \<and>
     (js ''success'', txt_mp_created) \<notin> set (h_notices (mp_host w))"

text \<open>The states the plugin can reach from a page, one event at a time.\<close>

inductive mp_reach :: "mp_world \<Rightarrow> mp_world \<Rightarrow> bool" for w0 where
  mp_reach_init: "mp_reach w0 w0"
| mp_reach_step: "mp_reach w0 w \<Longrightarrow> mp_reach w0 (mp_step w e)"

subsection \<open>Proofs\<close>

lemma mp_blockToMarkdown_terminates: "child_ranked bs rk \<Longrightarrow> \<exists>m. mp_blockToMarkdown a bs l = Some m"
proof (induction "rk a" arbitrary: a l rule: less_induct)
  case less
  show ?case
  proof (cases "obj_get bs a")
    case None
    then show ?thesis by (simp add: mp_blockToMarkdown.simps)
  next
    case (Some b)
    let ?cs = "filter (\<lambda>c. obj_get bs c \<noteq> None) (children_of b)"
    have "\<forall>c \<in> set ?cs. mp_blockToMarkdown c bs (Suc l) \<noteq> None"
    proof
      fix c assume c: "c \<in> set ?cs"
      then have "rk c < rk a" using child_ranked_step[OF less.prems Some] by simp
      then show "mp_blockToMarkdown c bs (Suc l) \<noteq> None" using less.hyps less.prems by blast
    qed
    then have "map_opt (\<lambda>c. mp_blockToMarkdown c bs (Suc l)) ?cs \<noteq> None"
      by (simp only: map_opt_None_iff) blast
    then obtain ms where "map_opt (\<lambda>c. mp_blockToMarkdown c bs (Suc l)) ?cs = Some ms"
      by blast
    then show ?thesis using Some by (simp add: mp_blockToMarkdown.simps)
  qed
qed

lemma mp_blockToMarkdown_leaf:
  "obj_get bs k = Some b \<Longrightarrow> \<forall>c \<in> set (children_of b). obj_get bs c = None \<Longrightarrow>
   mp_blockToMarkdown k bs l = Some (replicate (min l 6) 0x23 @ [0x20] @
     (if text_of b = [] then [0x672A, 0x547D, 0x540D, 0x5757] else text_of b) @ [0x0A, 0x0A])"
  by (simp add: mp_blockToMarkdown.simps filter_False)

lemma mpon_host_sel [simp]:
  "mp_panels (mpon_host f w) = mp_panels w" "mp_tasks (mpon_host f w) = mp_tasks w"
  "mp_transformer (mpon_host f w) = mp_transformer w" "mp_cdn_lib (mpon_host f w) = mp_cdn_lib w"
  "mp_host (mpon_host f w) = f (mp_host w)" "mp_views (mpon_host f w) = mp_views w"
  "mp_window_markmap (mpon_host f w) = mp_window_markmap w" "mp_markmap (mpon_host f w) = mp_markmap w"
  by (simp_all add: mpon_host_def)

lemma mpon_host_comp: "mpon_host (f \<circ> g) w = mpon_host f (mpon_host g w)"
  by (simp add: mpon_host_def)

lemma mp_broken_notify:
  "m \<noteq> txt_mp_created \<Longrightarrow> mp_broken w \<Longrightarrow> mp_broken (mpon_host (notify ty m) w)"
  by (simp add: mp_broken_def)

lemma txt_ne_created [simp]:
  "txt_mp_failed \<noteq> txt_mp_created" "txt_mp_block_missing \<noteq> txt_mp_created"
  "txt_mp_loading \<noteq> txt_mp_created" "txt_mp_exported \<noteq> txt_mp_created"
  "txt_mp_select \<noteq> txt_mp_created" "txt_mp_enabled \<noteq> txt_mp_created"
  "txt_mp_disabled \<noteq> txt_mp_created" "txt_mp_no_svg \<noteq> txt_mp_created"
  by (simp_all add: txt_mp_no_svg_def txt_mp_failed_def txt_mp_created_def txt_mp_block_missing_def txt_mp_loading_def
    txt_mp_exported_def txt_mp_select_def txt_mp_enabled_def txt_mp_disabled_def)

lemmas txt_created_ne [simp] = txt_ne_created[THEN not_sym]

lemma mp_broken_fail: "mp_broken w \<Longrightarrow> mp_broken (mp_fail w)"
  by (simp add: mp_fail_def mp_broken_notify)

lemma mp_broken_render: "mp_broken w \<Longrightarrow> createMindMap_render b w = mp_fail w"
  by (auto simp: createMindMap_render_def mp_broken_def split: option.split)

lemma mp_broken_same_notices:
  "h_notices (f (mp_host w)) = h_notices (mp_host w) \<Longrightarrow> mp_broken w \<Longrightarrow> mp_broken (mpon_host f w)"
  by (simp add: mp_broken_def)

lemma mp_broken_createMindMap: "mp_broken w \<Longrightarrow> mp_broken (createMindMap b w)"
proof -
  assume inv: "mp_broken w"
  let ?w1 = "mpon_host (notify (js ''info'') txt_mp_loading) w"
  have w1: "mp_broken ?w1" using inv by (simp add: mp_broken_notify)
  have lib: "mp_broken (createMindMap_render b (?w1\<lparr>mp_markmap := Some lib, mp_transformer := t\<rparr>))"
    if "t \<noteq> TInstance" for lib t
  proof -
    have "mp_broken (?w1\<lparr>mp_markmap := Some lib, mp_transformer := t\<rparr>)"
      using w1 that by (simp add: mp_broken_def)
    then show ?thesis by (simp add: mp_broken_render mp_broken_fail)
  qed
  have script: "mp_broken (?w1\<lparr>mp_scripts := Suc (mp_scripts ?w1), mp_tasks := mp_tasks ?w1 @ [MPAwaitScript b]\<rparr>)"
    using w1 by (simp add: mp_broken_def)
  show ?thesis
  proof (cases "h_blocks (mp_host w)")
    case None
    then show ?thesis using inv by (simp add: createMindMap_def mp_broken_fail)
  next
    case (Some bs)
    show ?thesis
    proof (cases "obj_get bs b")
      case None
      then show ?thesis using inv \<open>h_blocks (mp_host w) = Some bs\<close>
        by (simp add: createMindMap_def mp_broken_notify)
    next
      case (Some blk)
      note bs = \<open>h_blocks (mp_host w) = Some bs\<close> Some
      show ?thesis
      proof (cases "mp_markmap w")
        case (Some m)
        then show ?thesis using inv bs by (simp add: createMindMap_def mp_broken_render mp_broken_fail)
      next
        case None
        then show ?thesis using bs lib script
          by (cases "mp_window_markmap w") (simp_all add: createMindMap_def loadMarkmap_def)
      qed
    qed
  qed
qed

lemma mp_broken_script_settled: "mp_broken w \<Longrightarrow> lib = mp_cdn_lib w \<Longrightarrow> mp_broken (script_settled ok lib b w)"
proof (cases ok)
  case True
  assume "mp_broken w" "lib = mp_cdn_lib w"
  then show ?thesis using True by (simp add: script_settled_def Let_def mp_broken_def)
qed (simp add: script_settled_def mp_broken_fail)

lemma mp_broken_settle: "mp_broken w \<Longrightarrow> mp_broken (mp_settle i out w)"
proof (cases "i < length (mp_tasks w)")
  case True
  assume inv: "mp_broken w"
  have "case mp_tasks w ! i of MPAwaitScript b \<Rightarrow> True | _ \<Rightarrow> False"
    using inv True unfolding mp_broken_def list_all_length by blast
  then obtain b where t: "mp_tasks w ! i = MPAwaitScript b"
    by (cases "mp_tasks w ! i") auto
  let ?w' = "w\<lparr>mp_tasks := take i (mp_tasks w) @ drop (Suc i) (mp_tasks w)\<rparr>"
  have "mp_broken ?w'"
    using inv by (simp add: mp_broken_def list_all_take_drop del: list_all_append)
  then have "mp_broken (script_settled (out = Resolved) (mp_cdn_lib ?w') b ?w')"
    by (rule mp_broken_script_settled) simp
  then show ?thesis using True t by (simp add: mp_settle_def Let_def)
qed (simp add: mp_settle_def)

lemma mp_broken_command: "mp_broken w \<Longrightarrow> mp_broken (mp_command w)"
  unfolding mp_command_def Let_def
  by (simp add: mp_broken_createMindMap mp_broken_notify split: option.split list.split)

lemma mp_broken_onClick: "mp_broken w \<Longrightarrow> mp_broken (onClick c x y pad b w)"
  by (simp add: onClick_def mp_broken_createMindMap Let_def split: option.split)

lemma mp_broken_export: "mp_broken w \<Longrightarrow> mp_broken (exportMindMap now v w)"
proof -
  assume inv: "mp_broken w"
  then have "mp_broken (w\<lparr>mp_downloads := ds\<rparr>)" for ds by (simp add: mp_broken_def)
  then show ?thesis using inv by (simp add: exportMindMap_def mp_broken_notify)
qed

lemma mp_broken_load: "mp_broken w \<Longrightarrow> mp_broken (mp_load nm w)"
proof -
  assume inv: "mp_broken w"
  let ?f = "registerShortcut (js ''Ctrl+Shift+M'') (nm @ js ''.createMindMap'') \<circ>
    registerToolbarButton (nm @ js ''.button'') (nm @ js ''.createMindMap'') \<circ>
    registerCommand (nm @ js ''.createMindMap'') MPCreateMindMap"
  have "mp_broken (w\<lparr>mp_name := nm\<rparr>)" using inv by (simp add: mp_broken_def)
  then have "mp_broken (mpon_host ?f (w\<lparr>mp_name := nm\<rparr>))"
    by (rule mp_broken_same_notices[rotated])
      (simp add: registerShortcut_def registerToolbarButton_def registerCommand_def)
  then have "mp_broken ((injectStyles (mpon_host ?f (w\<lparr>mp_name := nm\<rparr>)))\<lparr>mp_listening := True\<rparr>)"
    by (simp add: mp_broken_def injectStyles_def)
  then show ?thesis unfolding mp_load_def by (simp add: mp_broken_notify)
qed

lemma mp_broken_unload: "mp_broken w \<Longrightarrow> mp_broken (mp_unload w)"
proof -
  assume inv: "mp_broken w"
  let ?f = "unregisterShortcut (js ''Ctrl+Shift+M'') \<circ> unregisterToolbarButton (mp_name w @ js ''.button'') \<circ>
    unregisterCommand (mp_name w @ js ''.createMindMap'')"
  let ?w = "removeStyles ((mpon_host (fold (\<lambda>(b, p). closePanel p) (mp_panels w)) w)\<lparr>mp_panels := [], mp_listening := False\<rparr>)"
  have "mp_broken ?w" using inv by (simp add: mp_broken_def removeStyles_def)
  then have "mp_broken (mpon_host ?f ?w)"
    by (rule mp_broken_same_notices[rotated])
      (simp add: unregisterShortcut_def unregisterToolbarButton_def unregisterCommand_def)
  moreover have "mp_unload w = mpon_host (notify (js ''info'') txt_mp_disabled) (mpon_host ?f ?w)"
    by (simp add: mp_unload_def mpon_host_def)
  ultimately show ?thesis by (simp add: mp_broken_notify)
qed

lemma mp_broken_invoke: "mp_broken w \<Longrightarrow> mp_broken (mp_invoke k w)"
  by (simp add: mp_invoke_def mp_broken_command split: option.split)

lemma mp_broken_step: "mp_broken w \<Longrightarrow> mp_broken (mp_step w e)"
proof (induction w e rule: mp_step.induct)
  case (9 w p)
  then show ?case by (simp add: mp_broken_same_notices closePanel_def)
qed (simp_all add: mp_broken_load mp_broken_unload mp_broken_settle mp_broken_invoke mp_broken_onClick
  mp_broken_export mp_broken_createMindMap split: option.split)

lemma mp_init_broken: "\<not> lib_has_transformer cdn \<Longrightarrow> mp_broken (mp_init bs cur win cdn)"
  by (simp add: mp_broken_def mp_init_def fresh_host_def)

text \<open>C16: When the script the plugin loads from the CDN defines no \<open>Transformer\<close>, no
  sequence of events ever shows a mind map: in every reachable state no panel is
  recorded and the success notification of \<open>createMindMap\<close> has never been shown.\<close>

theorem markmap_never_shows:
  assumes "\<not> lib_has_transformer cdn" and "mp_reach (mp_init bs cur win cdn) w"
  shows "mp_panels w = [] \<and> (js ''success'', txt_mp_created) \<notin> set (h_notices (mp_host w))"
proof -
  from assms(2) have "mp_broken w"
    by induction (simp_all add: mp_init_broken[OF assms(1)] mp_broken_step)
  then show ?thesis by (simp add: mp_broken_def)
qed

theorem markmap_never_shows_witness:
  "mp_panels (mp_step (mp_step (mp_init (Some []) None None \<lparr>lib_has_transformer = False\<rparr>)
      (MPHost (Load (js ''mm'')))) (MPHost (Invoke (js ''mm.createMindMap'')))) = [] \<and>
   (js ''success'', txt_mp_created) \<notin> set (h_notices (mp_host (mp_step (mp_step
      (mp_init (Some []) None None \<lparr>lib_has_transformer = False\<rparr>)
      (MPHost (Load (js ''mm'')))) (MPHost (Invoke (js ''mm.createMindMap''))))))"
  by (rule markmap_never_shows[where bs = "Some []" and cur = None and win = None
      and cdn = "\<lparr>lib_has_transformer = False\<rparr>"]) (simp, intro mp_reach.intros)

end
