(* ===== verification/Plugin_Orca_Local.thy ===== *)
theory Plugin_Orca_Local
  imports Plugin_Orca Complex_Main "HOL-Library.Sublist"
begin

text \<open>
  The variant \<open>src/src/orca-mindmap-local.ts\<close>, which shows the page as a Markmap mind map
  in an overlay above the editor, with the Markmap library bundled. \<open>extractPageStructure\<close>
  skips table blocks and otherwise reads the block elements as \<open>orca-mindmap.ts\<close> does;
  \<open>blocksToMarkdown\<close> breaks long contents after every 50 code units; the overlay markup
  depends on a theme guess; \<open>initializeMarkmap\<close> runs from a timer, renders with the
  library and installs an Escape listener on the document and a wheel listener on the
  overlay, which \<open>switchToEditMode\<close> and \<open>unload\<close> remove. The world \<open>lo_world\<close> keeps the
  module state, the page (editor, overlay, the plugin's listeners and the globals that
  point at them, timers) and the host; \<open>lo_step\<close> runs one event.
\<close>

text \<open>A block element as this variant reads it: the fields \<open>orca-mindmap.ts\<close> reads, whether
  a table element (\<open>table\<close>, \<open>.orca-table\<close>, \<open>thead\<close>, \<open>tbody\<close>, \<open>tr\<close>, \<open>td\<close>, \<open>th\<close>) lies
  inside it, whether one (\<open>table\<close>, \<open>.orca-table\<close>, \<open>tr\<close>) encloses it, and its class name.\<close>

record ldom_block =
  lb_dom :: dom_block
  lb_table_inside :: bool
  lb_table_around :: bool
  lb_class :: jstr

text \<open>The table test of lines 39 to 50.\<close>

definition lo_is_table :: "ldom_block \<Rightarrow> bool" where
  "lo_is_table b \<longleftrightarrow>
     lb_table_inside b \<or> lb_table_around b \<or>
     (case db_type (lb_dom b) of Some t \<Rightarrow> t = js ''table'' | None \<Rightarrow> False) \<or>
     js_includes (lb_class b) (js ''table'')"

text \<open>One block element to its entry (lines 32 to 78): table blocks are skipped, the rest
  is the entry of \<open>orca-mindmap.ts\<close>.\<close>

definition lo_extract_block :: "ldom_block \<Rightarrow> page_block option" where
  "lo_extract_block b = (if lo_is_table b then None else extract_block (lb_dom b))"

text \<open>The editor element \<open>.orca-block-editor-blocks\<close>: its block elements, its
  \<open>style.display\<close> and whether it has a parent element.\<close>

record leditor =
  le_blocks :: "ldom_block list"
  le_display :: jstr
  le_has_parent :: bool

definition lo_extractPageStructure :: "leditor option \<Rightarrow> page_block list" where
  "lo_extractPageStructure ed =
     (case ed of None \<Rightarrow> [] | Some e \<Rightarrow> List.map_filter lo_extract_block (le_blocks e))"

text \<open>\<open>s.replace(/(.{50})/g, '$1\n')\<close>: scanning left to right, every run of 50 code
  units none of which is a line terminator gets a line feed after it.\<close>

function wrap50 :: "jstr \<Rightarrow> jstr" where
  "wrap50 s =
     (if 50 \<le> length s \<and> list_all (\<lambda>c. \<not> is_line_terminator c) (take 50 s)
      then take 50 s @ [0x0A] @ wrap50 (drop 50 s)
      else (case s of [] \<Rightarrow> [] | c # cs \<Rightarrow> c # wrap50 cs))"
  by pat_completeness auto
termination by (relation "measure length") auto

text \<open>\<open>s.replace(/\n\s+/g, '\n')\<close>: a line feed and the white space after it become one
  line feed.\<close>

function squash_nl :: "jstr \<Rightarrow> jstr" where
  "squash_nl [] = []"
| "squash_nl (c # cs) =
     (if c = 0x0A \<and> cs \<noteq> [] \<and> is_js_space (hd cs) then 0x0A # squash_nl (dropWhile is_js_space cs)
      else c # squash_nl cs)"
  by pat_completeness auto
termination by (relation "measure length") (auto simp: le_imp_less_Suc length_dropWhile_le)

text \<open>Lines 100 to 102: a content longer than 50 code units is broken into lines.\<close>

definition lo_wrap :: "jstr \<Rightarrow> jstr" where
  "lo_wrap c = (if 50 < length c then squash_nl (wrap50 c) else c)"

text \<open>\<open>blocksToMarkdown(blocks)\<close> (lines 85 to 114), with the markdown built so far; the
  heading's \<open>'#'.repeat\<close> throws as in \<open>orca-mindmap.ts\<close>.\<close>

fun lo_blocksToMarkdown_acc :: "jstr \<Rightarrow> page_block list \<Rightarrow> jstr + jstr" where
  "lo_blocksToMarkdown_acc md [] = Inr (js_trim md)"
| "lo_blocksToMarkdown_acc md (b # bs) =
     (case heading_hashes (pb_level b) of
        Inl e \<Rightarrow> Inl e
      | Inr h \<Rightarrow>
          (let c = lo_wrap (js_trim (pb_content b)) in
           lo_blocksToMarkdown_acc (if c \<noteq> [] then md @ h @ [0x20] @ c @ [0x0A, 0x0A] else md) bs))"

definition lo_blocksToMarkdown :: "page_block list \<Rightarrow> jstr + jstr" where
  "lo_blocksToMarkdown bs =
     (if bs = [] then Inr (js ''# '' @ [0x9875, 0x9762, 0x5185, 0x5BB9, 0x4E3A, 0x7A7A])
      else lo_blocksToMarkdown_acc [] bs)"

text \<open>What \<open>createMindMapContainer\<close> reads of the page to guess the theme (lines 121 to
  125): the class lists of the root and the body, their computed backgrounds and the
  variable \<open>--orca-color-bg-1\<close>.\<close>

record ltheme =
  th_root_classes :: "jstr list"
  th_body_classes :: "jstr list"
  th_body_bg :: jstr
  th_root_bg :: jstr
  th_orca_bg1 :: jstr

definition isDarkTheme :: "ltheme \<Rightarrow> bool" where
  "isDarkTheme t \<longleftrightarrow>
     js ''dark'' \<in> set (th_root_classes t) \<or> js ''dark'' \<in> set (th_body_classes t) \<or>
     js ''theme-dark'' \<in> set (th_root_classes t) \<or>
     js_includes (th_body_bg t) (js ''33, 37, 41'') \<or> js_includes (th_body_bg t) (js ''rgb(33, 37, 41)'') \<or>
     js_includes (th_body_bg t) (js ''40, 40, 40'') \<or> js_includes (th_body_bg t) (js ''38, 38, 38'') \<or>
     js_includes (th_body_bg t) (js ''rgb(38, 38, 38)'') \<or> js_includes (th_root_bg t) (js ''33, 37, 41'') \<or>
     js_includes (th_orca_bg1 t) (js ''dark'') \<or> js_includes (th_orca_bg1 t) (js ''15%'') \<or>
     js_includes (th_orca_bg1 t) (js ''hsl(0 0% 15%)'')"

text \<open>The overlay markup of \<open>createMindMapContainer()\<close> (lines 117 to 264) for a
  container id and the colours of the theme.\<close>

definition lo_container_html :: "jstr \<Rightarrow> jstr \<Rightarrow> jstr \<Rightarrow> jstr \<Rightarrow> jstr" where
  \<open>lo_container_html cid textColor circleStroke bgColor =
     js ''\<newline>'' @
     js ''    <style>\<newline>'' @
     js ''      /* '' @ [0x9690, 0x85CF, 0x9876, 0x90E8, 0x5BFC, 0x822A, 0x680F] @ js '' */\<newline>'' @
     js ''      .orca-headbar, .orca-header, .page-header {\<newline>'' @
     js ''        display: none !important;\<newline>'' @
     js ''      }\<newline>'' @
     js ''      \<newline>'' @
     js ''      .'' @
     cid @
     js '' text {\<newline>'' @
     js ''        fill: '' @
     textColor @
     js '' !important;\<newline>'' @
     js ''        font-size: 14px !important;\<newline>'' @
     js ''        font-family: var(--orca-font-family, -apple-system, BlinkMacSystemFont, '' @ [0x0027] @ js ''Segoe UI'' @ [0x0027] @ js '', sans-serif) !important;\<newline>'' @
     js ''        font-weight: 500 !important;\<newline>'' @
     js ''        stroke: none !important;\<newline>'' @
     js ''      }\<newline>'' @
     js ''      .'' @
     cid @
     js '' .markmap-node {\<newline>'' @
     js ''        cursor: pointer;\<newline>'' @
     js ''      }\<newline>'' @
     js ''      .'' @
     cid @
     js '' .markmap-link {\<newline>'' @
     js ''        fill: none;\<newline>'' @
     js ''        stroke-width: 2;\<newline>'' @
     js ''        opacity: 0.8;\<newline>'' @
     js ''      }\<newline>'' @
     js ''      .'' @
     cid @
     js '' circle {\<newline>'' @
     js ''        stroke: '' @
     circleStroke @
     js '' !important;\<newline>'' @
     js ''        stroke-width: 1 !important;\<newline>'' @
     js ''      }\<newline>'' @
     js ''      /* '' @ [0x6587, 0x672C, 0x6362, 0x884C, 0x5904, 0x7406] @ js '' */\<newline>'' @
     js ''      .'' @
     cid @
     js '' foreignObject {\<newline>'' @
     js ''        overflow: visible;\<newline>'' @
     js ''      }\<newline>'' @
     js ''    </style>\<newline>'' @
     js ''    <div style="\<newline>'' @
     js ''      position: fixed;\<newline>'' @
     js ''      top: 0;\<newline>'' @
     js ''      left: 0;\<newline>'' @
     js ''      width: 100vw;\<newline>'' @
     js ''      height: 100vh;\<newline>'' @
     js ''      background: '' @
     bgColor @
     js '';\<newline>'' @
     js ''      overflow: hidden;\<newline>'' @
     js ''      font-family: var(--orca-font-family, -apple-system, BlinkMacSystemFont, '' @ [0x0027] @ js ''Segoe UI'' @ [0x0027] @ js '', sans-serif);\<newline>'' @
     js ''      z-index: 10000;\<newline>'' @
     js ''    ">\<newline>'' @
     js ''      <svg id="'' @
     cid @
     js ''" class="'' @
     cid @
     js ''" style="width: 100%; height: 100%;"></svg>\<newline>'' @
     js ''      \<newline>'' @
     js ''      <!-- '' @ [0x63A7, 0x5236, 0x6309, 0x94AE, 0x9762, 0x677F] @ js '' -->\<newline>'' @
     js ''      <div id="markmap-controls-'' @
     cid @
     js ''" style="\<newline>'' @
     js ''        position: absolute;\<newline>'' @
     js ''        bottom: 20px;\<newline>'' @
     js ''        left: 20px;\<newline>'' @
     js ''        display: flex;\<newline>'' @
     js ''        gap: 8px;\<newline>'' @
     js ''        z-index: 10001;\<newline>'' @
     js ''      ">\<newline>'' @
     js ''        <button id="zoom-in-'' @
     cid @
     js ''" style="\<newline>'' @
     js ''          width: 40px;\<newline>'' @
     js ''          height: 40px;\<newline>'' @
     js ''          border-radius: 50%;\<newline>'' @
     js ''          border: none;\<newline>'' @
     js ''          background: rgba(0, 0, 0, 0.7);\<newline>'' @
     js ''          color: white;\<newline>'' @
     js ''          cursor: pointer;\<newline>'' @
     js ''          font-size: 18px;\<newline>'' @
     js ''          font-weight: bold;\<newline>'' @
     js ''          display: flex;\<newline>'' @
     js ''          align-items: center;\<newline>'' @
     js ''          justify-content: center;\<newline>'' @
     js ''          transition: all 0.2s ease;\<newline>'' @
     js ''        ">+</button>\<newline>'' @
     js ''        \<newline>'' @
     js ''        <button id="zoom-out-'' @
     cid @
     js ''" style="\<newline>'' @
     js ''          width: 40px;\<newline>'' @
     js ''          height: 40px;\<newline>'' @
     js ''          border-radius: 50%;\<newline>'' @
     js ''          border: none;\<newline>'' @
     js ''          background: rgba(0, 0, 0, 0.7);\<newline>'' @
     js ''          color: white;\<newline>'' @
     js ''          cursor: pointer;\<newline>'' @
     js ''          font-size: 18px;\<newline>'' @
     js ''          font-weight: bold;\<newline>'' @
     js ''          display: flex;\<newline>'' @
     js ''          align-items: center;\<newline>'' @
     js ''          justify-content: center;\<newline>'' @
     js ''          transition: all 0.2s ease;\<newline>'' @
     js ''        ">-</button>\<newline>'' @
     js ''        \<newline>'' @
     js ''        <button id="close-'' @
     cid @
     js ''" style="\<newline>'' @
     js ''          width: 40px;\<newline>'' @
     js ''          height: 40px;\<newline>'' @
     js ''          border-radius: 50%;\<newline>'' @
     js ''          border: none;\<newline>'' @
     js ''          background: rgba(220, 53, 69, 0.8);\<newline>'' @
     js ''          color: white;\<newline>'' @
     js ''          cursor: pointer;\<newline>'' @
     js ''          font-size: 16px;\<newline>'' @
     js ''          display: flex;\<newline>'' @
     js ''          align-items: center;\<newline>'' @
     js ''          justify-content: center;\<newline>'' @
     js ''          transition: all 0.2s ease;\<newline>'' @
     js ''        ">'' @ [0x2715] @ js ''</button>\<newline>'' @
     js ''      </div>\<newline>'' @
     js ''      \<newline>'' @
     js ''      <div id="loading-'' @
     cid @
     js ''" style="\<newline>'' @
     js ''        position: absolute;\<newline>'' @
     js ''        top: 50%;\<newline>'' @
     js ''        left: 50%;\<newline>'' @
     js ''        transform: translate(-50%, -50%);\<newline>'' @
     js ''        color: #666;\<newline>'' @
     js ''        font-size: 16px;\<newline>'' @
     js ''        display: none;\<newline>'' @
     js ''      ">'' @ [0x521D, 0x59CB, 0x5316, 0x601D, 0x7EF4, 0x5BFC, 0x56FE, 0x4E2D] @ js ''...</div>\<newline>'' @
     js ''    </div>\<newline>'' @
     js ''  ''\<close>

definition createMindMapContainer :: "jstr \<Rightarrow> ltheme \<Rightarrow> jstr" where
  "createMindMapContainer cid th =
     (if isDarkTheme th
      then lo_container_html cid (js ''white'') (js ''rgba(255, 255, 255, 0.3)'') (js ''#2c2c2c'')
      else lo_container_html cid (js ''#333333'') (js ''rgba(0, 0, 0, 0.2)'') (js ''#ffffff''))"

text \<open>The markup that replaces the container's parent when the initialisation throws
  (lines 401 to 418).\<close>

definition lo_error_html :: "jstr \<Rightarrow> jstr" where
  \<open>lo_error_html msg =
     js ''\<newline>'' @
     js ''        <div style="\<newline>'' @
     js ''          display: flex;\<newline>'' @
     js ''          align-items: center;\<newline>'' @
     js ''          justify-content: center;\<newline>'' @
     js ''          height: 100vh;\<newline>'' @
     js ''          color: #ef4444;\<newline>'' @
     js ''          font-size: 16px;\<newline>'' @
     js ''          text-align: center;\<newline>'' @
     js ''        ">\<newline>'' @
     js ''          <div>\<newline>'' @
     js ''            <div>'' @ [0x601D, 0x7EF4, 0x5BFC, 0x56FE, 0x521D, 0x59CB, 0x5316, 0x5931, 0x8D25] @ js ''</div>\<newline>'' @
     js ''            <div style="font-size: 14px; color: #666; margin-top: 10px;">\<newline>'' @
     js ''              '' @ [0x9519, 0x8BEF] @ js '': '' @
     msg @
     js ''\<newline>'' @
     js ''            </div>\<newline>'' @
     js ''          </div>\<newline>'' @
     js ''        </div>\<newline>'' @
     js ''      ''\<close>

definition txt_unknown_error :: jstr where
  "txt_unknown_error = [0x672A, 0x77E5, 0x9519, 0x8BEF]"

text \<open>The Markmap instance \<open>currentMarkmap\<close>: the container it renders into, the markdown
  and the factors \<open>rescale\<close> was called with.\<close>

record lmarkmap =
  lm_cid :: jstr
  lm_markdown :: jstr
  lm_scales :: "rat list"

text \<open>The overlay \<open>#mindmap-overlay\<close>: the id of its SVG container, its markup, whether
  it went into the editor's parent (or the body), the error markup if the initialisation
  failed, whether the initialisation gave its buttons their handlers, and its wheel
  listeners (each named by the container id of the initialisation that added it).\<close>

record loverlay =
  ov_cid :: jstr
  ov_html :: jstr
  ov_in_parent :: bool
  ov_failed :: "jstr option"
  ov_wired :: bool
  ov_wheel :: "jstr list"

datatype lo_handler = LToggle

text \<open>The timer of line 522: \<open>initializeMarkmap(containerId, markdown)\<close>.\<close>

datatype lo_timer = LInit jstr jstr

text \<open>The module state (lines 14 to 17), the host, the page: the editor, the overlay, the
  plugin's capture-phase \<open>keydown\<close> listeners on the document and the globals
  \<open>window.markmapEscHandler\<close>, \<open>markmapWheelHandler\<close>, \<open>markmapOverlay\<close> (listeners and
  elements named by container ids), the pending timers, the head bar's toolbar and a
  pending retry of \<open>addButtonToToolbar\<close>, the theme, what the bundled library throws for a
  markdown (\<open>Some (Some m)\<close>: an \<open>Error\<close> with message \<open>m\<close>; \<open>Some None\<close>: another value),
  and the fresh container id of a time.\<close>

record lo_world =
  lo_host :: "lo_handler host"
  lo_name :: jstr
  lo_mode :: bool
  lo_button :: "om_button option"
  lo_markmap :: "lmarkmap option"
  lo_editor :: "leditor option"
  lo_overlay :: "loverlay option"
  lo_keydown :: "jstr list"
  lo_esc_var :: "jstr option"
  lo_wheel_var :: "jstr option"
  lo_overlay_var :: "jstr option"
  lo_timers :: "lo_timer list"
  lo_toolbar :: bool
  lo_retry :: bool
  lo_theme :: ltheme
  lo_lib :: "jstr \<Rightarrow> jstr option option"
  lo_fresh_id :: "nat \<Rightarrow> jstr"

definition loon_host :: "(lo_handler host \<Rightarrow> lo_handler host) \<Rightarrow> lo_world \<Rightarrow> lo_world" where
  "loon_host f w = w\<lparr>lo_host := f (lo_host w)\<rparr>"

text \<open>The removal of the Escape listener (lines 345 to 349, again 551 to 556 and 775 to
  779) and of the wheel listener (lines 559 to 564, again 782 to 786).\<close>

definition remove_esc :: "lo_world \<Rightarrow> lo_world" where
  "remove_esc w =
     (case lo_esc_var w of
        None \<Rightarrow> w
      | Some h \<Rightarrow> w\<lparr>lo_keydown := removeAll h (lo_keydown w), lo_esc_var := None\<rparr>)"

definition remove_wheel :: "lo_world \<Rightarrow> lo_world" where
  "remove_wheel w =
     (case (lo_wheel_var w, lo_overlay_var w) of
        (Some h, Some oc) \<Rightarrow>
          w\<lparr>lo_overlay := map_option (\<lambda>ov. if ov_cid ov = oc then ov\<lparr>ov_wheel := removeAll h (ov_wheel ov)\<rparr> else ov)
                           (lo_overlay w),
            lo_wheel_var := None, lo_overlay_var := None\<rparr>
      | _ \<Rightarrow> w)"

text \<open>\<open>updateButtonState()\<close> (lines 453 to 473).\<close>

definition lo_updateButtonState :: "lo_world \<Rightarrow> lo_world" where
  "lo_updateButtonState w =
     (case lo_button w of
        None \<Rightarrow> w
      | Some b \<Rightarrow>
          w\<lparr>lo_button := Some (if lo_mode w
             then b\<lparr>bt_background := js ''var(--orca-color-primary, #2563eb)'', bt_color := js ''white'',
                    bt_title := txt_title_edit, bt_icon_color := js ''white''\<rparr>
             else b\<lparr>bt_background := [], bt_color := [], bt_title := txt_title_toggle, bt_icon_color := []\<rparr>)\<rparr>)"

text \<open>The hover handlers of the button (lines 437 to 447).\<close>

definition lo_button_hover :: "bool \<Rightarrow> lo_world \<Rightarrow> lo_world" where
  "lo_button_hover enter w =
     (case lo_button w of
        None \<Rightarrow> w
      | Some b \<Rightarrow> if lo_mode w then w
                 else w\<lparr>lo_button := Some (b\<lparr>bt_background := (if enter then js ''var(--orca-color-bg-2, #f0f0f0)'' else [])\<rparr>)\<rparr>)"

text \<open>\<open>initializeMarkmap(containerId, markdown)\<close> (lines 267 to 421): nothing when the
  container is gone; the library's exception replaces the container's parent by the error
  markup; otherwise the instance is created, the buttons get their handlers, an earlier
  Escape listener is removed and a new one installed, and the overlay gets a wheel
  listener. The \<open>fit()\<close> timer of lines 381 to 393 only logs and fits the view.\<close>

definition initializeMarkmap :: "jstr \<Rightarrow> jstr \<Rightarrow> lo_world \<Rightarrow> lo_world" where
  "initializeMarkmap cid md w =
     (case lo_overlay w of
        None \<Rightarrow> w
      | Some ov \<Rightarrow>
          if ov_cid ov \<noteq> cid \<or> ov_failed ov \<noteq> None then w
          else (case lo_lib w md of
                  Some err \<Rightarrow>
                    w\<lparr>lo_overlay := Some (ov\<lparr>ov_failed :=
                        Some (lo_error_html (case err of Some m \<Rightarrow> m | None \<Rightarrow> txt_unknown_error))\<rparr>)\<rparr>
                | None \<Rightarrow>
                    (let w1 = remove_esc (w\<lparr>lo_markmap := Some \<lparr>lm_cid = cid, lm_markdown = md, lm_scales = []\<rparr>,
                                             lo_overlay := Some (ov\<lparr>ov_wired := True\<rparr>)\<rparr>);
                         w2 = w1\<lparr>lo_keydown := lo_keydown w1 @ [cid], lo_esc_var := Some cid\<rparr>
                     in case lo_overlay w2 of
                          None \<Rightarrow> w2
                        | Some ov' \<Rightarrow> w2\<lparr>lo_overlay := Some (ov'\<lparr>ov_wheel := ov_wheel ov' @ [cid]\<rparr>),
                                         lo_wheel_var := Some cid, lo_overlay_var := Some (ov_cid ov')\<rparr>)))"

text \<open>\<open>switchToMindMapMode()\<close> (lines 476 to 537) at time \<open>now\<close>: the editor is hidden,
  not replaced, the overlay is added and the initialisation is scheduled. A
  \<open>RangeError\<close> of the markdown conversion is caught before anything changed.\<close>

definition lo_switchToMindMapMode :: "nat \<Rightarrow> lo_world \<Rightarrow> lo_world" where
  "lo_switchToMindMapMode now w =
     (if lo_mode w then w
      else (case lo_editor w of
              None \<Rightarrow> loon_host (notify (js ''error'') txt_no_editor) w
            | Some e \<Rightarrow>
                (let blocks = lo_extractPageStructure (Some e)
                 in if blocks = [] then loon_host (notify (js ''warn'') txt_nothing_to_show) w
                    else (case lo_blocksToMarkdown blocks of
                            Inl msg \<Rightarrow> loon_host (notify (js ''error'') (txt_switch_failed_om @ msg)) w
                          | Inr md \<Rightarrow>
                              (let cid = lo_fresh_id w now;
                                   ov = \<lparr>ov_cid = cid, ov_html = createMindMapContainer cid (lo_theme w),
                                         ov_in_parent = le_has_parent e, ov_failed = None, ov_wired = False,
                                         ov_wheel = []\<rparr>
                               in loon_host (notify (js ''success'') (txt_to_mindmap_om @ nat_str (length blocks) @ txt_nodes))
                                    (lo_updateButtonState
                                      (w\<lparr>lo_editor := Some (e\<lparr>le_display := js ''none''\<rparr>), lo_overlay := Some ov,
                                         lo_timers := lo_timers w @ [LInit cid md], lo_mode := True\<rparr>)))))))"

text \<open>\<open>switchToEditMode()\<close> (lines 540 to 698): the listeners go, the instance and the
  overlay are removed and the editor is shown again. The loop of lines 569 to 577 looks
  for elements whose \<open>tagName\<close> is \<open>SVG\<close>, which an HTML document reports as \<open>svg\<close>, and
  the \<open>d3\<close> cleanup and the refocusing timers keep no state of the model.\<close>

definition lo_switchToEditMode :: "lo_world \<Rightarrow> lo_world" where
  "lo_switchToEditMode w =
     (if \<not> lo_mode w then w
      else (case lo_editor w of
              None \<Rightarrow> loon_host (notify (js ''error'') txt_no_editor) w
            | Some e \<Rightarrow>
                (let w1 = remove_wheel (remove_esc w)
                 in loon_host (notify (js ''success'') txt_back_to_edit)
                      (lo_updateButtonState
                        (w1\<lparr>lo_markmap := None, lo_overlay := None, lo_editor := Some (e\<lparr>le_display := []\<rparr>),
                            lo_mode := False\<rparr>)))))"

definition lo_toggleMindMapMode :: "nat \<Rightarrow> lo_world \<Rightarrow> lo_world" where
  "lo_toggleMindMapMode now w = (if lo_mode w then lo_switchToEditMode w else lo_switchToMindMapMode now w)"

text \<open>\<open>addButtonToToolbar()\<close> (lines 710 to 727) and \<open>removeButtonFromToolbar()\<close> (lines
  730 to 735).\<close>

definition lo_addButtonToToolbar :: "lo_world \<Rightarrow> lo_world" where
  "lo_addButtonToToolbar w =
     (if \<not> lo_toolbar w then w\<lparr>lo_retry := True\<rparr>
      else (case lo_button w of
              Some b \<Rightarrow> if bt_attached b then w else w\<lparr>lo_button := Some (createToggleButton\<lparr>bt_attached := True\<rparr>)\<rparr>
            | None \<Rightarrow> w\<lparr>lo_button := Some (createToggleButton\<lparr>bt_attached := True\<rparr>)\<rparr>))"

definition lo_removeButtonFromToolbar :: "lo_world \<Rightarrow> lo_world" where
  "lo_removeButtonFromToolbar w =
     (case lo_button w of
        Some b \<Rightarrow> if bt_attached b then w\<lparr>lo_button := None\<rparr> else w
      | None \<Rightarrow> w)"

text \<open>\<open>load(_name)\<close> (lines 738 to 763; no notification) and \<open>unload()\<close> (lines 766 to
  825); the host has \<open>registerShortcut\<close> and the unregister functions.\<close>

definition lo_load :: "jstr \<Rightarrow> lo_world \<Rightarrow> lo_world" where
  "lo_load nm w =
     lo_addButtonToToolbar
       (loon_host (registerShortcut (js ''Ctrl+Shift+M'') (nm @ js ''.toggle'') \<circ>
                   registerCommand (nm @ js ''.toggle'') LToggle) (w\<lparr>lo_name := nm\<rparr>))"

definition lo_unload :: "lo_world \<Rightarrow> lo_world" where
  "lo_unload w =
     (let w1 = lo_removeButtonFromToolbar
                 ((remove_wheel (remove_esc (if lo_mode w then lo_switchToEditMode w else w)))\<lparr>lo_overlay := None\<rparr>)
      in loon_host (notify (js ''info'') txt_om_disabled)
           ((loon_host (unregisterShortcut (js ''Ctrl+Shift+M'') \<circ> unregisterCommand (lo_name w1 @ js ''.toggle'')) w1)
              \<lparr>lo_mode := False, lo_markmap := None\<rparr>))"

text \<open>\<open>currentMarkmap.rescale(f)\<close> when there is an instance.\<close>

definition lo_rescale :: "rat \<Rightarrow> lo_world \<Rightarrow> lo_world" where
  "lo_rescale f w =
     (case lo_markmap w of None \<Rightarrow> w | Some m \<Rightarrow> w\<lparr>lo_markmap := Some (m\<lparr>lm_scales := lm_scales m @ [f]\<rparr>)\<rparr>)"

text \<open>The wheel listener of lines 358 to 369: with Ctrl and without Meta, down zooms out.\<close>

definition wheelZoom :: "bool \<Rightarrow> bool \<Rightarrow> int \<Rightarrow> lo_world \<Rightarrow> lo_world" where
  "wheelZoom ctrl meta dy w =
     (if lo_mode w \<and> ctrl \<and> \<not> meta then lo_rescale (if 0 < dy then 9 / 10 else 11 / 10) w else w)"

text \<open>The events: those of the host, the toolbar button (click, hover), the toolbar
  appearing, the \<open>i\<close>-th pending timer firing, a key pressed on the document, the wheel on
  the overlay (Ctrl, Meta, \<open>deltaY\<close>) and the overlay's three buttons.\<close>

datatype lo_event =
    LHost host_event | LButtonClick | LButtonHover bool | LToolbarAppears | LFire nat
  | LKey jstr | LWheel bool bool int | LZoomIn | LZoomOut | LClose

definition lo_invoke :: "nat \<Rightarrow> jstr \<Rightarrow> lo_world \<Rightarrow> lo_world" where
  "lo_invoke now k w =
     (case map_of (h_commands (lo_host w)) k of None \<Rightarrow> w | Some f \<Rightarrow> lo_toggleMindMapMode now w)"

definition lo_fire :: "nat \<Rightarrow> lo_world \<Rightarrow> lo_world" where
  "lo_fire i w =
     (if i < length (lo_timers w) then
        (case lo_timers w ! i of
           LInit cid md \<Rightarrow> initializeMarkmap cid md (w\<lparr>lo_timers := take i (lo_timers w) @ drop (Suc i) (lo_timers w)\<rparr>))
      else w)"

text \<open>The overlay's buttons have handlers once the initialisation ran and while the
  error markup has not replaced them.\<close>

definition lo_buttons_live :: "lo_world \<Rightarrow> bool" where
  "lo_buttons_live w \<longleftrightarrow>
     (case lo_overlay w of None \<Rightarrow> False | Some ov \<Rightarrow> ov_wired ov \<and> ov_failed ov = None)"

text \<open>One event. The toolbar button can be clicked only while no overlay is on the page:
  the overlay's style (lines 154 to 157) hides the head bar that holds it.\<close>

fun lo_step :: "lo_world \<Rightarrow> nat \<times> lo_event \<Rightarrow> lo_world" where
  "lo_step w (now, LHost (Load nm)) = lo_load nm w"
| "lo_step w (now, LHost Unload) = lo_unload w"
| "lo_step w (now, LHost (Invoke k)) = lo_invoke now k w"
| "lo_step w (now, LHost (Shortcut sc)) =
     (case map_of (h_shortcuts (lo_host w)) sc of None \<Rightarrow> w | Some k \<Rightarrow> lo_invoke now k w)"
| "lo_step w (now, LHost (Button b)) = w"
| "lo_step w (now, LHost (Broadcast ev)) = w"
| "lo_step w (now, LHost Tick) = (if lo_retry w then lo_addButtonToToolbar (w\<lparr>lo_retry := False\<rparr>) else w)"
| "lo_step w (now, LHost (Settle i out)) = w"
| "lo_step w (now, LHost (UserClosesPanel p)) = w"
| "lo_step w (now, LButtonClick) =
     (case lo_button w of
        Some b \<Rightarrow> if bt_attached b \<and> lo_overlay w = None then lo_toggleMindMapMode now w else w
      | None \<Rightarrow> w)"
| "lo_step w (now, LButtonHover enter) = lo_button_hover enter w"
| "lo_step w (now, LToolbarAppears) = w\<lparr>lo_toolbar := True\<rparr>"
| "lo_step w (now, LFire i) = lo_fire i w"
| "lo_step w (now, LKey k) =
     (if lo_keydown w \<noteq> [] \<and> k = js ''Escape'' \<and> lo_mode w then lo_switchToEditMode w else w)"
| "lo_step w (now, LWheel ctrl meta dy) =
     (case lo_overlay w of None \<Rightarrow> w | Some ov \<Rightarrow> fold (\<lambda>h. wheelZoom ctrl meta dy) (ov_wheel ov) w)"
| "lo_step w (now, LZoomIn) = (if lo_buttons_live w then lo_rescale (3 / 2) w else w)"
| "lo_step w (now, LZoomOut) = (if lo_buttons_live w then lo_rescale (3 / 4) w else w)"
| "lo_step w (now, LClose) = (if lo_buttons_live w then lo_switchToEditMode w else w)"

text \<open>The page before the plugin loads.\<close>

definition lo_init :: "leditor option \<Rightarrow> bool \<Rightarrow> ltheme \<Rightarrow> (jstr \<Rightarrow> jstr option option) \<Rightarrow>
    (nat \<Rightarrow> jstr) \<Rightarrow> lo_world" where
  "lo_init ed tb th lib fresh =
     \<lparr>lo_host = fresh_host None None, lo_name = js ''undefined'', lo_mode = False, lo_button = None,
      lo_markmap = None, lo_editor = ed, lo_overlay = None, lo_keydown = [], lo_esc_var = None,
      lo_wheel_var = None, lo_overlay_var = None, lo_timers = [], lo_toolbar = tb, lo_retry = False,
      lo_theme = th, lo_lib = lib, lo_fresh_id = fresh\<rparr>"

text \<open>The states reachable from a page by one event after another.\<close>

inductive lo_reach :: "lo_world \<Rightarrow> lo_world \<Rightarrow> bool" for w0 where
  lo_reach_init: "lo_reach w0 w0"
| lo_reach_step: "lo_reach w0 w \<Longrightarrow> lo_reach w0 (lo_step w e)"

text \<open>The invariant of the listeners: the document holds the plugin's Escape listener
  exactly when the global names it, only in mind-map mode; an instance exists only in
  mind-map mode, and the overlay is on the page exactly then.\<close>

definition lo_inv :: "lo_world \<Rightarrow> bool" where
  "lo_inv w \<longleftrightarrow>
     lo_keydown w = (case lo_esc_var w of None \<Rightarrow> [] | Some h \<Rightarrow> [h]) \<and>
     (lo_esc_var w \<noteq> None \<longrightarrow> lo_mode w) \<and> (lo_markmap w \<noteq> None \<longrightarrow> lo_mode w) \<and>
     (lo_overlay w \<noteq> None \<longleftrightarrow> lo_mode w)"

text \<open>Every run of code units without a line terminator, counted from \<open>k\<close> units
  already in the current line, stays within \<open>n\<close>.\<close>

fun run_ok :: "nat \<Rightarrow> nat \<Rightarrow> jstr \<Rightarrow> bool" where
  "run_ok n k [] = True"
| "run_ok n k (c # cs) = (if is_line_terminator c then run_ok n 0 cs else Suc k \<le> n \<and> run_ok n (Suc k) cs)"

text \<open>The page the witnesses run on: one text block, a light theme, a library that renders.\<close>

definition lo_demo_theme :: ltheme where
  "lo_demo_theme = \<lparr>th_root_classes = [], th_body_classes = [], th_body_bg = [], th_root_bg = [], th_orca_bg1 = []\<rparr>"

definition lo_demo_editor :: leditor where
  "lo_demo_editor = \<lparr>le_blocks = [\<lparr>lb_dom = \<lparr>db_id = Some (js ''b1''), db_indent = Some (js ''0''), db_type = None,
        db_main = Some ([], js ''Hello'')\<rparr>, lb_table_inside = False, lb_table_around = False,
        lb_class = js ''orca-block''\<rparr>], le_display = [], le_has_parent = True\<rparr>"

definition lo_demo :: lo_world where
  "lo_demo = lo_init (Some lo_demo_editor) False lo_demo_theme (\<lambda>md. None) (\<lambda>t. js ''markmap-1'')"

text \<open>What lets the user leave the mind map: the editor is there and a toggle command or
  the attached toolbar button is.\<close>

definition lo_exit_ok :: "lo_world \<Rightarrow> bool" where
  "lo_exit_ok w \<longleftrightarrow>
     (lo_mode w \<longrightarrow> lo_editor w \<noteq> None \<and>
        ((\<exists>k. map_of (h_commands (lo_host w)) k \<noteq> None) \<or> (\<exists>b. lo_button w = Some b \<and> bt_attached b)))"

subsection \<open>Proofs\<close>


lemma loon_host_sel [simp]:
  "lo_mode (loon_host f w) = lo_mode w" "lo_markmap (loon_host f w) = lo_markmap w"
  "lo_overlay (loon_host f w) = lo_overlay w" "lo_keydown (loon_host f w) = lo_keydown w"
  "lo_esc_var (loon_host f w) = lo_esc_var w" "lo_editor (loon_host f w) = lo_editor w"
  "lo_timers (loon_host f w) = lo_timers w" "lo_wheel_var (loon_host f w) = lo_wheel_var w"
  "lo_host (loon_host f w) = f (lo_host w)" "lo_button (loon_host f w) = lo_button w"
  by (simp_all add: loon_host_def)

lemma lo_updateButtonState_sel [simp]:
  "lo_mode (lo_updateButtonState w) = lo_mode w" "lo_markmap (lo_updateButtonState w) = lo_markmap w"
  "lo_overlay (lo_updateButtonState w) = lo_overlay w" "lo_keydown (lo_updateButtonState w) = lo_keydown w"
  "lo_esc_var (lo_updateButtonState w) = lo_esc_var w" "lo_editor (lo_updateButtonState w) = lo_editor w"
  "lo_timers (lo_updateButtonState w) = lo_timers w" "lo_wheel_var (lo_updateButtonState w) = lo_wheel_var w"
  "lo_host (lo_updateButtonState w) = lo_host w"
  by (simp_all add: lo_updateButtonState_def split: option.split)

lemma remove_wheel_sel [simp]:
  "lo_mode (remove_wheel w) = lo_mode w" "lo_markmap (remove_wheel w) = lo_markmap w"
  "lo_keydown (remove_wheel w) = lo_keydown w" "lo_esc_var (remove_wheel w) = lo_esc_var w"
  "lo_editor (remove_wheel w) = lo_editor w" "lo_timers (remove_wheel w) = lo_timers w"
  "lo_host (remove_wheel w) = lo_host w" "lo_button (remove_wheel w) = lo_button w"
  "lo_name (remove_wheel w) = lo_name w"
  "lo_overlay (remove_wheel w) = None \<longleftrightarrow> lo_overlay w = None"
  by (simp_all add: remove_wheel_def split: option.split prod.split)

lemma remove_esc_sel [simp]:
  "lo_mode (remove_esc w) = lo_mode w" "lo_markmap (remove_esc w) = lo_markmap w"
  "lo_overlay (remove_esc w) = lo_overlay w" "lo_editor (remove_esc w) = lo_editor w"
  "lo_timers (remove_esc w) = lo_timers w" "lo_host (remove_esc w) = lo_host w"
  "lo_button (remove_esc w) = lo_button w" "lo_name (remove_esc w) = lo_name w"
  "lo_wheel_var (remove_esc w) = lo_wheel_var w" "lo_esc_var (remove_esc w) = None"
  by (simp_all add: remove_esc_def split: option.split)

lemma remove_esc_keydown:
  "lo_inv w \<Longrightarrow> lo_keydown (remove_esc w) = []"
  by (simp add: remove_esc_def lo_inv_def split: option.split)

lemma lo_inv_host [simp]: "lo_inv (loon_host f w) = lo_inv w"
  by (simp add: lo_inv_def)

lemma lo_inv_button [simp]: "lo_inv (lo_updateButtonState w) = lo_inv w"
  by (simp add: lo_inv_def)

lemma initializeMarkmap_inv: "lo_inv w \<Longrightarrow> lo_inv (initializeMarkmap cid md w)"
proof (cases "lo_overlay w")
  case (Some ov)
  assume inv: "lo_inv w"
  then have mode: "lo_mode w" using Some by (simp add: lo_inv_def)
  let ?w0 = "w\<lparr>lo_markmap := Some \<lparr>lm_cid = cid, lm_markdown = md, lm_scales = []\<rparr>,
                lo_overlay := Some (ov\<lparr>ov_wired := True\<rparr>)\<rparr>"
  have inv0: "lo_inv ?w0" using inv mode by (simp add: lo_inv_def)
  have kd: "lo_keydown (remove_esc ?w0) = []" by (rule remove_esc_keydown[OF inv0])
  show ?thesis
    using Some inv mode kd
    by (auto simp: initializeMarkmap_def lo_inv_def Let_def split: option.split)
qed (simp add: initializeMarkmap_def)

lemma lo_switchToMindMapMode_inv: "lo_inv w \<Longrightarrow> lo_inv (lo_switchToMindMapMode now w)"
  by (auto simp: lo_switchToMindMapMode_def lo_inv_def Let_def split: option.split sum.split)

lemma lo_switchToEditMode_inv: "lo_inv w \<Longrightarrow> lo_inv (lo_switchToEditMode w)"
proof (cases "lo_mode w \<and> lo_editor w \<noteq> None")
  case True
  assume inv: "lo_inv w"
  have "lo_keydown (remove_wheel (remove_esc w)) = []" using remove_esc_keydown[OF inv] by simp
  then show ?thesis using True by (auto simp: lo_switchToEditMode_def lo_inv_def Let_def)
qed (auto simp: lo_switchToEditMode_def)

lemma lo_unload_inv: "lo_inv w \<Longrightarrow> lo_inv (lo_unload w)"
proof -
  assume inv: "lo_inv w"
  define v where "v = remove_wheel (remove_esc (if lo_mode w then lo_switchToEditMode w else w))"
  have "lo_inv (if lo_mode w then lo_switchToEditMode w else w)" using inv lo_switchToEditMode_inv by simp
  then have kd: "lo_keydown v = []" "lo_esc_var v = None" using remove_esc_keydown by (simp_all add: v_def)
  have "lo_unload w = loon_host (notify (js ''info'') txt_om_disabled)
      ((loon_host (unregisterShortcut (js ''Ctrl+Shift+M'') \<circ>
          unregisterCommand (lo_name (lo_removeButtonFromToolbar (v\<lparr>lo_overlay := None\<rparr>)) @ js ''.toggle''))
        (lo_removeButtonFromToolbar (v\<lparr>lo_overlay := None\<rparr>)))\<lparr>lo_mode := False, lo_markmap := None\<rparr>)"
    by (simp add: lo_unload_def v_def Let_def)
  then show ?thesis
    using kd by (simp add: lo_inv_def lo_removeButtonFromToolbar_def loon_host_def split: option.split)
qed

lemma lo_rescale_inv: "lo_inv w \<Longrightarrow> lo_inv (lo_rescale f w)"
  by (simp add: lo_rescale_def lo_inv_def split: option.split)

lemma lo_fold_wheel_inv: "lo_inv w \<Longrightarrow> lo_inv (fold (\<lambda>h. wheelZoom ctrl meta dy) hs w)"
  by (induction hs arbitrary: w) (simp_all add: wheelZoom_def lo_rescale_inv)

lemma lo_fire_inv: "lo_inv w \<Longrightarrow> lo_inv (lo_fire i w)"
proof -
  assume inv: "lo_inv w"
  have "lo_inv (w\<lparr>lo_timers := ts\<rparr>)" for ts using inv by (simp add: lo_inv_def)
  then show ?thesis using inv by (simp add: lo_fire_def initializeMarkmap_inv split: lo_timer.split)
qed

lemma lo_step_inv: "lo_inv w \<Longrightarrow> lo_inv (lo_step w e)"
proof -
  assume inv: "lo_inv w"
  obtain now ev where e: "e = (now, ev)" by fastforce
  have sel: "lo_inv (w\<lparr>lo_button := b\<rparr>)" "lo_inv (w\<lparr>lo_retry := r\<rparr>)" "lo_inv (w\<lparr>lo_toolbar := t\<rparr>)"
    "lo_inv (w\<lparr>lo_name := nm\<rparr>)" for b r t nm
    using inv by (simp_all add: lo_inv_def)
  have add: "lo_inv v \<Longrightarrow> lo_inv (lo_addButtonToToolbar v)" for v
    by (simp add: lo_addButtonToToolbar_def lo_inv_def split: option.splits)
  have toggle: "lo_inv (lo_toggleMindMapMode now w)"
    using inv by (simp add: lo_toggleMindMapMode_def lo_switchToMindMapMode_inv lo_switchToEditMode_inv)
  show ?thesis
  proof (cases ev)
    case (LHost h)
    show ?thesis
    proof (cases h)
      case (Load nm)
      have "lo_inv (loon_host f (w\<lparr>lo_name := nm\<rparr>))" for f using sel(4) by simp
      then show ?thesis using LHost Load add by (simp add: e lo_load_def)
    next
      case Unload
      then show ?thesis using LHost inv by (simp add: e lo_unload_inv)
    next
      case Tick
      then show ?thesis using LHost inv add sel(2) by (simp add: e)
    qed (use LHost inv toggle in \<open>simp_all add: e lo_invoke_def split: option.splits\<close>)
  next
    case LButtonClick
    then show ?thesis using inv toggle by (simp add: e split: option.splits)
  next
    case (LButtonHover b)
    then show ?thesis using inv by (auto simp: e lo_button_hover_def lo_inv_def split: option.splits)
  next
    case LToolbarAppears
    then show ?thesis using sel(3) by (simp add: e)
  next
    case (LFire i)
    then show ?thesis using inv by (simp add: e lo_fire_inv)
  next
    case (LKey k)
    then show ?thesis using inv by (simp add: e lo_switchToEditMode_inv)
  next
    case (LWheel c m d)
    then show ?thesis using inv by (simp add: e lo_fold_wheel_inv split: option.split)
  qed (use inv in \<open>simp_all add: e lo_rescale_inv lo_switchToEditMode_inv\<close>)
qed

lemma lo_init_inv: "lo_inv (lo_init ed tb th lib fresh)"
  by (simp add: lo_init_def lo_inv_def)

text \<open>C7: In every state reachable from a page, the document holds at most one
  \<open>keydown\<close> listener of the plugin, none outside mind-map mode, and the overlay is on the
  page exactly in mind-map mode: no Escape listener leaks across switches, failed
  initialisations or unloads.\<close>

theorem lo_reach_listeners:
  assumes "lo_reach (lo_init ed tb th lib fresh) w"
  shows "length (lo_keydown w) \<le> (if lo_mode w then 1 else 0) \<and> (lo_overlay w \<noteq> None \<longleftrightarrow> lo_mode w)"
proof -
  from assms have "lo_inv w"
    by induction (simp_all add: lo_init_inv lo_step_inv)
  then show ?thesis by (auto simp: lo_inv_def split: option.splits)
qed

text \<open>C8: Switching a page with content to the mind map, letting the initialisation
  run and pressing Escape shows the markdown of the page in the mind map and then restores
  the editor as it was, with no overlay, no instance, no listener left and no timer added.\<close>

theorem lo_mindmap_round_trip:
  assumes inv: "lo_inv w" and off: "\<not> lo_mode w" and ed: "lo_editor w = Some e" and disp: "le_display e = []"
    and bl: "lo_extractPageStructure (Some e) \<noteq> []"
    and md: "lo_blocksToMarkdown (lo_extractPageStructure (Some e)) = Inr md"
    and lib: "lo_lib w md = None"
  shows "lo_markmap (lo_step (lo_toggleMindMapMode now w) (t1, LFire (length (lo_timers w)))) =
           Some \<lparr>lm_cid = lo_fresh_id w now, lm_markdown = md, lm_scales = []\<rparr> \<and>
         (let w3 = lo_step (lo_step (lo_toggleMindMapMode now w) (t1, LFire (length (lo_timers w))))
                     (t2, LKey (js ''Escape''))
          in lo_editor w3 = Some e \<and> lo_overlay w3 = None \<and> lo_keydown w3 = [] \<and> lo_markmap w3 = None \<and>
             \<not> lo_mode w3 \<and> lo_timers w3 = lo_timers w)"
proof -
  let ?cid = "lo_fresh_id w now"
  let ?w1 = "lo_toggleMindMapMode now w"
  have kd0: "lo_keydown w = []" "lo_esc_var w = None" using inv off by (auto simp: lo_inv_def split: option.splits)
  have w1: "lo_mode ?w1" "lo_timers ?w1 = lo_timers w @ [LInit ?cid md]" "lo_keydown ?w1 = []"
    "lo_esc_var ?w1 = None" "lo_lib ?w1 = lo_lib w" "lo_editor ?w1 = Some (e\<lparr>le_display := js ''none''\<rparr>)"
    "\<exists>ov. lo_overlay ?w1 = Some ov \<and> ov_cid ov = ?cid \<and> ov_failed ov = None"
    using off ed bl md kd0
    by (simp_all add: lo_toggleMindMapMode_def lo_switchToMindMapMode_def Let_def loon_host_def
      lo_updateButtonState_def split: option.split)
  then obtain ov where ov: "lo_overlay ?w1 = Some ov" "ov_cid ov = ?cid" "ov_failed ov = None" by blast
  let ?w2 = "lo_step ?w1 (t1, LFire (length (lo_timers w)))"
  have w2: "lo_markmap ?w2 = Some \<lparr>lm_cid = ?cid, lm_markdown = md, lm_scales = []\<rparr>"
    "lo_keydown ?w2 = [?cid]" "lo_esc_var ?w2 = Some ?cid" "lo_mode ?w2" "lo_timers ?w2 = lo_timers w"
    "lo_editor ?w2 = Some (e\<lparr>le_display := js ''none''\<rparr>)"
    using w1 ov lib by (simp_all add: lo_fire_def initializeMarkmap_def remove_esc_def Let_def nth_append)
  show ?thesis
    using w2 ed disp
    by (simp add: lo_switchToEditMode_def loon_host_def Let_def remove_esc_def)
qed


lemma run_ok_mono: "run_ok n k s \<Longrightarrow> k' \<le> k \<Longrightarrow> run_ok n k' s"
  by (induction n k s arbitrary: k' rule: run_ok.induct) (auto split: if_splits)

lemma run_ok_drop: "run_ok n k s \<Longrightarrow> run_ok n 0 (drop j s)"
proof (induction s arbitrary: k j)
  case Nil then show ?case by simp
next
  case (Cons c cs)
  show ?case
  proof (cases j)
    case 0 then show ?thesis using run_ok_mono[OF Cons.prems, of 0] by simp
  next
    case (Suc j')
    have "run_ok n (if is_line_terminator c then 0 else Suc k) cs" using Cons.prems by (simp split: if_splits)
    then show ?thesis using Cons.IH Suc by simp
  qed
qed

lemma run_ok_short: "k + length s \<le> n \<Longrightarrow> run_ok n k s"
  by (induction n k s rule: run_ok.induct) auto

lemma run_ok_append_block:
  "list_all (\<lambda>c. \<not> is_line_terminator c) xs \<Longrightarrow> k + length xs \<le> n \<Longrightarrow> run_ok n (k + length xs) ys \<Longrightarrow>
   run_ok n k (xs @ ys)"
  by (induction xs arbitrary: k) auto

lemma takeWhile_ge_50:
  "50 \<le> length (takeWhile P s) \<Longrightarrow> 50 \<le> length s \<and> list_all P (take 50 s)"
proof -
  assume a: "50 \<le> length (takeWhile P s)"
  have "take 50 s = take 50 (takeWhile P s @ dropWhile P s)" by simp
  also have "\<dots> = take 50 (takeWhile P s)" unfolding take_append using a by simp
  finally have "take 50 (takeWhile P s) = take 50 s" by simp
  moreover have "list_all P (take 50 (takeWhile P s))"
    by (simp add: list_all_iff) (meson in_set_takeD set_takeWhileD)
  moreover have "length (takeWhile P s) \<le> length s" by (rule length_takeWhile_le)
  ultimately show ?thesis using a by simp
qed

lemma takeWhile_le_50:
  "50 \<le> length s \<Longrightarrow> list_all P (take 50 s) \<Longrightarrow> 50 \<le> length (takeWhile P s)"
proof -
  assume l: "50 \<le> length s" and p: "list_all P (take 50 s)"
  have "takeWhile P s = take 50 s @ takeWhile P (drop 50 s)"
    using p by (metis append_take_drop_id list_all_iff takeWhile_append2)
  then show ?thesis using l by simp
qed

declare wrap50.simps [simp del]

lemma wrap50_short:
  "\<not> (50 \<le> length s \<and> list_all (\<lambda>c. \<not> is_line_terminator c) (take 50 s)) \<Longrightarrow> s = c # cs \<Longrightarrow>
   wrap50 s = c # wrap50 cs"
proof -
  assume h: "\<not> (50 \<le> length s \<and> list_all (\<lambda>c. \<not> is_line_terminator c) (take 50 s))" and s: "s = c # cs"
  have "wrap50 s = (if 50 \<le> length s \<and> list_all (\<lambda>c. \<not> is_line_terminator c) (take 50 s)
      then take 50 s @ [0x0A] @ wrap50 (drop 50 s) else (case s of [] \<Rightarrow> [] | c # cs \<Rightarrow> c # wrap50 cs))"
    by (rule wrap50.simps)
  also have "\<dots> = (case s of [] \<Rightarrow> [] | c # cs \<Rightarrow> c # wrap50 cs)" by (rule if_not_P[OF h])
  finally show ?thesis using s by simp
qed

lemma wrap50_run_ok:
  "k = 0 \<or> k + length (takeWhile (\<lambda>c. \<not> is_line_terminator c) s) \<le> 50 \<Longrightarrow> run_ok 50 k (wrap50 s)"
proof (induction s arbitrary: k rule: wrap50.induct)
  case (1 s)
  let ?P = "\<lambda>c. \<not> is_line_terminator c"
  show ?case
  proof (cases "50 \<le> length s \<and> list_all ?P (take 50 s)")
    case True
    then have "k = 0" using "1.prems" takeWhile_le_50[of s ?P] by auto
    moreover have "run_ok 50 0 (wrap50 (drop 50 s))" using "1.IH"(1)[OF True] by blast
    then have "run_ok 50 50 (0x0A # wrap50 (drop 50 s))" by (simp add: is_line_terminator_def)
    then have "run_ok 50 0 (take 50 s @ 0x0A # wrap50 (drop 50 s))"
      using True run_ok_append_block[of "take 50 s" 0 50] by simp
    with \<open>k = 0\<close> show ?thesis using True by (subst wrap50.simps) simp
  next
    case False
    then have short: "length (takeWhile ?P s) < 50" using takeWhile_ge_50[of ?P s] by linarith
    show ?thesis
    proof (cases s)
      case Nil
      then show ?thesis by (simp add: wrap50.simps)
    next
      case (Cons c cs)
      have IH: "run_ok 50 k' (wrap50 cs)" if "k' = 0 \<or> k' + length (takeWhile ?P cs) \<le> 50" for k'
        using "1.IH"(2)[OF False Cons] that by blast
      show ?thesis
      proof (cases "is_line_terminator c")
        case True
        have "wrap50 s = c # wrap50 cs" using Cons by (rule wrap50_short[OF False])
        then show ?thesis using True IH by simp
      next
        case nlt: False
        have "Suc k + length (takeWhile ?P cs) \<le> 50" using "1.prems" short nlt Cons by auto
        moreover have "wrap50 s = c # wrap50 cs" using Cons by (rule wrap50_short[OF False])
        ultimately show ?thesis using IH nlt by simp
      qed
    qed
  qed
qed

lemma squash_nl_run_ok: "run_ok n k s \<Longrightarrow> run_ok n k (squash_nl s)"
proof (induction s arbitrary: k rule: squash_nl.induct)
  case 1 then show ?case by simp
next
  case (2 c cs)
  show ?case
  proof (cases "c = 0x0A \<and> cs \<noteq> [] \<and> is_js_space (hd cs)")
    case True
    then have lt: "is_line_terminator c" by (simp add: is_line_terminator_def)
    then have "run_ok n 0 cs" using "2.prems" by simp
    then have "run_ok n 0 (dropWhile is_js_space cs)"
      using run_ok_drop[of n 0 cs "length (takeWhile is_js_space cs)"] by (simp add: dropWhile_eq_drop)
    then have "run_ok n 0 (squash_nl (dropWhile is_js_space cs))" using "2.IH"(1)[OF True] by blast
    moreover have "squash_nl (c # cs) = 0x0A # squash_nl (dropWhile is_js_space cs)"
      by (simp only: squash_nl.simps(2) if_P[OF True])
    ultimately show ?thesis by (simp add: is_line_terminator_def)
  next
    case False
    have eq: "squash_nl (c # cs) = c # squash_nl cs" by (simp only: squash_nl.simps(2) if_not_P[OF False])
    show ?thesis
    proof (cases "is_line_terminator c")
      case True
      then have "run_ok n 0 cs" using "2.prems" by simp
      then show ?thesis using eq True "2.IH"(2)[OF False] by simp
    next
      case nlt: False
      then have "Suc k \<le> n" "run_ok n (Suc k) cs" using "2.prems" by simp_all
      then show ?thesis using eq nlt "2.IH"(2)[OF False] by simp
    qed
  qed
qed

lemma lo_wrap_run_ok: "run_ok 50 0 (lo_wrap c)"
  by (simp add: lo_wrap_def squash_nl_run_ok wrap50_run_ok run_ok_short)

lemma run_ok_prefix:
  "run_ok n k s \<Longrightarrow> prefix xs s \<Longrightarrow> list_all (\<lambda>c. \<not> is_line_terminator c) xs \<Longrightarrow>
   xs = [] \<or> k + length xs \<le> n"
proof (induction xs arbitrary: k s)
  case (Cons x xs)
  then obtain cs where s: "s = x # cs" by (auto simp: prefix_def)
  with Cons.prems have "Suc k \<le> n" "run_ok n (Suc k) cs" "prefix xs cs" by auto
  with Cons.IH[of "Suc k" cs] Cons.prems(3) show ?case by auto
qed simp

lemma run_ok_suffix: "run_ok n k s \<Longrightarrow> suffix t s \<Longrightarrow> run_ok n 0 t"
proof -
  assume r: "run_ok n k s" and "suffix t s"
  then obtain zs where "s = zs @ t" by (auto simp: suffix_def)
  then have "t = drop (length zs) s" by simp
  with r show ?thesis using run_ok_drop by metis
qed

lemma run_ok_sublist:
  "run_ok n 0 s \<Longrightarrow> sublist xs s \<Longrightarrow> list_all (\<lambda>c. \<not> is_line_terminator c) xs \<Longrightarrow> length xs \<le> n"
proof -
  assume r: "run_ok n 0 s" and sub: "sublist xs s" and p: "list_all (\<lambda>c. \<not> is_line_terminator c) xs"
  from sub obtain t where "suffix t s" "prefix xs t" by (auto simp: sublist_def suffix_def prefix_def)
  with r have "run_ok n 0 t" using run_ok_suffix by blast
  have "xs = [] \<or> 0 + length xs \<le> n" by (rule run_ok_prefix[OF \<open>run_ok n 0 t\<close> \<open>prefix xs t\<close> p])
  then show ?thesis by auto
qed

text \<open>C13: After \<open>blocksToMarkdown\<close> breaks a block's content, no stretch of it without a
  line terminator is longer than 50 code units.\<close>

theorem lo_wrap_lines_le_50:
  "sublist xs (lo_wrap c) \<Longrightarrow> list_all (\<lambda>u. \<not> is_line_terminator u) xs \<Longrightarrow> length xs \<le> 50"
  using run_ok_sublist[OF lo_wrap_run_ok] by blast

text \<open>After the library throws in \<open>initializeMarkmap\<close>, the error markup has replaced the
  overlay's buttons and no Escape listener was installed: Escape and the close button do
  nothing, and only the toolbar button or the command leaves the mind map.\<close>

lemma lo_failed_init_no_escape:
  assumes "lo_inv w" "lo_esc_var w = None" "lo_overlay w = Some ov" "ov_cid ov = cid" "ov_failed ov = None"
    "lo_lib w md = Some err"
  shows "lo_step (initializeMarkmap cid md w) (now, LKey k) = initializeMarkmap cid md w \<and>
    lo_step (initializeMarkmap cid md w) (now, LClose) = initializeMarkmap cid md w \<and>
    lo_mode (initializeMarkmap cid md w)"
  using assms by (simp add: initializeMarkmap_def lo_inv_def lo_buttons_live_def)

text \<open>A content of 60 code units becomes a heading with its first 50 units and a second
  line with the rest, which Markdown no longer reads as part of the heading.\<close>

lemma lo_long_heading_cut:
  "lo_blocksToMarkdown [\<lparr>pb_id = None, pb_content = replicate 60 0x61, pb_level = Some 0, pb_type = js ''text''\<rparr>] =
   Inr (js ''# '' @ replicate 50 0x61 @ [0x0A] @ replicate 10 0x61)"
  by code_simp

lemma lo_exit_ok_edit: "lo_exit_ok w \<Longrightarrow> lo_exit_ok (lo_switchToEditMode w)"
  by (auto simp: lo_switchToEditMode_def lo_exit_ok_def loon_host_def notify_def lo_updateButtonState_def
    Let_def split: option.splits)

lemma lo_toggle_keeps:
  "map_of (h_commands (lo_host (lo_toggleMindMapMode now w))) = map_of (h_commands (lo_host w))"
  "lo_editor w \<noteq> None \<Longrightarrow> lo_editor (lo_toggleMindMapMode now w) \<noteq> None"
  "lo_button w = Some b \<Longrightarrow> bt_attached b \<Longrightarrow> \<exists>b'. lo_button (lo_toggleMindMapMode now w) = Some b' \<and> bt_attached b'"
  by (auto simp: lo_toggleMindMapMode_def lo_switchToMindMapMode_def lo_switchToEditMode_def loon_host_def
    notify_def lo_updateButtonState_def Let_def split: option.splits sum.splits)

lemma lo_exit_ok_toggle:
  assumes "lo_exit_ok w" and "(\<exists>k. map_of (h_commands (lo_host w)) k \<noteq> None) \<or> (\<exists>b. lo_button w = Some b \<and> bt_attached b)"
  shows "lo_exit_ok (lo_toggleMindMapMode now w)"
proof -
  have ed: "lo_mode (lo_toggleMindMapMode now w) \<Longrightarrow> lo_editor (lo_toggleMindMapMode now w) \<noteq> None"
    using assms(1) by (auto simp: lo_toggleMindMapMode_def lo_switchToMindMapMode_def lo_switchToEditMode_def
      lo_exit_ok_def loon_host_def lo_updateButtonState_def Let_def split: option.splits sum.splits)
  show ?thesis using assms(2) ed lo_toggle_keeps(1,3) unfolding lo_exit_ok_def by metis
qed

lemma lo_addButtonToToolbar_sel [simp]:
  "lo_host (lo_addButtonToToolbar w) = lo_host w" "lo_editor (lo_addButtonToToolbar w) = lo_editor w"
  "lo_mode (lo_addButtonToToolbar w) = lo_mode w"
  by (simp_all add: lo_addButtonToToolbar_def split: option.split)

lemma lo_exit_ok_step: "lo_exit_ok w \<Longrightarrow> lo_exit_ok (lo_step w e)"
proof -
  assume ok: "lo_exit_ok w"
  obtain now ev where e: "e = (now, ev)" by fastforce
  have inv_k: "lo_exit_ok (lo_invoke now k w)" for k
    using ok lo_exit_ok_toggle[OF ok] by (auto simp: lo_invoke_def split: option.split)
  show ?thesis
  proof (cases ev)
    case (LHost h)
    show ?thesis
    proof (cases h)
      case (Load nm)
      have "map_of (h_commands (lo_host (lo_load nm w))) (nm @ js ''.toggle'') \<noteq> None"
        by (simp add: lo_load_def loon_host_def registerShortcut_def registerCommand_def update_conv')
      moreover have "lo_editor (lo_load nm w) = lo_editor w" "lo_mode (lo_load nm w) = lo_mode w"
        by (simp_all add: lo_load_def loon_host_def)
      ultimately show ?thesis using ok LHost Load unfolding lo_exit_ok_def by (simp add: e) blast
    next
      case Unload
      have "\<not> lo_mode (lo_unload w)" by (simp add: lo_unload_def Let_def loon_host_def)
      then show ?thesis using LHost Unload by (simp add: e lo_exit_ok_def)
    next
      case Tick
      have "lo_exit_ok (lo_addButtonToToolbar (w\<lparr>lo_retry := False\<rparr>))"
        using ok by (auto simp: lo_addButtonToToolbar_def lo_exit_ok_def createToggleButton_def split: option.splits)
      then show ?thesis using LHost Tick ok by (simp add: e)
    next
      case (Shortcut sc)
      then show ?thesis using LHost ok inv_k by (simp add: e split: option.split)
    next
      case (Invoke k)
      then show ?thesis using LHost inv_k by (simp add: e)
    next
      case (UserClosesPanel p)
      then show ?thesis using LHost ok by (simp add: e)
    qed (use LHost ok in \<open>simp_all add: e\<close>)
  next
    case LButtonClick
    then show ?thesis using ok lo_exit_ok_toggle[OF ok] by (auto simp: e split: option.split)
  next
    case (LButtonHover b)
    then show ?thesis using ok by (auto simp: e lo_button_hover_def lo_exit_ok_def split: option.splits)
  next
    case LToolbarAppears
    then show ?thesis using ok by (simp add: e lo_exit_ok_def)
  next
    case (LFire i)
    have "lo_exit_ok (initializeMarkmap cid md v) = lo_exit_ok v" for cid md v
      by (simp add: initializeMarkmap_def lo_exit_ok_def remove_esc_def Let_def split: option.splits)
    then show ?thesis using ok LFire
      by (simp add: e lo_fire_def lo_exit_ok_def split: lo_timer.split)
  next
    case (LKey k)
    then show ?thesis using ok by (simp add: e lo_exit_ok_edit)
  next
    case (LWheel c m d)
    have "lo_exit_ok (fold (\<lambda>h. wheelZoom c m d) hs v) = lo_exit_ok v" for hs :: "jstr list" and v
      by (induction hs arbitrary: v) (simp_all add: wheelZoom_def lo_rescale_def lo_exit_ok_def split: option.split)
    then show ?thesis using ok LWheel by (cases "lo_overlay w") (simp_all add: e)
  next
    case LClose
    then show ?thesis using ok by (simp add: e lo_exit_ok_edit)
  qed (use ok in \<open>simp_all add: e lo_rescale_def lo_exit_ok_def split: option.split\<close>)
qed

lemma lo_reach_exit_ok: "lo_reach (lo_init ed tb th lib fresh) w \<Longrightarrow> lo_exit_ok w"
proof (induction rule: lo_reach.induct)
  case lo_reach_init then show ?case by (simp add: lo_init_def lo_exit_ok_def)
next
  case (lo_reach_step w e) then show ?case using lo_exit_ok_step by blast
qed

text \<open>C23: In every reachable state in mind-map mode, while a command of the plugin is
  registered, invoking it leaves the mind map without unloading anything: the editor is
  shown again, and no overlay, no Markmap instance and no \<open>keydown\<close> listener of the
  plugin is left.\<close>

theorem lo_command_leaves_clean:
  assumes "lo_reach (lo_init ed tb th lib fresh) w" and "lo_mode w"
    and "map_of (h_commands (lo_host w)) k \<noteq> None"
  shows "\<not> lo_mode (lo_step w (now, LHost (Invoke k))) \<and>
    lo_overlay (lo_step w (now, LHost (Invoke k))) = None \<and>
    lo_markmap (lo_step w (now, LHost (Invoke k))) = None \<and>
    lo_keydown (lo_step w (now, LHost (Invoke k))) = [] \<and>
    (\<exists>e. lo_editor (lo_step w (now, LHost (Invoke k))) = Some e \<and> le_display e = [])"
proof -
  from assms(1) have inv: "lo_inv w" by induction (simp_all add: lo_init_inv lo_step_inv)
  from lo_reach_exit_ok[OF assms(1)] assms(2) obtain e where ed: "lo_editor w = Some e"
    by (auto simp: lo_exit_ok_def)
  have step: "lo_invoke now k w = lo_switchToEditMode w"
    using assms(2,3) by (auto simp: lo_invoke_def lo_toggleMindMapMode_def)
  show ?thesis using assms(2) ed remove_esc_keydown[OF inv]
    by (simp add: step lo_switchToEditMode_def Let_def)
qed

text \<open>The retry of \<open>addButtonToToolbar\<close> scheduled by \<open>load\<close> when the head bar was missing
  survives \<open>unload\<close>: the button appears after the plugin was unloaded, and a click on it
  enters the mind map with no command registered.\<close>

lemma lo_button_back_after_unload:
  "let w = fold (\<lambda>e w. lo_step w e) [(0, LHost (Load (js ''o''))), (1, LHost Unload), (2, LToolbarAppears),
      (3, LHost Tick), (4, LButtonClick)] lo_demo
   in lo_mode w \<and> lo_overlay w \<noteq> None \<and> h_commands (lo_host w) = []"
  by code_simp

subsection \<open>Witnesses\<close>

theorem lo_reach_listeners_witness:
  "length (lo_keydown (lo_step lo_demo (0, LHost (Load (js ''o''))))) \<le>
      (if lo_mode (lo_step lo_demo (0, LHost (Load (js ''o'')))) then 1 else 0) \<and>
   (lo_overlay (lo_step lo_demo (0, LHost (Load (js ''o'')))) \<noteq> None \<longleftrightarrow>
      lo_mode (lo_step lo_demo (0, LHost (Load (js ''o'')))))"
  unfolding lo_demo_def
  by (rule lo_reach_listeners[where ed = "Some lo_demo_editor" and tb = False and th = lo_demo_theme
      and lib = "\<lambda>md. None" and fresh = "\<lambda>t. js ''markmap-1''"]) (intro lo_reach.intros)

lemma lo_demo_extract: "lo_extractPageStructure (Some lo_demo_editor) =
    [\<lparr>pb_id = Some (js ''b1''), pb_content = js ''Hello'', pb_level = Some 0, pb_type = js ''text''\<rparr>]"
  by code_simp

lemma lo_demo_markdown:
  "lo_blocksToMarkdown [\<lparr>pb_id = Some (js ''b1''), pb_content = js ''Hello'', pb_level = Some 0, pb_type = js ''text''\<rparr>] =
   Inr (js ''# Hello'')"
  by code_simp

theorem lo_mindmap_round_trip_witness:
  "lo_markmap (lo_step (lo_toggleMindMapMode 0 lo_demo) (1, LFire 0)) =
     Some \<lparr>lm_cid = js ''markmap-1'', lm_markdown = js ''# Hello'', lm_scales = []\<rparr> \<and>
   (let w3 = lo_step (lo_step (lo_toggleMindMapMode 0 lo_demo) (1, LFire 0)) (2, LKey (js ''Escape''))
    in lo_editor w3 = Some lo_demo_editor \<and> lo_overlay w3 = None \<and> lo_keydown w3 = [] \<and>
       lo_markmap w3 = None \<and> \<not> lo_mode w3 \<and> lo_timers w3 = [])"
proof -
  have "lo_inv lo_demo" by (simp add: lo_demo_def lo_init_inv)
  moreover have "lo_blocksToMarkdown (lo_extractPageStructure (Some lo_demo_editor)) = Inr (js ''# Hello'')"
    by (simp add: lo_demo_extract lo_demo_markdown)
  moreover have "lo_extractPageStructure (Some lo_demo_editor) \<noteq> []" by (simp add: lo_demo_extract)
  ultimately show ?thesis
    using lo_mindmap_round_trip[of lo_demo lo_demo_editor "js ''# Hello''" 0 1 2]
    by (simp add: lo_demo_def lo_init_def lo_demo_editor_def)
qed

theorem lo_wrap_lines_le_50_witness:
  "sublist (js ''ab'') (lo_wrap (js ''ab'')) \<and> list_all (\<lambda>u. \<not> is_line_terminator u) (js ''ab'') \<and>
   length (js ''ab'') \<le> 50"
  using lo_wrap_lines_le_50[of "js ''ab''" "js ''ab''"]
  by (simp add: lo_wrap_def js_def is_line_terminator_def)

theorem lo_command_leaves_clean_witness:
  "lo_mode (lo_step (lo_step lo_demo (0, LHost (Load (js ''o'')))) (1, LHost (Invoke (js ''o.toggle'')))) \<and>
   map_of (h_commands (lo_host (lo_step (lo_step lo_demo (0, LHost (Load (js ''o''))))
     (1, LHost (Invoke (js ''o.toggle'')))))) (js ''o.toggle'') \<noteq> None \<and>
   \<not> lo_mode (lo_step (lo_step (lo_step lo_demo (0, LHost (Load (js ''o''))))
      (1, LHost (Invoke (js ''o.toggle'')))) (2, LHost (Invoke (js ''o.toggle'')))) \<and>
   lo_keydown (lo_step (lo_step (lo_step lo_demo (0, LHost (Load (js ''o''))))
      (1, LHost (Invoke (js ''o.toggle'')))) (2, LHost (Invoke (js ''o.toggle'')))) = []"
proof -
  let ?w = "lo_step (lo_step lo_demo (0, LHost (Load (js ''o'')))) (1, LHost (Invoke (js ''o.toggle'')))"
  have md: "lo_blocksToMarkdown (lo_extractPageStructure (Some lo_demo_editor)) = Inr (js ''# Hello'')"
    "lo_extractPageStructure (Some lo_demo_editor) \<noteq> []"
    by (simp_all add: lo_demo_extract lo_demo_markdown)
  have j: "js ''o'' @ js ''.toggle'' = js ''o.toggle''" by (simp add: js_def)
  then have m: "lo_mode ?w"
    using md by (simp add: lo_demo_def lo_init_def lo_load_def lo_invoke_def lo_toggleMindMapMode_def
      lo_switchToMindMapMode_def loon_host_def registerShortcut_def registerCommand_def fresh_host_def
      lo_addButtonToToolbar_def Let_def)
  have c: "map_of (h_commands (lo_host ?w)) (js ''o.toggle'') \<noteq> None"
    using md j by (simp add: lo_demo_def lo_init_def lo_load_def lo_invoke_def lo_toggleMindMapMode_def
      lo_switchToMindMapMode_def loon_host_def registerShortcut_def registerCommand_def fresh_host_def
      lo_addButtonToToolbar_def Let_def notify_def lo_updateButtonState_def split: option.splits)
  have r: "lo_reach (lo_init (Some lo_demo_editor) False lo_demo_theme (\<lambda>md. None) (\<lambda>t. js ''markmap-1'')) ?w"
    unfolding lo_demo_def by (intro lo_reach.intros)
  show ?thesis using m c lo_command_leaves_clean[OF r m c] by blast
qed

end
