(* ===== verification/Package_Script.thy ===== *)
theory Package_Script
  imports JS_Template
begin

text \<open>
  The packaging script \<open>src/scripts/package.js\<close>, run by Node in the project directory: it
  checks the build output, rebuilds the \<open>release\<close> directory, inlines the style sheet
  into the bundle inside a generated template literal, writes \<open>plugin.json\<close> from
  \<open>package.json\<close> and runs \<open>zip\<close> through a shell. The file system is a map from paths
  to contents; \<open>JSON.parse\<close> is the library's and its result an input (\<open>None\<close>: it throws);
  \<open>JSON.stringify\<close> with an indent of two spaces is modelled on the JSON values of the
  package file (integral numbers). The outcome is the exit with status 1, an uncaught
  exception after the files written so far, or the finished file system with the
  shell command passed to \<open>execSync\<close>. Console output is not modelled.
\<close>

type_synonym pkg_fs = "jstr \<Rightarrow> jstr option"

datatype json = JSNull | JSBool bool | JSNum int | JSStr jstr | JSArr "json list" | JSObj "(jstr \<times> json) list"

datatype pkg_outcome = Exit1 "jstr list" | Crash pkg_fs | Done pkg_fs jstr

definition requiredFiles :: "jstr list" where
  "requiredFiles = [js ''dist/index.js'', js ''icon.png'', js ''package.json'']"

text \<open>\<open>fs.rmSync(releaseDir, {recursive: true, force: true})\<close>: everything below
  \<open>release/\<close> goes.\<close>

definition rm_release :: "pkg_fs \<Rightarrow> pkg_fs" where
  "rm_release fs = (\<lambda>p. if starts_with p (js ''release/'') then None else fs p)"

definition copyFile :: "jstr \<Rightarrow> jstr \<Rightarrow> pkg_fs \<Rightarrow> pkg_fs" where
  "copyFile src dst fs = fs(dst := fs src)"

text \<open>The bundle with the style sheet in front (lines 42 to 50).\<close>

definition inlineStyleCode :: "jstr \<Rightarrow> jstr \<Rightarrow> jstr" where
  "inlineStyleCode css jsc =
     js ''\<newline>'' @
     js ''// '' @ [0x6CE8, 0x5165, 0x6837, 0x5F0F] @ js ''\<newline>'' @
     js ''(function() {\<newline>'' @
     js ''  const style = document.createElement('' @ [0x0027] @ js ''style'' @ [0x0027] @ js '');\<newline>'' @
     js ''  style.textContent = `'' @
     esc_backticks css @
     js ''`;\<newline>'' @
     js ''  document.head.appendChild(style);\<newline>'' @
     js ''})();\<newline>'' @
     js ''\<newline>'' @
     jsc"

text \<open>\<open>JSON.stringify\<close> of a string: quotes, the short escapes, \<open>\u00XX\<close> for the other
  control characters and \<open>\uDXXX\<close> for lone surrogates, in lower-case hex.\<close>

definition hex4 :: "code_unit \<Rightarrow> jstr" where
  "hex4 c = map (\<lambda>k. let d = (unat c div 16 ^ k) mod 16 in if d < 10 then of_nat (48 + d) else of_nat (87 + d))
     [3, 2, 1, 0]"

definition is_high :: "code_unit \<Rightarrow> bool" where
  "is_high c \<longleftrightarrow> 0xD800 \<le> c \<and> c \<le> 0xDBFF"

definition is_low :: "code_unit \<Rightarrow> bool" where
  "is_low c \<longleftrightarrow> 0xDC00 \<le> c \<and> c \<le> 0xDFFF"

fun json_chars :: "jstr \<Rightarrow> jstr" where
  "json_chars [] = []"
| "json_chars (c # cs) =
     (if is_high c \<and> cs \<noteq> [] \<and> is_low (hd cs) then c # hd cs # json_chars (tl cs)
      else (if c = 0x22 then [0x5C, 0x22] else if c = 0x5C then [0x5C, 0x5C]
            else if c = 0x08 then [0x5C, 0x62] else if c = 0x0C then [0x5C, 0x66]
            else if c = 0x0A then [0x5C, 0x6E] else if c = 0x0D then [0x5C, 0x72] else if c = 0x09 then [0x5C, 0x74]
            else if c < 0x20 \<or> is_high c \<or> is_low c then [0x5C, 0x75] @ hex4 c
            else [c]) @ json_chars cs)"

definition json_quote :: "jstr \<Rightarrow> jstr" where
  "json_quote s = [0x22] @ json_chars s @ [0x22]"

text \<open>\<open>JSON.stringify(v, null, 2)\<close> at an indentation.\<close>

fun json_str :: "jstr \<Rightarrow> json \<Rightarrow> jstr" where
  "json_str ind JSNull = js ''null''"
| "json_str ind (JSBool b) = (if b then js ''true'' else js ''false'')"
| "json_str ind (JSNum n) = int_str n"
| "json_str ind (JSStr s) = json_quote s"
| "json_str ind (JSArr vs) =
     (if vs = [] then js ''[]''
      else js ''['' @ [0x0A] @ ind @ js ''  '' @
           js_join ([0x2C, 0x0A] @ ind @ js ''  '') (map (json_str (ind @ js ''  '')) vs) @
           [0x0A] @ ind @ js '']'')"
| "json_str ind (JSObj kvs) =
     (if kvs = [] then js ''{}''
      else js ''{'' @ [0x0A] @ ind @ js ''  '' @
           js_join ([0x2C, 0x0A] @ ind @ js ''  '')
             (map (\<lambda>(k, v). json_quote k @ js '': '' @ json_str (ind @ js ''  '') v) kvs) @
           [0x0A] @ ind @ js ''}'')"

text \<open>\<open>String(v)\<close> of a parsed JSON value.\<close>

fun json_String :: "json \<Rightarrow> jstr" where
  "json_String JSNull = js ''null''"
| "json_String (JSBool b) = (if b then js ''true'' else js ''false'')"
| "json_String (JSNum n) = int_str n"
| "json_String (JSStr s) = s"
| "json_String (JSArr vs) = js_join [0x2C] (map (\<lambda>v. if v = JSNull then [] else json_String v) vs)"
| "json_String (JSObj kvs) = js ''[object Object]''"

text \<open>\<open>packageInfo[key]\<close> (lines 59 to 62): the last binding of an object, \<open>undefined\<close>
  (\<open>None\<close>) on other values, a \<open>TypeError\<close> (\<open>Inl\<close>) on \<open>null\<close>.\<close>

definition json_get :: "json \<Rightarrow> jstr \<Rightarrow> unit + json option" where
  "json_get v k = (case v of JSNull \<Rightarrow> Inl () | JSObj kvs \<Rightarrow> Inr (map_of (rev kvs) k) | _ \<Rightarrow> Inr None)"

text \<open>\<open>pluginInfo\<close> (lines 58 to 63) as the object \<open>JSON.stringify\<close> sees: properties whose
  value is \<open>undefined\<close> are left out.\<close>

definition pluginInfo :: "json \<Rightarrow> unit + json" where
  "pluginInfo p =
     (if p = JSNull then Inl ()
      else Inr (JSObj (List.map_filter (\<lambda>k. map_option (Pair k) (projr (json_get p k)))
                         [js ''name'', js ''version'', js ''description'', js ''orca''])))"

text \<open>The command of line 96: the version is pasted into the shell command unquoted.\<close>

definition zip_command :: "json option \<Rightarrow> jstr" where
  "zip_command v =
     js ''cd release && zip -r ../outline-plugin-v'' @ (case v of None \<Rightarrow> js ''undefined'' | Some x \<Rightarrow> json_String x) @
     js ''.zip .''"

text \<open>The script (lines 9 to 100).\<close>

definition package_run :: "pkg_fs \<Rightarrow> (jstr \<Rightarrow> json option) \<Rightarrow> pkg_outcome" where
  "package_run fs parse =
     (let missing = filter (\<lambda>f. fs f = None) requiredFiles in
      if missing \<noteq> [] then Exit1 missing
      else
        (let fs1 = copyFile (js ''icon.png'') (js ''release/icon.png'')
                     (copyFile (js ''dist/index.js'') (js ''release/index.js'') (rm_release fs));
             fs2 = (case fs1 (js ''dist/style.css'') of
                      None \<Rightarrow> fs1
                    | Some css \<Rightarrow> fs1(js ''release/index.js'' :=
                                   Some (inlineStyleCode css (the (fs1 (js ''release/index.js''))))))
         in case parse (the (fs2 (js ''package.json''))) of
              None \<Rightarrow> Crash fs2
            | Some p \<Rightarrow>
                (case pluginInfo p of
                   Inl u \<Rightarrow> Crash fs2
                 | Inr info \<Rightarrow>
                     (let fs3 = fs2(js ''release/plugin.json'' := Some (json_str [] info));
                          fs4 = (if fs3 (js ''README.md'') \<noteq> None
                                 then copyFile (js ''README.md'') (js ''release/README.md'') fs3 else fs3)
                      in Done fs4 (zip_command (projr (json_get p (js ''version''))))))))"

text \<open>A project with a bundle, an icon, a style sheet and an empty \<open>package.json\<close>.\<close>

definition demo_fs :: pkg_fs where
  "demo_fs = (\<lambda>p. if p = js ''dist/index.js'' then Some (js ''x'') else if p = js ''icon.png'' then Some []
     else if p = js ''package.json'' then Some (js ''{}'') else if p = js ''dist/style.css'' then Some (js ''a{}'')
     else None)"

subsection \<open>Proofs\<close>

text \<open>The script exits with status 1 exactly when a required file is missing, naming the
  missing ones, before it touches the file system.\<close>

theorem package_run_exit1:
  "package_run fs parse = Exit1 m \<longleftrightarrow> m = filter (\<lambda>f. fs f = None) requiredFiles \<and> m \<noteq> []"
  by (auto simp: package_run_def Let_def split: option.split sum.split)

lemma rm_release_keeps: "\<not> starts_with p (js ''release/'') \<Longrightarrow> rm_release fs p = fs p"
  by (simp add: rm_release_def)

text \<open>C18: When the packaging finishes and the style sheet has no backslash, no CR and no
  \<open>${\<close>, the bundle starts with a template literal whose value is exactly the style sheet.\<close>

theorem package_run_style:
  assumes run: "package_run fs parse = Done fs' cmd" and css: "fs (js ''dist/style.css'') = Some css"
    and plain: "0x5C \<notin> set css" "0x0D \<notin> set css" "\<not> sublist [0x24, 0x7B] css"
  shows "fs' (js ''release/index.js'') = Some (inlineStyleCode css (the (fs (js ''dist/index.js'')))) \<and>
    cook_template (esc_backticks css) = Some css"
proof -
  have "filter (\<lambda>f. fs f = None) requiredFiles = []"
    using run by (auto simp: package_run_def Let_def split: if_splits)
  have keep: "rm_release fs (js ''dist/style.css'') = Some css" "rm_release fs (js ''dist/index.js'') = fs (js ''dist/index.js'')"
    using css by (simp_all add: rm_release_def js_def)
  have "fs' (js ''release/index.js'') = Some (inlineStyleCode css (the (fs (js ''dist/index.js''))))"
    using run keep
    by (auto simp: package_run_def Let_def copyFile_def js_def split: if_splits option.splits sum.splits)
  then show ?thesis using cook_esc_backticks[OF plain] by simp
qed

text \<open>A style sheet with a backslash escape, as icon fonts use, does not survive: in the
  generated literal \<open>\f\<close> is a form feed.\<close>

lemma icon_css_corrupted:
  \<open>cook_template (esc_backticks (js ''content: "'' @ [0x5C] @ js ''f1c4";'')) =
   Some (js ''content: "'' @ [0x0C] @ js ''1c4";'')\<close>
  by code_simp

text \<open>A version from \<open>package.json\<close> is pasted into the shell command as it is.\<close>

lemma zip_command_injects:
  "zip_command (Some (JSStr (js ''1.0; touch x; #''))) = js ''cd release && zip -r ../outline-plugin-v1.0; touch x; #.zip .''"
  by (simp add: zip_command_def js_def)

lemma plugin_json_example:
  \<open>json_str [] (JSObj [(js ''name'', JSStr (js ''outline'')), (js ''version'', JSStr (js ''1.0.0''))]) =
   js ''{'' @ [0x0A] @ js ''  "name": "outline",'' @ [0x0A] @ js ''  "version": "1.0.0"'' @ [0x0A] @ js ''}''\<close>
  by code_simp

theorem package_run_style_witness:
  "\<exists>fs' cmd. package_run demo_fs (\<lambda>t. Some (JSObj [])) = Done fs' cmd \<and>
     fs' (js ''release/index.js'') = Some (inlineStyleCode (js ''a{}'') (js ''x'')) \<and>
     cook_template (esc_backticks (js ''a{}'')) = Some (js ''a{}'')"
proof -
  obtain fs' cmd where run: "package_run demo_fs (\<lambda>t. Some (JSObj [])) = Done fs' cmd"
    by (simp add: package_run_def demo_fs_def requiredFiles_def Let_def pluginInfo_def js_def)
  have "demo_fs (js ''dist/style.css'') = Some (js ''a{}'')" "the (demo_fs (js ''dist/index.js'')) = js ''x''"
    by (simp_all add: demo_fs_def js_def)
  moreover have "0x5C \<notin> set (js ''a{}'')" "0x0D \<notin> set (js ''a{}'')" "\<not> sublist [0x24, 0x7B] (js ''a{}'')"
    by (simp_all add: js_def sublist_Cons_right)
  ultimately show ?thesis using run package_run_style[OF run] by auto
qed

end
