(* ===== verification/Unit_Tests.thy ===== *)
theory Unit_Tests
  imports Tree_Builder
begin

text \<open>
  The unit tests of \<open>src/src/__tests__/helpers.test.ts\<close>, run against the model of
  \<open>src/src/utils/helpers.ts\<close>. Each \<open>test(...)\<close> is a boolean: the conjunction of its
  \<open>expect\<close> assertions in the order the test makes them, \<open>False\<close> when the call under
  test does not return. The fixtures of the buildTree and findRootBlocks tests are
  \<open>tree_test_blocks\<close>, \<open>root_test_blocks\<close> and \<open>missing_test_blocks\<close> of
  \<open>Tree_Builder\<close>; the sanitizer tests' inputs are spelled out here as UTF-16 code units.
  The lemmas evaluate every test: the first five pass, the missing-block test and both
  table-filter tests fail against the code.
\<close>

text \<open>\<open>s.endsWith(k)\<close>.\<close>

definition js_endsWith :: "jstr \<Rightarrow> jstr \<Rightarrow> bool" where
  "js_endsWith s k \<longleftrightarrow> length k \<le> length s \<and> drop (length s - length k) s = k"

text \<open>Lines 6 to 23: the tree of the four-block fixture.\<close>

definition test_buildTree_structure :: bool where
  "test_buildTree_structure =
     (case buildTree (js ''1'') tree_test_blocks 0 of
        None \<Rightarrow> False
      | Some t \<Rightarrow>
          node_id t = js ''1'' \<and> content t = [0x6839, 0x8282, 0x70B9] \<and>
          length (node_children t) = 2 \<and>
          content (node_children t ! 0) = [0x5B50, 0x8282, 0x70B9] @ js ''1'' \<and>
          content (node_children t ! 1) = [0x5B50, 0x8282, 0x70B9] @ js ''2'' \<and>
          length (node_children (node_children t ! 1)) = 1 \<and>
          content (node_children (node_children t ! 1) ! 0) = [0x5B59, 0x8282, 0x70B9])"

text \<open>Line 26: \<open>maliciousInput\<close>.\<close>

definition malicious_input :: jstr where
  \<open>malicious_input = js ''<script>alert("xss")</script>'' @ [0x6B63, 0x5E38, 0x5185, 0x5BB9] @
     js ''<iframe>test</iframe>''\<close>

text \<open>Lines 25 to 32: script and iframe blocks are removed.\<close>

definition test_sanitize_malicious :: bool where
  "test_sanitize_malicious =
     (let cleaned = sanitizeInput (JString malicious_input) in
      cleaned = [0x6B63, 0x5E38, 0x5185, 0x5BB9] \<and>
      \<not> js_includes cleaned (js ''<script>'') \<and> \<not> js_includes cleaned (js ''<iframe>''))"

text \<open>Lines 34 to 40: \<open>'a'.repeat(300)\<close> is cut to 200 code units ending in \<open>...\<close>.\<close>

definition test_truncate_long :: bool where
  "test_truncate_long =
     (let cleaned = sanitizeInput (JString (replicate 300 0x61)) in
      length cleaned = 200 \<and> js_endsWith cleaned (js ''...''))"

text \<open>Lines 42 to 55: the roots of the three-block fixture.\<close>

definition test_findRootBlocks :: bool where
  "test_findRootBlocks =
     (let roots = findRootBlocks root_test_blocks in
      length roots = 2 \<and> js ''1'' \<in> set roots \<and> js ''3'' \<in> set roots \<and>
      js ''2'' \<notin> set roots)"

text \<open>Lines 57 to 62: the empty string, \<open>null\<close>, \<open>undefined\<close> and \<open>123\<close>.\<close>

definition test_invalid_input :: bool where
  "test_invalid_input \<longleftrightarrow>
     sanitizeInput (JString []) = [] \<and> sanitizeInput JNull = [] \<and>
     sanitizeInput JUndefined = [] \<and> sanitizeInput (JNumber 123) = []"

text \<open>Lines 64 to 74: a missing key gives the placeholder content U+672A U+77E5 U+5757.\<close>

definition test_missing_block :: bool where
  "test_missing_block =
     (case buildTree (js ''999'') missing_test_blocks 0 of
        None \<Rightarrow> False
      | Some t \<Rightarrow> node_id t = js ''999'' \<and> content t = [0x672A, 0x77E5, 0x5757] \<and>
                  node_children t = [])"

text \<open>Lines 77 to 86: \<open>inputWithTable\<close>, the template literal with its newlines and
  indentation.\<close>

definition table_input :: jstr where
  \<open>table_input = js ''\<newline>    '' @ [0x666E, 0x901A, 0x6587, 0x672C, 0x5185, 0x5BB9] @
     js ''\<newline>    <div class="orca-no-editable-container">\<newline>      <div class="orca-table2">\<newline>        <div class="orca-table2-cell">'' @
     [0x8868, 0x683C, 0x5185, 0x5BB9] @
     js ''1</div>\<newline>        <div class="orca-table2-cell">'' @
     [0x8868, 0x683C, 0x5185, 0x5BB9] @
     js ''2</div>\<newline>      </div>\<newline>    </div>\<newline>    '' @
     [0x66F4, 0x591A, 0x666E, 0x901A, 0x6587, 0x672C] @ js ''\<newline>    ''\<close>

text \<open>Lines 76 to 96: the plain text stays, the table markup and its cell text go.\<close>

definition test_table_filter :: bool where
  "test_table_filter =
     (let cleaned = sanitizeInput (JString table_input) in
      js_includes cleaned [0x666E, 0x901A, 0x6587, 0x672C, 0x5185, 0x5BB9] \<and>
      js_includes cleaned [0x66F4, 0x591A, 0x666E, 0x901A, 0x6587, 0x672C] \<and>
      \<not> js_includes cleaned (js ''orca-no-editable-container'') \<and>
      \<not> js_includes cleaned (js ''orca-table2'') \<and>
      \<not> js_includes cleaned ([0x8868, 0x683C, 0x5185, 0x5BB9] @ js ''1'') \<and>
      \<not> js_includes cleaned ([0x8868, 0x683C, 0x5185, 0x5BB9] @ js ''2''))"

text \<open>Lines 99 to 107: \<open>complexTable\<close>.\<close>

definition complex_table_input :: jstr where
  \<open>complex_table_input = js ''\<newline>    '' @ [0x6B63, 0x5E38, 0x5185, 0x5BB9] @
     js ''\<newline>    <div class="orca-table2-cell orca-table2-hl orca-table2-vc">\<newline>      <div class="orca-container orca-block">\<newline>        <span class="orca-inline">'' @
     [0x9636, 0x6BB5] @
     js ''</span>\<newline>      </div>\<newline>    </div>\<newline>    '' @
     [0x7ED3, 0x675F, 0x5185, 0x5BB9] @ js ''\<newline>    ''\<close>

text \<open>Lines 98 to 115: the text around a table cell stays, the cell and its text go.\<close>

definition test_complex_table :: bool where
  "test_complex_table =
     (let cleaned = sanitizeInput (JString complex_table_input) in
      js_includes cleaned [0x6B63, 0x5E38, 0x5185, 0x5BB9] \<and>
      js_includes cleaned [0x7ED3, 0x675F, 0x5185, 0x5BB9] \<and>
      \<not> js_includes cleaned (js ''orca-table2-cell'') \<and>
      \<not> js_includes cleaned [0x9636, 0x6BB5])"

text \<open>The \<open>describe\<close> block (lines 5 to 116): the verdicts of its tests in file order.\<close>

definition helpers_test_suite :: "bool list" where
  "helpers_test_suite =
     [test_buildTree_structure, test_sanitize_malicious, test_truncate_long, test_findRootBlocks,
      test_invalid_input, test_missing_block, test_table_filter, test_complex_table]"

subsection \<open>Evaluating the sanitizer on the test inputs\<close>

text \<open>None of the test inputs holds a \<open>j\<close> or \<open>J\<close>, so the \<open>javascript:\<close> stage
  leaves them alone; the remaining stages run by evaluation.\<close>

lemma ci_eq_j: "ci_eq c 0x6A \<longleftrightarrow> c = 0x6A \<or> c = 0x4A"
proof -
  have "c - 0x20 = 0x4A \<longleftrightarrow> c = (0x6A::code_unit)" by (auto simp: diff_eq_eq)
  then show ?thesis by (auto simp: ci_eq_def ascii_upper_def)
qed

lemma strip_js_uri_no_j:
  assumes "0x6A \<notin> set s" and "0x4A \<notin> set s"
  shows "strip_js_uri s = s"
proof (rule strip_js_uri_id)
  have "\<forall>c \<in> set s. \<not> ci_eq c 0x6A" using assms by (auto simp: ci_eq_j)
  then show "\<not> includes_ci (js ''javascript:'') s"
    using includes_ci_no_head[of s "0x6A"] by (simp add: js_def)
qed

lemma sanitizeInput_no_j:
  assumes "s \<noteq> []" and "0x6A \<notin> set s" and "0x4A \<notin> set s"
  shows "sanitizeInput (JString s) =
    js_trim (truncate_display (collapse_ws (strip_tags
      (strip_block (js ''iframe'') (strip_block (js ''script'') s)))))"
proof -
  let ?t = "strip_block (js ''iframe'') (strip_block (js ''script'') s)"
  have "set ?t \<subseteq> set s" using set_strip_block by (meson order_trans)
  then have "strip_js_uri ?t = ?t" using assms(2,3) by (blast intro: strip_js_uri_no_j)
  then show ?thesis using assms(1)
    by (simp add: sanitizeInput_JString sanitize_string_def normalize_markup_def)
qed

lemma sanitize_malicious_input:
  "sanitizeInput (JString malicious_input) = [0x6B63, 0x5E38, 0x5185, 0x5BB9]"
  by (simp add: malicious_input_def sanitize_eval)

lemma sanitize_table_input:
  "sanitizeInput (JString table_input) =
     [0x666E, 0x901A, 0x6587, 0x672C, 0x5185, 0x5BB9, 0x20, 0x8868, 0x683C, 0x5185, 0x5BB9, 0x31,
      0x20, 0x8868, 0x683C, 0x5185, 0x5BB9, 0x32, 0x20, 0x66F4, 0x591A, 0x666E, 0x901A, 0x6587,
      0x672C]"
  by (subst sanitizeInput_no_j; simp add: table_input_def js_def; code_simp)

lemma sanitize_complex_table_input:
  "sanitizeInput (JString complex_table_input) =
     [0x6B63, 0x5E38, 0x5185, 0x5BB9, 0x20, 0x9636, 0x6BB5, 0x20, 0x7ED3, 0x675F, 0x5185, 0x5BB9]"
  by (subst sanitizeInput_no_j; simp add: complex_table_input_def js_def; code_simp)

lemma sanitize_repeat_a:
  "sanitizeInput (JString (replicate 300 0x61)) = replicate 197 0x61 @ js ''...''"
proof -
  have p: "plain_text (replicate 300 0x61)"
    unfolding plain_text_def
    by (auto simp: js_def js_eval intro!: includes_ci_no_head ws_normal_no_space)
  have "sanitizeInput (JString (replicate 300 0x61)) = js_trim (take 197 (replicate 300 0x61) @ js ''...'')"
    by (simp add: sanitizeInput_JString sanitize_string_def normalize_markup_plain[OF p]
        truncate_display_def)
  also have "\<dots> = replicate 197 0x61 @ js ''...''"
    by (simp add: js_trim_append_dots js_eval)
  finally show ?thesis .
qed

subsection \<open>The verdict of each test\<close>

lemma test_buildTree_structure_passes: "test_buildTree_structure"
  unfolding test_buildTree_structure_def buildTree_test_example by (simp add: js_def)

lemma test_sanitize_malicious_passes: "test_sanitize_malicious"
  by (simp add: test_sanitize_malicious_def sanitize_malicious_input js_def)

lemma test_truncate_long_passes: "test_truncate_long"
  by (simp add: test_truncate_long_def sanitize_repeat_a js_endsWith_def js_def)

lemma test_findRootBlocks_passes: "test_findRootBlocks"
  by (simp add: test_findRootBlocks_def findRootBlocks_test_example js_def)

lemma test_invalid_input_passes: "test_invalid_input"
  by (simp add: test_invalid_input_def sanitizeInput_def)

text \<open>The missing key's node has the empty string as content, not the placeholder.\<close>

lemma test_missing_block_fails: "\<not> test_missing_block"
proof -
  have "obj_get missing_test_blocks (js ''999'') = None"
    by (simp add: missing_test_blocks_def obj_get_def js_def)
  then show ?thesis
    by (simp add: test_missing_block_def buildTree_missing_eq invalid_node_def)
qed

text \<open>Tag removal keeps the text between the tags, the cell text included.\<close>

lemma test_table_filter_fails: "\<not> test_table_filter"
  by (simp add: test_table_filter_def sanitize_table_input js_def)

lemma test_complex_table_fails: "\<not> test_complex_table"
  by (simp add: test_complex_table_def sanitize_complex_table_input js_def)

text \<open>Run against the code, the eight tests of helpers.test.ts give: the tree, the
  script and iframe removal, the truncation, the roots and the invalid inputs pass; the
  missing-block test (placeholder content) and both table-filter tests (cell text removed)
  fail.\<close>

theorem helpers_test_verdicts:
  "helpers_test_suite = [True, True, True, True, True, False, False, False]"
  by (simp add: helpers_test_suite_def test_buildTree_structure_passes
      test_sanitize_malicious_passes test_truncate_long_passes test_findRootBlocks_passes
      test_invalid_input_passes test_missing_block_fails test_table_filter_fails
      test_complex_table_fails)

end
