(* ===== verification/Jest_Config.thy ===== *)
theory Jest_Config
  imports Unit_Tests Plugin_Main JS_Template
begin

text \<open>
  The test tooling: \<open>src/jest.config.js\<close> as a record, the selection of test files
  (\<open>testMatch\<close>) and of coverage files (\<open>collectCoverageFrom\<close>) by glob matching on
  the repository's paths, the setup file \<open>src/src/__tests__/setup.ts\<close> that Jest runs
  before each test file (\<open>setupFilesAfterEnv\<close>), and a run of the suite that composes
  them with the verdicts of \<open>Unit_Tests\<close>.
  Jest's own behaviour enters as library semantics, from its documentation: glob
  patterns as micromatch reads them (\<open>**\<close> any number of path segments, \<open>*\<close> any part
  of one segment, \<open>{a,b}\<close> alternatives; no path of the repository starts with a dot,
  so the dot-file rule never applies), \<open><rootDir>\<close> the directory of the config,
  \<open>jest.mock\<close> hoisted above the rest of its file and resolving its module path, and
  the \<open>node\<close> test environment defining no \<open>window\<close> global.
\<close>

subsection \<open>The configuration\<close>

record jest_config =
  jc_keys :: "jstr list"
  jc_preset :: jstr
  jc_testEnvironment :: jstr
  jc_setupFilesAfterEnv :: "jstr list"
  jc_collectCoverageFrom :: "jstr list"
  jc_testMatch :: "jstr list"

text \<open>The exported object of \<open>jest.config.js\<close> (lines 1 to 18): its keys in order and
  the values Jest reads. The \<open>moduleNameMapping\<close> object maps \<open>^@/(.*)$\<close> to
  \<open><rootDir>/src/$1\<close>; no option of Jest has that name.\<close>

definition jest_config_js :: jest_config where
  "jest_config_js =
     \<lparr>jc_keys = [js ''preset'', js ''testEnvironment'', js ''setupFilesAfterEnv'',
                js ''moduleNameMapping'', js ''collectCoverageFrom'', js ''testMatch''],
      jc_preset = js ''ts-jest'',
      jc_testEnvironment = js ''node'',
      jc_setupFilesAfterEnv = [js ''<rootDir>/src/__tests__/setup.ts''],
      jc_collectCoverageFrom = [js ''src/**/*.{ts,tsx}'', js ''!src/**/*.test.{ts,tsx}'',
                                js ''!src/__tests__/**/*'', js ''!src/types.ts''],
      jc_testMatch = [js ''<rootDir>/src/**/__tests__/**/*.test.{ts,tsx}'',
                      js ''<rootDir>/src/**/*.test.{ts,tsx}'']\<rparr>"

text \<open>The top-level options Jest's configuration accepts; any other key is reported
  as unknown and ignored.\<close>

definition jest_options :: "jstr list" where
  "jest_options = map js
     [''automock'', ''bail'', ''cacheDirectory'', ''clearMocks'', ''collectCoverage'',
      ''collectCoverageFrom'', ''coverageDirectory'', ''coveragePathIgnorePatterns'',
      ''coverageProvider'', ''coverageReporters'', ''coverageThreshold'', ''dependencyExtractor'',
      ''displayName'', ''errorOnDeprecated'', ''extensionsToTreatAsEsm'', ''fakeTimers'',
      ''forceCoverageMatch'', ''globals'', ''globalSetup'', ''globalTeardown'', ''haste'',
      ''injectGlobals'', ''maxConcurrency'', ''maxWorkers'', ''moduleDirectories'',
      ''moduleFileExtensions'', ''moduleNameMapper'', ''modulePathIgnorePatterns'', ''modulePaths'',
      ''notify'', ''notifyMode'', ''openHandlesTimeout'', ''preset'', ''prettierPath'', ''projects'',
      ''randomize'', ''reporters'', ''resetMocks'', ''resetModules'', ''resolver'', ''restoreMocks'',
      ''rootDir'', ''roots'', ''runner'', ''sandboxInjectedGlobals'', ''setupFiles'',
      ''setupFilesAfterEnv'', ''showSeed'', ''slowTestThreshold'', ''snapshotFormat'',
      ''snapshotResolver'', ''snapshotSerializers'', ''testEnvironment'', ''testEnvironmentOptions'',
      ''testFailureExitCode'', ''testMatch'', ''testPathIgnorePatterns'', ''testRegex'',
      ''testResultsProcessor'', ''testRunner'', ''testSequencer'', ''testTimeout'', ''transform'',
      ''transformIgnorePatterns'', ''unmockedModulePathPatterns'', ''verbose'',
      ''watchPathIgnorePatterns'', ''watchPlugins'', ''watchman'', ''workerIdleMemoryLimit'',
      ''workerThreads'']"

definition unknown_options :: "jest_config \<Rightarrow> jstr list" where
  "unknown_options cfg = filter (\<lambda>k. k \<notin> set jest_options) (jc_keys cfg)"

subsection \<open>Glob patterns\<close>

datatype glob_atom = GUnit code_unit | GStar | GAlt "jstr list"

datatype glob_seg = GGlobstar | GSeg "glob_atom list"

text \<open>One path segment of a pattern: \<open>*\<close>, a \<open>{...}\<close> group with a closing brace, or a
  literal code unit.\<close>

fun parse_atoms :: "jstr \<Rightarrow> glob_atom list" where
  "parse_atoms [] = []"
| "parse_atoms (c # cs) =
     (if c = 0x2A then GStar # parse_atoms cs
      else if c = 0x7B \<and> 0x7D \<in> set cs
      then GAlt (split_on 0x2C (takeWhile (\<lambda>x. x \<noteq> 0x7D) cs)) #
             parse_atoms (drop (Suc (length (takeWhile (\<lambda>x. x \<noteq> 0x7D) cs))) cs)
      else GUnit c # parse_atoms cs)"

text \<open>\<open><rootDir>/\<close> names the directory of the config, the root of the paths below.\<close>

definition strip_rootdir :: "jstr \<Rightarrow> jstr" where
  "strip_rootdir p = (if starts_with p (js ''<rootDir>/'') then drop 10 p else p)"

definition parse_glob :: "jstr \<Rightarrow> glob_seg list" where
  "parse_glob p = map (\<lambda>s. if s = js ''**'' then GGlobstar else GSeg (parse_atoms s))
                      (split_on 0x2F (strip_rootdir p))"

fun atoms_match :: "glob_atom list \<Rightarrow> jstr \<Rightarrow> bool" where
  "atoms_match [] s = (s = [])"
| "atoms_match (GUnit c # as) s = (case s of [] \<Rightarrow> False | x # xs \<Rightarrow> x = c \<and> atoms_match as xs)"
| "atoms_match (GStar # as) s = list_ex (\<lambda>i. atoms_match as (drop i s)) [0..<Suc (length s)]"
| "atoms_match (GAlt alts # as) s =
     list_ex (\<lambda>a. starts_with s a \<and> atoms_match as (drop (length a) s)) alts"

fun segs_match :: "glob_seg list \<Rightarrow> jstr list \<Rightarrow> bool" where
  "segs_match [] ps = (ps = [])"
| "segs_match (GGlobstar # gs) ps = list_ex (\<lambda>i. segs_match gs (drop i ps)) [0..<Suc (length ps)]"
| "segs_match (GSeg a # gs) ps =
     (case ps of [] \<Rightarrow> False | p # ps' \<Rightarrow> atoms_match a p \<and> segs_match gs ps')"

definition glob_match :: "jstr \<Rightarrow> jstr \<Rightarrow> bool" where
  "glob_match pat path = segs_match (parse_glob pat) (split_on 0x2F path)"

text \<open>The files Jest runs as tests: those a \<open>testMatch\<close> pattern matches.\<close>

definition jest_test_files :: "jest_config \<Rightarrow> jstr list \<Rightarrow> jstr list" where
  "jest_test_files cfg fs = filter (\<lambda>f. list_ex (\<lambda>g. glob_match g f) (jc_testMatch cfg)) fs"

text \<open>The files coverage is collected from: matched by a pattern and by no negated
  (\<open>!\<close>) pattern.\<close>

definition jest_coverage_files :: "jest_config \<Rightarrow> jstr list \<Rightarrow> jstr list" where
  "jest_coverage_files cfg fs =
     filter (\<lambda>f. list_ex (\<lambda>g. \<not> starts_with g (js ''!'') \<and> glob_match g f) (jc_collectCoverageFrom cfg) \<and>
                 \<not> list_ex (\<lambda>g. starts_with g (js ''!'') \<and> glob_match (drop 1 g) f)
                          (jc_collectCoverageFrom cfg)) fs"

subsection \<open>The setup file\<close>

text \<open>A relative module path resolved against a directory: \<open>.\<close> stays, \<open>..\<close> goes up.\<close>

fun norm_segs :: "jstr list \<Rightarrow> jstr list \<Rightarrow> jstr list" where
  "norm_segs acc [] = rev acc"
| "norm_segs acc (s # ss) =
     (if s = js ''..'' then norm_segs (drop 1 acc) ss
      else if s = js ''.'' then norm_segs acc ss
      else norm_segs (s # acc) ss)"

definition resolve_rel :: "jstr \<Rightarrow> jstr \<Rightarrow> jstr" where
  "resolve_rel dir rel = js_join (js ''/'') (norm_segs [] (split_on 0x2F dir @ split_on 0x2F rel))"

text \<open>The test environments: \<open>jsdom\<close> defines \<open>window\<close>, \<open>node\<close> does not.\<close>

definition env_has_window :: "jstr \<Rightarrow> bool" where
  "env_has_window env \<longleftrightarrow> env = js ''jsdom''"

datatype setup_error = CannotFindModule jstr jstr | ReferenceError jstr

text \<open>\<open>mockOrca\<close> (lines 4 to 37) as the host it stands for: no blocks and API version
  \<open>1.5.0\<close>; its registries start empty (every function is a \<open>jest.fn()\<close>).\<close>

definition setup_mock_host :: "'h host" where
  "setup_mock_host = fresh_host (Some []) (Some (js ''1.5.0''))"

text \<open>\<open>setup.ts\<close> in a test environment, given the repository's files: the hoisted
  \<open>jest.mock('../styles/main.css', ...)\<close> of line 46 resolves its module first, then
  \<open>Object.defineProperty(window, 'orca', ...)\<close> (lines 40 to 43) reads the global
  \<open>window\<close>; the result is the host installed as \<open>window.orca\<close>.\<close>

definition setup_ts :: "jstr \<Rightarrow> jstr list \<Rightarrow> setup_error + 'h host" where
  "setup_ts env fs =
     (if resolve_rel (js ''src/__tests__'') (js ''../styles/main.css'') \<notin> set fs
      then Inl (CannotFindModule (js ''../styles/main.css'') (js ''src/__tests__/setup.ts''))
      else if \<not> env_has_window env then Inl (ReferenceError (js ''window is not defined''))
      else Inr setup_mock_host)"

subsection \<open>A run of the suite\<close>

datatype suite_result = SuiteError setup_error | Verdicts "bool list" | NotModelled

fun suite_ran :: "suite_result \<Rightarrow> bool" where
  "suite_ran (SuiteError e) = False"
| "suite_ran (Verdicts vs) = True"
| "suite_ran NotModelled = True"

text \<open>\<open>jest\<close> on the repository: each selected test file after the setup files; a setup
  file that throws fails the whole file before any test runs. Only helpers.test.ts has
  a model of its tests.\<close>

definition run_test_file :: "jstr \<Rightarrow> suite_result" where
  "run_test_file f =
     (if f = js ''src/__tests__/helpers.test.ts'' then Verdicts helpers_test_suite else NotModelled)"

definition jest_run :: "jest_config \<Rightarrow> jstr list \<Rightarrow> (jstr \<times> suite_result) list" where
  "jest_run cfg fs =
     map (\<lambda>f. (f,
        if js ''<rootDir>/src/__tests__/setup.ts'' \<in> set (jc_setupFilesAfterEnv cfg)
        then (case (setup_ts (jc_testEnvironment cfg) fs :: setup_error + unit host) of
                Inl e \<Rightarrow> SuiteError e
              | Inr h \<Rightarrow> run_test_file f)
        else run_test_file f))
       (jest_test_files cfg fs)"

text \<open>The files of the repository under the config's directory, as paths from it.\<close>

definition repo_files :: "jstr list" where
  "repo_files = map js
     [''jest.config.js'', ''scripts/package.js'', ''src/__tests__/helpers.test.ts'',
      ''src/__tests__/setup.ts'', ''src/basic-outline.ts'', ''src/components/MindMap.ts'',
      ''src/main-simple.ts'', ''src/main.ts'', ''src/markmap-plugin.ts'', ''src/markmap-simple.ts'',
      ''src/orca-mindmap-local.ts'', ''src/orca-mindmap.ts'', ''src/page-mindmap.ts'',
      ''src/types.ts'', ''src/utils/helpers.ts'', ''vite.config.js'']"

subsection \<open>What the configuration selects\<close>

lemma jest_unknown_options: "unknown_options jest_config_js = [js ''moduleNameMapping'']"
  by code_simp

lemma jest_selects_helpers_test:
  "jest_test_files jest_config_js repo_files = [js ''src/__tests__/helpers.test.ts'']"
  by code_simp

lemma jest_coverage_sources:
  "jest_coverage_files jest_config_js repo_files = map js
     [''src/basic-outline.ts'', ''src/components/MindMap.ts'', ''src/main-simple.ts'', ''src/main.ts'',
      ''src/markmap-plugin.ts'', ''src/markmap-simple.ts'', ''src/orca-mindmap-local.ts'',
      ''src/orca-mindmap.ts'', ''src/page-mindmap.ts'', ''src/utils/helpers.ts'']"
  by code_simp

lemma setup_css_path: "resolve_rel (js ''src/__tests__'') (js ''../styles/main.css'') = js ''src/styles/main.css''"
  by code_simp

lemma setup_mock_compatible: "checkCompatibility (setup_mock_host :: main_handler host)"
  by code_simp

subsection \<open>A run of the suite\<close>

lemma setup_ts_node_fails: "\<exists>e. setup_ts (js ''node'') fs = Inl e"
  by (simp add: setup_ts_def env_has_window_def js_def)

lemma jest_config_setup:
  "js ''<rootDir>/src/__tests__/setup.ts'' \<in> set (jc_setupFilesAfterEnv jest_config_js)"
  "jc_testEnvironment jest_config_js = js ''node''"
  by (simp_all add: jest_config_js_def)

text \<open>In the repository as it stands, \<open>src/src/styles/main.css\<close> is absent: the setup
  file stops at the module of its \<open>jest.mock\<close>.\<close>

lemma jest_run_repository:
  "jest_run jest_config_js repo_files =
     [(js ''src/__tests__/helpers.test.ts'',
       SuiteError (CannotFindModule (js ''../styles/main.css'') (js ''src/__tests__/setup.ts'')))]"
proof -
  have "js ''src/styles/main.css'' \<notin> set repo_files" by code_simp
  then have "(setup_ts (js ''node'') repo_files :: setup_error + unit host) =
      Inl (CannotFindModule (js ''../styles/main.css'') (js ''src/__tests__/setup.ts''))"
    by (simp add: setup_ts_def setup_css_path)
  then show ?thesis by (simp add: jest_run_def jest_selects_helpers_test jest_config_setup)
qed

text \<open>With the style sheet present and a \<open>jsdom\<close> environment the setup installs the
  mock host and the helpers suite runs with the verdicts of \<open>Unit_Tests\<close>.\<close>

lemma jest_run_jsdom:
  "jest_run (jest_config_js\<lparr>jc_testEnvironment := js ''jsdom''\<rparr>) (js ''src/styles/main.css'' # repo_files) =
     [(js ''src/__tests__/helpers.test.ts'', Verdicts helpers_test_suite)]"
proof -
  have t: "jest_test_files (jest_config_js\<lparr>jc_testEnvironment := js ''jsdom''\<rparr>)
      (js ''src/styles/main.css'' # repo_files) = [js ''src/__tests__/helpers.test.ts'']"
    by code_simp
  have "(setup_ts (js ''jsdom'') (js ''src/styles/main.css'' # repo_files) :: setup_error + unit host) =
      Inr setup_mock_host"
    by (simp add: setup_ts_def setup_css_path env_has_window_def)
  with t show ?thesis
    by (simp add: jest_run_def jest_config_setup run_test_file_def)
qed

text \<open>C20: Under the repository's jest.config.js no test file runs any test, whatever
  files the repository holds: setup.ts, which Jest runs before each test file, throws
  either resolving the style sheet it mocks or reading \<open>window\<close>, which the \<open>node\<close>
  test environment the config names does not define.\<close>

theorem jest_suite_never_runs:
  "\<not> list_ex (\<lambda>(f, r). suite_ran r) (jest_run jest_config_js fs)"
proof -
  obtain e where "(setup_ts (js ''node'') fs :: setup_error + unit host) = Inl e"
    using setup_ts_node_fails by blast
  then show ?thesis by (simp add: jest_run_def list_ex_iff jest_config_setup)
qed

end
