(* ===== verification/Spec2Isabelle.thy ===== *)
theory Spec2Isabelle
  imports Tree_Builder Renderer Host Utilities Plugin_Main Plugin_Simple Plugin_Basic Plugin_Markmap_Simple
    Plugin_Page Plugin_Orca Plugin_Markmap Plugin_Orca_Local Package_Script Jest_Config
begin

text \<open>
  \<^bold>\<open>A verification library for the Orca outline / mind-map plugin.\<close>

  \<^bold>\<open>The program.\<close> The repository is a plugin for a note-taking host (``Orca''). The
  host exposes a global object with the live block mapping (\<open>orca.state.blocks\<close>: block
  id to block, each block with a text, an ordered list of child ids, an optional parent
  id and an optional type) and with side channels (commands, toolbar buttons, shortcuts,
  panels, notifications, broadcasts). The reusable core is \<open>src/src/utils/helpers.ts\<close>:
  the Sanitizer \<open>sanitizeInput\<close> (raw block text to display text), the noise filter
  \<open>isTableRelatedBlock\<close>, the Tree Builder \<open>buildTree\<close> (a recursive descent from
  a block through its children that sanitizes every text and drops table noise) and
  Root Discovery \<open>findRootBlocks\<close> (the keys whose parent does not resolve). The
  plugin entry points (\<open>main.ts\<close> and the variants \<open>main-simple.ts\<close>,
  \<open>basic-outline.ts\<close>, \<open>markmap-*.ts\<close>, \<open>page-mindmap.ts\<close>,
  \<open>orca-mindmap*.ts\<close>) call the core, render its trees as HTML or markdown and keep
  the panel/mode state of the plugin.

  \<^bold>\<open>Library layout.\<close>
  \<^item> \<open>JS_Prelude\<close>: JavaScript strings as lists of UTF-16 code units (\<open>16 word\<close>,
    so that \<open>length\<close> is JavaScript's \<open>length\<close> and the CJK code units of the noise
    filter are representable); the regular-expression classes \<open>\s\<close>, \<open>.\<close>, \<open>\d\<close>
    and the CJK range; \<open>trim\<close>, \<open>includes\<close>, ASCII case folding of the \<open>i\<close> flag;
    JavaScript values and truthiness; \<open>map_opt\<close>, the sequential \<open>map\<close> of the
    option monad, with its monotonicity rule for \<^theory_text>\<open>partial_function\<close>.
  \<^item> \<open>Sanitizer\<close>: \<open>sanitizeInput\<close> (helpers.ts lines 19 to 43). Each
    \<open>replace\<close> with a global regular expression is its own matcher with JavaScript's
    semantics (\<open>strip_block\<close> for the script and iframe blocks, \<open>strip_js_uri\<close>,
    \<open>strip_tags\<close>, \<open>collapse_ws\<close>), then \<open>truncate_display\<close> and \<open>js_trim\<close>.
  \<^item> \<open>JS_Object\<close>: a \<open>Record<string, V>\<close> as its insertion-ordered property list,
    \<open>obj_get\<close> for \<open>o[k]\<close> and \<open>object_keys\<close> for \<open>Object.keys\<close> with the
    language's key order (array indices first, ascending).
  \<^item> \<open>Blocks\<close>: the \<open>Block\<close> record and the \<open>TreeNode\<close> datatype of \<open>types.ts\<close>,
    the noise filter \<open>isTableRelatedBlock\<close> (lines 5 to 16) and \<open>is_noise\<close>.
  \<^item> \<open>Tree_Builder\<close>: \<open>buildTree\<close> (lines 46 to 87) as a
    \<^theory_text>\<open>partial_function (option)\<close> (the source recursion has no cycle guard, so
    \<open>None\<close> stands for the call that never returns) and \<open>findRootBlocks\<close>
    (lines 90 to 104), with the unit-test fixtures of \<open>helpers.test.ts\<close>.
  \<^item> \<open>JS_Number\<close>: \<open>String(n)\<close> of a natural (\<open>nat_str\<close>), \<open>parseInt\<close> and
    \<open>Number\<close> of a string (exact decimal values, \<open>NaN\<close>, infinities), comparisons that
    are false on \<open>NaN\<close>, \<open>split\<close> on one code unit.
  \<^item> \<open>Renderer\<close>: \<open>components/MindMap.ts\<close>: the HTML of \<open>renderTreeAsHTML\<close> and
    \<open>generateMindMapHTML\<close>, the node elements it parses to (\<open>dom_node\<close>), and the
    click and hover handlers of \<open>addInteractivity\<close> on that element list.
  \<^item> \<open>Host\<close>: the host contract the plugins call (\<open>types.ts\<close> lines 19 to 52), not code
    of the repository: notifications, the command, shortcut, button and broadcast
    registries, panels with fresh ids, plugin data; \<open>host_event\<close>, the events the
    host's event loop offers every plugin model (load, unload, commands, broadcasts,
    clock, settling of the \<open>i\<close>-th pending promise, the user closing a panel).
  \<^item> \<open>Utilities\<close>: \<open>debounce\<close> as a timer state with its trailing-edge specification,
    \<open>withErrorBoundary\<close> as a combinator on state-passing functions that may throw.
  \<^item> \<open>Plugin_Main\<close>: \<open>main.ts\<close>: its module state with the host, every function as
    an operation on that world, each \<open>async\<close> function split at its \<open>await\<close> into a
    pending continuation; \<open>main_step\<close> on host events, \<open>main_run\<close> (any
    interleaving) and \<open>seq_run\<close> (every promise settled before the next event).
  \<^item> \<open>Plugin_Simple\<close>, \<open>Plugin_Basic\<close>, \<open>Plugin_Markmap_Simple\<close>, \<open>Plugin_Page\<close>,
    \<open>Plugin_Orca\<close>: the variants \<open>main-simple.ts\<close>, \<open>basic-outline.ts\<close>,
    \<open>markmap-simple.ts\<close>, \<open>page-mindmap.ts\<close>, \<open>orca-mindmap.ts\<close>, each with its own recursions over the block mapping (partial
    functions: none keeps a visited set), its markup templates and its lifecycle as a
    step function on the same host events; the browser state a variant touches (opened
    windows, overlays, the context menu, the page's main element) is part of its world.
  \<^item> \<open>Plugin_Markmap\<close>: \<open>markmap-plugin.ts\<close>: the Markmap library as the page sees it
    (\<open>window.markmap\<close>, whether it has a \<open>Transformer\<close>), the script it appends and
    awaits, \<open>blockToMarkdown\<close>, \<open>createMindMap\<close> split at its two \<open>await\<close>s, the SVG
    export, the icon click, and \<open>mp_reach\<close>, the states reachable by its step function.
  \<^item> \<open>Plugin_Orca_Local\<close>: \<open>orca-mindmap-local.ts\<close>: the block elements with their table
    markers, the markdown with its 50-unit line breaks (\<open>wrap50\<close>, \<open>squash_nl\<close>), the
    theme guess and the overlay markup, the overlay, the Markmap instance, the document's
    \<open>keydown\<close> listeners and the globals naming them, the timers; \<open>lo_step\<close> and
    \<open>lo_reach\<close> as for \<open>Plugin_Markmap\<close>.
  \<^item> \<open>JS_Template\<close>: the value of a template literal (\<open>cook_template\<close>, with \<open>None\<close> for
    a literal the parser would not read as written), \<open>Array.join\<close> and the backtick escaping
    the source uses before it embeds a text in a literal.
  \<^item> \<open>Package_Script\<close>: \<open>scripts/package.js\<close> as a function from the project's files (a map
    from paths to contents) and \<open>JSON.parse\<close>'s result to an outcome: exit 1, an uncaught
    exception with the files written so far, or the release files and the \<open>zip\<close> command.
  \<^item> \<open>Unit_Tests\<close>: \<open>helpers.test.ts\<close>: each \<open>test\<close> as the conjunction of its
    \<open>expect\<close> assertions over the model, its inputs as code units, and the list of
    verdicts of the \<open>describe\<close> block.
  \<^item> \<open>Jest_Config\<close>: \<open>jest.config.js\<close> as a record, the test and coverage files its glob
    patterns select among the repository's paths, \<open>setup.ts\<close> (its hoisted
    \<open>jest.mock\<close>, \<open>window.orca\<close> and the mock host) and \<open>jest_run\<close>, a run of the suite
    that runs the setup before each selected test file; Jest's own semantics (glob
    matching, test environments, option names) from its documentation.
  \<^item> this theory: the properties that span the components.

  \<^bold>\<open>What is proved.\<close>
  \<^item> Tree Builder: \<open>buildTree\<close> returns on every mapping whose followed child edges
    are ranked (C1) and never returns on a cycle of expanding blocks (C2: the visited set
    the spec requires is missing); every returned tree is well formed, with no content
    taken from a noise block (C3); a missing block gives a node with empty content, not
    the spec's or the test's placeholder (lemma \<open>buildTree_missing_content\<close>); the unit
    test's tree is computed (lemma \<open>buildTree_test_example\<close>).
  \<^item> Sanitizer: the output has no tag-shaped fragment (C4), at most 200 code units (C5),
    single spaces only (C11); plain text is kept (C10) or truncated to 197 code units and
    \<open>...\<close> (C9); non-strings give \<open>''\<close> (lemma \<open>sanitizeInput_non_string\<close>); the spec's
    example is computed (lemma \<open>sanitizeInput_spec_example\<close>). A second pass changes the
    output exactly when the output holds a \<open>javascript:\<close> fragment (C14), so the spec's
    idempotence fails on outputs such as that of \<open><b>javascript</b>:x\<close>; every tag-free
    text is only trimmed, so an unclosed \<open><script\<close> survives (C15); text inside table
    markup survives (lemma \<open>sanitizeInput_keeps_cell_text\<close>).
  \<^item> Root Discovery: exactly the keys whose block has an id and text, is not noise and
    has an unset, empty or dangling parent, each once (C6); in insertion order when no key
    is an array index (lemma \<open>findRootBlocks_insertion_order\<close>), but array-index keys
    come first (lemma \<open>findRootBlocks_index_keys_first\<close>, against the spec's ``insertion
    order''); the unit test is computed (lemma \<open>findRootBlocks_test_example\<close>).
  \<^item> Noise filter: the table-cell test is the regular expression's language (C17).
  \<^item> Across components: every content of every returned tree is at most 200 code
    units, tag-free and whitespace-normal (C19).
  \<^item> Renderer: a click on a node toggles exactly its direct children (C21: the
    reference \<open>child_positions\<close> of the tree), never hides a top-level node (C22), leaves
    the grandchildren shown (lemma \<open>click_leaves_grandchildren\<close>); a content that is no
    tag still completes a tag in the markup (C24); the markup holds one element per node
    (lemma \<open>generateMindMapHTML_nodes\<close>).
  \<^item> Utilities: \<open>debounce\<close> runs exactly the trailing calls (C25);
    \<open>withErrorBoundary\<close> lets no exception escape when its fallback throws none (C26).
  \<^item> \<open>main.ts\<close>: in sequential use at most one panel is open and it is tracked (C27,
    an invariant of every step, proved by case analysis on the events); from any world,
    two toggles that both reach \<open>addPanel\<close> before it settles leak the first panel (C28),
    and an unload while a panel is opening leaves it open and tracked by the unloaded
    plugin (C29); the version check on \<open>a.b\<close> is the order \<open>(a, b) \<ge> (1, 5)\<close> (C30),
    but malformed versions pass (lemma \<open>checkCompatibility_malformed\<close>); unload undoes
    the registrations of load (C31); a cyclic mapping is reported as a stack overflow
    (C32).
  \<^item> \<open>main-simple.ts\<close>: the block text reaches the panel's \<open>innerHTML\<close> unsanitized
    (C33). Lemmas of the other variants: their recursions diverge on every cycle of
    children (\<open>child_cycle\<close>), \<open>basic-outline.ts\<close> draws the first key of
    \<open>Object.keys\<close>, which may be a child, \<open>markmap-simple.ts\<close> closes on unload exactly
    the panels of its map; the recursions of \<open>basic-outline.ts\<close> return on every
    acyclic mapping; \<open>page-mindmap.ts\<close> restores the main content when switched to the
    mind map and back, and keeps the saved copy while the mind map is shown; the markdown
    conversion of \<open>orca-mindmap.ts\<close> throws exactly when a block's level is below
    \<open>-1\<close>, and its mode machine restores the editor and never loses the saved markup while
    the mind map is shown; every entry of its page structure is a well-formed page block
    (C12), though one whose first 200 code units are blank keeps a blank content.
  \<^item> \<open>markmap-plugin.ts\<close>: \<open>blockToMarkdown\<close> returns on every acyclic mapping; when
    the CDN bundle has no \<open>Transformer\<close> class, no reachable state shows a mind map
    (C16, by rule induction on \<open>mp_reach\<close> with the invariant \<open>mp_broken\<close>): the
    script's \<open>onload\<close> throws before it resolves, and a global \<open>window.markmap\<close> is
    taken with the class, not an instance, as transformer.
  \<^item> \<open>orca-mindmap-local.ts\<close>: in every reachable state at most one Escape listener is
    installed, none outside mind-map mode, and the overlay is shown exactly in that mode
    (C7, rule induction on \<open>lo_reach\<close> with the invariant \<open>lo_inv\<close>); switching to the
    mind map, initialising and pressing Escape renders the page's markdown and then
    restores the editor with nothing left behind (C8); the broken contents have no line
    longer than 50 code units (C13); a failed initialisation leaves Escape and the close
    button without effect; a long content is cut out of its heading. In every reachable
    mind-map state with a command of the plugin registered, the command leaves the mind
    map with editor, overlay, instance and listener cleaned up (C23). The toolbar button
    cannot be used while the overlay is shown (its style hides the head bar), and the
    toolbar retry that \<open>load\<close> schedules survives \<open>unload\<close>: the button comes back after
    it and enters a mind map that no command can leave.
  \<^item> \<open>scripts/package.js\<close>: it exits 1 exactly when a required file is missing; when it
    finishes, a style sheet without backslash, CR and \<open>${\<close> is inlined so that the literal's
    value is the sheet (C18), while an icon-font escape \<open>\f1c4\<close> turns into a form feed;
    the version is pasted unquoted into the shell command of \<open>zip\<close>.
  \<^item> Unit tests: evaluated on the model, five of the eight tests of \<open>helpers.test.ts\<close>
    pass and the missing-block test and both table-filter tests fail (lemma
    \<open>helpers_test_verdicts\<close>).
  \<^item> Test tooling: the config selects exactly \<open>helpers.test.ts\<close> as a test and the ten
    plugin sources for coverage, names one option Jest does not know
    (\<open>moduleNameMapping\<close>), and under it no test ever runs, whatever files exist (C20):
    the setup file throws first, on the missing style sheet or on \<open>window\<close>, which the
    \<open>node\<close> environment lacks; with the sheet present and \<open>jsdom\<close> the suite runs with
    the verdicts of \<open>helpers_test_verdicts\<close>.

  \<^bold>\<open>Bounds and fuel.\<close> No fuel is used: \<open>buildTree\<close> and the recursions of the
  variants are partial functions whose non-termination is the value \<open>None\<close>, and
  termination is proved from a rank (any acyclic traversed graph has one). The 200/197
  bounds are the code's constants. \<open>drain\<close>, the host settling every pending promise,
  terminates by the measure that counts each pending \<open>showMindMap\<close> twice (it awaits
  once more) and every other continuation once. The debounce wait is the code's 500 ms.

  \<^bold>\<open>Not modelled.\<close> CSS and inline styles, \<open>console\<close> output, timestamps: presentation
  with no logic the program depends on. The host (\<open>Host\<close>) is a model of its contract,
  not of its implementation. Properties inherited from \<open>Object.prototype\<close> (a block id
  \<open>constructor\<close> would resolve to a function) are outside the object model. Numbers
  are naturals or exact decimals; levels and counts never approach \<open>2^53\<close>. What the
  browser does with generated markup (layout, and that scripts inserted through
  \<open>innerHTML\<close> do not run) is outside the string model; random ids and times are
  inputs. What a third-party library does (the Markmap \<open>Transformer\<close> and renderer) is an
  input: whether the class exists, and that rendering with an instance yields an SVG, or
  the exception the bundled library throws for a markdown. In \<open>orca-mindmap-local.ts\<close>
  the focus and synthetic events of the refocusing timers, the \<open>d3\<close> cleanup, the
  \<open>fit()\<close> timer and the console output keep no state the model has; timers fire in
  any order (\<open>LFire i\<close>), which covers every order the clock allows. \<open>vite.config.js\<close>
  is not modelled: bundler settings (entry, output format, externals) with no behaviour
  of the plugin. Of \<open>setup.ts\<close>, the mock functions' call records, their fixed results
  (\<open>'panel-id-123'\<close>) and the \<open>afterEach\<close> reset are not modelled: no test reads them;
  of the Jest config, \<open>preset\<close> (the TypeScript transform) and the coverage run itself. In \<open>package.js\<close> the console output
  and the shell's \<open>zip\<close> itself are not modelled; \<open>JSON.parse\<close> is an input and JSON
  numbers are integral.
\<close>

text \<open>C19: Every node of every tree \<open>buildTree\<close> returns has a content of at most 200
  code units, with no tag-shaped fragment and single spaces only: the Tree Builder hands
  the renderers only sanitizer output.\<close>

theorem buildTree_contents_safe:
  assumes "buildTree k bs l = Some t" and "n \<in> set (nodes t)"
  shows "length (content n) \<le> 200 \<and> tag_free (content n) \<and> ws_normal (content n)"
proof (cases "content n = []")
  case True
  then show ?thesis by simp
next
  case False
  from assms(1) have "tree_ok bs l t" using buildTree_tree_ok_aux by blast
  from tree_ok_nodes[OF this assms(2) False] obtain b
    where c: "content n = sanitizeInput (JString (text_of b))" by blast
  with False have "text_of b \<noteq> []" by (auto simp: sanitizeInput_JString)
  with c have "content n = sanitize_string (text_of b)" by (simp add: sanitizeInput_JString)
  then show ?thesis
    by (simp add: length_sanitize_string tag_free_sanitize_string ws_normal_sanitize_string)
qed

theorem buildTree_contents_safe_witness:
  "buildTree (js ''a'') leaf_test_blocks 0 = Some (TreeNode (js ''a'') (js ''x'') [] 0 None) \<and>
   length (js ''x'') \<le> 200 \<and> tag_free (js ''x'') \<and> ws_normal (js ''x'')"
  using buildTree_leaf_test
    buildTree_contents_safe[OF buildTree_leaf_test, of "TreeNode (js ''a'') (js ''x'') [] 0 None"]
  by simp

end
